(* ===== verification/TPM_Prelude.thy ===== *)
theory TPM_Prelude
  imports Main "HOL-Library.Word"
begin

text \<open>
  Shared vocabulary of the development.  It holds the C integer types as fixed-width words,
  the big-endian conversions every wire format of the TPM uses, the byte-array operations
  that stand for \<open>memcpy\<close> and array reads, and the lemmas on them that the component
  theories rely on.

  A C array of bytes is a list.  A pointer into an array together with a size is the list of
  the bytes the size allows the callee to touch (a slice); \<open>buffer + offset\<close> with
  \<open>bufferSize - offset\<close> is \<open>drop offset buffer\<close>.  A read or a copy that can leave
  its array is written with \<open>rd\<close> or \<open>memcpy\<close>, whose result \<open>None\<close> stands for
  the out-of-bounds access (undefined behaviour in C).
\<close>

unbundle bit_operations_syntax

type_synonym u8 = "8 word"
type_synonym u16 = "16 word"
type_synonym u32 = "32 word"
type_synonym u64 = "64 word"
type_synonym bytes = "u8 list"
type_synonym TPM_RC = u32
type_synonym TPM_HANDLE = u32

section \<open>Big-endian integers\<close>

text \<open>
  \<open>be16\<close>, \<open>be32\<close> and \<open>be64\<close> are the shift-and-or expressions of the C code
  (\<open>((UINT16)p[0] << 8) | p[1]\<close> and so on); \<open>be16_bytes\<close>, \<open>be32_bytes\<close> and
  \<open>be64_bytes\<close> are the bytes the marshalling code stores
  (\<open>(UINT8)(value >> 8)\<close>, \<open>(UINT8)(value & 0xFF)\<close>).
\<close>

definition be16 :: "u8 \<Rightarrow> u8 \<Rightarrow> u16" where
  "be16 a b = push_bit 8 (ucast a) OR ucast b"

definition be32 :: "u8 \<Rightarrow> u8 \<Rightarrow> u8 \<Rightarrow> u8 \<Rightarrow> u32" where
  "be32 a b c d =
     push_bit 24 (ucast a) OR push_bit 16 (ucast b) OR push_bit 8 (ucast c) OR ucast d"

definition be64 ::
  "u8 \<Rightarrow> u8 \<Rightarrow> u8 \<Rightarrow> u8 \<Rightarrow> u8 \<Rightarrow> u8 \<Rightarrow> u8 \<Rightarrow> u8 \<Rightarrow> u64" where
  "be64 a b c d e f g h =
     push_bit 56 (ucast a) OR push_bit 48 (ucast b) OR push_bit 40 (ucast c) OR
     push_bit 32 (ucast d) OR push_bit 24 (ucast e) OR push_bit 16 (ucast f) OR
     push_bit 8 (ucast g) OR ucast h"

definition be16_bytes :: "u16 \<Rightarrow> bytes" where
  "be16_bytes v = [ucast (drop_bit 8 v), ucast v]"

definition be32_bytes :: "u32 \<Rightarrow> bytes" where
  "be32_bytes v =
     [ucast (drop_bit 24 v), ucast (drop_bit 16 v), ucast (drop_bit 8 v), ucast v]"

definition be64_bytes :: "u64 \<Rightarrow> bytes" where
  "be64_bytes v =
     [ucast (drop_bit 56 v), ucast (drop_bit 48 v), ucast (drop_bit 40 v),
      ucast (drop_bit 32 v), ucast (drop_bit 24 v), ucast (drop_bit 16 v),
      ucast (drop_bit 8 v), ucast v]"

section \<open>Arrays\<close>

definition rd :: "bytes \<Rightarrow> nat \<Rightarrow> u8 option" where
  "rd m i = (if i < length m then Some (m ! i) else None)"

text \<open>\<open>overwrite dst off src\<close> is \<open>dst\<close> after \<open>memcpy(dst + off, src, length src)\<close> in range.\<close>

definition overwrite :: "'a list \<Rightarrow> nat \<Rightarrow> 'a list \<Rightarrow> 'a list" where
  "overwrite dst off src = take off dst @ src @ drop (off + length src) dst"

definition memcpy :: "bytes \<Rightarrow> nat \<Rightarrow> bytes \<Rightarrow> nat \<Rightarrow> bytes option" where
  "memcpy dst off src n =
     (if n \<le> length src \<and> off + n \<le> length dst
      then Some (overwrite dst off (take n src)) else None)"

text \<open>The bytes of a slice \<open>[off, off + n)\<close>.\<close>

definition slice :: "'a list \<Rightarrow> nat \<Rightarrow> nat \<Rightarrow> 'a list" where
  "slice xs off n = take n (drop off xs)"

section \<open>Lemmas\<close>

named_theorems be_simps \<open>decoding the big-endian bytes of a word and back\<close>

lemma bit8_out: "bit (w :: u8) n \<Longrightarrow> n < 8"
  using bit_imp_le_length [of w n] by simp

lemma bit_be16: "bit (be16 a b) n = (if n < 8 then bit b n else bit a (n - 8))"
  unfolding be16_def by (auto simp: bit_simps dest: bit8_out)

lemma bit_be32:
  "bit (be32 a b c d) n =
     (if n < 8 then bit d n else if n < 16 then bit c (n - 8)
      else if n < 24 then bit b (n - 16) else bit a (n - 24))"
  unfolding be32_def by (auto simp: bit_simps dest: bit8_out)

lemma be16_of_bytes [be_simps]: "be16 (ucast (drop_bit 8 v)) (ucast v) = v"
  by (rule bit_word_eqI) (auto simp: bit_be16 bit_simps)

lemma be32_of_bytes [be_simps]:
  "be32 (ucast (drop_bit 24 v)) (ucast (drop_bit 16 v)) (ucast (drop_bit 8 v)) (ucast v) = v"
  by (rule bit_word_eqI) (auto simp: bit_be32 bit_simps not_less)

lemma byte_at:
  "bit (push_bit k (ucast (ucast (drop_bit k v) :: u8)) :: u64) n \<longleftrightarrow> n < 64 \<and> k \<le> n \<and> n < k + 8 \<and> bit v n"
  by (auto simp: bit_simps bit_imp_le_length)

lemma byte_at0:
  "bit (ucast (ucast v :: u8) :: u64) n \<longleftrightarrow> n < 8 \<and> bit (v::u64) n"
  by (auto simp: bit_simps)

lemma be64_of_bytes [be_simps]:
  "be64 (ucast (drop_bit 56 v)) (ucast (drop_bit 48 v)) (ucast (drop_bit 40 v))
     (ucast (drop_bit 32 v)) (ucast (drop_bit 24 v)) (ucast (drop_bit 16 v))
     (ucast (drop_bit 8 v)) (ucast v) = v"
  unfolding be64_def by (rule bit_word_eqI) (simp add: bit_or_iff byte_at byte_at0, linarith)

lemma be16_bytes_be16 [be_simps]: "be16_bytes (be16 a b) = [a, b]"
  unfolding be16_bytes_def list.inject
  by (intro conjI refl; rule bit_word_eqI) (auto simp: bit_be16 bit_simps)

lemma be32_bytes_be32 [be_simps]: "be32_bytes (be32 a b c d) = [a, b, c, d]"
  unfolding be32_bytes_def list.inject
  by (intro conjI refl; rule bit_word_eqI) (auto simp: bit_be32 bit_simps)

lemma length_be_bytes [simp]:
  "length (be16_bytes v) = 2" "length (be32_bytes w) = 4" "length (be64_bytes x) = 8"
  by (simp_all add: be16_bytes_def be32_bytes_def be64_bytes_def)

lemma be16_bytes_inject [simp]: "be16_bytes v = be16_bytes w \<longleftrightarrow> v = w"
proof
  assume "be16_bytes v = be16_bytes w"
  from arg_cong [OF this, of "\<lambda>l. be16 (l ! 0) (l ! 1)"] show "v = w"
    by (simp add: be16_bytes_def be_simps)
qed simp

lemma be32_bytes_inject [simp]: "be32_bytes v = be32_bytes w \<longleftrightarrow> v = w"
proof
  assume "be32_bytes v = be32_bytes w"
  from arg_cong [OF this, of "\<lambda>l. be32 (l ! 0) (l ! 1) (l ! 2) (l ! 3)"] show "v = w"
    by (simp add: be32_bytes_def be_simps)
qed simp

lemma be16_nth_bytes [simp]: "be16 (be16_bytes v ! 0) (be16_bytes v ! Suc 0) = v"
  by (simp add: be16_bytes_def be_simps)

lemma rd_in [simp]: "i < length m \<Longrightarrow> rd m i = Some (m ! i)"
  by (simp add: rd_def)

lemma rd_out [simp]: "length m \<le> i \<Longrightarrow> rd m i = None"
  by (simp add: rd_def)

lemma rd_Some_iff: "rd m i = Some x \<longleftrightarrow> i < length m \<and> x = m ! i"
  by (auto simp: rd_def)

lemma length_overwrite [simp]:
  "off + length src \<le> length dst \<Longrightarrow> length (overwrite dst off src) = length dst"
  by (simp add: overwrite_def)

lemma overwrite_Nil [simp]: "overwrite dst off [] = dst"
  by (simp add: overwrite_def)

lemma nth_overwrite:
  "off + length src \<le> length dst \<Longrightarrow> i < length dst \<Longrightarrow>
   overwrite dst off src ! i =
     (if off \<le> i \<and> i < off + length src then src ! (i - off) else dst ! i)"
  by (auto simp: overwrite_def nth_append min_def)

lemma slice_overwrite_same [simp]:
  "off + length src \<le> length dst \<Longrightarrow> slice (overwrite dst off src) off (length src) = src"
  by (simp add: slice_def overwrite_def)

lemma length_slice [simp]: "off + n \<le> length xs \<Longrightarrow> length (slice xs off n) = n"
  by (simp add: slice_def)

lemma nth_slice: "i < n \<Longrightarrow> off + n \<le> length xs \<Longrightarrow> slice xs off n ! i = xs ! (off + i)"
  by (simp add: slice_def)

lemma slice_overwrite_disjoint:
  assumes "off + length src \<le> length dst" "a + n \<le> off \<or> off + length src \<le> a" "a + n \<le> length dst"
  shows "slice (overwrite dst off src) a n = slice dst a n"
  by (rule nth_equalityI) (use assms in \<open>auto simp: nth_slice nth_overwrite\<close>)

lemma slice_overwrite_prefix:
  "off + length src \<le> length dst \<Longrightarrow> n \<le> length src \<Longrightarrow>
   slice (overwrite dst off src) off n = take n src"
  by (simp add: slice_def overwrite_def)

lemma overwrite_join:
  "off' = off + length xs \<Longrightarrow> off' + length ys \<le> length buf \<Longrightarrow>
   overwrite (overwrite buf off xs) off' ys = overwrite buf off (xs @ ys)"
  by (simp add: overwrite_def ac_simps)

lemma memcpy_Some_iff:
  "memcpy dst off src n = Some r \<longleftrightarrow>
     n \<le> length src \<and> off + n \<le> length dst \<and> r = overwrite dst off (take n src)"
  by (auto simp: memcpy_def)

lemma memcpy_None_iff:
  "memcpy dst off src n = None \<longleftrightarrow> length src < n \<or> length dst < off + n"
  by (auto simp: memcpy_def)

lemma length_memcpy: "memcpy dst off src n = Some r \<Longrightarrow> length r = length dst"
  by (auto simp: memcpy_Some_iff)

end
