(* ===== verification/TPM_Codes.thy ===== *)
theory TPM_Codes
  imports TPM_Prelude
begin

text \<open>
  The numeric vocabulary of the TPM: the response codes of \<^verbatim>\<open>tpm2_rc.h\<close>, the command
  codes of \<^verbatim>\<open>tpm2_cc.h\<close>, the structure tags of \<^verbatim>\<open>cc_header.h\<close> and the handle
  constants and ranges of \<^verbatim>\<open>tpm2_handles.h\<close>.  The enumerations are association lists from
  the C name to its value; the constants the code tests are abbreviations.

  \<open>TPM_RC_VALUE\<close> has two values.  \<^verbatim>\<open>tpm2_rc.h\<close> makes it the enumerator \<open>RC_FMT1 + 0x004\<close>,
  but \<^verbatim>\<open>tpm2_alg_structs.h\<close> line 20 defines a macro of the same name with value \<open>0x000\<close>.
  \<^verbatim>\<open>tpm2_device.h\<close> pulls in the enumerator first (through \<^verbatim>\<open>tpm2_nv_entry.h\<close>,
  \<^verbatim>\<open>tpm2_nv.h\<close> and \<^verbatim>\<open>tpm2_interfaces.h\<close>) and the macro afterwards (through
  \<^verbatim>\<open>tpm2_keyobj.h\<close>), so in every file that includes \<^verbatim>\<open>tpm2_device.h\<close> before it uses the
  name (\<^verbatim>\<open>tpm_hw.c\<close> with \<^verbatim>\<open>cc_unmarshal.h\<close>, and \<^verbatim>\<open>tpm_nv.c\<close>) the name
  expands to 0, which is \<open>TPM_RC_SUCCESS\<close>.  \<open>TPM_RC_VALUE_enum\<close> and
  \<open>TPM_RC_VALUE_macro\<close> are the two.
\<close>

section \<open>Response codes\<close>

abbreviation (input) RC_VER1 :: u32 where "RC_VER1 \<equiv> 0x100"
abbreviation (input) RC_FMT1 :: u32 where "RC_FMT1 \<equiv> 0x080"
abbreviation (input) RC_WARN :: u32 where "RC_WARN \<equiv> 0x900"

abbreviation (input) TPM_RC_SUCCESS :: TPM_RC where "TPM_RC_SUCCESS \<equiv> 0x000"
abbreviation (input) TPM_RC_BAD_TAG :: TPM_RC where "TPM_RC_BAD_TAG \<equiv> 0x01E"
abbreviation (input) TPM_RC_INITIALIZE :: TPM_RC where "TPM_RC_INITIALIZE \<equiv> 0x100"
abbreviation (input) TPM_RC_FAILURE :: TPM_RC where "TPM_RC_FAILURE \<equiv> 0x101"
abbreviation (input) TPM_RC_UPGRADE :: TPM_RC where "TPM_RC_UPGRADE \<equiv> 0x12D"
abbreviation (input) TPM_RC_COMMAND_SIZE :: TPM_RC where "TPM_RC_COMMAND_SIZE \<equiv> 0x142"
abbreviation (input) TPM_RC_COMMAND_CODE :: TPM_RC where "TPM_RC_COMMAND_CODE \<equiv> 0x143"
abbreviation (input) TPM_RC_NV_RANGE :: TPM_RC where "TPM_RC_NV_RANGE \<equiv> 0x146"
abbreviation (input) TPM_RC_NV_LOCKED :: TPM_RC where "TPM_RC_NV_LOCKED \<equiv> 0x148"
abbreviation (input) TPM_RC_NV_UNINITIALIZED :: TPM_RC where "TPM_RC_NV_UNINITIALIZED \<equiv> 0x14A"
abbreviation (input) TPM_RC_NV_SPACE :: TPM_RC where "TPM_RC_NV_SPACE \<equiv> 0x14B"
abbreviation (input) TPM_RC_NV_DEFINED :: TPM_RC where "TPM_RC_NV_DEFINED \<equiv> 0x14C"
abbreviation (input) TPM_RC_ASYMMETRIC :: TPM_RC where "TPM_RC_ASYMMETRIC \<equiv> 0x081"
abbreviation (input) TPM_RC_ATTRIBUTES :: TPM_RC where "TPM_RC_ATTRIBUTES \<equiv> 0x082"
abbreviation (input) TPM_RC_HIERARCHY :: TPM_RC where "TPM_RC_HIERARCHY \<equiv> 0x085"
abbreviation (input) TPM_RC_HANDLE :: TPM_RC where "TPM_RC_HANDLE \<equiv> 0x08B"
abbreviation (input) TPM_RC_AUTH_FAIL :: TPM_RC where "TPM_RC_AUTH_FAIL \<equiv> 0x08E"
abbreviation (input) TPM_RC_SIZE :: TPM_RC where "TPM_RC_SIZE \<equiv> 0x095"
abbreviation (input) TPM_RC_INSUFFICIENT :: TPM_RC where "TPM_RC_INSUFFICIENT \<equiv> 0x09A"
abbreviation (input) TPM_RC_MEMORY :: TPM_RC where "TPM_RC_MEMORY \<equiv> 0x904"
abbreviation (input) TPM_RC_VALUE_enum :: TPM_RC where "TPM_RC_VALUE_enum \<equiv> 0x084"
abbreviation (input) TPM_RC_VALUE_macro :: TPM_RC where "TPM_RC_VALUE_macro \<equiv> 0x000"

definition tpm_rc_format0 :: "(string \<times> u32) list" where
  "tpm_rc_format0 =
    [(''TPM_RC_SUCCESS'', 0x000),
     (''TPM_RC_BAD_TAG'', 0x01E),
     (''TPM_RC_INITIALIZE'', RC_VER1 + 0x000),
     (''TPM_RC_FAILURE'', RC_VER1 + 0x001),
     (''TPM_RC_SEQUENCE'', RC_VER1 + 0x003),
     (''TPM_RC_PRIVATE'', RC_VER1 + 0x00B),
     (''TPM_RC_HMAC'', RC_VER1 + 0x019),
     (''TPM_RC_DISABLED'', RC_VER1 + 0x020),
     (''TPM_RC_EXCLUSIVE'', RC_VER1 + 0x021),
     (''TPM_RC_AUTH_TYPE'', RC_VER1 + 0x024),
     (''TPM_RC_AUTH_MISSING'', RC_VER1 + 0x025),
     (''TPM_RC_POLICY'', RC_VER1 + 0x026),
     (''TPM_RC_PCR'', RC_VER1 + 0x027),
     (''TPM_RC_PCR_CHANGED'', RC_VER1 + 0x028),
     (''TPM_RC_UPGRADE'', RC_VER1 + 0x02D),
     (''TPM_RC_TOO_MANY_CONTEXTS'', RC_VER1 + 0x02E),
     (''TPM_RC_AUTH_UNAVAILABLE'', RC_VER1 + 0x02F),
     (''TPM_RC_REBOOT'', RC_VER1 + 0x030),
     (''TPM_RC_UNBALANCED'', RC_VER1 + 0x031),
     (''TPM_RC_COMMAND_SIZE'', RC_VER1 + 0x042),
     (''TPM_RC_COMMAND_CODE'', RC_VER1 + 0x043),
     (''TPM_RC_AUTHSIZE'', RC_VER1 + 0x044),
     (''TPM_RC_AUTH_CONTEXT'', RC_VER1 + 0x045),
     (''TPM_RC_NV_RANGE'', RC_VER1 + 0x046),
     (''TPM_RC_NV_SIZE'', RC_VER1 + 0x047),
     (''TPM_RC_NV_LOCKED'', RC_VER1 + 0x048),
     (''TPM_RC_NV_AUTHORIZATION'', RC_VER1 + 0x049),
     (''TPM_RC_NV_UNINITIALIZED'', RC_VER1 + 0x04A),
     (''TPM_RC_NV_SPACE'', RC_VER1 + 0x04B),
     (''TPM_RC_NV_DEFINED'', RC_VER1 + 0x04C),
     (''TPM_RC_BAD_CONTEXT'', RC_VER1 + 0x050),
     (''TPM_RC_CPHASH'', RC_VER1 + 0x051),
     (''TPM_RC_PARENT'', RC_VER1 + 0x052),
     (''TPM_RC_NEEDS_TEST'', RC_VER1 + 0x053),
     (''TPM_RC_NO_RESULT'', RC_VER1 + 0x054),
     (''TPM_RC_SENSITIVE'', RC_VER1 + 0x055),
     (''RC_MAX_FM0'', RC_VER1 + 0x07F)]"

definition tpm_rc_format1 :: "(string \<times> u32) list" where
  "tpm_rc_format1 =
    [(''TPM_RC_ASYMMETRIC'', RC_FMT1 + 0x001),
     (''TPM_RC_ATTRIBUTES'', RC_FMT1 + 0x002),
     (''TPM_RC_HASH'', RC_FMT1 + 0x003),
     (''TPM_RC_VALUE'', RC_FMT1 + 0x004),
     (''TPM_RC_HIERARCHY'', RC_FMT1 + 0x005),
     (''TPM_RC_KEY_SIZE'', RC_FMT1 + 0x007),
     (''TPM_RC_MGF'', RC_FMT1 + 0x008),
     (''TPM_RC_MODE'', RC_FMT1 + 0x009),
     (''TPM_RC_TYPE'', RC_FMT1 + 0x00A),
     (''TPM_RC_HANDLE'', RC_FMT1 + 0x00B),
     (''TPM_RC_KDF'', RC_FMT1 + 0x00C),
     (''TPM_RC_RANGE'', RC_FMT1 + 0x00D),
     (''TPM_RC_AUTH_FAIL'', RC_FMT1 + 0x00E),
     (''TPM_RC_NONCE'', RC_FMT1 + 0x00F),
     (''TPM_RC_PP'', RC_FMT1 + 0x010),
     (''TPM_RC_SCHEME'', RC_FMT1 + 0x012),
     (''TPM_RC_SIZE'', RC_FMT1 + 0x015),
     (''TPM_RC_SYMMETRIC'', RC_FMT1 + 0x016),
     (''TPM_RC_TAG'', RC_FMT1 + 0x017),
     (''TPM_RC_SELECTOR'', RC_FMT1 + 0x018),
     (''TPM_RC_INSUFFICIENT'', RC_FMT1 + 0x01A),
     (''TPM_RC_SIGNATURE'', RC_FMT1 + 0x01B),
     (''TPM_RC_KEY'', RC_FMT1 + 0x01C),
     (''TPM_RC_POLICY_FAIL'', RC_FMT1 + 0x01D),
     (''TPM_RC_INTEGRITY'', RC_FMT1 + 0x01F),
     (''TPM_RC_TICKET'', RC_FMT1 + 0x020),
     (''TPM_RC_RESERVED_BITS'', RC_FMT1 + 0x021),
     (''TPM_RC_BAD_AUTH'', RC_FMT1 + 0x022),
     (''TPM_RC_EXPIRED'', RC_FMT1 + 0x023),
     (''TPM_RC_POLICY_CC'', RC_FMT1 + 0x024),
     (''TPM_RC_BINDING'', RC_FMT1 + 0x025),
     (''TPM_RC_CURVE'', RC_FMT1 + 0x026),
     (''TPM_RC_ECC_POINT'', RC_FMT1 + 0x027),
     (''TPM_RC_FW_LIMITED'', RC_FMT1 + 0x028),
     (''TPM_RC_SVN_LIMITED'', RC_FMT1 + 0x029)]"

definition tpm_rc_warnings :: "(string \<times> u32) list" where
  "tpm_rc_warnings =
    [(''TPM_RC_CONTEXT_GAP'', RC_WARN + 0x001),
     (''TPM_RC_OBJECT_MEMORY'', RC_WARN + 0x002),
     (''TPM_RC_SESSION_MEMORY'', RC_WARN + 0x003),
     (''TPM_RC_MEMORY'', RC_WARN + 0x004),
     (''TPM_RC_SESSION_HANDLES'', RC_WARN + 0x005),
     (''TPM_RC_OBJECT_HANDLES'', RC_WARN + 0x006),
     (''TPM_RC_LOCALITY'', RC_WARN + 0x007),
     (''TPM_RC_YIELDED'', RC_WARN + 0x008),
     (''TPM_RC_CANCELED'', RC_WARN + 0x009),
     (''TPM_RC_TESTING'', RC_WARN + 0x00A),
     (''TPM_RC_REFERENCE_H0'', RC_WARN + 0x010),
     (''TPM_RC_REFERENCE_H1'', RC_WARN + 0x011),
     (''TPM_RC_REFERENCE_H2'', RC_WARN + 0x012),
     (''TPM_RC_REFERENCE_H3'', RC_WARN + 0x013),
     (''TPM_RC_REFERENCE_H4'', RC_WARN + 0x014),
     (''TPM_RC_REFERENCE_H5'', RC_WARN + 0x015),
     (''TPM_RC_REFERENCE_H6'', RC_WARN + 0x016),
     (''TPM_RC_REFERENCE_S0'', RC_WARN + 0x018),
     (''TPM_RC_REFERENCE_S1'', RC_WARN + 0x019),
     (''TPM_RC_REFERENCE_S2'', RC_WARN + 0x01A),
     (''TPM_RC_REFERENCE_S3'', RC_WARN + 0x01B),
     (''TPM_RC_REFERENCE_S4'', RC_WARN + 0x01C),
     (''TPM_RC_REFERENCE_S5'', RC_WARN + 0x01D),
     (''TPM_RC_REFERENCE_S6'', RC_WARN + 0x01E),
     (''TPM_RC_NV_RATE'', RC_WARN + 0x020),
     (''TPM_RC_LOCKOUT'', RC_WARN + 0x021),
     (''TPM_RC_RETRY'', RC_WARN + 0x022),
     (''TPM_RC_NV_UNAVAILABLE'', RC_WARN + 0x023),
     (''TPM_RC_NOT_USED'', RC_WARN + 0x07F)]"

section \<open>Command codes and structure tags\<close>

abbreviation (input) CC_VEND :: u32 where "CC_VEND \<equiv> 0x20000000"
abbreviation (input) TPM_CC_FIRST :: u32 where "TPM_CC_FIRST \<equiv> 0x0000011F"
abbreviation (input) TPM_CC_LAST :: u32 where "TPM_CC_LAST \<equiv> 0x0000019F"
abbreviation (input) TPM_CC_NV_DefineSpace :: u32 where "TPM_CC_NV_DefineSpace \<equiv> 0x0000012A"
abbreviation (input) TPM_CC_CreatePrimary :: u32 where "TPM_CC_CreatePrimary \<equiv> 0x00000131"
abbreviation (input) TPM_CC_NV_Write :: u32 where "TPM_CC_NV_Write \<equiv> 0x00000137"
abbreviation (input) TPM_CC_NV_Read :: u32 where "TPM_CC_NV_Read \<equiv> 0x0000014E"
abbreviation (input) TPM_CC_FieldUpgradeData :: u32 where "TPM_CC_FieldUpgradeData \<equiv> 0x00000141"
abbreviation (input) TPM_CC_Startup :: u32 where "TPM_CC_Startup \<equiv> 0x00000144"
abbreviation (input) TPM_CC_GetCapability :: u32 where "TPM_CC_GetCapability \<equiv> 0x0000017A"
abbreviation (input) TPM_CC_GetRandom :: u32 where "TPM_CC_GetRandom \<equiv> 0x0000017B"
abbreviation (input) TPM_CC_GetTestResult :: u32 where "TPM_CC_GetTestResult \<equiv> 0x0000017C"

text \<open>A command code from its index and the vendor flag, in bit 29.\<close>

definition TPM_CC_Init :: "u16 \<Rightarrow> int \<Rightarrow> u32" where
  "TPM_CC_Init index vendor = ucast index OR (if vendor \<noteq> 0 then push_bit 29 1 else 0)"

definition tpm_cc_codes :: "(string \<times> u32) list" where
  "tpm_cc_codes =
    [(''TPM_CC_FIRST'', 0x0000011F),
     (''TPM_CC_NV_UndefineSpaceSpecial'', 0x0000011F),
     (''TPM_CC_EvictControl'', 0x00000120),
     (''TPM_CC_HierarchyControl'', 0x00000121),
     (''TPM_CC_NV_UndefineSpace'', 0x00000122),
     (''TPM_CC_ChangeEPS'', 0x00000124),
     (''TPM_CC_ChangePPS'', 0x00000125),
     (''TPM_CC_Clear'', 0x00000126),
     (''TPM_CC_ClearControl'', 0x00000127),
     (''TPM_CC_ClockSet'', 0x00000128),
     (''TPM_CC_HierarchyChangeAuth'', 0x00000129),
     (''TPM_CC_NV_DefineSpace'', 0x0000012A),
     (''TPM_CC_PCR_Allocate'', 0x0000012B),
     (''TPM_CC_PCR_SetAuthPolicy'', 0x0000012C),
     (''TPM_CC_PP_Commands'', 0x0000012D),
     (''TPM_CC_SetPrimaryPolicy'', 0x0000012E),
     (''TPM_CC_FieldUpgradeStart'', 0x0000012F),
     (''TPM_CC_ClockRateAdjust'', 0x00000130),
     (''TPM_CC_CreatePrimary'', 0x00000131),
     (''TPM_CC_NV_GlobalWriteLock'', 0x00000132),
     (''TPM_CC_GetCommandAuditDigest'', 0x00000133),
     (''TPM_CC_NV_Increment'', 0x00000134),
     (''TPM_CC_NV_SetBits'', 0x00000135),
     (''TPM_CC_NV_Extend'', 0x00000136),
     (''TPM_CC_NV_Write'', 0x00000137),
     (''TPM_CC_NV_WriteLock'', 0x00000138),
     (''TPM_CC_DictionaryAttackLockReset'', 0x00000139),
     (''TPM_CC_DictionaryAttackParameters'', 0x0000013A),
     (''TPM_CC_NV_ChangeAuth'', 0x0000013B),
     (''TPM_CC_PCR_Event'', 0x0000013C),
     (''TPM_CC_PCR_Reset'', 0x0000013D),
     (''TPM_CC_SequenceComplete'', 0x0000013E),
     (''TPM_CC_SetAlgorithmSet'', 0x0000013F),
     (''TPM_CC_SetCommandCodeAuditStatus'', 0x00000140),
     (''TPM_CC_FieldUpgradeData'', 0x00000141),
     (''TPM_CC_IncrementalSelfTest'', 0x00000142),
     (''TPM_CC_SelfTest'', 0x00000143),
     (''TPM_CC_Startup'', 0x00000144),
     (''TPM_CC_Shutdown'', 0x00000145),
     (''TPM_CC_StirRandom'', 0x00000146),
     (''TPM_CC_ActivateCredential'', 0x00000147),
     (''TPM_CC_Certify'', 0x00000148),
     (''TPM_CC_PolicyNV'', 0x00000149),
     (''TPM_CC_CertifyCreation'', 0x0000014A),
     (''TPM_CC_Duplicate'', 0x0000014B),
     (''TPM_CC_GetTime'', 0x0000014C),
     (''TPM_CC_GetSessionAuditDigest'', 0x0000014D),
     (''TPM_CC_NV_Read'', 0x0000014E),
     (''TPM_CC_NV_ReadLock'', 0x0000014F),
     (''TPM_CC_ObjectChangeAuth'', 0x00000150),
     (''TPM_CC_PolicySecret'', 0x00000151),
     (''TPM_CC_Rewrap'', 0x00000152),
     (''TPM_CC_Create'', 0x00000153),
     (''TPM_CC_ECDH_ZGen'', 0x00000154),
     (''TPM_CC_HMAC'', 0x00000155),
     (''TPM_CC_MAC'', 0x00000155),
     (''TPM_CC_Import'', 0x00000156),
     (''TPM_CC_Load'', 0x00000157),
     (''TPM_CC_Quote'', 0x00000158),
     (''TPM_CC_RSA_Decrypt'', 0x00000159),
     (''TPM_CC_HMAC_Start'', 0x0000015B),
     (''TPM_CC_MAC_Start'', 0x0000015B),
     (''TPM_CC_SequenceUpdate'', 0x0000015C),
     (''TPM_CC_Sign'', 0x0000015D),
     (''TPM_CC_Unseal'', 0x0000015E),
     (''TPM_CC_PolicySigned'', 0x00000160),
     (''TPM_CC_ContextLoad'', 0x00000161),
     (''TPM_CC_ContextSave'', 0x00000162),
     (''TPM_CC_ECDH_KeyGen'', 0x00000163),
     (''TPM_CC_EncryptDecrypt'', 0x00000164),
     (''TPM_CC_LoadExternal'', 0x00000167),
     (''TPM_CC_MakeCredential'', 0x00000168),
     (''TPM_CC_NV_ReadPublic'', 0x00000169),
     (''TPM_CC_PolicyAuthorize'', 0x0000016A),
     (''TPM_CC_PolicyAuthValue'', 0x0000016B),
     (''TPM_CC_PolicyCommandCode'', 0x0000016C),
     (''TPM_CC_PolicyCounterTimer'', 0x0000016D),
     (''TPM_CC_PolicyCpHash'', 0x0000016E),
     (''TPM_CC_PolicyLocality'', 0x0000016F),
     (''TPM_CC_PolicyNameHash'', 0x00000170),
     (''TPM_CC_PolicyOR'', 0x00000171),
     (''TPM_CC_PolicyTicket'', 0x00000172),
     (''TPM_CC_ReadPublic'', 0x00000173),
     (''TPM_CC_RSA_Encrypt'', 0x00000174),
     (''TPM_CC_StartAuthSession'', 0x00000176),
     (''TPM_CC_VerifySignature'', 0x00000177),
     (''TPM_CC_ECC_Parameters'', 0x00000178),
     (''TPM_CC_FirmwareRead'', 0x00000179),
     (''TPM_CC_GetCapability'', 0x0000017A),
     (''TPM_CC_GetRandom'', 0x0000017B),
     (''TPM_CC_GetTestResult'', 0x0000017C),
     (''TPM_CC_Hash'', 0x0000017D),
     (''TPM_CC_PCR_Read'', 0x0000017E),
     (''TPM_CC_PolicyPCR'', 0x0000017F),
     (''TPM_CC_PolicyRestart'', 0x00000180),
     (''TPM_CC_ReadClock'', 0x00000181),
     (''TPM_CC_PCR_Extend'', 0x00000182),
     (''TPM_CC_PCR_SetAuthValue'', 0x00000183),
     (''TPM_CC_NV_Certify'', 0x00000184),
     (''TPM_CC_EventSequenceComplete'', 0x00000185),
     (''TPM_CC_HashSequenceStart'', 0x00000186),
     (''TPM_CC_PolicyPhysicalPresence'', 0x00000187),
     (''TPM_CC_PolicyDuplicationSelect'', 0x00000188),
     (''TPM_CC_PolicyGetDigest'', 0x00000189),
     (''TPM_CC_TestParms'', 0x0000018A),
     (''TPM_CC_Commit'', 0x0000018B),
     (''TPM_CC_PolicyPassword'', 0x0000018C),
     (''TPM_CC_ZGen_2Phase'', 0x0000018D),
     (''TPM_CC_EC_Ephemeral'', 0x0000018E),
     (''TPM_CC_PolicyNvWritten'', 0x0000018F),
     (''TPM_CC_PolicyTemplate'', 0x00000190),
     (''TPM_CC_CreateLoaded'', 0x00000191),
     (''TPM_CC_PolicyAuthorizeNV'', 0x00000192),
     (''TPM_CC_EncryptDecrypt2'', 0x00000193),
     (''TPM_CC_AC_GetCapability'', 0x00000194),
     (''TPM_CC_AC_Send'', 0x00000195),
     (''TPM_CC_Policy_AC_SendSelect'', 0x00000196),
     (''TPM_CC_CertifyX509'', 0x00000197),
     (''TPM_CC_ACT_SetTimeout'', 0x00000198),
     (''TPM_CC_ECC_Encrypt'', 0x00000199),
     (''TPM_CC_ECC_Decrypt'', 0x0000019A),
     (''TPM_CC_PolicyCapability'', 0x0000019B),
     (''TPM_CC_PolicyParameters'', 0x0000019C),
     (''TPM_CC_NV_DefineSpace2'', 0x0000019D),
     (''TPM_CC_NV_ReadPublic2'', 0x0000019E),
     (''TPM_CC_SetCapability'', 0x0000019F),
     (''TPM_CC_LAST'', 0x0000019F),
     (''CC_VEND'', 0x20000000),
     (''TPM_CC_Vendor_TCG_Test'', CC_VEND + 0x0000)]"

abbreviation (input) TPM_ST_NO_SESSIONS :: u16 where "TPM_ST_NO_SESSIONS \<equiv> 0x8001"
abbreviation (input) TPM_ST_SESSIONS :: u16 where "TPM_ST_SESSIONS \<equiv> 0x8002"
abbreviation (input) TPM_ST_CREATION :: u16 where "TPM_ST_CREATION \<equiv> 0x8021"

abbreviation (input) TPM_ALG_ECC :: u16 where "TPM_ALG_ECC \<equiv> 0x0023"
abbreviation (input) TPM_ALG_SHA256 :: u16 where "TPM_ALG_SHA256 \<equiv> 0x000B"
abbreviation (input) TPM_ECC_NIST_P256 :: u16 where "TPM_ECC_NIST_P256 \<equiv> 0x0003"

section \<open>Handles\<close>

abbreviation (input) TPM_RH_OWNER :: TPM_HANDLE where "TPM_RH_OWNER \<equiv> 0x40000001"
abbreviation (input) TPM_RH_NULL :: TPM_HANDLE where "TPM_RH_NULL \<equiv> 0x40000007"
abbreviation (input) TPM_RS_PW :: TPM_HANDLE where "TPM_RS_PW \<equiv> 0x40000009"
abbreviation (input) TPM_RH_LOCKOUT :: TPM_HANDLE where "TPM_RH_LOCKOUT \<equiv> 0x4000000A"
abbreviation (input) TPM_RH_ENDORSEMENT :: TPM_HANDLE where "TPM_RH_ENDORSEMENT \<equiv> 0x4000000B"
abbreviation (input) TPM_RH_PLATFORM :: TPM_HANDLE where "TPM_RH_PLATFORM \<equiv> 0x4000000C"
abbreviation (input) TPM_RH_PLATFORM_NV :: TPM_HANDLE where "TPM_RH_PLATFORM_NV \<equiv> 0x4000000D"
abbreviation (input) TPM_RH_FW_OWNER :: TPM_HANDLE where "TPM_RH_FW_OWNER \<equiv> 0x40000140"
abbreviation (input) TPM_RH_FW_ENDORSEMENT :: TPM_HANDLE where "TPM_RH_FW_ENDORSEMENT \<equiv> 0x40000141"
abbreviation (input) TPM_RH_FW_PLATFORM :: TPM_HANDLE where "TPM_RH_FW_PLATFORM \<equiv> 0x40000142"
abbreviation (input) TPM_RH_FW_NULL :: TPM_HANDLE where "TPM_RH_FW_NULL \<equiv> 0x40000143"
abbreviation (input) TPM_RH_AUTH_00 :: TPM_HANDLE where "TPM_RH_AUTH_00 \<equiv> 0x40000010"
abbreviation (input) TPM_RH_AUTH_FF :: TPM_HANDLE where "TPM_RH_AUTH_FF \<equiv> 0x4000010F"
abbreviation (input) TPM_RH_ACT_0 :: TPM_HANDLE where "TPM_RH_ACT_0 \<equiv> 0x40000110"
abbreviation (input) TPM_RH_ACT_F :: TPM_HANDLE where "TPM_RH_ACT_F \<equiv> 0x4000011F"
abbreviation (input) TPM_RH_FIRST :: TPM_HANDLE where "TPM_RH_FIRST \<equiv> 0x40000000"
abbreviation (input) TPM_RH_LAST :: TPM_HANDLE where "TPM_RH_LAST \<equiv> 0x4004FFFF"
abbreviation (input) TPM_RH_SVN_OWNER_BASE :: TPM_HANDLE where "TPM_RH_SVN_OWNER_BASE \<equiv> 0x40010000"
abbreviation (input) TPM_RH_SVN_ENDORSEMENT_BASE :: TPM_HANDLE where "TPM_RH_SVN_ENDORSEMENT_BASE \<equiv> 0x40020000"
abbreviation (input) TPM_RH_SVN_PLATFORM_BASE :: TPM_HANDLE where "TPM_RH_SVN_PLATFORM_BASE \<equiv> 0x40030000"
abbreviation (input) TPM_RH_SVN_NULL_BASE :: TPM_HANDLE where "TPM_RH_SVN_NULL_BASE \<equiv> 0x40040000"

text \<open>Range ends, with the sums of \<^verbatim>\<open>tpm2_handles.h\<close> lines 82 to 158 written out.\<close>

abbreviation (input) HMAC_SESSION_FIRST :: TPM_HANDLE where "HMAC_SESSION_FIRST \<equiv> 0x02000000"
abbreviation (input) HMAC_SESSION_LAST :: TPM_HANDLE where "HMAC_SESSION_LAST \<equiv> 0x02000000 + 64 - 1"
abbreviation (input) POLICY_SESSION_FIRST :: TPM_HANDLE where "POLICY_SESSION_FIRST \<equiv> 0x03000000"
abbreviation (input) POLICY_SESSION_LAST :: TPM_HANDLE where "POLICY_SESSION_LAST \<equiv> 0x03000000 + 64 - 1"
abbreviation (input) TRANSIENT_FIRST :: TPM_HANDLE where "TRANSIENT_FIRST \<equiv> 0x80000000"
abbreviation (input) TRANSIENT_LAST :: TPM_HANDLE where "TRANSIENT_LAST \<equiv> 0x80000000 + 32 - 1"
abbreviation (input) PERSISTENT_FIRST :: TPM_HANDLE where "PERSISTENT_FIRST \<equiv> 0x81000000"
abbreviation (input) PERSISTENT_LAST :: TPM_HANDLE where "PERSISTENT_LAST \<equiv> 0x81000000 + 0x00FFFFFF"
abbreviation (input) NV_INDEX_FIRST :: TPM_HANDLE where "NV_INDEX_FIRST \<equiv> 0x01000000"
abbreviation (input) NV_INDEX_LAST :: TPM_HANDLE where "NV_INDEX_LAST \<equiv> 0x01000000 + 0x00FFFFFF"
abbreviation (input) EXTERNAL_NV_FIRST :: TPM_HANDLE where "EXTERNAL_NV_FIRST \<equiv> 0x11000000"
abbreviation (input) EXTERNAL_NV_LAST :: TPM_HANDLE where "EXTERNAL_NV_LAST \<equiv> 0x11000000 + 0x00FFFFFF"
abbreviation (input) PERMANENT_NV_FIRST :: TPM_HANDLE where "PERMANENT_NV_FIRST \<equiv> 0x12000000"
abbreviation (input) PERMANENT_NV_LAST :: TPM_HANDLE where "PERMANENT_NV_LAST \<equiv> 0x12000000 + 0x00FFFFFF"
abbreviation (input) PERMANENT_FIRST :: TPM_HANDLE where "PERMANENT_FIRST \<equiv> TPM_RH_FIRST"
abbreviation (input) PERMANENT_LAST :: TPM_HANDLE where "PERMANENT_LAST \<equiv> TPM_RH_LAST"
abbreviation (input) SVN_OWNER_FIRST :: TPM_HANDLE where "SVN_OWNER_FIRST \<equiv> TPM_RH_SVN_OWNER_BASE + 0x0000"
abbreviation (input) SVN_OWNER_LAST :: TPM_HANDLE where "SVN_OWNER_LAST \<equiv> TPM_RH_SVN_OWNER_BASE + 0xFFFF"
abbreviation (input) SVN_ENDORSEMENT_FIRST :: TPM_HANDLE where "SVN_ENDORSEMENT_FIRST \<equiv> TPM_RH_SVN_ENDORSEMENT_BASE + 0x0000"
abbreviation (input) SVN_ENDORSEMENT_LAST :: TPM_HANDLE where "SVN_ENDORSEMENT_LAST \<equiv> TPM_RH_SVN_ENDORSEMENT_BASE + 0xFFFF"
abbreviation (input) SVN_PLATFORM_FIRST :: TPM_HANDLE where "SVN_PLATFORM_FIRST \<equiv> TPM_RH_SVN_PLATFORM_BASE + 0x0000"
abbreviation (input) SVN_PLATFORM_LAST :: TPM_HANDLE where "SVN_PLATFORM_LAST \<equiv> TPM_RH_SVN_PLATFORM_BASE + 0xFFFF"
abbreviation (input) SVN_NULL_FIRST :: TPM_HANDLE where "SVN_NULL_FIRST \<equiv> TPM_RH_SVN_NULL_BASE + 0x0000"
abbreviation (input) SVN_NULL_LAST :: TPM_HANDLE where "SVN_NULL_LAST \<equiv> TPM_RH_SVN_NULL_BASE + 0xFFFF"
abbreviation (input) AC_FIRST :: TPM_HANDLE where "AC_FIRST \<equiv> 0x90000000"
abbreviation (input) AC_LAST :: TPM_HANDLE where "AC_LAST \<equiv> 0x90000000 + 0x0000FFFF"

section \<open>Facts about the tables\<close>

text \<open>
  How the three families of response codes are told apart: bit 7 marks format one, bit 11 a
  warning, and format zero has neither.
\<close>

definition rc_is_format1 :: "TPM_RC \<Rightarrow> bool" where
  "rc_is_format1 rc \<longleftrightarrow> rc AND RC_FMT1 \<noteq> 0"

definition rc_is_warning :: "TPM_RC \<Rightarrow> bool" where
  "rc_is_warning rc \<longleftrightarrow> \<not> rc_is_format1 rc \<and> rc AND 0x800 \<noteq> 0"

lemma rc_format0_class:
  "list_all (\<lambda>(n, rc). \<not> rc_is_format1 rc \<and> \<not> rc_is_warning rc) tpm_rc_format0"
  by (simp add: tpm_rc_format0_def rc_is_format1_def rc_is_warning_def)

lemma rc_format1_class: "list_all (\<lambda>(n, rc). rc_is_format1 rc) tpm_rc_format1"
  by (simp add: tpm_rc_format1_def rc_is_format1_def)

lemma rc_warnings_class: "list_all (\<lambda>(n, rc). rc_is_warning rc) tpm_rc_warnings"
  by (simp add: tpm_rc_warnings_def rc_is_format1_def rc_is_warning_def)

lemma rc_format0_distinct: "distinct (map snd tpm_rc_format0)"
  by (simp add: tpm_rc_format0_def)

lemma rc_format1_distinct: "distinct (map snd tpm_rc_format1)"
  by (simp add: tpm_rc_format1_def)

lemma rc_warnings_distinct: "distinct (map snd tpm_rc_warnings)"
  by (simp add: tpm_rc_warnings_def)

end
