(* ===== verification/CC_Codec.thy ===== *)
theory CC_Codec
  imports TPM_Codes
begin

text \<open>
  The idiom that every routine of \<^verbatim>\<open>cc_unmarshal.h\<close> and \<^verbatim>\<open>cc_marshal.h\<close> is written in,
  and the contract of one field.

  A routine keeps a running \<open>offset\<close>; for each field it calls
  \<open>rc = Unmarshal_X(buffer + offset, bufferSize - offset, &params->f, &consumed)\<close>, returns
  \<open>rc\<close> at once when it is not \<open>TPM_RC_SUCCESS\<close>, and otherwise adds \<open>consumed\<close> to
  \<open>offset\<close>.  A value of type \<open>flow\<close> is the state of such a routine between two fields:
  it has returned (with what it has stored so far), it goes on at an offset, or it has left
  the bounds of an array.

  The locales state what a routine for one field promises: a decoder reads back every encoding
  and accepts nothing else; an encoder stores the encoding when the buffer has room for it and
  reports \<open>TPM_RC_INSUFFICIENT\<close> otherwise.  The routines of the code are interpretations of
  them in \<open>CC_Unmarshal\<close> and \<open>CC_Marshal\<close>.
\<close>

type_synonym 'a unmarshaller = "bytes \<Rightarrow> 'a \<Rightarrow> nat \<Rightarrow> (TPM_RC \<times> 'a \<times> nat) option"
type_synonym 'a marshaller = "bytes \<Rightarrow> 'a \<Rightarrow> nat \<Rightarrow> (TPM_RC \<times> bytes \<times> nat) option"

text \<open>A routine that touches no array but the slice it checks cannot fault.\<close>

definition no_fault :: "('b \<Rightarrow> 'a \<Rightarrow> nat \<Rightarrow> 'r) \<Rightarrow> 'b \<Rightarrow> 'a \<Rightarrow> nat \<Rightarrow> 'r option" where
  "no_fault f buffer v n = Some (f buffer v n)"

datatype 'p flow = Fault | Return TPM_RC 'p | Next 'p nat

primrec fbind :: "'p flow \<Rightarrow> ('p \<Rightarrow> nat \<Rightarrow> 'p flow) \<Rightarrow> 'p flow" where
  "fbind Fault k = Fault"
| "fbind (Return rc p) k = Return rc p"
| "fbind (Next p off) k = k p off"

text \<open>
  One field of a structure: \<open>get\<close> and \<open>upd\<close> select the member whose address is passed.
  \<open>consumed\<close> starts as 0; the code reads it only after a success, which has set it.
\<close>

definition unmarshal_at ::
  "'a unmarshaller \<Rightarrow> ('p \<Rightarrow> 'a) \<Rightarrow> ('a \<Rightarrow> 'p \<Rightarrow> 'p) \<Rightarrow> bytes \<Rightarrow> 'p \<Rightarrow> nat \<Rightarrow> 'p flow" where
  "unmarshal_at f get upd buffer p off =
     (case f (drop off buffer) (get p) 0 of
        None \<Rightarrow> Fault
      | Some (rc, v, consumed) \<Rightarrow>
          if rc \<noteq> TPM_RC_SUCCESS then Return rc (upd v p)
          else Next (upd v p) (off + consumed))"

definition marshal_at :: "'a marshaller \<Rightarrow> 'a \<Rightarrow> bytes \<Rightarrow> nat \<Rightarrow> bytes flow" where
  "marshal_at f v buffer off =
     (case f (drop off buffer) v 0 of
        None \<Rightarrow> Fault
      | Some (rc, b, consumed) \<Rightarrow>
          if rc \<noteq> TPM_RC_SUCCESS then Return rc (take off buffer @ b)
          else Next (take off buffer @ b) (off + consumed))"

text \<open>The end of a routine: \<open>*bytesRead = offset; return TPM_RC_SUCCESS\<close>.\<close>

primrec finish :: "'p flow \<Rightarrow> nat \<Rightarrow> (TPM_RC \<times> 'p \<times> nat) option" where
  "finish Fault n = None"
| "finish (Return rc p) n = Some (rc, p, n)"
| "finish (Next p off) n = Some (TPM_RC_SUCCESS, p, off)"

text \<open>
  Safety of a routine: it does not leave an array, the structure it fills stays well formed, and
  its offset stays within the buffer.
\<close>

primrec flow_ok :: "('p \<Rightarrow> bool) \<Rightarrow> nat \<Rightarrow> 'p flow \<Rightarrow> bool" where
  "flow_ok P len Fault = False"
| "flow_ok P len (Return rc p) = P p"
| "flow_ok P len (Next p off) = (P p \<and> off \<le> len)"

definition safe_result ::
  "('a \<Rightarrow> bool) \<Rightarrow> nat \<Rightarrow> (TPM_RC \<times> 'a \<times> nat) option \<Rightarrow> bool" where
  "safe_result Q len r \<longleftrightarrow>
     (case r of None \<Rightarrow> False
      | Some (rc, a, m) \<Rightarrow> Q a \<and> (rc = TPM_RC_SUCCESS \<longrightarrow> m \<le> len))"

section \<open>Lemmas\<close>

lemma fbind_eq_Next:
  "fbind m k = Next p off \<longleftrightarrow> (\<exists>q o'. m = Next q o' \<and> k q o' = Next p off)"
  by (cases m) auto

lemma fbind_eq_Return:
  "fbind m k = Return rc p \<longleftrightarrow>
     m = Return rc p \<or> (\<exists>q o'. m = Next q o' \<and> k q o' = Return rc p)"
  by (cases m) auto

lemma fbind_eq_Fault:
  "fbind m k = Fault \<longleftrightarrow> m = Fault \<or> (\<exists>q o'. m = Next q o' \<and> k q o' = Fault)"
  by (cases m) auto

lemma unmarshal_at_Fault_iff:
  "unmarshal_at f get upd buffer p off = Fault \<longleftrightarrow> f (drop off buffer) (get p) 0 = None"
  by (auto simp: unmarshal_at_def split: option.splits prod.splits)

lemma unmarshal_at_no_fault [simp]: "unmarshal_at (no_fault f) get upd buffer p off \<noteq> Fault"
  by (simp add: unmarshal_at_Fault_iff no_fault_def)

lemma finish_eq_success:
  "finish m n = Some (TPM_RC_SUCCESS, p, k) \<longleftrightarrow>
     m = Next p k \<or> (m = Return TPM_RC_SUCCESS p \<and> k = n)"
  by (cases m) auto

lemma unmarshal_at_Return: "unmarshal_at f get upd buffer p off = Return rc q \<Longrightarrow> rc \<noteq> TPM_RC_SUCCESS"
  by (auto simp: unmarshal_at_def split: option.splits prod.splits if_splits)

lemma drop_step: "drop off buf = e @ r \<Longrightarrow> drop (off + length e) buf = r"
  by (metis add.commute append_eq_conv_conj drop_drop)

lemma flow_ok_fbind:
  "flow_ok P len m \<Longrightarrow> (\<And>p off. P p \<Longrightarrow> off \<le> len \<Longrightarrow> flow_ok P len (k p off)) \<Longrightarrow>
   flow_ok P len (fbind m k)"
  by (cases m) auto

lemma flow_ok_unmarshal_at:
  assumes "off \<le> length buffer"
    and "safe_result (\<lambda>v. P (upd v p)) (length buffer - off) (f (drop off buffer) (get p) 0)"
  shows "flow_ok P (length buffer) (unmarshal_at f get upd buffer p off)"
  using assms by (auto simp: unmarshal_at_def safe_result_def split: option.splits prod.splits)

lemma safe_result_finish:
  "flow_ok P len m \<Longrightarrow> n \<le> len \<Longrightarrow> safe_result P len (finish m n)"
  by (cases m) (auto simp: safe_result_def)

lemma finish_eq_None [simp]: "finish m n = None \<longleftrightarrow> m = Fault"
  by (cases m) auto

lemma drop_take_overwrite:
  "off + length xs \<le> length buf \<Longrightarrow>
   take off buf @ overwrite (drop off buf) 0 xs = overwrite buf off xs"
  by (simp add: overwrite_def add.commute)

section \<open>Decoders\<close>

text \<open>
  \<open>enc v\<close> is the wire form of the value \<open>v\<close>; \<open>store v a\<close> is the destination \<open>a\<close>
  after \<open>v\<close> has been stored in it, and \<open>fits v a\<close> says that it has room for \<open>v\<close>.
\<close>

locale decoder =
  fixes enc :: "'v \<Rightarrow> bytes"
    and store :: "'v \<Rightarrow> 'a \<Rightarrow> 'a"
    and fits :: "'v \<Rightarrow> 'a \<Rightarrow> bool"
    and dec :: "'a unmarshaller"
  assumes dec_enc:
      "fits v a \<Longrightarrow> dec (enc v @ rest) a n = Some (TPM_RC_SUCCESS, store v a, length (enc v))"
    and dec_sound:
      "dec buf a n = Some (TPM_RC_SUCCESS, a', m) \<Longrightarrow>
       \<exists>v rest. fits v a \<and> buf = enc v @ rest \<and> a' = store v a \<and> m = length (enc v)"
begin

lemma dec_bound: "dec buf a n = Some (TPM_RC_SUCCESS, a', m) \<Longrightarrow> m \<le> length buf"
  by (auto dest: dec_sound)

lemma at_enc:
  "drop off buffer = enc v @ rest \<Longrightarrow> fits v (get p) \<Longrightarrow>
   unmarshal_at dec get upd buffer p off =
     Next (upd (store v (get p)) p) (off + length (enc v))"
  by (simp add: unmarshal_at_def dec_enc)

lemma at_sound:
  assumes "unmarshal_at dec get upd buffer p off = Next p' off'"
  shows "\<exists>v rest. fits v (get p) \<and> drop off buffer = enc v @ rest \<and>
           p' = upd (store v (get p)) p \<and> off' = off + length (enc v)"
proof -
  obtain a m where d: "dec (drop off buffer) (get p) 0 = Some (TPM_RC_SUCCESS, a, m)"
    and r: "p' = upd a p" "off' = off + m"
    using assms by (auto simp: unmarshal_at_def split: option.splits prod.splits if_splits)
  from dec_sound [OF d] r show ?thesis by blast
qed

lemma at_soundE:
  assumes "unmarshal_at dec get upd buffer p off = Next q m"
  obtains v where "fits v (get p)" "drop off buffer = enc v @ drop (off + length (enc v)) buffer"
    "q = upd (store v (get p)) p" "m = off + length (enc v)"
proof -
  obtain v rest where v: "fits v (get p)" "drop off buffer = enc v @ rest"
      "q = upd (store v (get p)) p" "m = off + length (enc v)"
    using at_sound [OF assms] by blast
  then have "drop off buffer = enc v @ drop (off + length (enc v)) buffer"
    using drop_step [OF v(2)] by simp
  with v show thesis by (intro that)
qed

lemma finish_lastE:
  assumes "finish (unmarshal_at dec get upd buffer p off) n = Some (TPM_RC_SUCCESS, q, m)"
  obtains v where "fits v (get p)" "drop off buffer = enc v @ drop (off + length (enc v)) buffer"
    "q = upd (store v (get p)) p" "m = off + length (enc v)"
proof (cases "unmarshal_at dec get upd buffer p off")
  case Fault
  with assms show thesis by simp
next
  case (Return rc p')
  with assms unmarshal_at_Return [OF Return] show thesis by simp
next
  case (Next p' off')
  with assms have "unmarshal_at dec get upd buffer p off = Next q m" by simp
  then show thesis by (rule at_soundE) (rule that)
qed

lemma finish_bindE:
  assumes "finish (fbind (unmarshal_at dec get upd buffer p off) k) n = Some (TPM_RC_SUCCESS, q, m)"
  obtains v where "fits v (get p)" "drop off buffer = enc v @ drop (off + length (enc v)) buffer"
    "finish (k (upd (store v (get p)) p) (off + length (enc v))) n = Some (TPM_RC_SUCCESS, q, m)"
proof (cases "unmarshal_at dec get upd buffer p off")
  case Fault
  with assms show thesis by simp
next
  case (Return rc p')
  with assms unmarshal_at_Return [OF Return] show thesis by simp
next
  case (Next p' off')
  with assms have k: "finish (k p' off') n = Some (TPM_RC_SUCCESS, q, m)" by simp
  from Next show thesis
  proof (rule at_soundE)
    fix v
    assume "fits v (get p)" "drop off buffer = enc v @ drop (off + length (enc v)) buffer"
      "p' = upd (store v (get p)) p" "off' = off + length (enc v)"
    with k show thesis by (intro that [of v]) simp_all
  qed
qed

lemma at_bound:
  assumes "unmarshal_at dec get upd buffer p off = Next p' off'" "off \<le> length buffer"
  shows "off \<le> off' \<and> off' \<le> length buffer"
proof -
  obtain v rest where "drop off buffer = enc v @ rest" and off': "off' = off + length (enc v)"
    using at_sound [OF assms(1)] by blast
  then have "length buffer - off = length (enc v) + length rest"
    by (metis length_append length_drop)
  with off' assms(2) show ?thesis by simp
qed

end

section \<open>Encoders\<close>

locale encoder =
  fixes enc :: "'w \<Rightarrow> bytes"
    and wf :: "'w \<Rightarrow> bool"
    and mar :: "'w marshaller"
  assumes mar_ok:
      "wf w \<Longrightarrow> length (enc w) \<le> length buf \<Longrightarrow>
       mar buf w n = Some (TPM_RC_SUCCESS, overwrite buf 0 (enc w), length (enc w))"
    and mar_short:
      "wf w \<Longrightarrow> length buf < length (enc w) \<Longrightarrow>
       \<exists>buf'. mar buf w n = Some (TPM_RC_INSUFFICIENT, buf', n) \<and> length buf' = length buf"
begin

lemma at_room:
  "wf w \<Longrightarrow> off + length (enc w) \<le> length buf \<Longrightarrow>
   marshal_at mar w buf off = Next (overwrite buf off (enc w)) (off + length (enc w))"
  by (simp add: marshal_at_def mar_ok drop_take_overwrite)

lemma at_no_room:
  assumes "wf w" "off \<le> length buf" "length buf < off + length (enc w)"
  shows "\<exists>buf'. marshal_at mar w buf off = Return TPM_RC_INSUFFICIENT buf' \<and>
           length buf' = length buf"
proof -
  have "length (drop off buf) < length (enc w)" using assms by simp
  from mar_short [OF assms(1) this, of 0] show ?thesis
    using assms by (auto simp: marshal_at_def)
qed

lemma never_faults: "wf w \<Longrightarrow> mar buf w n \<noteq> None"
  using mar_ok [of w buf n] mar_short [of w buf n] by fastforce

end

section \<open>An encoder and a decoder of the same wire form\<close>

locale codec = enc: encoder ence wf mar + dec: decoder encd store fits dec
  for ence :: "'w \<Rightarrow> bytes" and wf mar
    and encd :: "'v \<Rightarrow> bytes" and store :: "'v \<Rightarrow> 'a \<Rightarrow> 'a" and fits dec +
  fixes view :: "'w \<Rightarrow> 'v"
  assumes same_wire: "wf w \<Longrightarrow> ence w = encd (view w)"
begin

lemma roundtrip:
  assumes "wf w" "length (ence w) \<le> length buf" "fits (view w) a"
  shows "\<exists>buf' m. mar buf w n = Some (TPM_RC_SUCCESS, buf', m) \<and>
           dec buf' a k = Some (TPM_RC_SUCCESS, store (view w) a, m)"
proof -
  have w: "ence w = encd (view w)" using assms(1) by (rule same_wire)
  have "overwrite buf 0 (ence w) = encd (view w) @ drop (length (ence w)) buf"
    by (simp add: overwrite_def w)
  then show ?thesis
    using enc.mar_ok [OF assms(1,2), of n] dec.dec_enc [OF assms(3)] w by simp
qed

end

end
