(* ===== verification/CC_Handle.thy ===== *)
theory CC_Handle
  imports CC_Codec
begin

text \<open>
  \<^verbatim>\<open>include/tpm/command_chain/cc_handle.h\<close>: classification, validation, unmarshalling and
  marshalling of handles.  The header includes \<^verbatim>\<open>tpm2_rc.h\<close> and not
  \<^verbatim>\<open>tpm2_alg_structs.h\<close>, so its \<open>TPM_RC_VALUE\<close> is the enumeration constant 0x084.
  No other file of the repository includes it; it is verified as the library it is.
\<close>

section \<open>Classes of handles\<close>

definition GET_HANDLE_TYPE :: "TPM_HANDLE \<Rightarrow> u8" where
  "GET_HANDLE_TYPE handle = ucast (drop_bit 24 handle)"

definition HANDLE_IN_RANGE :: "TPM_HANDLE \<Rightarrow> TPM_HANDLE \<Rightarrow> TPM_HANDLE \<Rightarrow> bool" where
  "HANDLE_IN_RANGE handle lo hi \<longleftrightarrow> handle \<ge> lo \<and> handle \<le> hi"

definition IsNVIndexHandle :: "TPM_HANDLE \<Rightarrow> bool" where
  "IsNVIndexHandle handle = HANDLE_IN_RANGE handle NV_INDEX_FIRST NV_INDEX_LAST"

definition IsTransientHandle :: "TPM_HANDLE \<Rightarrow> bool" where
  "IsTransientHandle handle = HANDLE_IN_RANGE handle TRANSIENT_FIRST TRANSIENT_LAST"

definition IsPersistentHandle :: "TPM_HANDLE \<Rightarrow> bool" where
  "IsPersistentHandle handle = HANDLE_IN_RANGE handle PERSISTENT_FIRST PERSISTENT_LAST"

definition IsPermanentHandle :: "TPM_HANDLE \<Rightarrow> bool" where
  "IsPermanentHandle handle = HANDLE_IN_RANGE handle PERMANENT_FIRST PERMANENT_LAST"

definition IsSessionHandle :: "TPM_HANDLE \<Rightarrow> bool" where
  "IsSessionHandle handle \<longleftrightarrow>
     HANDLE_IN_RANGE handle HMAC_SESSION_FIRST HMAC_SESSION_LAST \<or>
     HANDLE_IN_RANGE handle POLICY_SESSION_FIRST POLICY_SESSION_LAST"

definition IsHMACSessionHandle :: "TPM_HANDLE \<Rightarrow> bool" where
  "IsHMACSessionHandle handle = HANDLE_IN_RANGE handle HMAC_SESSION_FIRST HMAC_SESSION_LAST"

definition IsPolicySessionHandle :: "TPM_HANDLE \<Rightarrow> bool" where
  "IsPolicySessionHandle handle = HANDLE_IN_RANGE handle POLICY_SESSION_FIRST POLICY_SESSION_LAST"

definition IsACHandle :: "TPM_HANDLE \<Rightarrow> bool" where
  "IsACHandle handle = HANDLE_IN_RANGE handle AC_FIRST AC_LAST"

section \<open>Validation\<close>

text \<open>The test of the four SVN-limited ranges, which three validators repeat.\<close>

definition in_svn_range :: "TPM_HANDLE \<Rightarrow> bool" where
  "in_svn_range handle \<longleftrightarrow>
     HANDLE_IN_RANGE handle SVN_OWNER_FIRST SVN_OWNER_LAST \<or>
     HANDLE_IN_RANGE handle SVN_ENDORSEMENT_FIRST SVN_ENDORSEMENT_LAST \<or>
     HANDLE_IN_RANGE handle SVN_PLATFORM_FIRST SVN_PLATFORM_LAST \<or>
     HANDLE_IN_RANGE handle SVN_NULL_FIRST SVN_NULL_LAST"

definition ValidatePermanentHandle :: "TPM_HANDLE \<Rightarrow> TPM_RC" where
  "ValidatePermanentHandle handle =
     (if handle \<in> set [TPM_RH_OWNER, TPM_RH_NULL, TPM_RS_PW, TPM_RH_LOCKOUT, TPM_RH_ENDORSEMENT,
           TPM_RH_PLATFORM, TPM_RH_PLATFORM_NV, TPM_RH_FW_OWNER, TPM_RH_FW_ENDORSEMENT,
           TPM_RH_FW_PLATFORM, TPM_RH_FW_NULL] then TPM_RC_SUCCESS
      else if HANDLE_IN_RANGE handle TPM_RH_ACT_0 TPM_RH_ACT_F then TPM_RC_SUCCESS
      else if HANDLE_IN_RANGE handle TPM_RH_AUTH_00 TPM_RH_AUTH_FF then TPM_RC_SUCCESS
      else if in_svn_range handle then TPM_RC_SUCCESS
      else TPM_RC_VALUE_enum)"

definition ValidateObjectHandle :: "TPM_HANDLE \<Rightarrow> bool \<Rightarrow> TPM_RC" where
  "ValidateObjectHandle handle allowNull =
     (if IsTransientHandle handle then TPM_RC_SUCCESS
      else if IsPersistentHandle handle then TPM_RC_SUCCESS
      else if allowNull \<and> handle = TPM_RH_NULL then TPM_RC_SUCCESS
      else TPM_RC_VALUE_enum)"

definition ValidateParentHandle :: "TPM_HANDLE \<Rightarrow> TPM_RC" where
  "ValidateParentHandle handle =
     (if IsTransientHandle handle then TPM_RC_SUCCESS
      else if IsPersistentHandle handle then TPM_RC_SUCCESS
      else if handle \<in> set [TPM_RH_OWNER, TPM_RH_PLATFORM, TPM_RH_ENDORSEMENT, TPM_RH_NULL,
           TPM_RH_FW_OWNER, TPM_RH_FW_PLATFORM, TPM_RH_FW_ENDORSEMENT, TPM_RH_FW_NULL]
        then TPM_RC_SUCCESS
      else if in_svn_range handle then TPM_RC_SUCCESS
      else TPM_RC_VALUE_enum)"

definition ValidateEntityHandle :: "TPM_HANDLE \<Rightarrow> TPM_RC" where
  "ValidateEntityHandle handle =
     (if handle = TPM_RH_OWNER \<or> handle = TPM_RH_ENDORSEMENT \<or> handle = TPM_RH_PLATFORM \<or>
         handle = TPM_RH_LOCKOUT then TPM_RC_SUCCESS
      else if IsTransientHandle handle \<or> IsPersistentHandle handle then TPM_RC_SUCCESS
      else if IsNVIndexHandle handle then TPM_RC_SUCCESS
      else if HANDLE_IN_RANGE handle 0x40000000 0x400000FF then TPM_RC_SUCCESS
      else TPM_RC_VALUE_enum)"

definition ValidateAuthSessionHandle :: "TPM_HANDLE \<Rightarrow> TPM_RC" where
  "ValidateAuthSessionHandle handle =
     (if IsHMACSessionHandle handle then TPM_RC_SUCCESS
      else if IsPolicySessionHandle handle then TPM_RC_SUCCESS
      else if handle = TPM_RS_PW then TPM_RC_SUCCESS
      else TPM_RC_VALUE_enum)"

definition ValidateHierarchyHandle :: "TPM_HANDLE \<Rightarrow> TPM_RC" where
  "ValidateHierarchyHandle handle =
     (if handle \<in> set [TPM_RH_OWNER, TPM_RH_PLATFORM, TPM_RH_ENDORSEMENT, TPM_RH_NULL,
           TPM_RH_FW_OWNER, TPM_RH_FW_PLATFORM, TPM_RH_FW_ENDORSEMENT, TPM_RH_FW_NULL]
        then TPM_RC_SUCCESS
      else if in_svn_range handle then TPM_RC_SUCCESS
      else TPM_RC_VALUE_enum)"

definition ValidateNVIndexHandle :: "TPM_HANDLE \<Rightarrow> TPM_RC" where
  "ValidateNVIndexHandle handle =
     (if IsNVIndexHandle handle then TPM_RC_SUCCESS
      else if HANDLE_IN_RANGE handle EXTERNAL_NV_FIRST EXTERNAL_NV_LAST then TPM_RC_SUCCESS
      else if HANDLE_IN_RANGE handle PERMANENT_NV_FIRST PERMANENT_NV_LAST then TPM_RC_SUCCESS
      else TPM_RC_VALUE_enum)"

section \<open>Unmarshalling and marshalling\<close>

definition UnmarshalHandle :: "bytes \<Rightarrow> TPM_HANDLE \<Rightarrow> nat \<Rightarrow> TPM_RC \<times> TPM_HANDLE \<times> nat" where
  "UnmarshalHandle buffer handle bytesRead =
     (if length buffer < 4 then (TPM_RC_INSUFFICIENT, handle, bytesRead)
      else (TPM_RC_SUCCESS, be32 (buffer ! 0) (buffer ! 1) (buffer ! 2) (buffer ! 3), 4))"

definition UnmarshalObjectHandle ::
  "bytes \<Rightarrow> TPM_HANDLE \<Rightarrow> bool \<Rightarrow> nat \<Rightarrow> TPM_RC \<times> TPM_HANDLE \<times> nat" where
  "UnmarshalObjectHandle buffer handle allowNull bytesRead =
     (case UnmarshalHandle buffer handle bytesRead of (rc, h, n) \<Rightarrow>
        if rc \<noteq> TPM_RC_SUCCESS then (rc, h, n) else (ValidateObjectHandle h allowNull, h, n))"

definition UnmarshalHierarchyHandle ::
  "bytes \<Rightarrow> TPM_HANDLE \<Rightarrow> nat \<Rightarrow> TPM_RC \<times> TPM_HANDLE \<times> nat" where
  "UnmarshalHierarchyHandle buffer handle bytesRead =
     (case UnmarshalHandle buffer handle bytesRead of (rc, h, n) \<Rightarrow>
        if rc \<noteq> TPM_RC_SUCCESS then (rc, h, n) else (ValidateHierarchyHandle h, h, n))"

definition UnmarshalNVIndexHandle ::
  "bytes \<Rightarrow> TPM_HANDLE \<Rightarrow> nat \<Rightarrow> TPM_RC \<times> TPM_HANDLE \<times> nat" where
  "UnmarshalNVIndexHandle buffer handle bytesRead =
     (case UnmarshalHandle buffer handle bytesRead of (rc, h, n) \<Rightarrow>
        if rc \<noteq> TPM_RC_SUCCESS then (rc, h, n) else (ValidateNVIndexHandle h, h, n))"

definition UnmarshalSessionHandle ::
  "bytes \<Rightarrow> TPM_HANDLE \<Rightarrow> nat \<Rightarrow> TPM_RC \<times> TPM_HANDLE \<times> nat" where
  "UnmarshalSessionHandle buffer handle bytesRead =
     (case UnmarshalHandle buffer handle bytesRead of (rc, h, n) \<Rightarrow>
        if rc \<noteq> TPM_RC_SUCCESS then (rc, h, n) else (ValidateAuthSessionHandle h, h, n))"

definition MarshalHandle :: "bytes \<Rightarrow> TPM_HANDLE \<Rightarrow> nat \<Rightarrow> TPM_RC \<times> bytes \<times> nat" where
  "MarshalHandle buffer handle bytesWritten =
     (if length buffer < 4 then (TPM_RC_INSUFFICIENT, buffer, bytesWritten)
      else (TPM_RC_SUCCESS, overwrite buffer 0 (be32_bytes handle), 4))"

section \<open>Utilities\<close>

definition GetHandleTypeString :: "TPM_HANDLE \<Rightarrow> string" where
  "GetHandleTypeString handle =
     (if IsNVIndexHandle handle then ''NV_INDEX''
      else if IsHMACSessionHandle handle then ''HMAC_SESSION''
      else if IsPolicySessionHandle handle then ''POLICY_SESSION''
      else if IsTransientHandle handle then ''TRANSIENT''
      else if IsPersistentHandle handle then ''PERSISTENT''
      else if IsPermanentHandle handle then ''PERMANENT''
      else if IsACHandle handle then ''ATTACHED_COMPONENT''
      else ''UNKNOWN'')"

definition HandleRequiresAuth :: "TPM_HANDLE \<Rightarrow> bool" where
  "HandleRequiresAuth handle =
     (if handle = TPM_RH_NULL then False else if handle = TPM_RS_PW then False else True)"

section \<open>Lemmas\<close>

lemmas handle_classes =
  IsNVIndexHandle_def IsTransientHandle_def IsPersistentHandle_def IsPermanentHandle_def
  IsSessionHandle_def IsHMACSessionHandle_def IsPolicySessionHandle_def IsACHandle_def
  HANDLE_IN_RANGE_def word_le_nat_alt

interpretation handlee: encoder be32_bytes "\<lambda>_. True" "no_fault MarshalHandle"
  by unfold_locales (auto simp: no_fault_def MarshalHandle_def)

lemma unmarshal_handle_enc: "UnmarshalHandle (be32_bytes h @ rest) a n = (TPM_RC_SUCCESS, h, 4)"
  by (simp add: UnmarshalHandle_def be32_bytes_def be_simps)

lemma unmarshal_handle_sound:
  "UnmarshalHandle buf a n = (TPM_RC_SUCCESS, h, m) \<Longrightarrow> m = 4 \<and> buf = be32_bytes h @ drop 4 buf"
proof -
  assume u: "UnmarshalHandle buf a n = (TPM_RC_SUCCESS, h, m)"
  then have l: "4 \<le> length buf" and h: "h = be32 (buf ! 0) (buf ! 1) (buf ! 2) (buf ! 3)" "m = 4"
    by (auto simp: UnmarshalHandle_def split: if_splits)
  have "be32_bytes h = take 4 buf"
    unfolding h(1) be32_bytes_be32
    by (rule nth_equalityI) (use l in \<open>auto simp: less_Suc_eq numeral_eq_Suc\<close>)
  with h show ?thesis by simp
qed

interpretation handlec: codec be32_bytes "\<lambda>_. True" "no_fault MarshalHandle"
  be32_bytes "\<lambda>v _. v" "\<lambda>_ _. True" "no_fault UnmarshalHandle" "\<lambda>v. v"
  by unfold_locales (auto simp: no_fault_def unmarshal_handle_enc dest: unmarshal_handle_sound)

lemma unat_handle_type: "unat (GET_HANDLE_TYPE h) = unat h div 2 ^ 24"
proof -
  have "unat h div 2 ^ 24 < 256"
    using unsigned_less [where ?'a = nat, of h] by (simp add: div_less_iff_less_mult)
  then show ?thesis
    by (simp add: GET_HANDLE_TYPE_def unsigned_ucast_eq drop_bit_eq_div unat_div take_bit_nat_eq_self)
qed

lemma handle_type_eq: "GET_HANDLE_TYPE h = t \<longleftrightarrow> unat h div 2 ^ 24 = unat t"
  by (metis unat_handle_type word_unat_eq_iff)

lemma svn_range_permanent: "in_svn_range h \<Longrightarrow> IsPermanentHandle h"
  by (auto simp: in_svn_range_def handle_classes)

section \<open>Properties\<close>

text \<open>
  C38.  The most significant octet decides the class of a handle: every handle of a class has the
  octet of that class, so the six classes exclude one another and \<open>GetHandleTypeString\<close> does
  not depend on the order of its tests.  For NV indices and persistent objects the octet is also
  sufficient.
\<close>

theorem handle_class_octet:
  "(IsNVIndexHandle h \<longleftrightarrow> GET_HANDLE_TYPE h = 0x01) \<and>
   (IsPersistentHandle h \<longleftrightarrow> GET_HANDLE_TYPE h = 0x81) \<and>
   (IsHMACSessionHandle h \<longrightarrow> GET_HANDLE_TYPE h = 0x02) \<and>
   (IsPolicySessionHandle h \<longrightarrow> GET_HANDLE_TYPE h = 0x03) \<and>
   (IsPermanentHandle h \<longrightarrow> GET_HANDLE_TYPE h = 0x40) \<and>
   (IsTransientHandle h \<longrightarrow> GET_HANDLE_TYPE h = 0x80) \<and>
   (IsACHandle h \<longrightarrow> GET_HANDLE_TYPE h = 0x90)"
  unfolding handle_type_eq by (auto simp: handle_classes)

theorem handle_class_octet_witness:
  "IsTransientHandle 0x80000001 \<and> GET_HANDLE_TYPE 0x80000001 = 0x80 \<and>
   IsPermanentHandle TPM_RH_OWNER \<and> GET_HANDLE_TYPE TPM_RH_OWNER = 0x40"
  using handle_class_octet [of "0x80000001"] handle_class_octet [of TPM_RH_OWNER]
  by (simp add: handle_classes)

text \<open>
  C39.  The validators agree with one another: a hierarchy is a permanent handle, a parent is an
  object or a hierarchy, an object handle without the null handle is a transient or persistent one,
  and an authorization session is a session or the password handle.
\<close>

theorem handle_validators_agree:
  "(ValidateHierarchyHandle h = TPM_RC_SUCCESS \<longrightarrow>
      ValidatePermanentHandle h = TPM_RC_SUCCESS \<and> IsPermanentHandle h) \<and>
   (ValidateParentHandle h = TPM_RC_SUCCESS \<longleftrightarrow>
      ValidateObjectHandle h False = TPM_RC_SUCCESS \<or> ValidateHierarchyHandle h = TPM_RC_SUCCESS) \<and>
   (ValidateObjectHandle h False = TPM_RC_SUCCESS \<longleftrightarrow>
      IsTransientHandle h \<or> IsPersistentHandle h) \<and>
   (ValidateAuthSessionHandle h = TPM_RC_SUCCESS \<longleftrightarrow> IsSessionHandle h \<or> h = TPM_RS_PW)"
proof (intro conjI)
  show "ValidateHierarchyHandle h = TPM_RC_SUCCESS \<longrightarrow>
      ValidatePermanentHandle h = TPM_RC_SUCCESS \<and> IsPermanentHandle h"
    using svn_range_permanent [of h]
    by (auto simp: ValidateHierarchyHandle_def ValidatePermanentHandle_def handle_classes
        split: if_splits)
  show "ValidateAuthSessionHandle h = TPM_RC_SUCCESS \<longleftrightarrow> IsSessionHandle h \<or> h = TPM_RS_PW"
    by (simp add: ValidateAuthSessionHandle_def IsSessionHandle_def IsHMACSessionHandle_def
        IsPolicySessionHandle_def)
qed (auto simp: ValidateParentHandle_def ValidateObjectHandle_def ValidateHierarchyHandle_def)

theorem handle_validators_agree_witness:
  "ValidateHierarchyHandle TPM_RH_ENDORSEMENT = TPM_RC_SUCCESS \<and>
   ValidatePermanentHandle TPM_RH_ENDORSEMENT = TPM_RC_SUCCESS"
  using handle_validators_agree [of TPM_RH_ENDORSEMENT] by (simp add: ValidateHierarchyHandle_def)

text \<open>
  C40.  The range \<open>ValidateEntityHandle\<close> takes for the vendor-specific authorization handles is
  not the one of \<^verbatim>\<open>tpm2_handles.h\<close>: the last sixteen handles of that range are rejected, and nine
  reserved or unassigned handles below it, which \<open>ValidatePermanentHandle\<close> rejects, are
  accepted.
\<close>

theorem entity_handle_auth_range:
  "(HANDLE_IN_RANGE h 0x40000100 TPM_RH_AUTH_FF \<longrightarrow>
      ValidatePermanentHandle h = TPM_RC_SUCCESS \<and> ValidateEntityHandle h = TPM_RC_VALUE_enum) \<and>
   (h \<in> {0x40000000, 0x40000002, 0x40000003, 0x40000004, 0x40000005, 0x40000006, 0x40000008,
          0x4000000E, 0x4000000F} \<longrightarrow>
      ValidateEntityHandle h = TPM_RC_SUCCESS \<and> ValidatePermanentHandle h = TPM_RC_VALUE_enum)"
  by (auto simp: ValidateEntityHandle_def ValidatePermanentHandle_def in_svn_range_def
      handle_classes)

theorem entity_handle_auth_range_witness:
  "ValidateEntityHandle 0x4000010F = TPM_RC_VALUE_enum \<and>
   ValidateEntityHandle 0x40000005 = TPM_RC_SUCCESS"
  using entity_handle_auth_range [of "0x4000010F"] entity_handle_auth_range [of "0x40000005"]
  by (simp add: HANDLE_IN_RANGE_def)

end
