(* ===== verification/UART_Device.thy ===== *)
theory UART_Device
  imports TPM_Prelude
begin

text \<open>
  \<^verbatim>\<open>hw/char/nxps32k3x8evb_uart.c\<close>: the serial port of the board.  The C \<open>int\<close> members are
  integers and the sums of them that can leave the range of an \<open>int\<close> wrap around, as QEMU is built
  with \<^verbatim>\<open>-fwrapv\<close>; the registers are 32-bit words.  What leaves the device is kept in the state: \<open>u_chr\<close> is
  what the character backend has been given, \<open>u_irq\<close> the level of the six interrupt lines.  The
  backend delivers its input between register accesses, through \<open>nxp_uart_receive\<close> and
  \<open>nxp_uart_event\<close>.  Log and trace messages are left out.
\<close>

datatype chr_out = ChrByte u8 | ChrBreak bool

record NXP_UART_STATE =
  u_flags :: u32
  u_lcr :: u32
  u_rsr :: u32
  u_cr :: u32
  u_dmacr :: u32
  u_int_enabled :: u32
  u_int_level :: u32
  u_read_fifo :: "u32 list"
  u_ilpr :: u32
  u_ibrd :: u32
  u_fbrd :: u32
  u_ifl :: u32
  u_read_pos :: int
  u_read_count :: int
  u_read_trigger :: int
  u_chr :: "chr_out list"
  u_irq :: "bool list"

section \<open>Constants\<close>

abbreviation (input) NXP_UART_FLAG_RI :: u32 where "NXP_UART_FLAG_RI \<equiv> 0x100"
abbreviation (input) NXP_UART_FLAG_TXFE :: u32 where "NXP_UART_FLAG_TXFE \<equiv> 0x80"
abbreviation (input) NXP_UART_FLAG_RXFF :: u32 where "NXP_UART_FLAG_RXFF \<equiv> 0x40"
abbreviation (input) NXP_UART_FLAG_TXFF :: u32 where "NXP_UART_FLAG_TXFF \<equiv> 0x20"
abbreviation (input) NXP_UART_FLAG_RXFE :: u32 where "NXP_UART_FLAG_RXFE \<equiv> 0x10"
abbreviation (input) NXP_UART_FLAG_DCD :: u32 where "NXP_UART_FLAG_DCD \<equiv> 0x04"
abbreviation (input) NXP_UART_FLAG_DSR :: u32 where "NXP_UART_FLAG_DSR \<equiv> 0x02"
abbreviation (input) NXP_UART_FLAG_CTS :: u32 where "NXP_UART_FLAG_CTS \<equiv> 0x01"

abbreviation (input) DR_BE :: u32 where "DR_BE \<equiv> 0x400"

text \<open>The interrupt bits: OE, BE, PE, FE are bits 10 to 7, RT, TX, RX bits 6 to 4, and DSR, DCD, CTS,
  RI bits 3 to 0.\<close>

abbreviation (input) INT_E :: u32 where "INT_E \<equiv> 0x780"
abbreviation (input) INT_RT :: u32 where "INT_RT \<equiv> 0x40"
abbreviation (input) INT_TX :: u32 where "INT_TX \<equiv> 0x20"
abbreviation (input) INT_RX :: u32 where "INT_RX \<equiv> 0x10"
abbreviation (input) INT_DSR :: u32 where "INT_DSR \<equiv> 0x8"
abbreviation (input) INT_DCD :: u32 where "INT_DCD \<equiv> 0x4"
abbreviation (input) INT_CTS :: u32 where "INT_CTS \<equiv> 0x2"
abbreviation (input) INT_RI :: u32 where "INT_RI \<equiv> 0x1"
abbreviation (input) INT_MS :: u32 where "INT_MS \<equiv> 0xF"

abbreviation (input) LCR_FEN :: u64 where "LCR_FEN \<equiv> 0x10"
abbreviation (input) LCR_BRK :: u64 where "LCR_BRK \<equiv> 0x1"

abbreviation (input) CR_OUT2 :: u32 where "CR_OUT2 \<equiv> 0x2000"
abbreviation (input) CR_OUT1 :: u32 where "CR_OUT1 \<equiv> 0x1000"
abbreviation (input) CR_RTS :: u32 where "CR_RTS \<equiv> 0x800"
abbreviation (input) CR_DTR :: u32 where "CR_DTR \<equiv> 0x400"
abbreviation (input) CR_LBE :: u32 where "CR_LBE \<equiv> 0x80"

abbreviation (input) IBRD_MASK :: u32 where "IBRD_MASK \<equiv> 0xFFFF"
abbreviation (input) FBRD_MASK :: u32 where "FBRD_MASK \<equiv> 0x3F"

definition nxp_uart_id_arm :: "u8 list" where
  "nxp_uart_id_arm = [0x11, 0x10, 0x14, 0x00, 0x0D, 0xF0, 0x05, 0xB1]"

section \<open>Operations\<close>

definition nxp_uart_regname :: "u64 \<Rightarrow> string" where
  "nxp_uart_regname offset =
     (let idx = unat (drop_bit 2 offset);
          rname = [''DR'', ''RSR'', [], [], [], [], ''FR'', [], ''ILPR'', ''IBRD'', ''FBRD'', ''LCRH'',
                   ''CR'', ''IFLS'', ''IMSC'', ''RIS'', ''MIS'', ''ICR'', ''DMACR'']
      in if idx < length rname \<and> rname ! idx \<noteq> [] then rname ! idx
         else if 0x3F8 \<le> idx \<and> idx \<le> 0x400 then ''ID''
         else ''UNKN'')"

definition irqmask :: "u32 list" where
  "irqmask = [INT_E OR INT_MS OR INT_RT OR INT_TX OR INT_RX, INT_RX, INT_TX, INT_RT, INT_MS, INT_E]"

definition nxp_uart_update :: "NXP_UART_STATE \<Rightarrow> NXP_UART_STATE" where
  "nxp_uart_update s =
     (let flags = u_int_level s AND u_int_enabled s
      in s\<lparr>u_irq := map (\<lambda>m. flags AND m \<noteq> 0) irqmask\<rparr>)"

definition nxp_uart_loopback_enabled :: "NXP_UART_STATE \<Rightarrow> bool" where
  "nxp_uart_loopback_enabled s \<longleftrightarrow> u_cr s AND CR_LBE \<noteq> 0"

definition nxp_uart_is_fifo_enabled :: "NXP_UART_STATE \<Rightarrow> bool" where
  "nxp_uart_is_fifo_enabled s \<longleftrightarrow> u_lcr s AND 0x10 \<noteq> 0"

definition nxp_uart_get_fifo_depth :: "NXP_UART_STATE \<Rightarrow> int" where
  "nxp_uart_get_fifo_depth s = (if nxp_uart_is_fifo_enabled s then 16 else 1)"

definition nxp_uart_reset_rx_fifo :: "NXP_UART_STATE \<Rightarrow> NXP_UART_STATE" where
  "nxp_uart_reset_rx_fifo s =
     s\<lparr>u_read_count := 0, u_read_pos := 0,
        u_flags := (u_flags s AND NOT NXP_UART_FLAG_RXFF) OR NXP_UART_FLAG_RXFE\<rparr>"

definition nxp_uart_reset_tx_fifo :: "NXP_UART_STATE \<Rightarrow> NXP_UART_STATE" where
  "nxp_uart_reset_tx_fifo s =
     s\<lparr>u_flags := (u_flags s AND NOT NXP_UART_FLAG_TXFF) OR NXP_UART_FLAG_TXFE\<rparr>"

text \<open>
  The value of a sum in a C \<open>int\<close> of 32 bits.  An access to the FIFO outside its 16 elements is
  \<open>None\<close>.
\<close>

definition c_int :: "int \<Rightarrow> int" where
  "c_int k = sint (word_of_int k :: u32)"

definition fifo_index :: "NXP_UART_STATE \<Rightarrow> int \<Rightarrow> nat option" where
  "fifo_index s i = (if 0 \<le> i \<and> nat i < length (u_read_fifo s) then Some (nat i) else None)"

definition nxp_uart_fifo_rx_put :: "u32 \<Rightarrow> NXP_UART_STATE \<Rightarrow> NXP_UART_STATE option" where
  "nxp_uart_fifo_rx_put v s =
     (let pipe_depth = nxp_uart_get_fifo_depth s;
          slot = c_int (u_read_pos s + u_read_count s) AND (pipe_depth - 1)
      in case fifo_index s slot of
           None \<Rightarrow> None
         | Some i \<Rightarrow>
             let s1 = s\<lparr>u_read_fifo := (u_read_fifo s)[i := v],
                        u_read_count := c_int (u_read_count s + 1),
                        u_flags := u_flags s AND NOT NXP_UART_FLAG_RXFE\<rparr>;
                 s2 = (if u_read_count s1 = pipe_depth
                       then s1\<lparr>u_flags := u_flags s1 OR NXP_UART_FLAG_RXFF\<rparr> else s1)
             in Some (if u_read_count s2 = u_read_trigger s2
                      then nxp_uart_update (s2\<lparr>u_int_level := u_int_level s2 OR INT_RX\<rparr>)
                      else s2))"

definition nxp_uart_loopback_tx :: "u32 \<Rightarrow> NXP_UART_STATE \<Rightarrow> NXP_UART_STATE option" where
  "nxp_uart_loopback_tx v s =
     (if \<not> nxp_uart_loopback_enabled s then Some s else nxp_uart_fifo_rx_put v s)"

definition nxp_uart_write_txdata :: "u8 \<Rightarrow> NXP_UART_STATE \<Rightarrow> NXP_UART_STATE option" where
  "nxp_uart_write_txdata data s =
     (case nxp_uart_loopback_tx (ucast data) (s\<lparr>u_chr := u_chr s @ [ChrByte data]\<rparr>) of
        None \<Rightarrow> None
      | Some s1 \<Rightarrow> Some (nxp_uart_update (s1\<lparr>u_int_level := u_int_level s1 OR INT_TX\<rparr>)))"

definition nxp_uart_read_rxdata :: "NXP_UART_STATE \<Rightarrow> (u32 \<times> NXP_UART_STATE) option" where
  "nxp_uart_read_rxdata s =
     (let fifo_depth = nxp_uart_get_fifo_depth s;
          s1 = s\<lparr>u_flags := u_flags s AND NOT NXP_UART_FLAG_RXFF\<rparr>
      in case fifo_index s (u_read_pos s) of
           None \<Rightarrow> None
         | Some i \<Rightarrow>
             let c = u_read_fifo s ! i;
                 s2 = (if u_read_count s1 > 0
                       then s1\<lparr>u_read_count := u_read_count s1 - 1,
                               u_read_pos := (u_read_pos s1 + 1) AND (fifo_depth - 1)\<rparr>
                       else s1);
                 s3 = (if u_read_count s2 = 0
                       then s2\<lparr>u_flags := u_flags s2 OR NXP_UART_FLAG_RXFE\<rparr> else s2);
                 s4 = (if u_read_count s3 = u_read_trigger s3 - 1
                       then s3\<lparr>u_int_level := u_int_level s3 AND NOT INT_RX\<rparr> else s3)
             in Some (c, nxp_uart_update (s4\<lparr>u_rsr := drop_bit 8 c\<rparr>)))"

definition nxp_uart_read :: "u64 \<Rightarrow> NXP_UART_STATE \<Rightarrow> (u64 \<times> NXP_UART_STATE) option" where
  "nxp_uart_read offset s =
     (let r = drop_bit 2 offset in
      if r = 0 then map_option (\<lambda>(c, s'). (ucast c, s')) (nxp_uart_read_rxdata s)
      else if r = 1 then Some (ucast (u_rsr s), s)
      else if r = 6 then Some (ucast (u_flags s), s)
      else if r = 8 then Some (ucast (u_ilpr s), s)
      else if r = 9 then Some (ucast (u_ibrd s), s)
      else if r = 10 then Some (ucast (u_fbrd s), s)
      else if r = 11 then Some (ucast (u_lcr s), s)
      else if r = 12 then Some (ucast (u_cr s), s)
      else if r = 13 then Some (ucast (u_ifl s), s)
      else if r = 14 then Some (ucast (u_int_enabled s), s)
      else if r = 15 then Some (ucast (u_int_level s), s)
      else if r = 16 then Some (ucast (u_int_level s AND u_int_enabled s), s)
      else if r = 18 then Some (ucast (u_dmacr s), s)
      else if 0x3F8 \<le> r \<and> r \<le> 0x400 then
        let i = unat (drop_bit 2 (offset - 0xFE0)) in
        if i < length nxp_uart_id_arm then Some (ucast (nxp_uart_id_arm ! i), s) else None
      else Some (0, s))"

definition nxp_uart_set_read_trigger :: "NXP_UART_STATE \<Rightarrow> NXP_UART_STATE" where
  "nxp_uart_set_read_trigger s = s\<lparr>u_read_trigger := 1\<rparr>"

text \<open>The baud rate is computed for the trace after a change; \<open>None\<close> is a division by zero.\<close>

definition nxp_uart_get_baudrate :: "u64 \<Rightarrow> NXP_UART_STATE \<Rightarrow> u32 option" where
  "nxp_uart_get_baudrate clk s =
     (if u_ibrd s = 0 then Some 0
      else let d = push_bit 6 (u_ibrd s) + u_fbrd s in
      if d = 0 then None else Some (ucast (push_bit 2 (clk div ucast d))))"

definition nxp_uart_trace_baudrate_change :: "u64 \<Rightarrow> NXP_UART_STATE \<Rightarrow> NXP_UART_STATE option" where
  "nxp_uart_trace_baudrate_change clk s = map_option (\<lambda>_. s) (nxp_uart_get_baudrate clk s)"

definition nxp_uart_loopback_mdmctrl :: "NXP_UART_STATE \<Rightarrow> NXP_UART_STATE" where
  "nxp_uart_loopback_mdmctrl s =
     (if \<not> nxp_uart_loopback_enabled s then s
      else let cr = u_cr s;
               fr = u_flags s AND NOT (NXP_UART_FLAG_RI OR NXP_UART_FLAG_DCD OR NXP_UART_FLAG_DSR OR
                                       NXP_UART_FLAG_CTS);
               fr = fr OR (if cr AND CR_OUT2 \<noteq> 0 then NXP_UART_FLAG_RI else 0);
               fr = fr OR (if cr AND CR_OUT1 \<noteq> 0 then NXP_UART_FLAG_DCD else 0);
               fr = fr OR (if cr AND CR_RTS \<noteq> 0 then NXP_UART_FLAG_CTS else 0);
               fr = fr OR (if cr AND CR_DTR \<noteq> 0 then NXP_UART_FLAG_DSR else 0);
               il = u_int_level s AND NOT (INT_DSR OR INT_DCD OR INT_CTS OR INT_RI);
               il = il OR (if fr AND NXP_UART_FLAG_DSR \<noteq> 0 then INT_DSR else 0);
               il = il OR (if fr AND NXP_UART_FLAG_DCD \<noteq> 0 then INT_DCD else 0);
               il = il OR (if fr AND NXP_UART_FLAG_CTS \<noteq> 0 then INT_CTS else 0);
               il = il OR (if fr AND NXP_UART_FLAG_RI \<noteq> 0 then INT_RI else 0)
           in nxp_uart_update (s\<lparr>u_flags := fr, u_int_level := il\<rparr>))"

definition nxp_uart_loopback_break :: "bool \<Rightarrow> NXP_UART_STATE \<Rightarrow> NXP_UART_STATE option" where
  "nxp_uart_loopback_break brk_enable s =
     (if brk_enable then nxp_uart_loopback_tx DR_BE s else Some s)"

text \<open>The write of the line control register, and the dispatch of \<open>nxp_uart_write\<close>.\<close>

definition write_lcr :: "u64 \<Rightarrow> NXP_UART_STATE \<Rightarrow> NXP_UART_STATE option" where
  "write_lcr v s =
     (let s1 = (if (ucast (u_lcr s) XOR v) AND LCR_FEN \<noteq> 0
                then nxp_uart_reset_tx_fifo (nxp_uart_reset_rx_fifo s) else s);
          brk = (v AND LCR_BRK \<noteq> 0)
      in case (if (ucast (u_lcr s1) XOR v) AND LCR_BRK \<noteq> 0
               then nxp_uart_loopback_break brk (s1\<lparr>u_chr := u_chr s1 @ [ChrBreak brk]\<rparr>)
               else Some s1) of
           None \<Rightarrow> None
         | Some s2 \<Rightarrow> Some (nxp_uart_set_read_trigger (s2\<lparr>u_lcr := ucast v\<rparr>)))"

definition nxp_uart_write :: "u64 \<Rightarrow> u64 \<Rightarrow> u64 \<Rightarrow> NXP_UART_STATE \<Rightarrow> NXP_UART_STATE option" where
  "nxp_uart_write clk offset v s =
     (let r = drop_bit 2 offset in
      if r = 0 then nxp_uart_write_txdata (ucast v) s
      else if r = 1 then Some (s\<lparr>u_rsr := 0\<rparr>)
      else if r = 6 then Some s
      else if r = 8 then Some (s\<lparr>u_ilpr := ucast v\<rparr>)
      else if r = 9 then
        nxp_uart_trace_baudrate_change clk (s\<lparr>u_ibrd := ucast v AND IBRD_MASK\<rparr>)
      else if r = 10 then
        nxp_uart_trace_baudrate_change clk (s\<lparr>u_fbrd := ucast v AND FBRD_MASK\<rparr>)
      else if r = 11 then write_lcr v s
      else if r = 12 then Some (nxp_uart_loopback_mdmctrl (s\<lparr>u_cr := ucast v\<rparr>))
      else if r = 13 then Some (nxp_uart_set_read_trigger (s\<lparr>u_ifl := ucast v\<rparr>))
      else if r = 14 then Some (nxp_uart_update (s\<lparr>u_int_enabled := ucast v\<rparr>))
      else if r = 17 then Some (nxp_uart_update (s\<lparr>u_int_level := u_int_level s AND NOT (ucast v)\<rparr>))
      else if r = 18 then Some (s\<lparr>u_dmacr := ucast v\<rparr>)
      else Some s)"

text \<open>The free space is computed without a sign and returned with one.\<close>

definition nxp_uart_can_receive :: "NXP_UART_STATE \<Rightarrow> int" where
  "nxp_uart_can_receive s =
     sint (word_of_int (nxp_uart_get_fifo_depth s) - word_of_int (u_read_count s) :: u32)"

fun rx_put_all :: "bytes \<Rightarrow> NXP_UART_STATE \<Rightarrow> NXP_UART_STATE option" where
  "rx_put_all [] s = Some s"
| "rx_put_all (b # buf) s =
     (case nxp_uart_fifo_rx_put (ucast b) s of None \<Rightarrow> None | Some s1 \<Rightarrow> rx_put_all buf s1)"

definition nxp_uart_receive :: "bytes \<Rightarrow> NXP_UART_STATE \<Rightarrow> NXP_UART_STATE option" where
  "nxp_uart_receive buf s = (if nxp_uart_loopback_enabled s then Some s else rx_put_all buf s)"

definition nxp_uart_event :: "bool \<Rightarrow> NXP_UART_STATE \<Rightarrow> NXP_UART_STATE option" where
  "nxp_uart_event is_break s =
     (if is_break \<and> \<not> nxp_uart_loopback_enabled s then nxp_uart_fifo_rx_put DR_BE s else Some s)"

text \<open>The bounds are unsigned, so a negative position or count is refused; \<open>None\<close> is the result -1.\<close>

definition nxp_uart_post_load :: "NXP_UART_STATE \<Rightarrow> NXP_UART_STATE option" where
  "nxp_uart_post_load s =
     (if u_read_pos s < 0 \<or> u_read_pos s \<ge> 16 \<or> u_read_count s < 0 \<or> u_read_count s > 16 then None
      else let s1 = (if \<not> nxp_uart_is_fifo_enabled s \<and> u_read_count s > 0 \<and> u_read_pos s > 0
                     then s\<lparr>u_read_fifo := (u_read_fifo s)[0 := u_read_fifo s ! nat (u_read_pos s)],
                            u_read_pos := 0\<rparr>
                     else s)
      in Some (s1\<lparr>u_ibrd := u_ibrd s1 AND IBRD_MASK, u_fbrd := u_fbrd s1 AND FBRD_MASK\<rparr>))"

text \<open>The zero-initialised object with its lines low, and its reset.\<close>

definition nxp_uart_init :: NXP_UART_STATE where
  "nxp_uart_init =
     \<lparr>u_flags = 0, u_lcr = 0, u_rsr = 0, u_cr = 0, u_dmacr = 0, u_int_enabled = 0, u_int_level = 0,
      u_read_fifo = replicate 16 0, u_ilpr = 0, u_ibrd = 0, u_fbrd = 0, u_ifl = 0, u_read_pos = 0,
      u_read_count = 0, u_read_trigger = 0, u_chr = [], u_irq = replicate 6 False\<rparr>"

definition nxp_uart_reset :: "NXP_UART_STATE \<Rightarrow> NXP_UART_STATE" where
  "nxp_uart_reset s =
     nxp_uart_reset_tx_fifo (nxp_uart_reset_rx_fifo
       (s\<lparr>u_lcr := 0, u_rsr := 0, u_dmacr := 0, u_int_enabled := 0, u_int_level := 0, u_ilpr := 0,
           u_ibrd := 0, u_fbrd := 0, u_read_trigger := 1, u_ifl := 0x12, u_cr := 0x300,
           u_flags := 0\<rparr>))"

section \<open>Invariants\<close>

text \<open>
  \<open>uart_ok\<close> keeps every access inside its array and the baud rate divisor away from zero.  It says
  no more of the number of waiting characters than that it is zero when the flag register shows an
  empty FIFO: in loopback mode nothing bounds the number, and after 2 to the 31 writes it is
  negative.  \<open>uart_wf\<close> says in addition that the receive FIFO is a bounded queue whose state the
  flag register shows.  \<open>irq_ok\<close> says that the interrupt lines show the enabled pending interrupts.
\<close>

definition uart_ok :: "NXP_UART_STATE \<Rightarrow> bool" where
  "uart_ok s \<longleftrightarrow>
     length (u_read_fifo s) = 16 \<and> 0 \<le> u_read_pos s \<and> u_read_pos s < nxp_uart_get_fifo_depth s \<and>
     u_read_trigger s = 1 \<and>
     u_ibrd s AND IBRD_MASK = u_ibrd s \<and> u_fbrd s AND FBRD_MASK = u_fbrd s \<and>
     (bit (u_flags s) 4 \<longrightarrow> u_read_count s = 0)"

definition uart_wf :: "NXP_UART_STATE \<Rightarrow> bool" where
  "uart_wf s \<longleftrightarrow> uart_ok s \<and> 0 \<le> u_read_count s \<and> u_read_count s \<le> nxp_uart_get_fifo_depth s \<and>
     (bit (u_flags s) 4 \<longleftrightarrow> u_read_count s = 0) \<and>
     (bit (u_flags s) 6 \<longleftrightarrow> u_read_count s = nxp_uart_get_fifo_depth s)"

definition irq_ok :: "NXP_UART_STATE \<Rightarrow> bool" where
  "irq_ok s \<longleftrightarrow> u_irq s = map (\<lambda>m. u_int_level s AND u_int_enabled s AND m \<noteq> 0) irqmask"

text \<open>The characters waiting to be read, the oldest first.\<close>

definition uart_queue :: "NXP_UART_STATE \<Rightarrow> u32 list" where
  "uart_queue s =
     map (\<lambda>k. u_read_fifo s ! nat ((u_read_pos s + int k) mod nxp_uart_get_fifo_depth s))
       [0..<nat (u_read_count s)]"

text \<open>The bytes and breaks the backend has been given.\<close>

definition uart_sent :: "NXP_UART_STATE \<Rightarrow> bytes" where
  "uart_sent s = concat (map (\<lambda>e. case e of ChrByte b \<Rightarrow> [b] | ChrBreak _ \<Rightarrow> []) (u_chr s))"

text \<open>
  A step of the port: an access to a register at any offset, input from the backend of at most the
  length the port has announced, or an event.
\<close>

inductive uart_step :: "NXP_UART_STATE \<Rightarrow> NXP_UART_STATE \<Rightarrow> bool" where
  rd_reg: "nxp_uart_read offset s = Some (v, s') \<Longrightarrow> uart_step s s'"
| wr_reg: "nxp_uart_write clk offset v s = Some s' \<Longrightarrow> uart_step s s'"
| input: "int (length buf) \<le> nxp_uart_can_receive s \<Longrightarrow> nxp_uart_receive buf s = Some s' \<Longrightarrow>
    uart_step s s'"
| event: "nxp_uart_event b s = Some s' \<Longrightarrow> uart_step s s'"

inductive uart_reachable :: "NXP_UART_STATE \<Rightarrow> bool" where
  reset: "uart_reachable (nxp_uart_reset nxp_uart_init)"
| step: "uart_reachable s \<Longrightarrow> uart_step s s' \<Longrightarrow> uart_reachable s'"

section \<open>Lemmas\<close>

lemma fifo_depth_cases: "nxp_uart_get_fifo_depth s = 16 \<or> nxp_uart_get_fifo_depth s = 1"
  by (simp add: nxp_uart_get_fifo_depth_def)

lemma fifo_depth_pos [simp]: "0 < nxp_uart_get_fifo_depth s" "nxp_uart_get_fifo_depth s \<le> 16"
  using fifo_depth_cases [of s] by auto

lemma and_depth [simp]:
  "x AND (nxp_uart_get_fifo_depth s - 1) = x mod nxp_uart_get_fifo_depth s"
proof -
  have "x AND 15 = x mod 16"
    using take_bit_eq_mask [of 4 x] by (simp add: take_bit_eq_mod mask_eq_exp_minus_1)
  then show ?thesis using fifo_depth_cases [of s] by auto
qed

lemma c_int_small: "- (2 ^ 31) \<le> k \<Longrightarrow> k < 2 ^ 31 \<Longrightarrow> c_int k = k"
  by (simp add: c_int_def int_word_sint)

lemma c_int_mod_depth [simp]: "c_int x mod nxp_uart_get_fifo_depth s = x mod nxp_uart_get_fifo_depth s"
proof -
  have "take_bit 4 (c_int x) = take_bit 4 x"
    by (simp add: c_int_def signed_of_int take_bit_signed_take_bit)
  then have "c_int x mod 16 = x mod 16" by (simp add: take_bit_eq_mod)
  then show ?thesis using fifo_depth_cases [of s] by auto
qed

lemma mod_depth:
  "0 \<le> x mod nxp_uart_get_fifo_depth s" "x mod nxp_uart_get_fifo_depth s < nxp_uart_get_fifo_depth s"
  "x mod nxp_uart_get_fifo_depth s < 16"
  using fifo_depth_cases [of s] by auto

lemma fifo_index_mod: "length (u_read_fifo s) = 16 \<Longrightarrow>
  fifo_index s (x mod nxp_uart_get_fifo_depth s) = Some (nat (x mod nxp_uart_get_fifo_depth s))"
  using mod_depth [of x s] by (simp add: fifo_index_def nat_less_iff)

lemma flag_bits:
  "(w :: u32) AND 0x10 \<noteq> 0 \<longleftrightarrow> bit w 4" "w AND 0x80 \<noteq> 0 \<longleftrightarrow> bit w 7"
  using and_exp_eq_0_iff_not_bit [of w 4] and_exp_eq_0_iff_not_bit [of w 7] by simp_all

text \<open>The depth depends on the line control register only, the loopback mode on the control register.\<close>

lemma fifo_depth_simps [simp]:
  "nxp_uart_get_fifo_depth (nxp_uart_update s) = nxp_uart_get_fifo_depth s"
  "nxp_uart_get_fifo_depth (s\<lparr>u_flags := f\<rparr>) = nxp_uart_get_fifo_depth s"
  "nxp_uart_get_fifo_depth (s\<lparr>u_int_level := f\<rparr>) = nxp_uart_get_fifo_depth s"
  "nxp_uart_get_fifo_depth (s\<lparr>u_read_fifo := x\<rparr>) = nxp_uart_get_fifo_depth s"
  "nxp_uart_get_fifo_depth (s\<lparr>u_read_count := n\<rparr>) = nxp_uart_get_fifo_depth s"
  "nxp_uart_get_fifo_depth (s\<lparr>u_read_pos := n\<rparr>) = nxp_uart_get_fifo_depth s"
  "nxp_uart_get_fifo_depth (s\<lparr>u_rsr := f\<rparr>) = nxp_uart_get_fifo_depth s"
  "nxp_uart_get_fifo_depth (s\<lparr>u_chr := c\<rparr>) = nxp_uart_get_fifo_depth s"
  by (simp_all add: nxp_uart_get_fifo_depth_def nxp_uart_is_fifo_enabled_def nxp_uart_update_def)

lemma update_simps [simp]:
  "u_read_fifo (nxp_uart_update s) = u_read_fifo s" "u_read_pos (nxp_uart_update s) = u_read_pos s"
  "u_read_count (nxp_uart_update s) = u_read_count s"
  "u_read_trigger (nxp_uart_update s) = u_read_trigger s"
  "u_flags (nxp_uart_update s) = u_flags s" "u_ibrd (nxp_uart_update s) = u_ibrd s"
  "u_fbrd (nxp_uart_update s) = u_fbrd s" "u_chr (nxp_uart_update s) = u_chr s"
  "u_cr (nxp_uart_update s) = u_cr s" "u_lcr (nxp_uart_update s) = u_lcr s"
  "u_int_level (nxp_uart_update s) = u_int_level s"
  "u_int_enabled (nxp_uart_update s) = u_int_enabled s"
  by (simp_all add: nxp_uart_update_def Let_def)

lemma irq_ok_update [simp]: "irq_ok (nxp_uart_update s)"
  by (simp add: irq_ok_def nxp_uart_update_def Let_def and.assoc)

lemma irq_ok_simps [simp]:
  "irq_ok (s\<lparr>u_flags := f\<rparr>) = irq_ok s" "irq_ok (s\<lparr>u_read_fifo := x\<rparr>) = irq_ok s"
  "irq_ok (s\<lparr>u_read_count := n\<rparr>) = irq_ok s" "irq_ok (s\<lparr>u_read_pos := n\<rparr>) = irq_ok s"
  "irq_ok (s\<lparr>u_read_trigger := n\<rparr>) = irq_ok s" "irq_ok (s\<lparr>u_rsr := f\<rparr>) = irq_ok s"
  "irq_ok (s\<lparr>u_chr := c\<rparr>) = irq_ok s" "irq_ok (s\<lparr>u_lcr := f\<rparr>) = irq_ok s"
  "irq_ok (s\<lparr>u_cr := f\<rparr>) = irq_ok s" "irq_ok (s\<lparr>u_ilpr := f\<rparr>) = irq_ok s"
  "irq_ok (s\<lparr>u_ibrd := f\<rparr>) = irq_ok s" "irq_ok (s\<lparr>u_fbrd := f\<rparr>) = irq_ok s"
  "irq_ok (s\<lparr>u_ifl := f\<rparr>) = irq_ok s" "irq_ok (s\<lparr>u_dmacr := f\<rparr>) = irq_ok s"
  by (simp_all add: irq_ok_def)

text \<open>What \<open>nxp_uart_fifo_rx_put\<close> does to the members.\<close>

lemma rx_put_returns: "uart_ok s \<Longrightarrow> \<exists>s'. nxp_uart_fifo_rx_put v s = Some s'"
  by (simp add: nxp_uart_fifo_rx_put_def Let_def fifo_index_mod uart_ok_def)

lemma rx_put_fields:
  assumes "nxp_uart_fifo_rx_put v s = Some s'" "uart_ok s"
  shows "u_read_fifo s' =
      (u_read_fifo s)[nat ((u_read_pos s + u_read_count s) mod nxp_uart_get_fifo_depth s) := v]"
    "u_read_count s' = c_int (u_read_count s + 1)" "u_read_pos s' = u_read_pos s" "u_read_trigger s' = 1"
    "u_ibrd s' = u_ibrd s" "u_fbrd s' = u_fbrd s" "u_lcr s' = u_lcr s" "u_cr s' = u_cr s"
    "u_chr s' = u_chr s" "\<not> bit (u_flags s') 4"
    "bit (u_flags s') 6 \<longleftrightarrow> c_int (u_read_count s + 1) = nxp_uart_get_fifo_depth s \<or> bit (u_flags s) 6"
    "irq_ok s \<Longrightarrow> irq_ok s'"
  using assms
  by (auto simp: nxp_uart_fifo_rx_put_def Let_def fifo_index_mod uart_ok_def bit_simps split: if_splits)

lemma read_rxdata_returns: "uart_ok s \<Longrightarrow> \<exists>c s'. nxp_uart_read_rxdata s = Some (c, s')"
  using fifo_depth_cases [of s]
  by (auto simp: nxp_uart_read_rxdata_def Let_def fifo_index_def uart_ok_def nat_less_iff)

lemma read_rxdata_fields:
  assumes "nxp_uart_read_rxdata s = Some (c, s')" "uart_ok s"
  shows "c = u_read_fifo s ! nat (u_read_pos s)" "u_read_fifo s' = u_read_fifo s"
    "u_read_count s' = (if 0 < u_read_count s then u_read_count s - 1 else u_read_count s)"
    "u_read_pos s' = (if 0 < u_read_count s then (u_read_pos s + 1) mod nxp_uart_get_fifo_depth s
       else u_read_pos s)"
    "u_read_trigger s' = 1" "u_ibrd s' = u_ibrd s" "u_fbrd s' = u_fbrd s" "u_lcr s' = u_lcr s"
    "u_cr s' = u_cr s" "u_chr s' = u_chr s"
    "bit (u_flags s') 4 \<longleftrightarrow> u_read_count s' = 0" "\<not> bit (u_flags s') 6" "irq_ok s'"
  using assms
  by (auto simp: nxp_uart_read_rxdata_def Let_def fifo_index_def uart_ok_def bit_simps
      split: if_splits)

section \<open>The receive FIFO is a queue\<close>

lemma uart_queue_cong:
  "u_read_fifo t = u_read_fifo s \<Longrightarrow> u_read_pos t = u_read_pos s \<Longrightarrow> u_read_count t = u_read_count s \<Longrightarrow>
   u_lcr t = u_lcr s \<Longrightarrow> uart_queue t = uart_queue s"
  by (simp add: uart_queue_def nxp_uart_get_fifo_depth_def nxp_uart_is_fifo_enabled_def)

lemma depth_cong: "u_lcr t = u_lcr s \<Longrightarrow> nxp_uart_get_fifo_depth t = nxp_uart_get_fifo_depth s"
  by (simp add: nxp_uart_get_fifo_depth_def nxp_uart_is_fifo_enabled_def)

lemma length_uart_queue [simp]: "length (uart_queue s) = nat (u_read_count s)"
  by (simp add: uart_queue_def)

lemma rx_put_ok:
  assumes "uart_ok s" "nxp_uart_fifo_rx_put v s = Some s'"
  shows "uart_ok s'"
  using assms(1) rx_put_fields [OF assms(2,1)] depth_cong [of s' s] by (simp add: uart_ok_def)

lemma read_rxdata_ok:
  assumes "uart_ok s" "nxp_uart_read_rxdata s = Some (c, s')"
  shows "uart_ok s'"
  using assms(1) read_rxdata_fields [OF assms(2,1)] depth_cong [of s' s] mod_depth [of "u_read_pos s + 1" s]
  by (simp add: uart_ok_def)

lemma rx_put_queue:
  assumes "uart_wf s" "u_read_count s < nxp_uart_get_fifo_depth s" "nxp_uart_fifo_rx_put v s = Some s'"
  shows "uart_wf s'" "uart_queue s' = uart_queue s @ [v]"
proof -
  let ?D = "nxp_uart_get_fifo_depth s" and ?n = "u_read_count s" and ?p = "u_read_pos s"
  have ok: "uart_ok s" using assms(1) by (simp add: uart_wf_def)
  note f = rx_put_fields [OF assms(3) ok] and d = depth_cong [of s' s]
  have n: "0 \<le> ?n" "length (u_read_fifo s) = 16" using assms(1) by (simp_all add: uart_wf_def uart_ok_def)
  have c: "c_int (?n + 1) = ?n + 1" using n(1) assms(2) fifo_depth_cases [of s] by (intro c_int_small) auto
  show "uart_wf s'" using assms(1,2) f [unfolded c] d rx_put_ok [OF ok assms(3)] by (auto simp: uart_wf_def)
  have neq: "nat ((?p + ?n) mod ?D) \<noteq> nat ((?p + int k) mod ?D)" if "k < nat ?n" for k
  proof
    assume "nat ((?p + ?n) mod ?D) = nat ((?p + int k) mod ?D)"
    then have "(?p + int k) mod ?D = (?p + ?n) mod ?D" using mod_depth [of _ s] by (simp add: eq_nat_nat_iff)
    then have "?D dvd ?n - int k" by (simp add: mod_eq_dvd_iff dvd_diff_commute)
    moreover have "0 < ?n - int k" using that n(1) by linarith
    ultimately show False using zdvd_imp_le [of ?D "?n - int k"] assms(2) by linarith
  qed
  have "nat (?n + 1) = Suc (nat ?n)" using n(1) by simp
  then show "uart_queue s' = uart_queue s @ [v]"
    using f [unfolded c] d n neq mod_depth(3) [of "?p + ?n" s] mod_depth(1) [of "?p + ?n" s]
    by (simp add: uart_queue_def nth_list_update nat_less_iff)
qed

lemma read_queue:
  assumes "uart_wf s" "nxp_uart_read_rxdata s = Some (c, s')"
  shows "uart_wf s'" "uart_queue s \<noteq> [] \<Longrightarrow> c = hd (uart_queue s)" "uart_queue s' = tl (uart_queue s)"
proof -
  let ?D = "nxp_uart_get_fifo_depth s" and ?n = "u_read_count s" and ?p = "u_read_pos s"
  have ok: "uart_ok s" using assms(1) by (simp add: uart_wf_def)
  note f = read_rxdata_fields [OF assms(2) ok] and d = depth_cong [of s' s]
  have n: "0 \<le> ?n" "?n \<le> ?D" "0 \<le> ?p" "?p < ?D"
    using assms(1) by (simp_all add: uart_wf_def uart_ok_def)
  show "uart_wf s'"
    using n f d read_rxdata_ok [OF ok assms(2)] fifo_depth_pos [of s] by (auto simp: uart_wf_def)
  have "uart_queue s \<noteq> [] \<longleftrightarrow> 0 < ?n" using n(1) by (auto simp: uart_queue_def)
  moreover have "[0..<nat ?n] = 0 # map Suc [0..<nat (?n - 1)]" if "0 < ?n"
    using that by (simp add: map_Suc_upt upt_conv_Cons nat_diff_distrib)
  ultimately show "uart_queue s \<noteq> [] \<Longrightarrow> c = hd (uart_queue s)" "uart_queue s' = tl (uart_queue s)"
    using f d n by (auto simp: uart_queue_def mod_add_right_eq ac_simps)
qed

section \<open>Every step keeps the invariant\<close>

lemma uart_ok_simps [simp]:
  "uart_ok (s\<lparr>u_int_level := f\<rparr>) = uart_ok s" "uart_ok (nxp_uart_update s) = uart_ok s"
  "uart_ok (s\<lparr>u_rsr := f\<rparr>) = uart_ok s" "uart_ok (s\<lparr>u_chr := c\<rparr>) = uart_ok s"
  "uart_ok (s\<lparr>u_cr := f\<rparr>) = uart_ok s" "uart_ok (s\<lparr>u_ilpr := f\<rparr>) = uart_ok s"
  "uart_ok (s\<lparr>u_ifl := f\<rparr>) = uart_ok s" "uart_ok (s\<lparr>u_dmacr := f\<rparr>) = uart_ok s"
  "uart_ok (s\<lparr>u_int_enabled := f\<rparr>) = uart_ok s"
  by (simp_all add: uart_ok_def nxp_uart_get_fifo_depth_def nxp_uart_is_fifo_enabled_def)

lemma loopback_tx_ok:
  assumes "uart_ok s"
  shows "\<exists>s'. nxp_uart_loopback_tx v s = Some s' \<and> uart_ok s' \<and> u_lcr s' = u_lcr s \<and> (irq_ok s \<longrightarrow> irq_ok s')"
  using rx_put_returns [OF assms, of v] rx_put_ok [OF assms] rx_put_fields [OF _ assms] assms
  by (auto simp: nxp_uart_loopback_tx_def)

lemma write_txdata_ok:
  "uart_ok s \<Longrightarrow> \<exists>s'. nxp_uart_write_txdata b s = Some s' \<and> uart_ok s' \<and> irq_ok s'"
  using loopback_tx_ok [of "s\<lparr>u_chr := u_chr s @ [ChrByte b]\<rparr>" "ucast b"]
  by (auto simp: nxp_uart_write_txdata_def)

lemma unat_mask_less: "unat ((w :: u32) AND mask n) < 2 ^ n"
  by (simp add: take_bit_eq_mask [symmetric] unsigned_take_bit_eq)

lemma baudrate_returns:
  assumes "u_ibrd s AND IBRD_MASK = u_ibrd s" "u_fbrd s AND FBRD_MASK = u_fbrd s"
  shows "nxp_uart_trace_baudrate_change clk s = Some s"
proof -
  have "push_bit 6 (u_ibrd s) + u_fbrd s \<noteq> 0" if nz: "u_ibrd s \<noteq> 0"
  proof -
    have i: "unat (u_ibrd s) < 2 ^ 16" "unat (u_fbrd s) < 2 ^ 6"
      using unat_mask_less [of "u_ibrd s" 16] unat_mask_less [of "u_fbrd s" 6] assms
      by (simp_all add: mask_eq_exp_minus_1)
    have "unat (push_bit 6 (u_ibrd s)) = unat (u_ibrd s) * 64"
      using i unfolding push_bit_eq_mult by (subst unat_mult_lem [THEN iffD1]) simp_all
    moreover have "0 < unat (u_ibrd s)" using nz by (simp add: unat_gt_0)
    ultimately have "unat (push_bit 6 (u_ibrd s) + u_fbrd s) = unat (u_ibrd s) * 64 + unat (u_fbrd s)"
      using i by (subst unat_add_lem [THEN iffD1]) simp_all
    with \<open>0 < unat (u_ibrd s)\<close> show ?thesis by (metis add_is_0 mult_is_0 not_less_zero unat_0 zero_neq_numeral)
  qed
  then show ?thesis by (simp add: nxp_uart_trace_baudrate_change_def nxp_uart_get_baudrate_def Let_def)
qed

lemma loopback_break_ok:
  assumes "uart_ok s"
  shows "\<exists>s'. nxp_uart_loopback_break b s = Some s' \<and> uart_ok s' \<and> u_read_pos s' = u_read_pos s \<and>
    u_lcr s' = u_lcr s \<and> (irq_ok s \<longrightarrow> irq_ok s')"
  using rx_put_returns [OF assms, of DR_BE] rx_put_ok [OF assms] rx_put_fields [OF _ assms] assms
  by (auto simp: nxp_uart_loopback_break_def nxp_uart_loopback_tx_def)

lemma fen_unchanged:
  "(ucast (l :: u32) XOR (v :: u64)) AND LCR_FEN = 0 \<Longrightarrow> ucast v AND (0x10 :: u32) \<noteq> 0 \<longleftrightarrow> l AND 0x10 \<noteq> 0"
  using and_exp_eq_0_iff_not_bit [of "ucast l XOR v" 4] unfolding flag_bits
  by (simp add: bit_xor_iff bit_ucast_iff)

lemma write_lcr_ok:
  assumes "uart_ok s"
  shows "\<exists>s'. write_lcr v s = Some s' \<and> uart_ok s' \<and> (irq_ok s \<longrightarrow> irq_ok s')"
proof -
  let ?fen = "(ucast (u_lcr s) XOR v) AND LCR_FEN \<noteq> 0"
  define s1 where "s1 = (if ?fen then nxp_uart_reset_tx_fifo (nxp_uart_reset_rx_fifo s) else s)"
  have s1: "uart_ok s1" "u_lcr s1 = u_lcr s" "irq_ok s \<longrightarrow> irq_ok s1"
    using assms by (auto simp: s1_def nxp_uart_reset_rx_fifo_def nxp_uart_reset_tx_fifo_def uart_ok_def bit_simps
        nxp_uart_get_fifo_depth_def nxp_uart_is_fifo_enabled_def)
  have pos: "u_read_pos s1 = 0" if ?fen
    using that by (simp add: s1_def nxp_uart_reset_rx_fifo_def nxp_uart_reset_tx_fifo_def)
  have brk: "\<exists>s2. (if (ucast (u_lcr s1) XOR v) AND LCR_BRK \<noteq> 0
      then nxp_uart_loopback_break b (s1\<lparr>u_chr := u_chr s1 @ [ChrBreak b]\<rparr>) else Some s1) = Some s2 \<and>
      uart_ok s2 \<and> u_read_pos s2 = u_read_pos s1 \<and> u_lcr s2 = u_lcr s \<and> (irq_ok s \<longrightarrow> irq_ok s2)" for b
    using loopback_break_ok [of "s1\<lparr>u_chr := u_chr s1 @ [ChrBreak b]\<rparr>" b] s1 by auto
  obtain s2 where s2: "write_lcr v s = Some (nxp_uart_set_read_trigger (s2\<lparr>u_lcr := ucast v\<rparr>))"
      "uart_ok s2" "u_read_pos s2 = u_read_pos s1" "u_lcr s2 = u_lcr s" "irq_ok s \<longrightarrow> irq_ok s2"
    using brk [of "v AND LCR_BRK \<noteq> 0"] unfolding write_lcr_def Let_def s1_def [symmetric]
    by (elim exE conjE) simp
  have "u_read_pos s2 < nxp_uart_get_fifo_depth (s2\<lparr>u_lcr := ucast v\<rparr>)"
  proof (cases ?fen)
    case True
    with s2(3) pos show ?thesis by simp
  next
    case False
    then have "nxp_uart_get_fifo_depth (s2\<lparr>u_lcr := ucast v\<rparr>) = nxp_uart_get_fifo_depth s2"
      using fen_unchanged [of "u_lcr s" v] s2(4)
      by (simp add: nxp_uart_get_fifo_depth_def nxp_uart_is_fifo_enabled_def)
    with s2(2) show ?thesis by (simp add: uart_ok_def)
  qed
  then have "uart_ok (nxp_uart_set_read_trigger (s2\<lparr>u_lcr := ucast v\<rparr>))"
    using s2(2) by (simp add: uart_ok_def nxp_uart_set_read_trigger_def nxp_uart_get_fifo_depth_def
        nxp_uart_is_fifo_enabled_def)
  with s2 show ?thesis by (simp add: nxp_uart_set_read_trigger_def)
qed

lemma bit_if_0: "bit (if b then (w :: u32) else 0) n \<longleftrightarrow> b \<and> bit w n"
  by simp

lemma mdmctrl_fields:
  "u_lcr (nxp_uart_loopback_mdmctrl s) = u_lcr s" "u_cr (nxp_uart_loopback_mdmctrl s) = u_cr s"
  "u_read_fifo (nxp_uart_loopback_mdmctrl s) = u_read_fifo s"
  "u_read_pos (nxp_uart_loopback_mdmctrl s) = u_read_pos s"
  "u_read_count (nxp_uart_loopback_mdmctrl s) = u_read_count s"
  "u_read_trigger (nxp_uart_loopback_mdmctrl s) = u_read_trigger s"
  "u_ibrd (nxp_uart_loopback_mdmctrl s) = u_ibrd s" "u_fbrd (nxp_uart_loopback_mdmctrl s) = u_fbrd s"
  "bit (u_flags (nxp_uart_loopback_mdmctrl s)) 4 = bit (u_flags s) 4"
  "bit (u_flags (nxp_uart_loopback_mdmctrl s)) 6 = bit (u_flags s) 6"
  by (cases "nxp_uart_loopback_enabled s";
      simp add: nxp_uart_loopback_mdmctrl_def Let_def bit_or_iff bit_and_iff bit_if_0 split del: if_split)+

lemma mdmctrl_ok: "uart_ok s \<Longrightarrow> uart_ok (nxp_uart_loopback_mdmctrl s)"
  using depth_cong [OF mdmctrl_fields(1), of s] by (simp add: uart_ok_def mdmctrl_fields)

lemma mdmctrl_irq: "irq_ok s \<Longrightarrow> irq_ok (nxp_uart_loopback_mdmctrl s)"
  by (simp add: nxp_uart_loopback_mdmctrl_def Let_def)

lemma uart_write_ok:
  assumes "uart_ok s"
  shows "\<exists>s'. nxp_uart_write clk offset v s = Some s' \<and> uart_ok s' \<and> (irq_ok s \<longrightarrow> irq_ok s')"
proof -
  have b: "u_ibrd s AND IBRD_MASK = u_ibrd s" "u_fbrd s AND FBRD_MASK = u_fbrd s"
    using assms by (simp_all add: uart_ok_def)
  have i: "uart_ok (s\<lparr>u_ibrd := ucast v AND IBRD_MASK\<rparr>)" "uart_ok (s\<lparr>u_fbrd := ucast v AND FBRD_MASK\<rparr>)"
    using assms by (simp_all add: uart_ok_def nxp_uart_get_fifo_depth_def nxp_uart_is_fifo_enabled_def and.assoc)
  have t: "uart_ok (nxp_uart_set_read_trigger (s\<lparr>u_ifl := ucast v\<rparr>))"
    using assms by (simp add: uart_ok_def nxp_uart_set_read_trigger_def nxp_uart_get_fifo_depth_def
        nxp_uart_is_fifo_enabled_def)
  show ?thesis
    unfolding nxp_uart_write_def Let_def
    using write_txdata_ok [OF assms, of "ucast v"] write_lcr_ok [OF assms] mdmctrl_ok [of "s\<lparr>u_cr := ucast v\<rparr>"]
      mdmctrl_irq [of "s\<lparr>u_cr := ucast v\<rparr>"] assms i t
      baudrate_returns [of "s\<lparr>u_ibrd := ucast v AND IBRD_MASK\<rparr>"]
      baudrate_returns [of "s\<lparr>u_fbrd := ucast v AND FBRD_MASK\<rparr>"] b
    by (auto simp: and.assoc nxp_uart_set_read_trigger_def)
qed

text \<open>Only the register number 0x400, behind the identification registers, leaves its array.\<close>

lemma id_index:
  assumes "0x3F8 \<le> drop_bit 2 (offset :: u64)" "drop_bit 2 offset \<le> 0x400"
  shows "unat (drop_bit 2 (offset - 0xFE0)) < length nxp_uart_id_arm \<longleftrightarrow> drop_bit 2 offset \<noteq> 0x400"
proof -
  have o: "0x3F8 \<le> unat offset div 4" "unat offset div 4 \<le> 0x400"
    using assms by (simp_all add: word_le_nat_alt drop_bit_eq_div unat_div)
  then have "unat (offset - 0xFE0) = unat offset - 0xFE0"
    by (subst unat_sub) (simp_all add: word_le_nat_alt)
  moreover have "drop_bit 2 offset = 0x400 \<longleftrightarrow> unat offset div 4 = 0x400"
    by (simp add: word_unat_eq_iff drop_bit_eq_div unat_div)
  ultimately show ?thesis
    using o by (auto simp: drop_bit_eq_div unat_div nxp_uart_id_arm_def)
qed

lemma uart_read_ok:
  assumes "uart_ok s"
  shows "drop_bit 2 offset = 0x400 \<Longrightarrow> nxp_uart_read offset s = None"
    "drop_bit 2 offset \<noteq> 0x400 \<Longrightarrow>
      \<exists>v s'. nxp_uart_read offset s = Some (v, s') \<and> uart_ok s' \<and> (irq_ok s \<longrightarrow> irq_ok s')"
proof -
  obtain c s' where "nxp_uart_read_rxdata s = Some (c, s')" using read_rxdata_returns [OF assms(1)] by blast
  moreover from this have "uart_ok s'" "irq_ok s'"
    using read_rxdata_ok [OF assms(1)] read_rxdata_fields(13) [OF _ assms(1)] by blast+
  ultimately show "drop_bit 2 offset \<noteq> 0x400 \<Longrightarrow>
      \<exists>v s'. nxp_uart_read offset s = Some (v, s') \<and> uart_ok s' \<and> (irq_ok s \<longrightarrow> irq_ok s')"
    using id_index [of offset] assms(1) by (simp add: nxp_uart_read_def Let_def)
  show "drop_bit 2 offset = 0x400 \<Longrightarrow> nxp_uart_read offset s = None"
    using id_index [of offset] by (simp add: nxp_uart_read_def Let_def)
qed

lemma rx_put_all_ok:
  "uart_ok s \<Longrightarrow> \<exists>s'. rx_put_all buf s = Some s' \<and> uart_ok s' \<and> (irq_ok s \<longrightarrow> irq_ok s')"
proof (induction buf arbitrary: s)
  case (Cons b buf)
  obtain s1 where s1: "nxp_uart_fifo_rx_put (ucast b) s = Some s1"
    using rx_put_returns [OF Cons.prems] by blast
  from Cons.IH [OF rx_put_ok [OF Cons.prems s1]] rx_put_fields(12) [OF s1 Cons.prems] s1
  show ?case by auto
qed simp

lemma uart_receive_ok:
  "uart_ok s \<Longrightarrow> \<exists>s'. nxp_uart_receive buf s = Some s' \<and> uart_ok s' \<and> (irq_ok s \<longrightarrow> irq_ok s')"
  using rx_put_all_ok by (simp add: nxp_uart_receive_def)

lemma uart_event_ok:
  "uart_ok s \<Longrightarrow> \<exists>s'. nxp_uart_event b s = Some s' \<and> uart_ok s' \<and> (irq_ok s \<longrightarrow> irq_ok s')"
  using rx_put_returns [of s DR_BE] rx_put_ok [of s DR_BE] rx_put_fields(12) [of DR_BE s]
  by (auto simp: nxp_uart_event_def)

lemma uart_reset_wf:
  "length (u_read_fifo s) = 16 \<Longrightarrow> uart_wf (nxp_uart_reset s) \<and> uart_queue (nxp_uart_reset s) = []"
  by (simp add: uart_wf_def uart_ok_def uart_queue_def nxp_uart_reset_def nxp_uart_reset_rx_fifo_def
      nxp_uart_reset_tx_fifo_def nxp_uart_get_fifo_depth_def nxp_uart_is_fifo_enabled_def bit_simps)

lemma uart_reset_irq: "irq_ok (nxp_uart_reset nxp_uart_init)"
  by (simp add: irq_ok_def nxp_uart_reset_def nxp_uart_reset_rx_fifo_def nxp_uart_reset_tx_fifo_def
      nxp_uart_init_def irqmask_def numeral_eq_Suc)

text \<open>A reset clears the pending and the enabled interrupts without \<open>nxp_uart_update\<close>.\<close>

lemma uart_reset_lines:
  "u_irq (nxp_uart_reset s) = u_irq s" "u_int_level (nxp_uart_reset s) = 0" "u_int_enabled (nxp_uart_reset s) = 0"
  by (simp_all add: nxp_uart_reset_def nxp_uart_reset_rx_fifo_def nxp_uart_reset_tx_fifo_def)

lemma uart_step_ok:
  assumes "uart_step s s'" "uart_ok s" "irq_ok s"
  shows "uart_ok s' \<and> irq_ok s'"
  using assms(1)
proof cases
  case (rd_reg offset v)
  with uart_read_ok [OF assms(2), of offset] assms(3) show ?thesis
    by (cases "drop_bit 2 offset = 0x400") auto
next
  case (wr_reg clk offset v)
  with uart_write_ok [OF assms(2), of clk offset v] assms(3) show ?thesis by auto
next
  case (input buf)
  with uart_receive_ok [OF assms(2), of buf] assms(3) show ?thesis by auto
next
  case (event b)
  with uart_event_ok [OF assms(2), of b] assms(3) show ?thesis by auto
qed

lemma uart_reachable_ok: "uart_reachable s \<Longrightarrow> uart_ok s \<and> irq_ok s"
proof (induction rule: uart_reachable.induct)
  case reset
  show ?case using uart_reset_wf [of nxp_uart_init] uart_reset_irq
    by (simp add: uart_wf_def nxp_uart_init_def)
qed (use uart_step_ok in blast)

text \<open>A receive of no more bytes than announced appends them to the queue.\<close>

lemmas sint_of_int_small = c_int_small [unfolded c_int_def]

lemma can_receive_wf: "uart_wf s \<Longrightarrow> nxp_uart_can_receive s = nxp_uart_get_fifo_depth s - u_read_count s"
proof -
  assume "uart_wf s"
  then have "0 \<le> nxp_uart_get_fifo_depth s - u_read_count s"
      "nxp_uart_get_fifo_depth s - u_read_count s \<le> 16"
    using fifo_depth_cases [of s] by (auto simp: uart_wf_def uart_ok_def)
  then show ?thesis
    unfolding nxp_uart_can_receive_def of_int_diff [symmetric]
    by (intro sint_of_int_small) simp_all
qed

lemma rx_put_all_queue:
  "uart_wf s \<Longrightarrow> int (length buf) \<le> nxp_uart_get_fifo_depth s - u_read_count s \<Longrightarrow>
   \<exists>s'. rx_put_all buf s = Some s' \<and> uart_wf s' \<and> uart_queue s' = uart_queue s @ map ucast buf \<and>
     u_cr s' = u_cr s \<and> u_chr s' = u_chr s \<and> u_lcr s' = u_lcr s"
proof (induction buf arbitrary: s)
  case (Cons b buf)
  have ok: "uart_ok s" using Cons.prems(1) by (simp add: uart_wf_def)
  obtain s1 where s1: "nxp_uart_fifo_rx_put (ucast b) s = Some s1" using rx_put_returns [OF ok] by blast
  note f = rx_put_fields [OF s1 ok]
  have "u_read_count s < nxp_uart_get_fifo_depth s" using Cons.prems(2) by simp
  note q = rx_put_queue [OF Cons.prems(1) this s1]
  have "int (length buf) \<le> nxp_uart_get_fifo_depth s1 - u_read_count s1"
    using Cons.prems f depth_cong [OF f(7)] fifo_depth_pos [of s] c_int_small [of "u_read_count s + 1"]
    by (simp add: uart_wf_def)
  from Cons.IH [OF q(1) this] s1 q(2) f show ?case by auto
qed simp

section \<open>The contract of a serial port\<close>

text \<open>
  What a driver relies on: a byte written to the data register is sent, the flag register says
  whether a character is waiting and that there is room to send, and the data register delivers the
  characters in the order of their arrival.  \<open>rest\<close> is what the accesses leave alone, in a machine
  the port is part of; for the port by itself it is the empty tuple.
\<close>

locale serial_port =
  fixes wr :: "u64 \<Rightarrow> u64 \<Rightarrow> 's \<Rightarrow> 's option"
    and rdr :: "u64 \<Rightarrow> 's \<Rightarrow> (u64 \<times> 's) option"
    and inv :: "'s \<Rightarrow> bool"
    and waiting :: "'s \<Rightarrow> u32 list"
    and sent :: "'s \<Rightarrow> bytes"
    and rest :: "'s \<Rightarrow> 'r"
  assumes send: "inv s \<Longrightarrow> \<exists>s'. wr 0x00 v s = Some s' \<and> inv s' \<and> sent s' = sent s @ [ucast v] \<and>
      waiting s' = waiting s \<and> rest s' = rest s"
    and flag_reg: "inv s \<Longrightarrow>
      \<exists>v. rdr 0x18 s = Some (v, s) \<and> (bit v 4 \<longleftrightarrow> waiting s = []) \<and> \<not> bit v 5"
    and fetch: "inv s \<Longrightarrow> waiting s = c # q \<Longrightarrow>
      \<exists>s'. rdr 0x00 s = Some (ucast c, s') \<and> inv s' \<and> sent s' = sent s \<and> waiting s' = q \<and>
        rest s' = rest s"
    and no_reg: "inv s \<Longrightarrow> wr 0x08 v s = Some s" "inv s \<Longrightarrow> wr 0x10 v s = Some s"

text \<open>The port outside loopback mode, with a transmitter that is never full.\<close>

definition serial_ok :: "NXP_UART_STATE \<Rightarrow> bool" where
  "serial_ok s \<longleftrightarrow> uart_wf s \<and> \<not> nxp_uart_loopback_enabled s \<and> \<not> bit (u_flags s) 5"

lemma uart_wf_simps [simp]:
  "uart_wf (s\<lparr>u_int_level := f\<rparr>) = uart_wf s" "uart_wf (nxp_uart_update s) = uart_wf s"
  "uart_wf (s\<lparr>u_chr := c\<rparr>) = uart_wf s"
  by (simp_all add: uart_wf_def)

lemma loopback_simps [simp]:
  "nxp_uart_loopback_enabled (s\<lparr>u_int_level := f\<rparr>) = nxp_uart_loopback_enabled s"
  "nxp_uart_loopback_enabled (nxp_uart_update s) = nxp_uart_loopback_enabled s"
  "nxp_uart_loopback_enabled (s\<lparr>u_chr := c\<rparr>) = nxp_uart_loopback_enabled s"
  by (simp_all add: nxp_uart_loopback_enabled_def)

lemma read_rxdata_txff:
  "nxp_uart_read_rxdata s = Some (c, s') \<Longrightarrow> bit (u_flags s') 5 = bit (u_flags s) 5"
  by (auto simp: nxp_uart_read_rxdata_def Let_def bit_simps split: option.splits if_splits)

lemma rx_put_txff:
  "nxp_uart_fifo_rx_put v s = Some s' \<Longrightarrow> bit (u_flags s') 5 = bit (u_flags s) 5"
  by (auto simp: nxp_uart_fifo_rx_put_def Let_def bit_simps split: option.splits if_splits)

lemma rx_put_all_txff: "rx_put_all buf s = Some s' \<Longrightarrow> bit (u_flags s') 5 = bit (u_flags s) 5"
  by (induction buf s rule: rx_put_all.induct) (auto split: option.splits dest: rx_put_txff)

lemma uart_queue_empty: "uart_wf s \<Longrightarrow> uart_queue s = [] \<longleftrightarrow> u_read_count s = 0"
  by (auto simp: uart_queue_def uart_wf_def)

interpretation serial: serial_port "nxp_uart_write clk" nxp_uart_read serial_ok uart_queue uart_sent
    "\<lambda>_. ()" for clk
proof
  fix s :: NXP_UART_STATE and v :: u64 and c q
  assume s: "serial_ok s"
  let ?s = "nxp_uart_update (s\<lparr>u_chr := u_chr s @ [ChrByte (ucast v)],
    u_int_level := u_int_level s OR INT_TX\<rparr>)"
  have "nxp_uart_write clk 0x00 v s = Some ?s"
    using s by (simp add: nxp_uart_write_def nxp_uart_write_txdata_def nxp_uart_loopback_tx_def serial_ok_def)
  moreover have "serial_ok ?s" using s by (simp add: serial_ok_def)
  moreover have "uart_sent ?s = uart_sent s @ [ucast v]" by (simp add: uart_sent_def)
  moreover have "uart_queue ?s = uart_queue s" by (rule uart_queue_cong) simp_all
  ultimately show "\<exists>s'. nxp_uart_write clk 0x00 v s = Some s' \<and> serial_ok s' \<and>
      uart_sent s' = uart_sent s @ [ucast v] \<and> uart_queue s' = uart_queue s \<and> () = ()"
    by blast
  have ok: "uart_wf s" "uart_ok s" using s by (simp_all add: serial_ok_def uart_wf_def)
  have "bit (u_flags s) 4 \<longleftrightarrow> uart_queue s = []" "\<not> bit (u_flags s) 5"
    using s uart_queue_empty [OF ok(1)] ok(1) by (simp_all add: serial_ok_def uart_wf_def)
  then show "\<exists>v. nxp_uart_read 0x18 s = Some (v, s) \<and> (bit v 4 \<longleftrightarrow> uart_queue s = []) \<and> \<not> bit v 5"
    by (simp add: nxp_uart_read_def bit_ucast_iff)
  show "nxp_uart_write clk 0x08 v s = Some s" "nxp_uart_write clk 0x10 v s = Some s"
    by (simp_all add: nxp_uart_write_def)
  assume q: "uart_queue s = c # q"
  obtain c' s' where r: "nxp_uart_read_rxdata s = Some (c', s')" using read_rxdata_returns [OF ok(2)] by blast
  note f = read_rxdata_fields [OF r ok(2)] and g = read_queue [OF ok(1) r]
  have "serial_ok s'" using s f(9) g(1) read_rxdata_txff [OF r]
    by (simp add: serial_ok_def nxp_uart_loopback_enabled_def)
  then show "\<exists>s'. nxp_uart_read 0x00 s = Some (ucast c, s') \<and> serial_ok s' \<and> uart_sent s' = uart_sent s \<and>
      uart_queue s' = q \<and> () = ()"
    using r g(2,3) q f(10) by (simp add: nxp_uart_read_def uart_sent_def)
qed

text \<open>A reset port, and one whose FIFO has been enabled and filled.\<close>

lemma serial_reset:
  "serial_ok (nxp_uart_reset nxp_uart_init)" "uart_queue (nxp_uart_reset nxp_uart_init) = []"
  "u_read_count (nxp_uart_reset nxp_uart_init) = 0"
  "nxp_uart_get_fifo_depth (nxp_uart_reset nxp_uart_init) = 1"
  using uart_reset_wf [of nxp_uart_init]
  by (simp_all add: serial_ok_def nxp_uart_init_def nxp_uart_loopback_enabled_def nxp_uart_reset_def
      nxp_uart_reset_rx_fifo_def nxp_uart_reset_tx_fifo_def nxp_uart_get_fifo_depth_def
      nxp_uart_is_fifo_enabled_def bit_simps)

lemma serial_full:
  "\<exists>s. serial_ok s \<and> nxp_uart_is_fifo_enabled s \<and> length (uart_queue s) = 16"
proof -
  let ?r = "(nxp_uart_reset nxp_uart_init)\<lparr>u_lcr := 0x10\<rparr>"
  have d: "nxp_uart_get_fifo_depth ?r = 16" "u_read_count ?r = 0"
    using serial_reset(3) by (simp_all add: nxp_uart_get_fifo_depth_def nxp_uart_is_fifo_enabled_def)
  have f: "\<not> bit (u_flags ?r) 6" "u_read_pos ?r = 0"
    by (simp_all add: nxp_uart_reset_def nxp_uart_reset_rx_fifo_def nxp_uart_reset_tx_fifo_def bit_simps)
  have w: "uart_wf ?r" using serial_reset(1,4) d f by (simp add: serial_ok_def uart_wf_def uart_ok_def)
  from rx_put_all_queue [OF this, of "replicate 16 0x41"] d obtain s where
    s: "rx_put_all (replicate 16 0x41) ?r = Some s" "uart_wf s" "uart_queue s = uart_queue ?r @ replicate 16 0x41"
      "u_cr s = u_cr ?r" "u_lcr s = 0x10" by auto
  have "serial_ok s"
    using s(2,4) rx_put_all_txff [OF s(1)] serial_reset(1) by (simp add: serial_ok_def nxp_uart_loopback_enabled_def)
  moreover have "uart_queue ?r = []" using d(2) by (simp add: uart_queue_def)
  ultimately show ?thesis using s(3,5) by (intro exI [of _ s]) (simp add: nxp_uart_is_fifo_enabled_def)
qed

section \<open>Properties\<close>

text \<open>
  C14.  The serial port stays in order.  In every state that register accesses, input and break events
  can reach after reset, the six interrupt lines show exactly the enabled pending interrupts, no
  register write, input or event leaves an array or divides by zero, and a register read leaves an
  array exactly for the register number 0x400, where the last case label of the identification
  registers is one too large.  A reset of the running port empties its FIFO but leaves its lines as
  they are, although no interrupt is pending or enabled after it: the first part speaks of the
  states before the next reset.
\<close>

theorem uart_in_order:
  assumes "uart_reachable s"
  shows "u_irq s = map (\<lambda>m. u_int_level s AND u_int_enabled s AND m \<noteq> 0) irqmask \<and>
    (\<forall>offset. nxp_uart_read offset s = None \<longleftrightarrow> drop_bit 2 offset = 0x400) \<and>
    (\<forall>clk offset v. nxp_uart_write clk offset v s \<noteq> None) \<and>
    (\<forall>buf. nxp_uart_receive buf s \<noteq> None) \<and> (\<forall>b. nxp_uart_event b s \<noteq> None) \<and>
    uart_wf (nxp_uart_reset s) \<and> u_irq (nxp_uart_reset s) = u_irq s"
proof -
  have s: "uart_ok s" "irq_ok s" using uart_reachable_ok [OF assms] by simp_all
  have r: "uart_wf (nxp_uart_reset s)" "u_irq (nxp_uart_reset s) = u_irq s"
    using uart_reset_wf [of s] s(1) by (simp_all add: uart_ok_def uart_reset_lines)
  have "nxp_uart_read offset s = None \<longleftrightarrow> drop_bit 2 offset = 0x400" for offset
    using uart_read_ok [OF s(1), of offset] by (metis option.distinct(1))
  then show ?thesis
    using s(2) uart_write_ok [OF s(1)] uart_receive_ok [OF s(1)] uart_event_ok [OF s(1)] r
    unfolding irq_ok_def by (metis option.distinct(1))
qed

theorem uart_in_order_witness:
  "\<exists>s. uart_reachable s \<and> nxp_uart_read 0xFE0 s \<noteq> None \<and> nxp_uart_read 0x1000 s = None"
proof -
  have "drop_bit 2 (0xFE0 :: u64) \<noteq> 0x400" "drop_bit 2 (0x1000 :: u64) = 0x400"
    by (simp_all add: drop_bit_eq_div)
  with uart_in_order [OF uart_reachable.reset] uart_reachable.reset show ?thesis by blast
qed

text \<open>
  C15.  The receiver is a bounded queue.  Outside loopback mode, input of at most the announced length
  is appended in order; a read of the data register takes the oldest character; the flag register
  shows an empty and a full queue; a byte written is sent and does not disturb the queue.
\<close>

theorem uart_refines_queue:
  assumes "serial_ok s" "int (length buf) \<le> nxp_uart_can_receive s"
  shows "(\<exists>s'. nxp_uart_receive buf s = Some s' \<and> serial_ok s' \<and>
      uart_queue s' = uart_queue s @ map ucast buf \<and> uart_sent s' = uart_sent s) \<and>
    (\<forall>c q. uart_queue s = c # q \<longrightarrow> (\<exists>s'. nxp_uart_read 0 s = Some (ucast c, s') \<and> serial_ok s' \<and>
      uart_queue s' = q \<and> uart_sent s' = uart_sent s)) \<and>
    (\<exists>v. nxp_uart_read 0x18 s = Some (v, s) \<and> (bit v 4 \<longleftrightarrow> uart_queue s = []) \<and>
      (bit v 6 \<longleftrightarrow> int (length (uart_queue s)) = nxp_uart_get_fifo_depth s)) \<and>
    (\<exists>s'. nxp_uart_write clk 0 v s = Some s' \<and> serial_ok s' \<and> uart_queue s' = uart_queue s \<and>
      uart_sent s' = uart_sent s @ [ucast v])"
proof (intro conjI allI impI)
  have wf: "uart_wf s" "uart_ok s" using assms(1) by (simp_all add: serial_ok_def uart_wf_def)
  from rx_put_all_queue [OF wf(1), of buf] assms(2) can_receive_wf [OF wf(1)] obtain s' where
    r: "rx_put_all buf s = Some s'" "uart_wf s'" "uart_queue s' = uart_queue s @ map ucast buf"
      "u_cr s' = u_cr s" "u_chr s' = u_chr s" by auto
  have "bit (u_flags s') 5 = bit (u_flags s) 5" using r(1) rx_put_all_txff by blast
  with r assms(1) show "\<exists>s'. nxp_uart_receive buf s = Some s' \<and> serial_ok s' \<and>
      uart_queue s' = uart_queue s @ map ucast buf \<and> uart_sent s' = uart_sent s"
    by (simp add: nxp_uart_receive_def serial_ok_def nxp_uart_loopback_enabled_def uart_sent_def)
  have "bit (u_flags s) 6 \<longleftrightarrow> int (length (uart_queue s)) = nxp_uart_get_fifo_depth s"
    using wf by (auto simp: uart_wf_def uart_ok_def)
  with serial.flag_reg [OF assms(1)] show "\<exists>v. nxp_uart_read 0x18 s = Some (v, s) \<and>
      (bit v 4 \<longleftrightarrow> uart_queue s = []) \<and> (bit v 6 \<longleftrightarrow> int (length (uart_queue s)) = nxp_uart_get_fifo_depth s)"
    by (auto simp: nxp_uart_read_def bit_ucast_iff)
qed (use serial.fetch [OF assms(1)] serial.send [OF assms(1)] in blast)+

theorem uart_refines_queue_witness:
  "\<exists>s s'. nxp_uart_receive [0x41] s = Some s' \<and> uart_queue s = [] \<and> uart_queue s' = [0x41]"
proof -
  have "int (length [0x41 :: u8]) \<le> nxp_uart_can_receive (nxp_uart_reset nxp_uart_init)"
    using serial_reset can_receive_wf by (simp add: serial_ok_def)
  with uart_refines_queue [OF serial_reset(1), of "[0x41]"] serial_reset(2)
  have "\<exists>s'. nxp_uart_receive [0x41] (nxp_uart_reset nxp_uart_init) = Some s' \<and> uart_queue s' = [0x41]"
    by auto
  with serial_reset(2) show ?thesis by blast
qed

text \<open>
  C33.  A break that arrives while the FIFO is full is stored over the oldest character: the next read
  delivers the break in its place, although 16 characters were waiting, and the space the port
  announces becomes negative.
\<close>

theorem uart_break_overruns:
  assumes "serial_ok s" "nxp_uart_is_fifo_enabled s" "length (uart_queue s) = 16"
  shows "\<exists>s'. nxp_uart_event True s = Some s' \<and> nxp_uart_can_receive s' = -1 \<and>
    (\<exists>s''. nxp_uart_read 0 s' = Some (0x400, s''))"
proof -
  have ok: "uart_ok s" "\<not> nxp_uart_loopback_enabled s" using assms(1) by (simp_all add: serial_ok_def uart_wf_def)
  obtain s' where s': "nxp_uart_fifo_rx_put DR_BE s = Some s'" using rx_put_returns [OF ok(1)] by blast
  note f = rx_put_fields [OF s' ok(1)]
  have d: "nxp_uart_get_fifo_depth s = 16" "nxp_uart_get_fifo_depth s' = 16"
    using assms(2) depth_cong [OF f(7)] by (simp_all add: nxp_uart_get_fifo_depth_def)
  have c: "u_read_count s = 16" "0 \<le> u_read_pos s" "u_read_pos s < 16" "length (u_read_fifo s) = 16"
    using assms(1,3) ok(1) d by (auto simp: uart_ok_def serial_ok_def uart_wf_def)
  have "nxp_uart_can_receive s' = -1"
    using f(2) c d sint_of_int_small [of "-1"] c_int_small [of 17] by (simp add: nxp_uart_can_receive_def)
  moreover have "u_read_fifo s' ! nat (u_read_pos s') = DR_BE"
    using f(1,3) c d by (simp add: nat_less_iff mod_pos_pos_trivial)
  ultimately show ?thesis
    using s' ok(2) read_rxdata_returns [OF rx_put_ok [OF ok(1) s']]
      read_rxdata_fields(1) [OF _ rx_put_ok [OF ok(1) s']]
    by (auto simp: nxp_uart_event_def nxp_uart_read_def)
qed

theorem uart_break_overruns_witness:
  "\<exists>s s'. length (uart_queue s) = 16 \<and> nxp_uart_event True s = Some s' \<and> nxp_uart_can_receive s' = -1"
  using uart_break_overruns serial_full by blast

end
