(* ===== verification/TPM_Link.thy ===== *)
theory TPM_Link
  imports TPM_Prelude
begin

text \<open>
  The contract between the register interface of the TPM and its driver: what a driver may rely
  on when it moves a command into the device and a response out of it, word by word.  The abstract
  state of the interface is the byte sequence in transit.  \<open>TPM_Device\<close> interprets the contract on
  \<open>tpm2_mmio_write\<close> and \<open>tpm2_mmio_read\<close>; \<open>FW_Driver\<close> is the client.
\<close>

datatype link = Idle | Receiving bytes | Sending bytes

text \<open>The value of the status register in each state.\<close>

primrec link_status :: "link \<Rightarrow> u64" where
  "link_status Idle = 0"
| "link_status (Receiving bs) = 2"
| "link_status (Sending bs) = 4"

text \<open>\<open>(n + 3) & ~3\<close>: a size rounded up to whole words.\<close>

definition pad4 :: "nat \<Rightarrow> nat" where
  "pad4 n = (n + 3) div 4 * 4"

text \<open>
  The operations of the abstract interface: a word written to the data register, and a word read
  from it.  A command that outgrows the buffer of 1024 bytes is dropped.
\<close>

primrec link_put :: "u32 \<Rightarrow> link \<Rightarrow> link" where
  "link_put w Idle = Idle"
| "link_put w (Receiving bs) =
     (if length bs + 4 > 1024 then Idle else Receiving (bs @ be32_bytes w))"
| "link_put w (Sending bs) = Sending bs"

fun link_get :: "link \<Rightarrow> u32 \<times> link" where
  "link_get (Sending (a # b # c # d # rest)) =
     (be32 a b c d, if rest = [] then Idle else Sending rest)"
| "link_get l = (0, l)"

section \<open>Lemmas\<close>

lemma pad4_ge: "n \<le> pad4 n"
  unfolding pad4_def by presburger

lemma pad4_less: "pad4 n < n + 4"
  unfolding pad4_def by presburger

lemma pad4_dvd [simp]: "4 dvd pad4 n"
  by (simp add: pad4_def)

lemma pad4_id [simp]: "4 dvd n \<Longrightarrow> pad4 n = n"
  unfolding pad4_def by presburger

lemma pad4_mono: "m \<le> n \<Longrightarrow> pad4 m \<le> pad4 n"
  unfolding pad4_def by (simp add: div_le_mono)

lemma pad4_le_1024: "n \<le> 1024 \<Longrightarrow> pad4 n \<le> 1024"
  using pad4_mono [of n 1024] by simp

lemma pad4_next: "4 dvd m \<Longrightarrow> m < n \<Longrightarrow> m + 4 \<le> pad4 n"
  unfolding pad4_def by presburger

lemma pad4_done: "4 dvd m \<Longrightarrow> n \<le> m \<Longrightarrow> pad4 n \<le> m"
  unfolding pad4_def by presburger

lemma word_and_not_3: "(w :: u32) AND NOT 3 = push_bit 2 (drop_bit 2 w)"
proof (rule bit_word_eqI)
  fix n
  assume "n < LENGTH(32)"
  moreover have "bit (3 :: u32) n \<longleftrightarrow> n < 2"
    using bit_mask_iff [of 2 n, where ?'a = u32] \<open>n < LENGTH(32)\<close> by (simp add: mask_eq_exp_minus_1)
  moreover have "Suc (Suc (n - 2)) = n" if "2 \<le> n" using that by simp
  ultimately show "bit (w AND NOT 3) n \<longleftrightarrow> bit (push_bit 2 (drop_bit 2 w)) n"
    by (cases "n < 2") (auto simp: bit_simps)
qed

lemma unat_pad4:
  assumes "unat (w :: u32) + 3 < 2 ^ 32"
  shows "unat ((w + 3) AND NOT 3) = pad4 (unat w)"
proof -
  have u: "unat (w + 3) = unat w + 3"
    using assms by (subst unat_add_lem [THEN iffD1]) simp_all
  have d: "unat ((w + 3) div 4) = (unat w + 3) div 4" by (simp add: unat_div u)
  have "unat ((w + 3) div 4 * 4) = (unat w + 3) div 4 * 4"
    using assms d by (subst unat_mult_lem [THEN iffD1]) simp_all
  then show ?thesis
    unfolding word_and_not_3 pad4_def by (simp add: push_bit_eq_mult drop_bit_eq_div)
qed

lemma unat_of_nat_u32: "n < 4294967296 \<Longrightarrow> unat (of_nat n :: u32) = n"
  by (simp add: unat_of_nat take_bit_nat_eq_self)

lemma ucast_u32_u64 [simp]: "ucast (ucast (w :: u32) :: u64) = w"
  by (simp add: unsigned_ucast_eq take_bit_word_eq_self)

lemma link_get_word:
  "link_get (Sending (be32_bytes w @ r)) = (w, if r = [] then Idle else Sending r)"
  by (simp add: be32_bytes_def be_simps)

text \<open>A byte sequence of whole words starts with the bytes of a word.\<close>

lemma first_word:
  assumes "4 dvd length r" "r \<noteq> []"
  obtains w r' where "r = be32_bytes w @ r'" "4 dvd length r'"
proof -
  from assms have l: "4 \<le> length r" by (auto dest: dvd_imp_le)
  then obtain a b c d r' where r: "r = a # b # c # d # r'"
    by (auto simp: numeral_eq_Suc Suc_le_length_iff)
  then have "r = be32_bytes (be32 a b c d) @ r'" by (simp add: be_simps)
  moreover have "4 dvd length r'" using assms(1) unfolding r length_Cons by presburger
  ultimately show thesis by (rule that)
qed

section \<open>The contract\<close>

text \<open>
  \<open>view\<close> is what the interface holds in transit and \<open>core\<close> everything else the device keeps;
  moving words in and out does not touch the latter.
\<close>

locale tpm_port =
  fixes wr :: "u64 \<Rightarrow> u64 \<Rightarrow> 's \<Rightarrow> 's option"
    and rdr :: "u64 \<Rightarrow> 's \<Rightarrow> (u64 \<times> 's) option"
    and inv :: "'s \<Rightarrow> bool"
    and view :: "'s \<Rightarrow> link"
    and core :: "'s \<Rightarrow> 'c"
  assumes start: "inv s \<Longrightarrow>
      \<exists>s'. wr 0x00 1 s = Some s' \<and> inv s' \<and> view s' = Receiving [] \<and> core s' = core s"
    and put: "inv s \<Longrightarrow>
      \<exists>s'. wr 0x10 v s = Some s' \<and> inv s' \<and> view s' = link_put (ucast v) (view s) \<and> core s' = core s"
    and status_reg: "inv s \<Longrightarrow> rdr 0x04 s = Some (link_status (view s), s)"
    and get: "inv s \<Longrightarrow>
      \<exists>s'. rdr 0x10 s = Some (ucast (fst (link_get (view s))), s') \<and> inv s' \<and>
           view s' = snd (link_get (view s)) \<and> core s' = core s"
    and whole_words: "inv s \<Longrightarrow> view s = Sending r \<Longrightarrow> r \<noteq> [] \<and> 4 dvd length r"
begin

lemma put_word:
  "inv s \<Longrightarrow> view s = Receiving bs \<Longrightarrow> length bs + 4 \<le> 1024 \<Longrightarrow>
   \<exists>s'. wr 0x10 (ucast w) s = Some s' \<and> inv s' \<and> view s' = Receiving (bs @ be32_bytes w) \<and>
        core s' = core s"
  using put [of s "ucast w"] by simp

lemma get_word:
  "inv s \<Longrightarrow> view s = Sending (be32_bytes w @ r) \<Longrightarrow>
   \<exists>s'. rdr 0x10 s = Some (ucast w, s') \<and> inv s' \<and>
        view s' = (if r = [] then Idle else Sending r) \<and> core s' = core s"
  using get [of s] by (simp add: link_get_word)

end

end
