(* ===== verification/FW_Uart.thy ===== *)
theory FW_Uart
  imports UART_Device TPM_Link
begin

text \<open>
  \<^verbatim>\<open>src/firmware/uart.c\<close>: console output and input of the firmware.  The firmware reaches its
  devices by 32-bit accesses to addresses, which the record \<open>bus\<close> stands for.  A C string is the
  list of its characters without the terminating zero; what the routines would do outside an array
  or a string is \<open>None\<close>, and so is a busy-wait loop that does not end.
\<close>

record 'm bus =
  bus_write :: "u32 \<Rightarrow> u32 \<Rightarrow> 'm \<Rightarrow> 'm option"
  bus_read :: "u32 \<Rightarrow> 'm \<Rightarrow> (u32 \<times> 'm) option"

abbreviation (input) UART0_ADDRESS :: u32 where "UART0_ADDRESS \<equiv> 0x40328000"
abbreviation (input) UART0_DATA :: u32 where "UART0_DATA \<equiv> UART0_ADDRESS + 0"
abbreviation (input) UART0_CTRL :: u32 where "UART0_CTRL \<equiv> UART0_ADDRESS + 8"
abbreviation (input) UART0_BAUDDIV :: u32 where "UART0_BAUDDIV \<equiv> UART0_ADDRESS + 16"
abbreviation (input) UART0_FLAGREG :: u32 where "UART0_FLAGREG \<equiv> UART0_ADDRESS + 0x18"
abbreviation (input) UART_F_RXFE :: u32 where "UART_F_RXFE \<equiv> 0x10"
abbreviation (input) UART_F_RXFF :: u32 where "UART_F_RXFF \<equiv> 0x20"

section \<open>Output\<close>

definition UART_init :: "'m bus \<Rightarrow> 'm \<Rightarrow> 'm option" where
  "UART_init B m =
     (case bus_write B UART0_BAUDDIV 16 m of None \<Rightarrow> None | Some m1 \<Rightarrow> bus_write B UART0_CTRL 1 m1)"

text \<open>\<open>UART_putstr\<close> stops at the first zero.\<close>

fun UART_putstr :: "'m bus \<Rightarrow> string \<Rightarrow> 'm \<Rightarrow> 'm option" where
  "UART_putstr B [] m = Some m"
| "UART_putstr B (c # s) m =
     (if c = CHR 0x00 then Some m
      else case bus_write B UART0_DATA (of_char c) m of None \<Rightarrow> None | Some m1 \<Rightarrow> UART_putstr B s m1)"

text \<open>The arguments of \<open>UART_printf\<close>: an \<open>int\<close> or \<open>unsigned\<close> is a word.\<close>

datatype arg = Word u32 | Str string

text \<open>The digits of a number, the least significant one first, as the loop stores them in \<open>num\<close>.\<close>

definition digit_char :: "bool \<Rightarrow> u32 \<Rightarrow> char" where
  "digit_char upper d = (if d < 10 then char_of (48 + unat d)
     else char_of ((if upper then 65 else 97) + (unat d - 10)))"

function digits :: "bool \<Rightarrow> u32 \<Rightarrow> u32 \<Rightarrow> string" where
  "digits upper base val =
     (let d = digit_char upper (val mod base); val' = val div base in
      if val' > 0 \<and> base > 1 then d # digits upper base val' else [d])"
  by pat_completeness auto

termination
proof (relation "measure (\<lambda>(upper, base, val). unat val)")
  fix base val d val' :: u32
  assume "val' = val div base" and pos: "0 < val' \<and> 1 < base"
  moreover from this have "unat val \<noteq> 0" by (auto simp: unat_eq_0)
  moreover have "1 < unat base" using pos by (simp add: word_less_nat_alt)
  ultimately show "((upper, base, val'), upper', base', val) \<in> measure (\<lambda>(upper, base, val). unat val)"
    for upper upper' base' by (simp add: unat_div)
qed simp

text \<open>
  One number: the digits, padding behind them (spaces or zeros) up to the width in the 16 characters
  of \<open>num\<close>, and all of it backwards, after a sign.
\<close>

definition format_number :: "bool \<Rightarrow> nat \<Rightarrow> char \<Rightarrow> u32 \<Rightarrow> string option" where
  "format_number zero_pad width conv v =
     (let neg = (conv = CHR ''d'' \<and> v <s 0);
          val = (if neg then - v else v);
          base = (if conv = CHR ''x'' \<or> conv = CHR ''X'' then 16 else 10);
          num = digits (conv \<noteq> CHR ''x'') base val;
          num' = num @ replicate (width - length num) (if zero_pad then CHR ''0'' else CHR '' '')
      in if length num' \<le> 16 then Some ((if neg then ''-'' else []) @ rev num') else None)"

definition is_digit :: "char \<Rightarrow> bool" where
  "is_digit c \<longleftrightarrow> 48 \<le> (of_char c :: nat) \<and> (of_char c :: nat) \<le> 57"

text \<open>The width is an \<open>int\<close>: one beyond its range is \<open>None\<close>, since the overflow is undefined.\<close>

fun parse_width :: "nat \<Rightarrow> string \<Rightarrow> (nat \<times> string) option" where
  "parse_width w [] = Some (w, [])"
| "parse_width w (c # s) =
     (if is_digit c then
        let w' = w * 10 + (of_char c - 48)
        in if w' < 2 ^ 31 then parse_width w' s else None
      else Some (w, c # s))"

lemma parse_width_length: "parse_width w s = Some (w', s') \<Longrightarrow> length s' \<le> length s"
  by (induction w s rule: parse_width.induct) (auto simp: Let_def intro: le_SucI split: if_splits)

text \<open>
  A conversion specification behind the percent sign: flag, width and letter.  A format that ends
  inside it is \<open>None\<close>: the default case would store the terminating zero, and the loop run past it.
\<close>

definition conversion :: "string \<Rightarrow> (bool \<times> nat \<times> char \<times> string) option" where
  "conversion fmt =
     (let zero_pad = (fmt \<noteq> [] \<and> hd fmt = CHR ''0'')
      in case parse_width 0 (if zero_pad then tl fmt else fmt) of
           Some (width, conv # fmt') \<Rightarrow> Some (zero_pad, width, conv, fmt')
         | _ \<Rightarrow> None)"

text \<open>What a conversion produces, and the arguments left.  A missing argument or one of the wrong kind
  is \<open>None\<close>.\<close>

definition convert :: "bool \<Rightarrow> nat \<Rightarrow> char \<Rightarrow> arg list \<Rightarrow> (string \<times> arg list) option" where
  "convert zero_pad width conv args =
     (if conv = CHR ''c'' then
        (case args of Word v # args' \<Rightarrow> Some ([char_of (unat (v AND 0xFF))], args') | _ \<Rightarrow> None)
      else if conv = CHR ''s'' then
        (case args of Str str # args' \<Rightarrow> Some (takeWhile (\<lambda>c. c \<noteq> CHR 0x00) str, args') | _ \<Rightarrow> None)
      else if conv \<in> {CHR ''d'', CHR ''u'', CHR ''x'', CHR ''X''} then
        (case args of Word v # args' \<Rightarrow>
           map_option (\<lambda>num. (num, args')) (format_number zero_pad width conv v) | _ \<Rightarrow> None)
      else Some ([CHR ''%'', conv], args))"

lemma conversion_shorter:
  assumes "conversion fmt = Some (zero_pad, width, conv, fmt')"
  shows "length fmt' < length fmt"
proof -
  have "length (if fmt \<noteq> [] \<and> hd fmt = CHR ''0'' then tl fmt else fmt) \<le> length fmt" by simp
  with assms parse_width_length [of 0 "if fmt \<noteq> [] \<and> hd fmt = CHR ''0'' then tl fmt else fmt"]
  show ?thesis by (fastforce simp: conversion_def Let_def split: option.splits prod.splits list.splits)
qed

text \<open>The characters a format produces.\<close>

function render :: "string \<Rightarrow> arg list \<Rightarrow> string option" where
  "render [] args = Some []"
| "render (c # fmt) args =
     (if c \<noteq> CHR ''%'' then map_option (Cons c) (render fmt args)
      else case conversion fmt of
             None \<Rightarrow> None
           | Some (zero_pad, width, conv, fmt') \<Rightarrow>
               (case convert zero_pad width conv args of
                  None \<Rightarrow> None
                | Some (txt, args') \<Rightarrow> map_option ((@) txt) (render fmt' args')))"
  by pat_completeness auto

termination
  by (relation "measure (\<lambda>(fmt, args). length fmt)") (auto dest: conversion_shorter)

text \<open>The characters and the terminating zero must fit the 128 bytes of \<open>buffer\<close>.\<close>

definition UART_printf :: "'m bus \<Rightarrow> string \<Rightarrow> arg list \<Rightarrow> 'm \<Rightarrow> 'm option" where
  "UART_printf B fmt args m =
     (case render fmt args of
        None \<Rightarrow> None
      | Some buffer \<Rightarrow> if length buffer < 128 then UART_putstr B buffer m else None)"

partial_function (option) UART_putc :: "'m bus \<Rightarrow> char \<Rightarrow> 'm \<Rightarrow> 'm option" where
  "UART_putc B c m =
     (case bus_read B UART0_FLAGREG m of
        None \<Rightarrow> None
      | Some (flags, m1) \<Rightarrow>
          if flags AND UART_F_RXFF \<noteq> 0 then UART_putc B c m1
          else bus_write B UART0_DATA (of_char c) m1)"

definition hex_digits :: string where
  "hex_digits = ''0123456789abcdef''"

text \<open>The loop of \<open>UART_print_hex\<close> at position \<open>i\<close>.\<close>

fun print_hex_from :: "'m bus \<Rightarrow> nat \<Rightarrow> bytes \<Rightarrow> 'm \<Rightarrow> 'm option" where
  "print_hex_from B i [] m = Some m"
| "print_hex_from B i (b # data) m =
     (case UART_putc B (hex_digits ! unat (drop_bit 4 b AND 0x0F)) m of
        None \<Rightarrow> None
      | Some m1 \<Rightarrow>
          (case UART_putc B (hex_digits ! unat (b AND 0x0F)) m1 of
             None \<Rightarrow> None
           | Some m2 \<Rightarrow>
               (case (if (i + 1) mod 16 = 0 then UART_putstr B ''\<newline>'' m2
                      else if (i + 1) mod 4 = 0 then UART_putstr B '' '' m2
                      else Some m2) of
                  None \<Rightarrow> None
                | Some m3 \<Rightarrow> print_hex_from B (i + 1) data m3)))"

definition UART_print_hex :: "'m bus \<Rightarrow> bytes \<Rightarrow> nat \<Rightarrow> 'm \<Rightarrow> 'm option" where
  "UART_print_hex B data len m =
     (if len \<le> length data then
        (case print_hex_from B 0 (take len data) m of
           None \<Rightarrow> None
         | Some m1 \<Rightarrow> if len mod 16 \<noteq> 0 then UART_printf B ''\<newline>'' [] m1 else Some m1)
      else None)"

section \<open>Input\<close>

text \<open>
  \<open>UART_getc\<close> polls the flag register.  What the outside world does to the machine between two polls
  is a list of events; when no event is left and no character waits, the loop does not end.
\<close>

fun UART_getc :: "'m bus \<Rightarrow> ('m \<Rightarrow> 'm option) list \<Rightarrow> 'm \<Rightarrow>
    (char \<times> ('m \<Rightarrow> 'm option) list \<times> 'm) option" where
  "UART_getc B evs m =
     (case bus_read B UART0_FLAGREG m of
        None \<Rightarrow> None
      | Some (flags, m1) \<Rightarrow>
          if flags AND UART_F_RXFE \<noteq> 0 then
            (case evs of
               [] \<Rightarrow> None
             | ev # evs' \<Rightarrow> (case ev m1 of None \<Rightarrow> None | Some m2 \<Rightarrow> UART_getc B evs' m2))
          else (case bus_read B UART0_DATA m1 of
                  None \<Rightarrow> None
                | Some (c, m2) \<Rightarrow> Some (char_of (unat (c AND 0xFF)), evs, m2)))"

text \<open>
  The loop of \<open>UART_gets\<close> with room for \<open>n\<close> more characters, and the routine; the array \<open>s\<close> has
  \<open>maxlen\<close> elements, and the result is the string without its zero.
\<close>

fun gets_loop :: "'m bus \<Rightarrow> nat \<Rightarrow> ('m \<Rightarrow> 'm option) list \<Rightarrow> 'm \<Rightarrow>
    (string \<times> ('m \<Rightarrow> 'm option) list \<times> 'm) option" where
  "gets_loop B 0 evs m = Some ([], evs, m)"
| "gets_loop B (Suc n) evs m =
     (case UART_getc B evs m of
        None \<Rightarrow> None
      | Some (c, evs1, m1) \<Rightarrow>
          (case UART_putc B c m1 of
             None \<Rightarrow> None
           | Some m2 \<Rightarrow>
               if c = CHR 0x0D \<or> c = CHR 0x0A then Some ([], evs1, m2)
               else map_option (\<lambda>(s, r). (c # s, r)) (gets_loop B n evs1 m2)))"

definition UART_gets :: "'m bus \<Rightarrow> nat \<Rightarrow> ('m \<Rightarrow> 'm option) list \<Rightarrow> 'm \<Rightarrow>
    (string \<times> ('m \<Rightarrow> 'm option) list \<times> 'm) option" where
  "UART_gets B maxlen evs m =
     (if maxlen = 0 then None
      else case gets_loop B (maxlen - 1) evs m of
             None \<Rightarrow> None
           | Some (s, evs', m1) \<Rightarrow> map_option (\<lambda>m2. (s, evs', m2)) (UART_putc B CHR 0x0A m1))"

declare digits.simps [simp del] UART_getc.simps [simp del]

section \<open>Numbers\<close>

lemma length_digits: "1 < unat base \<Longrightarrow> unat val < unat base ^ n \<Longrightarrow> 0 < n \<Longrightarrow> length (digits u base val) \<le> n"
proof (induction u base val arbitrary: n rule: digits.induct)
  case (1 u base val)
  show ?case
  proof (cases "0 < val div base")
    case False
    with "1.prems" show ?thesis by (simp add: digits.simps [of u base val] Let_def)
  next
    case True
    have b: "1 < base" using "1.prems"(1) by (simp add: word_less_nat_alt)
    obtain m where n: "n = Suc m" using "1.prems"(3) by (cases n) auto
    have "unat val div unat base < unat base ^ m"
      using "1.prems"(1,2) unfolding n by (simp add: less_mult_imp_div_less mult.commute)
    moreover from True have "0 < unat val div unat base" by (simp add: word_less_nat_alt unat_div)
    ultimately have "length (digits u base (val div base)) \<le> m"
      using "1.IH" [OF refl refl] True b "1.prems"(1) by (cases m) (auto simp: unat_div)
    then show ?thesis using True b by (simp add: digits.simps [of u base val] Let_def n)
  qed
qed

lemma length_digits_32: "length (digits u 10 v) \<le> 10" "length (digits u 16 v) \<le> 8"
proof -
  have "unat v < 2 ^ LENGTH(32)" by (rule unsigned_less)
  then show "length (digits u 10 v) \<le> 10" "length (digits u 16 v) \<le> 8"
    by (auto intro!: length_digits)
qed

lemma digits_nonempty: "digits u base v \<noteq> []"
  by (simp add: digits.simps [of u base v] Let_def)

text \<open>The value of a digit, and of digits with the least significant one first.\<close>

definition digit_value :: "char \<Rightarrow> nat" where
  "digit_value c = (let n = of_char c in if n < 58 then n - 48 else if n < 97 then n - 55 else n - 87)"

fun digits_value :: "nat \<Rightarrow> string \<Rightarrow> nat" where
  "digits_value base [] = 0"
| "digits_value base (c # cs) = digit_value c + base * digits_value base cs"

lemma digit_value_char: "unat d < 16 \<Longrightarrow> digit_value (digit_char u d) = unat d"
  by (auto simp: digit_value_def digit_char_def word_less_nat_alt Let_def)

lemma digits_value_digits:
  "1 < unat base \<Longrightarrow> unat base \<le> 16 \<Longrightarrow> digits_value (unat base) (digits u base v) = unat v"
proof (induction u base v rule: digits.induct)
  case (1 u base v)
  have b: "1 < base" using "1.prems"(1) by (simp add: word_less_nat_alt)
  have d: "digit_value (digit_char u (v mod base)) = unat v mod unat base"
    using "1.prems" by (subst digit_value_char) (auto simp: unat_mod intro: less_le_trans [OF mod_less_divisor])
  show ?case
  proof (cases "0 < v div base")
    case True
    with "1.IH" [OF refl refl] "1.prems" b d show ?thesis
      by (simp add: digits.simps [of u base v] Let_def unat_div)
  next
    case False
    then have "unat v div unat base = 0" by (simp add: word_less_nat_alt unat_div)
    with False d "1.prems"(1) show ?thesis by (simp add: digits.simps [of u base v] Let_def div_eq_0_iff)
  qed
qed

lemma digit_char_printable: "unat d < 16 \<Longrightarrow> digit_char u d \<noteq> CHR 0x00"
proof
  assume d: "unat d < 16" "digit_char u d = CHR 0x00"
  have "of_char (digit_char u d) = (if unat d < 10 then 48 + unat d else (if u then 65 else 97) + (unat d - 10))"
    using d(1) by (simp add: digit_char_def word_less_nat_alt)
  moreover have "of_char (digit_char u d) = (0 :: nat)" unfolding d(2) by simp
  ultimately show False by (simp split: if_splits)
qed

lemma digits_printable: "1 < unat base \<Longrightarrow> unat base \<le> 16 \<Longrightarrow> CHR 0x00 \<notin> set (digits u base v)"
proof (induction u base v rule: digits.induct)
  case (1 u base v)
  have "digit_char u (v mod base) \<noteq> CHR 0x00"
    using "1.prems" by (intro digit_char_printable) (auto simp: unat_mod intro: less_le_trans [OF mod_less_divisor])
  with "1.IH" [OF refl refl] "1.prems" show ?case
    by (subst digits.simps) (auto simp: Let_def)
qed

lemma unat_of_char: "unat (of_char c :: u32) = of_char c" "unat (of_char c :: u8) = of_char c"
proof -
  have c: "(of_char c :: nat) < 2 ^ 8" by simp
  have "(of_char c :: nat) < 2 ^ 32" by (rule less_trans [OF c]) simp
  note take_bit_nat_eq_self [OF this] take_bit_nat_eq_self [OF c]
  then show "unat (of_char c :: u32) = of_char c" "unat (of_char c :: u8) = of_char c"
    by (simp_all flip: of_nat_of_char [where ?'a = u32] of_nat_of_char [where ?'a = u8]
        add: unsigned_of_nat)
qed

lemma ucast_of_char [simp]: "ucast (of_char c :: u32) = (of_char c :: u8)"
proof (rule word_unat_eq_iff [THEN iffD2])
  have "take_bit 8 (of_char c :: nat) = of_char c" by (rule take_bit_nat_eq_self) simp
  then show "unat (ucast (of_char c :: u32) :: u8) = unat (of_char c :: u8)"
    by (simp add: unat_of_char unsigned_ucast_eq)
qed

section \<open>Messages\<close>

text \<open>A message that can be printed: the format matches its arguments and the result fits the buffer.\<close>

definition fits :: "string \<Rightarrow> arg list \<Rightarrow> bool" where
  "fits fmt args \<longleftrightarrow> (\<exists>buf. render fmt args = Some buf \<and> length buf < 128)"

named_theorems conv_simps \<open>the conversion specifications the firmware uses\<close>

lemma conversion_simps [conv_simps]:
  "conversion (CHR ''u'' # fmt) = Some (False, 0, CHR ''u'', fmt)"
  "conversion (CHR ''c'' # fmt) = Some (False, 0, CHR ''c'', fmt)"
  "conversion (CHR ''0'' # CHR ''4'' # CHR ''X'' # fmt) = Some (True, 4, CHR ''X'', fmt)"
  "conversion (CHR ''0'' # CHR ''8'' # CHR ''X'' # fmt) = Some (True, 8, CHR ''X'', fmt)"
  by (simp_all add: conversion_def is_digit_def)

lemma convert_simps [conv_simps]:
  "convert False 0 CHR ''u'' (Word v # args) = Some (rev (digits True 10 v), args)"
  "convert False 0 CHR ''c'' (Word v # args) = Some ([char_of (unat (v AND 0xFF))], args)"
  "w \<le> 8 \<Longrightarrow> convert True w CHR ''X'' (Word v # args) =
     Some (replicate (w - length (digits True 16 v)) CHR ''0'' @ rev (digits True 16 v), args)"
  using length_digits_32 [of True v] by (auto simp: convert_def format_number_def Let_def)

section \<open>Hexadecimal output\<close>

text \<open>What \<open>UART_print_hex\<close> writes: two digits for each byte, in groups of four and lines of sixteen.\<close>

definition hex_separator :: "nat \<Rightarrow> string" where
  "hex_separator i = (if (i + 1) mod 16 = 0 then ''\<newline>'' else if (i + 1) mod 4 = 0 then '' '' else [])"

fun hex_text :: "nat \<Rightarrow> bytes \<Rightarrow> string" where
  "hex_text i [] = []"
| "hex_text i (b # bs) =
     [hex_digits ! unat (drop_bit 4 b AND 0x0F), hex_digits ! unat (b AND 0x0F)] @ hex_separator i @
     hex_text (i + 1) bs"

text \<open>A reader of such a text.\<close>

fun read_hex :: "string \<Rightarrow> bytes" where
  "read_hex (a # b # cs) = (of_nat (16 * digit_value a + digit_value b)) # read_hex cs"
| "read_hex cs = []"

lemma hex_digit: "n < 16 \<Longrightarrow> digit_value (hex_digits ! n) = n" "n < 16 \<Longrightarrow> hex_digits ! n \<notin> {CHR '' '', CHR 0x0A}"
  by (auto simp: hex_digits_def digit_value_def numeral_eq_Suc less_Suc_eq)

lemma nibbles: "16 * unat (drop_bit 4 b AND 0x0F) + unat (b AND 0x0F) = unat (b :: u8)"
    "unat (drop_bit 4 b AND 0x0F) < 16" "unat (b AND 0x0F) < 16"
proof -
  have m: "unat (x AND 0x0F) = unat x mod 16" for x :: u8
  proof -
    have "x AND 0x0F = x mod 16"
      using take_bit_eq_mask [of 4 x] by (simp add: mask_eq_exp_minus_1 take_bit_eq_mod)
    then show ?thesis by (simp add: unat_mod)
  qed
  have "unat b < 2 ^ LENGTH(8)" by (rule unsigned_less)
  then show "16 * unat (drop_bit 4 b AND 0x0F) + unat (b AND 0x0F) = unat b"
    by (simp add: m drop_bit_eq_div unat_div)
  show "unat (drop_bit 4 b AND 0x0F) < 16" "unat (b AND 0x0F) < 16" by (simp_all add: m)
qed

lemma read_hex_text: "read_hex (filter (\<lambda>c. c \<notin> {CHR '' '', CHR 0x0A}) (hex_text i bs)) = bs"
proof (induction i bs rule: hex_text.induct)
  case (2 i b bs)
  have "filter (\<lambda>c. c \<notin> {CHR '' '', CHR 0x0A}) (hex_separator i) = []" by (simp add: hex_separator_def)
  with 2 nibbles [of b] hex_digit [of "unat (drop_bit 4 b AND 0x0F)"] hex_digit [of "unat (b AND 0x0F)"]
  show ?case by simp
qed simp

section \<open>The machine the firmware runs on\<close>

text \<open>
  The registers of the two devices at the addresses the firmware uses, as the contracts of the
  devices want them.
\<close>

definition uart_wr :: "'m bus \<Rightarrow> u64 \<Rightarrow> u64 \<Rightarrow> 'm \<Rightarrow> 'm option" where
  "uart_wr B a v = bus_write B (UART0_ADDRESS + ucast a) (ucast v)"

definition uart_rd :: "'m bus \<Rightarrow> u64 \<Rightarrow> 'm \<Rightarrow> (u64 \<times> 'm) option" where
  "uart_rd B a m = map_option (\<lambda>(v, m'). (ucast v, m')) (bus_read B (UART0_ADDRESS + ucast a) m)"

definition tpm_wr :: "'m bus \<Rightarrow> u64 \<Rightarrow> u64 \<Rightarrow> 'm \<Rightarrow> 'm option" where
  "tpm_wr B a v = bus_write B (0xF0000000 + ucast a) (ucast v)"

definition tpm_rd :: "'m bus \<Rightarrow> u64 \<Rightarrow> 'm \<Rightarrow> (u64 \<times> 'm) option" where
  "tpm_rd B a m = map_option (\<lambda>(v, m'). (ucast v, m')) (bus_read B (0xF0000000 + ucast a) m)"

locale fw_machine =
  tpm: tpm_port "tpm_wr B" "tpm_rd B" inv view "\<lambda>m. (tpm m, waiting m, sent m)" +
  uart: serial_port "uart_wr B" "uart_rd B" inv waiting sent "\<lambda>m. (view m, tpm m)"
  for B :: "'m bus"
    and inv :: "'m \<Rightarrow> bool"
    and view :: "'m \<Rightarrow> link"
    and tpm :: "'m \<Rightarrow> 'c"
    and waiting :: "'m \<Rightarrow> u32 list"
    and sent :: "'m \<Rightarrow> bytes"
begin

text \<open>A run of the firmware that only prints.\<close>

definition prints :: "'m \<Rightarrow> bytes \<Rightarrow> 'm \<Rightarrow> bool" where
  "prints m bs m' \<longleftrightarrow> inv m' \<and> sent m' = sent m @ bs \<and> waiting m' = waiting m \<and> view m' = view m \<and>
     tpm m' = tpm m"

lemma prints_trans: "prints m a m1 \<Longrightarrow> prints m1 b m2 \<Longrightarrow> prints m (a @ b) m2"
  by (simp add: prints_def)

lemma prints_refl: "inv m \<Longrightarrow> prints m [] m"
  by (simp add: prints_def)

lemma data_write: "inv m \<Longrightarrow> \<exists>m'. bus_write B UART0_DATA v m = Some m' \<and> prints m [ucast v] m'"
  using uart.send [of m "ucast v"] by (auto simp: uart_wr_def prints_def unsigned_ucast_eq take_bit_word_eq_self)

lemma flags_read:
  assumes "inv m"
  shows "\<exists>v. bus_read B UART0_FLAGREG m = Some (v, m) \<and> (v AND UART_F_RXFE \<noteq> 0 \<longleftrightarrow> waiting m = []) \<and>
    v AND UART_F_RXFF = 0"
proof -
  from uart.flag_reg [OF assms] obtain v where
    v: "bus_read B UART0_FLAGREG m = Some (v, m)" "bit v 4 \<longleftrightarrow> waiting m = []" "\<not> bit v 5"
    by (auto simp: uart_rd_def bit_ucast_iff)
  with and_exp_eq_0_iff_not_bit [of v 4] and_exp_eq_0_iff_not_bit [of v 5] show ?thesis by simp
qed

lemma data_read:
  "inv m \<Longrightarrow> waiting m = c # q \<Longrightarrow> \<exists>m'. bus_read B UART0_DATA m = Some (c, m') \<and> inv m' \<and>
     waiting m' = q \<and> sent m' = sent m \<and> view m' = view m \<and> tpm m' = tpm m"
  using uart.fetch [of m c q] by (auto simp: uart_rd_def dest!: arg_cong [where f = "ucast :: u64 \<Rightarrow> u32"])

lemma putstr_prints:
  "inv m \<Longrightarrow> \<exists>m'. UART_putstr B s m = Some m' \<and> prints m (map of_char (takeWhile (\<lambda>c. c \<noteq> CHR 0x00) s)) m'"
proof (induction s arbitrary: m)
  case Nil
  then show ?case by (simp add: prints_refl)
next
  case (Cons c s)
  from data_write [OF Cons.prems, of "of_char c"] obtain m1 where
    m1: "bus_write B UART0_DATA (of_char c) m = Some m1" "prints m [of_char c] m1" by (auto simp: ucast_of_char)
  then have "inv m1" by (simp add: prints_def)
  from Cons.IH [OF this] m1 prints_trans [OF m1(2)] show ?case
    using Cons.prems prints_refl by fastforce
qed

lemma putc_prints: "inv m \<Longrightarrow> \<exists>m'. UART_putc B c m = Some m' \<and> prints m [of_char c] m'"
  using flags_read [of m] data_write [of m "of_char c"] by (auto simp: UART_putc.simps)

lemma printf_prints:
  assumes "inv m" "render fmt args = Some buf" "length buf < 128"
  shows "\<exists>m'. UART_printf B fmt args m = Some m' \<and>
    prints m (map of_char (takeWhile (\<lambda>c. c \<noteq> CHR 0x00) buf)) m'"
  using putstr_prints [OF assms(1), of buf] assms(2,3) by (simp add: UART_printf_def)

lemma printf_fits:
  assumes "inv m" "fits fmt args"
  obtains m' bs where "UART_printf B fmt args m = Some m'" "prints m bs m'"
  using printf_prints [OF assms(1), of fmt args] assms(2) unfolding fits_def by blast

lemma separator_prints:
  assumes "inv m"
  shows "\<exists>m'. (if (i + 1) mod 16 = 0 then UART_putstr B ''\<newline>'' m
      else if (i + 1) mod 4 = 0 then UART_putstr B '' '' m else Some m) = Some m' \<and>
    prints m (map of_char (hex_separator i)) m'"
proof (cases "(i + 1) mod 16 = 0")
  case True
  with putstr_prints [OF assms, of "''\<newline>''"] show ?thesis
    by (simp add: hex_separator_def del: UART_putstr.simps)
next
  case False
  with putstr_prints [OF assms, of "'' ''"] prints_refl [OF assms] show ?thesis
    by (simp add: hex_separator_def del: UART_putstr.simps)
qed

lemma print_hex_from_prints:
  "inv m \<Longrightarrow> \<exists>m'. print_hex_from B i bs m = Some m' \<and> prints m (map of_char (hex_text i bs)) m'"
proof (induction bs arbitrary: i m)
  case Nil
  then show ?case by (simp add: prints_refl)
next
  case (Cons b bs)
  let ?hi = "hex_digits ! unat (drop_bit 4 b AND 0x0F)" and ?lo = "hex_digits ! unat (b AND 0x0F)"
  obtain m1 where m1: "UART_putc B ?hi m = Some m1" "prints m [of_char ?hi] m1"
    using putc_prints [OF Cons.prems] by blast
  then obtain m2 where m2: "UART_putc B ?lo m1 = Some m2" "prints m1 [of_char ?lo] m2"
    using putc_prints [of m1] by (auto simp: prints_def)
  then have "inv m2" by (simp add: prints_def)
  then obtain m3 where m3: "(if (i + 1) mod 16 = 0 then UART_putstr B ''\<newline>'' m2
      else if (i + 1) mod 4 = 0 then UART_putstr B '' '' m2 else Some m2) = Some m3"
      "prints m2 (map of_char (hex_separator i)) m3"
    using separator_prints by blast
  then have "inv m3" by (simp add: prints_def)
  from Cons.IH [OF this, of "i + 1"] obtain m4 where
    m4: "print_hex_from B (i + 1) bs m3 = Some m4" "prints m3 (map of_char (hex_text (i + 1) bs)) m4" by blast
  note prints_trans [OF prints_trans [OF prints_trans [OF m1(2) m2(2)] m3(2)] m4(2)]
  with m1(1) m2(1) m3(1) m4(1) show ?case by simp
qed

lemma print_hex_prints:
  assumes "inv m" "len \<le> length data"
  shows "\<exists>m'. UART_print_hex B data len m = Some m' \<and>
    prints m (map of_char (hex_text 0 (take len data) @ (if len mod 16 \<noteq> 0 then ''\<newline>'' else []))) m'"
proof -
  obtain m1 where m1: "print_hex_from B 0 (take len data) m = Some m1"
      "prints m (map of_char (hex_text 0 (take len data))) m1"
    using print_hex_from_prints [OF assms(1)] by blast
  then have "inv m1" by (simp add: prints_def)
  from printf_prints [OF this, of "''\<newline>''" "[]" "''\<newline>''"] m1 prints_trans [OF m1(2)] assms(2)
  show ?thesis by (auto simp: UART_print_hex_def)
qed

lemma getc_waiting:
  assumes "inv m" "waiting m = c # q"
  shows "\<exists>m'. UART_getc B evs m = Some (char_of (unat (c AND 0xFF)), evs, m') \<and> inv m' \<and> waiting m' = q \<and>
    sent m' = sent m \<and> view m' = view m \<and> tpm m' = tpm m"
  using flags_read [OF assms(1)] data_read [OF assms] assms(2) by (auto simp: UART_getc.simps [of B evs m])

lemma getc_polls:
  assumes "inv m" "waiting m = []" "ev m = Some m1"
  shows "UART_getc B (ev # evs) m = UART_getc B evs m1"
  using flags_read [OF assms(1)] assms(2,3) by (auto simp: UART_getc.simps [of B "ev # evs" m])

lemma getc_blocks: "inv m \<Longrightarrow> waiting m = [] \<Longrightarrow> UART_getc B [] m = None"
  using flags_read [of m] by (auto simp: UART_getc.simps [of B "[]" m])

end

end
