(* ===== verification/FW_Driver.thy ===== *)
theory FW_Driver
  imports FW_Uart
begin

text \<open>
  \<^verbatim>\<open>src/firmware/main.c\<close>: the commands the firmware sends, its driver for the TPM, and its menu.
  The routines run on a \<open>bus\<close>; the lemmas about them hold for every machine that keeps the contracts
  of the two devices (locale \<open>fw_machine\<close>).
\<close>

abbreviation (input) TPM2_BASE :: u32 where "TPM2_BASE \<equiv> 0xF0000000"
abbreviation (input) FW_CTRL_REG :: u32 where "FW_CTRL_REG \<equiv> TPM2_BASE + 0x00"
abbreviation (input) FW_STATUS_REG :: u32 where "FW_STATUS_REG \<equiv> TPM2_BASE + 0x04"
abbreviation (input) FW_CMD_REG :: u32 where "FW_CMD_REG \<equiv> TPM2_BASE + 0x0C"
abbreviation (input) FW_DATA_REG :: u32 where "FW_DATA_REG \<equiv> TPM2_BASE + 0x10"
abbreviation (input) FW_STATE_PROCESSING :: u32 where "FW_STATE_PROCESSING \<equiv> 3"
abbreviation (input) FW_STATE_SENDING :: u32 where "FW_STATE_SENDING \<equiv> 4"

section \<open>Commands\<close>

definition CMD_GET_RANDOM :: bytes where
  "CMD_GET_RANDOM =
     [0x80, 0x01, 0x00, 0x00, 0x00, 0x0C, 0x00, 0x00, 0x01, 0x7B, 0x00, 0x20]"

definition CMD_CREATE_PRIMARY :: bytes where
  "CMD_CREATE_PRIMARY =
     [0x80, 0x01, 0x00, 0x00, 0x00, 0x44, 0x00, 0x00, 0x01, 0x31, 0x40, 0x00, 0x00, 0x01, 0x00, 0x0A,
      0x00, 0x06, 0x70, 0x61, 0x73, 0x73, 0x77, 0x64, 0x00, 0x00, 0x00, 0x22, 0x00, 0x23, 0x00, 0x0B,
      0x00, 0x03, 0x00, 0x72, 0x00, 0x00, 0x00, 0x10, 0x00, 0x00, 0x00, 0x00, 0x00, 0x10, 0x00, 0x00,
      0x00, 0x00, 0x00, 0x03, 0x00, 0x10, 0x00, 0x00, 0x00, 0x00, 0x00, 0x00, 0x00, 0x00, 0x00, 0x00,
      0x00, 0x00, 0x00, 0x00]"

definition CMD_NV_DEFINE_SPACE :: bytes where
  "CMD_NV_DEFINE_SPACE =
     [0x80, 0x01, 0x00, 0x00, 0x00, 0x20, 0x00, 0x00, 0x01, 0x2A, 0x40, 0x00, 0x00, 0x01, 0x00, 0x00,
      0x00, 0x0E, 0x01, 0x00, 0x00, 0x01, 0x00, 0x0B, 0x02, 0x4C, 0x00, 0x06, 0x00, 0x00, 0x00, 0x20]"

definition CMD_NV_WRITE :: bytes where
  "CMD_NV_WRITE =
     [0x80, 0x01, 0x00, 0x00, 0x00, 0x1C, 0x00, 0x00, 0x01, 0x37, 0x40, 0x00, 0x00, 0x0C, 0x01, 0x00,
      0x00, 0x01, 0x00, 0x00, 0x00, 0x04, 0x54, 0x45, 0x53, 0x54, 0x00, 0x00]"

definition CMD_NV_READ :: bytes where
  "CMD_NV_READ =
     [0x80, 0x01, 0x00, 0x00, 0x00, 0x18, 0x00, 0x00, 0x01, 0x4E, 0x40, 0x00, 0x00, 0x0C, 0x01, 0x00,
      0x00, 0x01, 0x00, 0x00, 0x00, 0x04, 0x00, 0x00]"

definition CMD_BAD_HDR :: bytes where
  "CMD_BAD_HDR =
     [0x80, 0x01, 0x00, 0x00, 0x00, 0x30, 0x00, 0x00, 0x01, 0x7B, 0x00, 0x04]"

definition CMD_GET_RANDOM_TOO_BIG :: bytes where
  "CMD_GET_RANDOM_TOO_BIG =
     [0x80, 0x01, 0x00, 0x00, 0x00, 0x0C, 0x00, 0x00, 0x01, 0x7B, 0xFF, 0xFF]"

definition CMD_NV_READ_OVERSIZE :: bytes where
  "CMD_NV_READ_OVERSIZE =
     [0x80, 0x01, 0x00, 0x00, 0x00, 0x18, 0x00, 0x00, 0x01, 0x4E, 0x40, 0x00, 0x00, 0x0C, 0x01, 0x00,
      0x00, 0x01, 0x00, 0x00, 0x04, 0x00, 0x00, 0x00]"

definition CMD_NV_WRITE_OVERSIZE :: bytes where
  "CMD_NV_WRITE_OVERSIZE =
     [0x80, 0x01, 0x00, 0x00, 0x00, 0x3D, 0x00, 0x00, 0x01, 0x37, 0x40, 0x00, 0x00, 0x0C, 0x01, 0x00,
      0x00, 0x01, 0x00, 0x00, 0x00, 0x21, 0x41, 0x41, 0x41, 0x41, 0x41, 0x41, 0x41, 0x41, 0x41, 0x41,
      0x41, 0x41, 0x41, 0x41, 0x41, 0x41, 0x41, 0x41, 0x41, 0x41, 0x41, 0x41, 0x41, 0x41, 0x41, 0x41,
      0x41, 0x41, 0x41, 0x41, 0x41, 0x00, 0x00]"

definition CMD_NV_WRITE_FMT_STR :: bytes where
  "CMD_NV_WRITE_FMT_STR =
     [0x80, 0x01, 0x00, 0x00, 0x00, 0x2B, 0x00, 0x00, 0x01, 0x37, 0x40, 0x00, 0x00, 0x0C, 0x01, 0x00,
      0x00, 0x01, 0x00, 0x00, 0x00, 0x0B, 0x25, 0x78, 0x25, 0x73, 0x25, 0x6E, 0x41, 0x42, 0x43, 0x00,
      0x01, 0x00, 0x00]"

definition CMD_NV_READ_UNINIT :: bytes where
  "CMD_NV_READ_UNINIT =
     [0x80, 0x01, 0x00, 0x00, 0x00, 0x18, 0x00, 0x00, 0x01, 0x4E, 0x40, 0x00, 0x00, 0x0C, 0x01, 0x00,
      0x00, 0x02, 0x00, 0x00, 0x00, 0x04, 0x00, 0x00]"

definition CMD_INT_OVERFLOW :: bytes where
  "CMD_INT_OVERFLOW =
     [0x80, 0x01, 0x00, 0x00, 0x00, 0x0C, 0x00, 0x00, 0x01, 0x7B, 0xFF, 0xFF]"

section \<open>Sending a command\<close>

text \<open>The word at position \<open>i\<close> of a command of \<open>len\<close> bytes, with zeros behind its end.\<close>

definition command_word :: "bytes \<Rightarrow> nat \<Rightarrow> nat \<Rightarrow> u32" where
  "command_word cmd_buf len i =
     (let word = (0 :: u32);
          word = (if i + 0 < len then word OR push_bit 24 (ucast (cmd_buf ! (i + 0))) else word);
          word = (if i + 1 < len then word OR push_bit 16 (ucast (cmd_buf ! (i + 1))) else word);
          word = (if i + 2 < len then word OR push_bit 8 (ucast (cmd_buf ! (i + 2))) else word);
          word = (if i + 3 < len then word OR ucast (cmd_buf ! (i + 3)) else word)
      in word)"

function send_words :: "'m bus \<Rightarrow> bytes \<Rightarrow> nat \<Rightarrow> nat \<Rightarrow> nat \<Rightarrow> 'm \<Rightarrow> 'm option" where
  "send_words B cmd_buf len padded_len i m =
     (if i < padded_len then
        (case bus_write B FW_DATA_REG (command_word cmd_buf len i) m of
           None \<Rightarrow> None
         | Some m1 \<Rightarrow> send_words B cmd_buf len padded_len (i + 4) m1)
      else Some m)"
  by pat_completeness auto

termination
  by (relation "measure (\<lambda>(B, cmd_buf, len, padded_len, i, m). padded_len - i)") auto

definition tpm_send_command :: "'m bus \<Rightarrow> bytes \<Rightarrow> u32 \<Rightarrow> 'm \<Rightarrow> 'm option" where
  "tpm_send_command B cmd_buf len m =
     (case bus_write B FW_CTRL_REG 1 m of
        None \<Rightarrow> None
      | Some m1 \<Rightarrow>
          let padded_len = (len + 3) AND NOT 3 in
          (case UART_printf B ''Sending command (size %u, padded to %u)...\<newline>''
                  [Word len, Word padded_len] m1 of
             None \<Rightarrow> None
           | Some m2 \<Rightarrow>
               if unat len > length cmd_buf then None
               else (case send_words B cmd_buf (unat len) (unat padded_len) 0 m2 of
                       None \<Rightarrow> None
                     | Some m3 \<Rightarrow> bus_write B FW_CMD_REG 1 m3)))"

section \<open>Reading the response\<close>

partial_function (option) wait_processing :: "'m bus \<Rightarrow> 'm \<Rightarrow> 'm option" where
  "wait_processing B m =
     (case bus_read B FW_STATUS_REG m of
        None \<Rightarrow> None
      | Some (st, m1) \<Rightarrow> if st = FW_STATE_PROCESSING then wait_processing B m1 else Some m1)"

text \<open>The loop over the first three words, from word \<open>3 - n\<close> on.\<close>

fun read_header :: "'m bus \<Rightarrow> nat \<Rightarrow> bytes \<Rightarrow> 'm \<Rightarrow> (bytes \<times> 'm) option" where
  "read_header B 0 resp_buf m = Some (resp_buf, m)"
| "read_header B (Suc n) resp_buf m =
     (case bus_read B FW_DATA_REG m of
        None \<Rightarrow> None
      | Some (word, m1) \<Rightarrow>
          (case memcpy resp_buf ((2 - n) * 4) (be32_bytes word) 4 of
             None \<Rightarrow> None
           | Some resp_buf' \<Rightarrow> read_header B n resp_buf' m1))"

text \<open>
  The loop over the remaining words.  \<open>Some n\<close> in the result is the return value when the device
  stops sending early.
\<close>

function read_rest :: "'m bus \<Rightarrow> nat \<Rightarrow> nat \<Rightarrow> nat \<Rightarrow> bytes \<Rightarrow> 'm \<Rightarrow> (nat option \<times> bytes \<times> 'm) option" where
  "read_rest B actual_size padded_size bytes_read resp_buf m =
     (if bytes_read < padded_size then
        (case bus_read B FW_STATUS_REG m of
           None \<Rightarrow> None
         | Some (st, m1) \<Rightarrow>
             if st \<noteq> FW_STATE_SENDING then
               (case UART_printf B ''Error: TPM stopped sending early!\<newline>'' [] m1 of
                  None \<Rightarrow> None
                | Some m2 \<Rightarrow> Some (Some (min actual_size bytes_read), resp_buf, m2))
             else (case bus_read B FW_DATA_REG m1 of
                     None \<Rightarrow> None
                   | Some (word, m2) \<Rightarrow>
                       (case (if bytes_read < actual_size
                              then memcpy resp_buf bytes_read (be32_bytes word)
                                     (min 4 (actual_size - bytes_read))
                              else Some resp_buf) of
                          None \<Rightarrow> None
                        | Some resp_buf' \<Rightarrow>
                            read_rest B actual_size padded_size (bytes_read + 4) resp_buf' m2)))
      else Some (None, resp_buf, m))"
  by pat_completeness auto

termination
  by (relation "measure (\<lambda>(B, actual_size, padded_size, bytes_read, resp_buf, m). padded_size - bytes_read)") auto

definition resp_word :: "bytes \<Rightarrow> nat \<Rightarrow> u32" where
  "resp_word resp_buf i = be32 (resp_buf ! i) (resp_buf ! (i + 1)) (resp_buf ! (i + 2)) (resp_buf ! (i + 3))"

text \<open>\<open>tpm_read_response\<close> returns the number of bytes and the buffer it has filled.\<close>

definition tpm_read_response :: "'m bus \<Rightarrow> bytes \<Rightarrow> u32 \<Rightarrow> 'm \<Rightarrow> (u32 \<times> bytes \<times> 'm) option" where
  "tpm_read_response B resp_buf max_len m =
     (case wait_processing B m of None \<Rightarrow> None | Some m1 \<Rightarrow>
      (case bus_read B FW_STATUS_REG m1 of None \<Rightarrow> None | Some (st, m2) \<Rightarrow>
       if st \<noteq> FW_STATE_SENDING then
         (case bus_read B FW_STATUS_REG m2 of None \<Rightarrow> None | Some (st', m3) \<Rightarrow>
          (case UART_printf B ''Error: TPM did not enter SENDING state (state=%u)\<newline>'' [Word st'] m3 of
             None \<Rightarrow> None
           | Some m4 \<Rightarrow> Some (0, resp_buf, m4)))
       else
       (case UART_printf B ''Reading response...\<newline>'' [] m2 of None \<Rightarrow> None | Some m3 \<Rightarrow>
        (case read_header B 3 resp_buf m3 of None \<Rightarrow> None | Some (buf, m4) \<Rightarrow>
         let actual_size = resp_word buf 2;
             padded_size = (actual_size + 3) AND NOT 3
         in (case UART_printf B ''Response size: actual=%u, padded=%u\<newline>''
                    [Word actual_size, Word padded_size] m4 of None \<Rightarrow> None | Some m5 \<Rightarrow>
          if actual_size > max_len then
            (case UART_printf B ''Error: Response buffer too small!\<newline>'' [] m5 of
               None \<Rightarrow> None | Some m6 \<Rightarrow> Some (12, buf, m6))
          else if actual_size < 10 then
            (case UART_printf B ''Error: Invalid response size!\<newline>'' [] m5 of
               None \<Rightarrow> None | Some m6 \<Rightarrow> Some (12, buf, m6))
          else (case read_rest B (unat actual_size) (unat padded_size) 12 buf m5 of
             None \<Rightarrow> None
           | Some (Some n, buf', m6) \<Rightarrow> Some (of_nat n, buf', m6)
           | Some (None, buf', m6) \<Rightarrow>
               (case UART_printf B ''Response read complete (actual %u bytes, read %u with padding).\<newline>''
                       [Word actual_size, Word (of_nat (max 12 (unat padded_size)))] m6 of
                  None \<Rightarrow> None
                | Some m7 \<Rightarrow> Some (actual_size, buf', m7))))))))"

section \<open>Menu\<close>

fun print_lines :: "'m bus \<Rightarrow> string list \<Rightarrow> 'm \<Rightarrow> 'm option" where
  "print_lines B [] m = Some m"
| "print_lines B (l # ls) m = (case UART_printf B l [] m of None \<Rightarrow> None | Some m1 \<Rightarrow> print_lines B ls m1)"

definition menu_lines :: "string list" where
  "menu_lines =
     [''\<newline>--- TPM Command Menu ---\<newline>'',
      ''1: TPM2_GetRandom (32 bytes)\<newline>'',
      ''2: TPM2_CreatePrimary (ECC P-256 primary storage key)\<newline>'',
      ''3: TPM2_NV_DefineSpace (32-byte index)\<newline>'',
      ''4: TPM2_NV_Write (\"TEST\" to index)\<newline>'',
      ''5: TPM2_NV_Read (4 bytes from index)\<newline>'',
      ''6: Test: BAD_HDR (header size mismatch)\<newline>'',
      ''7: Test: GetRandom_TOO_BIG (parameter bounds)\<newline>'',
      ''8: Test: NV_READ_OVERSIZE (out-of-bounds read)\<newline>'',
      ''9: Test: NV_WRITE_OVERSIZE (out-of-bounds write)\<newline>'',
      ''a: Test: NV_WRITE_FMT_STR (format-string payload)\<newline>'',
      ''b: Test: NV_READ_UNINIT (uninitialized read)\<newline>'',
      ''c: Test: INT_OVERFLOW (integer overflow attempt)\<newline>'',
      ''Select an option: '']"

definition print_menu :: "'m bus \<Rightarrow> 'm \<Rightarrow> 'm option" where
  "print_menu B m = print_lines B menu_lines m"

definition parse_response_header :: "'m bus \<Rightarrow> bytes \<Rightarrow> 'm \<Rightarrow> 'm option" where
  "parse_response_header B resp_buf m =
     (let tag = be16 (resp_buf ! 0) (resp_buf ! 1);
          size = resp_word resp_buf 2;
          code = resp_word resp_buf 6
      in case UART_printf B ''\<newline>Response Header:\<newline>'' [] m of None \<Rightarrow> None | Some m1 \<Rightarrow>
        (case UART_printf B ''  Tag:  0x%04X\<newline>'' [Word (ucast tag)] m1 of None \<Rightarrow> None | Some m2 \<Rightarrow>
        (case UART_printf B ''  Size: %u bytes\<newline>'' [Word size] m2 of None \<Rightarrow> None | Some m3 \<Rightarrow>
        (case UART_printf B ''  Code: 0x%08X '' [Word code] m3 of None \<Rightarrow> None | Some m4 \<Rightarrow>
          if code = 0 then UART_printf B ''(TPM_RC_SUCCESS)\<newline>'' [] m4
          else UART_printf B ''(ERROR)\<newline>'' [] m4))))"

definition menu_command :: "char \<Rightarrow> bytes option" where
  "menu_command c =
     (if c = CHR ''1'' then Some CMD_GET_RANDOM
      else if c = CHR ''2'' then Some CMD_CREATE_PRIMARY
      else if c = CHR ''3'' then Some CMD_NV_DEFINE_SPACE
      else if c = CHR ''4'' then Some CMD_NV_WRITE
      else if c = CHR ''5'' then Some CMD_NV_READ
      else if c = CHR ''6'' then Some CMD_BAD_HDR
      else if c = CHR ''7'' then Some CMD_GET_RANDOM_TOO_BIG
      else if c = CHR ''8'' then Some CMD_NV_READ_OVERSIZE
      else if c = CHR ''9'' then Some CMD_NV_WRITE_OVERSIZE
      else if c = CHR ''a'' \<or> c = CHR ''A'' then Some CMD_NV_WRITE_FMT_STR
      else if c = CHR ''b'' \<or> c = CHR ''B'' then Some CMD_NV_READ_UNINIT
      else if c = CHR ''c'' \<or> c = CHR ''C'' then Some CMD_INT_OVERFLOW
      else None)"

text \<open>One command sent and its response shown, and one turn of the loop of \<open>main\<close>.\<close>

definition run_command :: "'m bus \<Rightarrow> bytes \<Rightarrow> bytes \<Rightarrow> 'm \<Rightarrow> (bytes \<times> 'm) option" where
  "run_command B cmd response_buffer m =
     (case tpm_send_command B cmd (of_nat (length cmd)) m of None \<Rightarrow> None | Some m1 \<Rightarrow>
      (case tpm_read_response B response_buffer 1024 m1 of None \<Rightarrow> None | Some (resp_size, buf, m2) \<Rightarrow>
       if resp_size > 0 then
         (case parse_response_header B buf m2 of None \<Rightarrow> None | Some m3 \<Rightarrow>
         (case UART_printf B ''\<newline>Full Response (Hex):\<newline>'' [] m3 of None \<Rightarrow> None | Some m4 \<Rightarrow>
          map_option (\<lambda>m5. (buf, m5)) (UART_print_hex B buf (unat resp_size) m4)))
       else map_option (\<lambda>m3. (buf, m3)) (UART_printf B ''Failed to get response.\<newline>'' [] m2)))"

definition main_turn :: "'m bus \<Rightarrow> ('m \<Rightarrow> 'm option) list \<Rightarrow> bytes \<Rightarrow> 'm \<Rightarrow>
    (('m \<Rightarrow> 'm option) list \<times> bytes \<times> 'm) option" where
  "main_turn B evs response_buffer m =
     (case print_menu B m of None \<Rightarrow> None | Some m1 \<Rightarrow>
      (case UART_getc B evs m1 of None \<Rightarrow> None | Some (c, evs', m2) \<Rightarrow>
      (case UART_printf B ''%c\<newline>'' [Word (of_char c)] m2 of None \<Rightarrow> None | Some m3 \<Rightarrow>
       (case menu_command c of
          None \<Rightarrow> map_option (\<lambda>m4. (evs', response_buffer, m4))
                    (UART_printf B ''Invalid option '%c'\<newline>'' [Word (of_char c)] m3)
        | Some cmd \<Rightarrow> map_option (\<lambda>r. (evs', r)) (run_command B cmd response_buffer m3)))))"

text \<open>
  The start of \<open>main\<close>, and its loop for as many turns as there are buses in the list: what the random
  generator returns and what the stack holds may differ from turn to turn.
\<close>

definition main_start :: "'m bus \<Rightarrow> 'm \<Rightarrow> 'm option" where
  "main_start B m =
     (case UART_init B m of
        None \<Rightarrow> None
      | Some m1 \<Rightarrow> UART_printf B ''--- TPM Firmware Test Started ---\<newline>'' [] m1)"

fun main_loop :: "'m bus list \<Rightarrow> ('m \<Rightarrow> 'm option) list \<Rightarrow> bytes \<Rightarrow> 'm \<Rightarrow>
    (('m \<Rightarrow> 'm option) list \<times> bytes \<times> 'm) option" where
  "main_loop [] evs response_buffer m = Some (evs, response_buffer, m)"
| "main_loop (B # Bs) evs response_buffer m =
     (case main_turn B evs response_buffer m of
        None \<Rightarrow> None
      | Some (evs', response_buffer', m1) \<Rightarrow> main_loop Bs evs' response_buffer' m1)"

declare send_words.simps [simp del] read_rest.simps [simp del]

section \<open>The driver on a machine that keeps the contracts\<close>

text \<open>Every message of the driver and the menu fits, whatever the numbers in it.\<close>

lemma messages_fit:
  "fits ''Sending command (size %u, padded to %u)...\<newline>'' [Word a, Word b]"
  "fits ''Error: TPM stopped sending early!\<newline>'' []"
  "fits ''Error: TPM did not enter SENDING state (state=%u)\<newline>'' [Word a]"
  "fits ''Reading response...\<newline>'' []"
  "fits ''Response size: actual=%u, padded=%u\<newline>'' [Word a, Word b]"
  "fits ''Error: Response buffer too small!\<newline>'' []"
  "fits ''Error: Invalid response size!\<newline>'' []"
  "fits ''Response read complete (actual %u bytes, read %u with padding).\<newline>'' [Word a, Word b]"
  "fits ''\<newline>Response Header:\<newline>'' []"
  "fits ''  Tag:  0x%04X\<newline>'' [Word a]"
  "fits ''  Size: %u bytes\<newline>'' [Word a]"
  "fits ''  Code: 0x%08X '' [Word a]"
  "fits ''(TPM_RC_SUCCESS)\<newline>'' []"
  "fits ''(ERROR)\<newline>'' []"
  "fits ''\<newline>Full Response (Hex):\<newline>'' []"
  "fits ''Failed to get response.\<newline>'' []"
  "fits ''%c\<newline>'' [Word a]"
  "fits ''Invalid option '%c'\<newline>'' [Word a]"
  "fits ''--- TPM Firmware Test Started ---\<newline>'' []"
  using length_digits_32 [of True a] length_digits_32 [of True b]
  by (simp_all add: fits_def conv_simps)

lemma menu_fits: "\<forall>l \<in> set menu_lines. fits l []"
  by (simp add: menu_lines_def fits_def)

text \<open>What is sent for a command: its bytes, and zeros up to a whole number of words.\<close>

definition padded_command :: "bytes \<Rightarrow> bytes" where
  "padded_command cmd = cmd @ replicate (pad4 (length cmd) - length cmd) 0"

lemma length_padded_command [simp]: "length (padded_command cmd) = pad4 (length cmd)"
  using pad4_ge [of "length cmd"] by (simp add: padded_command_def)

lemma nth_padded_command:
  "i < pad4 (length cmd) \<Longrightarrow> padded_command cmd ! i = (if i < length cmd then cmd ! i else 0)"
  by (simp add: padded_command_def nth_append)

lemma command_word_be32:
  assumes "i + 4 \<le> pad4 (length cmd)"
  shows "command_word cmd (length cmd) i = be32 (padded_command cmd ! i) (padded_command cmd ! (i + 1))
    (padded_command cmd ! (i + 2)) (padded_command cmd ! (i + 3))"
  using assms by (simp add: command_word_def be32_def nth_padded_command Let_def ac_simps)

lemma take_next_word:
  assumes "i + 4 \<le> length P"
  shows "take (i + 4) P = take i P @ be32_bytes (be32 (P ! i) (P ! (i + 1)) (P ! (i + 2)) (P ! (i + 3)))"
proof -
  have "take (i + 4) P = take i P @ [P ! i, P ! (i + 1), P ! (i + 2), P ! (i + 3)]"
    using assms by (simp add: numeral_eq_Suc take_Suc_conv_app_nth)
  then show ?thesis by (simp add: be_simps)
qed

lemma first_three_words:
  assumes "4 dvd length r" "12 \<le> length r"
  obtains w0 w1 w2 rem where "r = (be32_bytes w0 @ be32_bytes w1 @ be32_bytes w2) @ rem" "4 dvd length rem"
proof -
  have "r \<noteq> []" using assms(2) by auto
  then obtain w0 r0 where r0: "r = be32_bytes w0 @ r0" "4 dvd length r0"
    by (rule first_word [OF assms(1)])
  then have "r0 \<noteq> []" using assms(2) by auto
  then obtain w1 r1 where r1: "r0 = be32_bytes w1 @ r1" "4 dvd length r1"
    by (rule first_word [OF r0(2)])
  then have "r1 \<noteq> []" using assms(2) r0(1) by auto
  then obtain w2 rem where "r1 = be32_bytes w2 @ rem" "4 dvd length rem"
    by (rule first_word [OF r1(2)])
  with r0 r1 that show thesis by simp
qed

lemma stored_response:
  assumes "length h = 12" "n \<le> length buf" "12 \<le> length buf" "n \<le> 12 + length rem"
  shows "take n (overwrite (overwrite buf 0 h) 12 (take (n - 12) rem)) = take n (h @ rem)"
    "length (overwrite (overwrite buf 0 h) 12 (take (n - 12) rem)) = length buf"
proof -
  have "overwrite (overwrite buf 0 h) 12 (take (n - 12) rem) = overwrite buf 0 (h @ take (n - 12) rem)"
    using assms by (intro overwrite_join) simp_all
  with assms show "take n (overwrite (overwrite buf 0 h) 12 (take (n - 12) rem)) = take n (h @ rem)"
    "length (overwrite (overwrite buf 0 h) 12 (take (n - 12) rem)) = length buf"
    by (simp_all add: overwrite_def)
qed

text \<open>The dump of a response on the console, and a response whose header declares its size.\<close>

definition hex_dump :: "bytes \<Rightarrow> string" where
  "hex_dump bs = hex_text 0 bs @ (if length bs mod 16 \<noteq> 0 then ''\<newline>'' else [])"

definition response_size_ok :: "bytes \<Rightarrow> bool" where
  "response_size_ok r \<longleftrightarrow>
     length r = pad4 (unat (resp_word r 2)) \<and> 10 \<le> unat (resp_word r 2) \<and> unat (resp_word r 2) \<le> 1024"

context fw_machine
begin

lemma word_put:
  "inv m \<Longrightarrow> view m = Receiving bs \<Longrightarrow> length bs + 4 \<le> 1024 \<Longrightarrow>
   \<exists>m'. bus_write B FW_DATA_REG w m = Some m' \<and> inv m' \<and> view m' = Receiving (bs @ be32_bytes w) \<and>
     tpm m' = tpm m \<and> waiting m' = waiting m \<and> sent m' = sent m"
  using tpm.put_word [of m bs w] by (simp add: tpm_wr_def)

lemma word_get:
  assumes "inv m" "view m = Sending (be32_bytes w @ r)"
  shows "\<exists>m'. bus_read B FW_DATA_REG m = Some (w, m') \<and> inv m' \<and>
     view m' = (if r = [] then Idle else Sending r) \<and>
     tpm m' = tpm m \<and> waiting m' = waiting m \<and> sent m' = sent m"
proof -
  from tpm.get_word [OF assms] obtain m' where m':
    "map_option (\<lambda>(v, m'). (ucast v, m')) (bus_read B FW_DATA_REG m) = Some (ucast w :: u64, m')" "inv m'"
    "view m' = (if r = [] then Idle else Sending r)" "(tpm m', waiting m', sent m') = (tpm m, waiting m, sent m)"
    by (auto simp: tpm_rd_def)
  from m'(1) obtain v where "bus_read B FW_DATA_REG m = Some (v, m')" "ucast v = (ucast w :: u64)" by auto
  moreover from this(2) have "v = w" by (metis ucast_u32_u64)
  ultimately show ?thesis using m'(2-4) by auto
qed

lemma status_read:
  assumes "inv m"
  shows "bus_read B FW_STATUS_REG m = Some (ucast (link_status (view m)), m)"
proof -
  from tpm.status_reg [OF assms] obtain v where
    "bus_read B FW_STATUS_REG m = Some (v, m)" "ucast v = link_status (view m)"
    by (auto simp: tpm_rd_def)
  then show ?thesis by (metis ucast_u32_u64)
qed

lemma send_words_ok:
  assumes "inv m" "view m = Receiving (take i (padded_command cmd))" "4 dvd i" "i \<le> pad4 (length cmd)"
    and "pad4 (length cmd) \<le> 1024"
  shows "\<exists>m'. send_words B cmd (length cmd) (pad4 (length cmd)) i m = Some m' \<and> inv m' \<and>
    view m' = Receiving (padded_command cmd) \<and> tpm m' = tpm m \<and> waiting m' = waiting m \<and> sent m' = sent m"
  using assms
proof (induction "pad4 (length cmd) - i" arbitrary: i m rule: less_induct)
  case less
  show ?case
  proof (cases "i < pad4 (length cmd)")
    case False
    then have "send_words B cmd (length cmd) (pad4 (length cmd)) i m = Some m"
      by (subst send_words.simps) simp
    with False less.prems show ?thesis by simp
  next
    case True
    with less.prems(3) have i4: "i + 4 \<le> pad4 (length cmd)"
      by (metis pad4_dvd pad4_id pad4_next)
    have w: "take (i + 4) (padded_command cmd) =
        take i (padded_command cmd) @ be32_bytes (command_word cmd (length cmd) i)"
      using take_next_word [of i "padded_command cmd"] command_word_be32 [OF i4] i4 by simp
    obtain m1 where m1: "bus_write B FW_DATA_REG (command_word cmd (length cmd) i) m = Some m1" "inv m1"
        "view m1 = Receiving (take (i + 4) (padded_command cmd))" "tpm m1 = tpm m" "waiting m1 = waiting m"
        "sent m1 = sent m"
      using word_put [OF less.prems(1,2), of "command_word cmd (length cmd) i"] i4 less.prems(5) w by auto
    have "send_words B cmd (length cmd) (pad4 (length cmd)) i m =
        send_words B cmd (length cmd) (pad4 (length cmd)) (i + 4) m1"
      using True m1(1) by (subst send_words.simps) simp
    with less.hyps [of "i + 4" m1] m1 i4 less.prems True show ?thesis by simp
  qed
qed

lemma send_ready:
  assumes "inv m" "length cmd \<le> 1024"
  shows "\<exists>m'. tpm_send_command B cmd (of_nat (length cmd)) m = bus_write B FW_CMD_REG 1 m' \<and> inv m' \<and>
    view m' = Receiving (padded_command cmd) \<and> tpm m' = tpm m \<and> waiting m' = waiting m"
proof -
  define len where "len = (of_nat (length cmd) :: u32)"
  define padded where "padded = (len + 3) AND NOT 3"
  have l: "unat len = length cmd" using assms(2) unfolding len_def by (intro unat_of_nat_u32) simp
  then have p: "unat padded = pad4 (length cmd)" 
    unfolding padded_def using assms(2) by (subst unat_pad4) simp_all
  from tpm.start [OF assms(1)] obtain m1 where
    m1: "bus_write B FW_CTRL_REG 1 m = Some m1" "inv m1" "view m1 = Receiving []"
      "tpm m1 = tpm m" "waiting m1 = waiting m" by (auto simp: tpm_wr_def)
  obtain m2 bs where
    m2: "UART_printf B ''Sending command (size %u, padded to %u)...\<newline>'' [Word len, Word padded] m1 = Some m2"
      "prints m1 bs m2" by (rule printf_fits [OF m1(2) messages_fit(1)])
  from send_words_ok [of m2 0 cmd] m1 m2(2) pad4_le_1024 [OF assms(2)] obtain m3 where
    "send_words B cmd (length cmd) (pad4 (length cmd)) 0 m2 = Some m3" "inv m3"
      "view m3 = Receiving (padded_command cmd)" "tpm m3 = tpm m" "waiting m3 = waiting m"
    by (auto simp: prints_def)
  with m1(1) m2(1) l p show ?thesis
    unfolding tpm_send_command_def len_def [symmetric] Let_def padded_def [symmetric] by auto
qed

lemma not_processing: "ucast (link_status l) \<noteq> FW_STATE_PROCESSING"
    "ucast (link_status l) = FW_STATE_SENDING \<longleftrightarrow> (\<exists>r. l = Sending r)"
  by (cases l; simp)+

lemma wait_ends: "inv m \<Longrightarrow> wait_processing B m = Some m"
  using status_read [of m] not_processing(1) by (simp add: wait_processing.simps)

lemma read_header_ok:
  assumes "inv m" "view m = Sending (be32_bytes w0 @ be32_bytes w1 @ be32_bytes w2 @ r)" "12 \<le> length buf"
  shows "\<exists>m'. read_header B 3 buf m = Some (overwrite buf 0 (be32_bytes w0 @ be32_bytes w1 @ be32_bytes w2), m') \<and>
    inv m' \<and> view m' = (if r = [] then Idle else Sending r) \<and> tpm m' = tpm m \<and> waiting m' = waiting m"
proof -
  obtain m1 where m1: "bus_read B FW_DATA_REG m = Some (w0, m1)" "inv m1"
      "view m1 = Sending (be32_bytes w1 @ be32_bytes w2 @ r)" "tpm m1 = tpm m" "waiting m1 = waiting m"
    using word_get [OF assms(1,2)] by (auto simp: be32_bytes_def)
  obtain m2 where m2: "bus_read B FW_DATA_REG m1 = Some (w1, m2)" "inv m2"
      "view m2 = Sending (be32_bytes w2 @ r)" "tpm m2 = tpm m" "waiting m2 = waiting m"
    using word_get [OF m1(2,3)] m1(4,5) by (auto simp: be32_bytes_def)
  obtain m3 where m3: "bus_read B FW_DATA_REG m2 = Some (w2, m3)" "inv m3"
      "view m3 = (if r = [] then Idle else Sending r)" "tpm m3 = tpm m" "waiting m3 = waiting m"
    using word_get [OF m2(2,3)] m2(4,5) by auto
  show ?thesis
    using m1(1) m2(1) m3 assms(3) by (simp add: numeral_3_eq_3 memcpy_def overwrite_join)
qed

lemma read_rest_ok:
  assumes "inv m" "view m = (if rem = [] then Idle else Sending rem)" "4 dvd n"
    and "n + length rem = pad4 actual" "actual \<le> length buf"
  shows "\<exists>m'. read_rest B actual (pad4 actual) n buf m = Some (None, overwrite buf n (take (actual - n) rem), m') \<and>
    inv m' \<and> view m' = Idle \<and> tpm m' = tpm m \<and> waiting m' = waiting m"
  using assms
proof (induction "length rem" arbitrary: rem n buf m rule: less_induct)
  case less
  show ?case
  proof (cases "rem = []")
    case True
    then have "read_rest B actual (pad4 actual) n buf m = Some (None, buf, m)"
      using less.prems(4) by (subst read_rest.simps) simp
    with True less.prems show ?thesis by simp
  next
    case False
    have "4 dvd length rem"
      using less.prems(3,4) dvd_add_right_iff [of 4 n "length rem"] by simp
    with False obtain w rem' where rem: "rem = be32_bytes w @ rem'" "4 dvd length rem'"
      by (metis first_word)
    have n: "n < pad4 actual" using less.prems(4) False by (cases rem) simp_all
    then have na: "n < actual" using pad4_done [OF less.prems(3), of actual] by linarith
    obtain m1 where m1: "bus_read B FW_DATA_REG m = Some (w, m1)" "inv m1"
        "view m1 = (if rem' = [] then Idle else Sending rem')" "tpm m1 = tpm m" "waiting m1 = waiting m"
      using word_get [OF less.prems(1), of w rem'] less.prems(2) rem(1) False by auto
    let ?k = "min 4 (actual - n)"
    let ?buf = "overwrite buf n (take ?k (be32_bytes w))"
    have "n + ?k \<le> length buf" using na less.prems(5) by linarith
    then have "read_rest B actual (pad4 actual) n buf m = read_rest B actual (pad4 actual) (n + 4) ?buf m1"
      using n na m1(1) status_read [OF less.prems(1)] less.prems(2,5) False
      by (subst read_rest.simps) (simp add: memcpy_def)
    moreover have "overwrite ?buf (n + 4) (take (actual - (n + 4)) rem') = overwrite buf n (take (actual - n) rem)"
    proof (cases "n + 4 \<le> actual")
      case True
      then have "take (actual - n) rem = be32_bytes w @ take (actual - (n + 4)) rem'"
        using rem(1) by (simp add: take_Cons' be32_bytes_def numeral_eq_Suc)
      with True less.prems(5) show ?thesis by (simp add: overwrite_join)
    next
      case False
      then have "min 4 (actual - n) = actual - n" "actual - (n + 4) = 0" "actual - n < 4" by auto
      with rem(1) show ?thesis by simp
    qed
    moreover have "length rem' < length rem" "n + 4 + length rem' = pad4 actual"
      using rem(1) less.prems(4) by simp_all
    ultimately show ?thesis
      using less.hyps [of rem' m1 "n + 4" ?buf] m1 less.prems(3,5) na by simp
  qed
qed

text \<open>
  The driver reads a response of \<open>n\<close> bytes completely, in order and into the buffer, and leaves the
  device idle.
\<close>

lemma read_response_ok:
  assumes "inv m" "view m = Sending r" "unat (resp_word r 2) = n" "length r = pad4 n" "10 \<le> n"
    and "n \<le> 1024" "length buf = 1024"
  shows "\<exists>buf' m'. tpm_read_response B buf 1024 m = Some (of_nat n, buf', m') \<and> inv m' \<and> view m' = Idle \<and>
    tpm m' = tpm m \<and> waiting m' = waiting m \<and> length buf' = length buf \<and> take n buf' = take n r"
proof -
  have "12 \<le> length r" using assms(4,5) pad4_mono [of 10 n] by (simp add: pad4_def)
  then obtain w0 w1 w2 rem where r: "r = (be32_bytes w0 @ be32_bytes w1 @ be32_bytes w2) @ rem" "4 dvd length rem"
    using first_three_words [of r] assms(4) by (metis pad4_dvd)
  let ?h = "be32_bytes w0 @ be32_bytes w1 @ be32_bytes w2"
  let ?b = "overwrite buf 0 ?h"
  obtain m1 bs where m1: "UART_printf B ''Reading response...\<newline>'' [] m = Some m1" "prints m bs m1"
    by (rule printf_fits [OF assms(1) messages_fit(4)])
  then have v1: "inv m1" "view m1 = Sending (be32_bytes w0 @ be32_bytes w1 @ be32_bytes w2 @ rem)"
    using assms(2) r(1) by (simp_all add: prints_def)
  obtain m2 where m2: "read_header B 3 buf m1 = Some (?b, m2)" "inv m2"
      "view m2 = (if rem = [] then Idle else Sending rem)" "tpm m2 = tpm m1" "waiting m2 = waiting m1"
    using read_header_ok [OF v1, of buf] assms(7) by auto
  define size where "size = resp_word ?b 2"
  define padded where "padded = (size + 3) AND NOT 3"
  have "resp_word ?b 2 = resp_word r 2"
    unfolding r(1) by (simp add: resp_word_def overwrite_def nth_append be32_bytes_def)
  then have s: "unat size = n" using assms(3) by (simp add: size_def)
  then have p: "unat padded = pad4 n" unfolding padded_def using assms(6) by (subst unat_pad4) simp_all
  have cmp: "\<not> size > 1024" "\<not> size < 10" "of_nat n = size"
    using s assms(5,6) by (auto simp: word_less_nat_alt)
  obtain m3 bs3 where m3: "UART_printf B ''Response size: actual=%u, padded=%u\<newline>'' [Word size, Word padded] m2 =
      Some m3" "prints m2 bs3 m3" by (rule printf_fits [OF m2(2) messages_fit(5)])
  have len: "12 + length rem = pad4 n" using assms(4) r(1) by simp
  obtain m4 where m4: "read_rest B n (pad4 n) 12 ?b m3 = Some (None, overwrite ?b 12 (take (n - 12) rem), m4)"
      "inv m4" "view m4 = Idle" "tpm m4 = tpm m3" "waiting m4 = waiting m3"
    using read_rest_ok [of m3 rem 12 n ?b] m2 m3(2) len assms(6,7) by (auto simp: prints_def)
  obtain m5 bs5 where m5: "UART_printf B ''Response read complete (actual %u bytes, read %u with padding).\<newline>''
      [Word size, Word (of_nat (max 12 (pad4 n)))] m4 = Some m5" "prints m4 bs5 m5"
    by (rule printf_fits [OF m4(2) messages_fit(8)])
  let ?b' = "overwrite ?b 12 (take (n - 12) rem)"
  have pd: "(size + 3) AND - 4 = padded" by (simp add: padded_def)
  have "tpm_read_response B buf 1024 m = Some (size, ?b', m5)"
    unfolding tpm_read_response_def
    using wait_ends [OF assms(1)] status_read [OF assms(1)] not_processing(2) [of "view m"] assms(2) m1(1) m2(1)
      m3(1) m4(1) m5(1) cmp(1,2) s p
    by (simp add: Let_def pd flip: size_def)
  moreover have "take n ?b' = take n r" "length ?b' = length buf"
    using stored_response [of ?h n buf rem] assms(6,7) len pad4_ge [of n] unfolding r(1) by simp_all
  ultimately show ?thesis using cmp(3) m1(2) m2 m3(2) m4 m5(2) by (auto simp: prints_def)
qed

lemma print_lines_prints:
  "inv m \<Longrightarrow> \<forall>l \<in> set ls. fits l [] \<Longrightarrow> \<exists>m' bs. print_lines B ls m = Some m' \<and> prints m bs m'"
proof (induction ls arbitrary: m)
  case Nil
  then show ?case using prints_refl by auto
next
  case (Cons l ls)
  from Cons.prems have "inv m" "fits l []" by simp_all
  then obtain m1 bs where m1: "UART_printf B l [] m = Some m1" "prints m bs m1" by (rule printf_fits)
  then have "inv m1" by (simp add: prints_def)
  with Cons obtain m2 bs2 where m2: "print_lines B ls m1 = Some m2" "prints m1 bs2 m2" by fastforce
  from m1 m2(1) prints_trans [OF m1(2) m2(2)] show ?case by auto
qed

lemma parse_response_header_prints:
  assumes "inv m"
  shows "\<exists>m' bs. parse_response_header B buf m = Some m' \<and> prints m bs m'"
proof -
  define tag size code where f: "tag = be16 (buf ! 0) (buf ! 1)" "size = resp_word buf 2" "code = resp_word buf 6"
  obtain m1 b1 where m1: "UART_printf B ''\<newline>Response Header:\<newline>'' [] m = Some m1" "prints m b1 m1"
    by (rule printf_fits [OF assms messages_fit(9)])
  then have i1: "inv m1" by (simp add: prints_def)
  obtain m2 b2 where m2: "UART_printf B ''  Tag:  0x%04X\<newline>'' [Word (ucast tag)] m1 = Some m2" "prints m1 b2 m2"
    by (rule printf_fits [OF i1 messages_fit(10)])
  then have i2: "inv m2" by (simp add: prints_def)
  obtain m3 b3 where m3: "UART_printf B ''  Size: %u bytes\<newline>'' [Word size] m2 = Some m3" "prints m2 b3 m3"
    by (rule printf_fits [OF i2 messages_fit(11)])
  then have i3: "inv m3" by (simp add: prints_def)
  obtain m4 b4 where m4: "UART_printf B ''  Code: 0x%08X '' [Word code] m3 = Some m4" "prints m3 b4 m4"
    by (rule printf_fits [OF i3 messages_fit(12)])
  then have i4: "inv m4" by (simp add: prints_def)
  obtain m5 b5 where m5: "(if code = 0 then UART_printf B ''(TPM_RC_SUCCESS)\<newline>'' [] m4
      else UART_printf B ''(ERROR)\<newline>'' [] m4) = Some m5" "prints m4 b5 m5"
    using printf_fits [OF i4 messages_fit(13)] printf_fits [OF i4 messages_fit(14)] by (metis (full_types))
  note p = prints_trans [OF prints_trans [OF prints_trans [OF prints_trans [OF m1(2) m2(2)] m3(2)] m4(2)] m5(2)]
  have "parse_response_header B buf m = Some m5"
    unfolding parse_response_header_def Let_def f [symmetric] m1(1) m2(1) m3(1) m4(1) option.case
    by (rule m5(1))
  with p show ?thesis by blast
qed

text \<open>
  The device answers the command from the core \<open>c\<close>, and \<open>Q\<close> is what its execution establishes of the
  response and of the new core; and the firmware has the response in its buffer and has shown it on
  the console.
\<close>

definition answers :: "bytes \<Rightarrow> 'c \<Rightarrow> (bytes \<Rightarrow> 'c \<Rightarrow> bool) \<Rightarrow> bool" where
  "answers cmd c Q \<longleftrightarrow> (\<forall>m. inv m \<and> view m = Receiving (padded_command cmd) \<and> tpm m = c \<longrightarrow>
     (\<exists>m' r. bus_write B FW_CMD_REG 1 m = Some m' \<and> inv m' \<and> view m' = Sending r \<and> waiting m' = waiting m \<and>
        response_size_ok r \<and> Q (take (unat (resp_word r 2)) r) (tpm m')))"

definition delivered :: "(bytes \<Rightarrow> 'c \<Rightarrow> bool) \<Rightarrow> bytes \<Rightarrow> 'm \<Rightarrow> bool" where
  "delivered Q buf m \<longleftrightarrow> view m = Idle \<and> (\<exists>r pre. Q r (tpm m) \<and> take (length r) buf = r \<and>
     sent m = pre @ map of_char (hex_dump r))"

lemma run_command_ok:
  assumes "inv m" "length cmd \<le> 1024" "length buf = 1024" "answers cmd (tpm m) Q"
  shows "\<exists>buf' m'. run_command B cmd buf m = Some (buf', m') \<and> inv m' \<and> waiting m' = waiting m \<and>
    length buf' = 1024 \<and> delivered Q buf' m'"
proof -
  from send_ready [OF assms(1,2)] obtain m1 where
    m1: "tpm_send_command B cmd (of_nat (length cmd)) m = bus_write B FW_CMD_REG 1 m1" "inv m1"
      "view m1 = Receiving (padded_command cmd)" "tpm m1 = tpm m" "waiting m1 = waiting m" by blast
  with assms(4) obtain m2 r where
    m2: "bus_write B FW_CMD_REG 1 m1 = Some m2" "inv m2" "view m2 = Sending r" "waiting m2 = waiting m"
    and r: "response_size_ok r" "Q (take (unat (resp_word r 2)) r) (tpm m2)"
    unfolding answers_def by metis
  define n where "n = unat (resp_word r 2)"
  from r(1) have n: "length r = pad4 n" "10 \<le> n" "n \<le> 1024" by (simp_all add: response_size_ok_def n_def)
  from read_response_ok [OF m2(2,3) n_def [symmetric] n assms(3)] obtain buf' m3 where
    m3: "tpm_read_response B buf 1024 m2 = Some (of_nat n, buf', m3)" "inv m3" "view m3 = Idle"
      "tpm m3 = tpm m2" "waiting m3 = waiting m2" "length buf' = 1024" "take n buf' = take n r"
    unfolding assms(3) by blast
  have u: "unat (of_nat n :: u32) = n" using n(3) by (intro unat_of_nat_u32) simp
  with n(2) have pos: "(of_nat n :: u32) > 0" by (simp add: word_less_nat_alt)
  obtain m4 b4 where m4: "parse_response_header B buf' m3 = Some m4" "prints m3 b4 m4"
    using parse_response_header_prints [OF m3(2)] by blast
  then have "inv m4" by (simp add: prints_def)
  then obtain m5 b5 where m5: "UART_printf B ''\<newline>Full Response (Hex):\<newline>'' [] m4 = Some m5" "prints m4 b5 m5"
    by (rule printf_fits [OF _ messages_fit(15)])
  then have "inv m5" by (simp add: prints_def)
  have l: "length (take n r) = n" using n(1) pad4_ge [of n] by simp
  with print_hex_prints [OF \<open>inv m5\<close>, of n buf'] n(3) m3(6,7) obtain m6 where
    m6: "UART_print_hex B buf' n m5 = Some m6" "prints m5 (map of_char (hex_dump (take n r))) m6"
    unfolding hex_dump_def by auto
  have "run_command B cmd buf m = Some (buf', m6)"
    unfolding run_command_def m1(1) m2(1) m3(1) option.case prod.case using pos m4(1) m5(1) m6(1) u by simp
  moreover note p = prints_trans [OF prints_trans [OF m4(2) m5(2)] m6(2)]
  moreover have "delivered Q buf' m6"
    unfolding delivered_def
    by (intro conjI exI [of _ "take n r"] exI [of _ "sent m3 @ b4 @ b5"])
      (use p m3 r(2) l in \<open>simp_all add: prints_def n_def [symmetric]\<close>)
  ultimately show ?thesis using m3 m2(4) by (auto simp: prints_def)
qed

text \<open>A command whose execution gets stuck.\<close>

lemma run_command_stuck:
  assumes "inv m" "length cmd \<le> 1024"
    and "\<And>m'. inv m' \<Longrightarrow> view m' = Receiving (padded_command cmd) \<Longrightarrow> tpm m' = tpm m \<Longrightarrow> bus_write B FW_CMD_REG 1 m' = None"
  shows "run_command B cmd buf m = None"
proof -
  from send_ready [OF assms(1,2)] obtain m1 where
    m1: "tpm_send_command B cmd (of_nat (length cmd)) m = bus_write B FW_CMD_REG 1 m1" "inv m1"
      "view m1 = Receiving (padded_command cmd)" "tpm m1 = tpm m" by blast
  with assms(3) show ?thesis by (simp add: run_command_def)
qed

text \<open>One turn of the main loop, when the key \<open>c\<close> is what \<open>UART_getc\<close> finds: what it does with the key.\<close>

lemma main_turn_key:
  assumes "inv m"
    and getc: "\<And>m1. inv m1 \<Longrightarrow> waiting m1 = waiting m \<Longrightarrow> \<exists>m2. UART_getc B evs m1 = Some (c, evs', m2) \<and>
      inv m2 \<and> waiting m2 = q \<and> view m2 = view m1 \<and> tpm m2 = tpm m1"
  obtains m3 where "inv m3" "view m3 = view m" "tpm m3 = tpm m" "waiting m3 = q"
    "main_turn B evs buf m =
      (case menu_command c of
         None \<Rightarrow> map_option (\<lambda>m4. (evs', buf, m4)) (UART_printf B ''Invalid option '%c'\<newline>'' [Word (of_char c)] m3)
       | Some cmd \<Rightarrow> map_option (\<lambda>r. (evs', r)) (run_command B cmd buf m3))"
proof -
  obtain m1 b1 where m1: "print_menu B m = Some m1" "prints m b1 m1"
    using print_lines_prints [OF assms(1) menu_fits] unfolding print_menu_def by blast
  with getc obtain m2 where
    m2: "UART_getc B evs m1 = Some (c, evs', m2)" "inv m2" "waiting m2 = q" "view m2 = view m" "tpm m2 = tpm m"
    unfolding prints_def by metis
  obtain m3 b3 where m3: "UART_printf B ''%c\<newline>'' [Word (of_char c)] m2 = Some m3" "prints m2 b3 m3"
    by (rule printf_fits [OF m2(2) messages_fit(17)])
  show thesis
    by (rule that [of m3]) (use m2 m3(2) in \<open>simp_all add: prints_def main_turn_def m1(1) m2(1) m3(1)\<close>)
qed

lemma main_turn_ok:
  assumes "inv m" "length buf = 1024"
    and getc: "\<And>m1. inv m1 \<Longrightarrow> waiting m1 = waiting m \<Longrightarrow> \<exists>m2. UART_getc B evs m1 = Some (c, evs', m2) \<and>
      inv m2 \<and> waiting m2 = q \<and> view m2 = view m1 \<and> tpm m2 = tpm m1"
    and exec: "\<And>cmd. menu_command c = Some cmd \<Longrightarrow> length cmd \<le> 1024 \<and> answers cmd (tpm m) Q"
  shows "\<exists>buf' m'. main_turn B evs buf m = Some (evs', buf', m') \<and> inv m' \<and> waiting m' = q \<and> length buf' = 1024 \<and>
    (if menu_command c = None then buf' = buf \<and> view m' = view m \<and> tpm m' = tpm m else delivered Q buf' m')"
proof -
  obtain m3 where i3: "inv m3" "view m3 = view m" "tpm m3 = tpm m" "waiting m3 = q" and
    t: "main_turn B evs buf m =
      (case menu_command c of
         None \<Rightarrow> map_option (\<lambda>m4. (evs', buf, m4)) (UART_printf B ''Invalid option '%c'\<newline>'' [Word (of_char c)] m3)
       | Some cmd \<Rightarrow> map_option (\<lambda>r. (evs', r)) (run_command B cmd buf m3))"
    by (rule main_turn_key [OF assms(1) getc, of buf])
  show ?thesis
  proof (cases "menu_command c")
    case None
    obtain m4 b4 where m4: "UART_printf B ''Invalid option '%c'\<newline>'' [Word (of_char c)] m3 = Some m4"
        "prints m3 b4 m4" by (rule printf_fits [OF i3(1) messages_fit(18)])
    then show ?thesis using t None i3 assms(2) by (auto simp: prints_def)
  next
    case (Some cmd)
    from exec [OF Some] i3 run_command_ok [OF i3(1) _ assms(2), of cmd Q] obtain buf' m' where
      run: "run_command B cmd buf m3 = Some (buf', m')" "inv m'" "waiting m' = q" "length buf' = 1024"
      "delivered Q buf' m'" by auto
    then show ?thesis using t Some by auto
  qed
qed

lemma main_turn_stuck:
  assumes "inv m"
    and getc: "\<And>m1. inv m1 \<Longrightarrow> waiting m1 = waiting m \<Longrightarrow> \<exists>m2. UART_getc B evs m1 = Some (c, evs', m2) \<and>
      inv m2 \<and> waiting m2 = q \<and> view m2 = view m1 \<and> tpm m2 = tpm m1"
    and "menu_command c = Some cmd" "length cmd \<le> 1024"
    and stuck: "\<And>m'. inv m' \<Longrightarrow> view m' = Receiving (padded_command cmd) \<Longrightarrow> tpm m' = tpm m \<Longrightarrow>
      bus_write B FW_CMD_REG 1 m' = None"
  shows "main_turn B evs buf m = None"
proof -
  obtain m3 where i3: "inv m3" "tpm m3 = tpm m" and
    t: "main_turn B evs buf m =
      (case menu_command c of
         None \<Rightarrow> map_option (\<lambda>m4. (evs', buf, m4)) (UART_printf B ''Invalid option '%c'\<newline>'' [Word (of_char c)] m3)
       | Some cmd \<Rightarrow> map_option (\<lambda>r. (evs', r)) (run_command B cmd buf m3))"
    by (rule main_turn_key [OF assms(1) getc, of buf])
  have "run_command B cmd buf m3 = None" by (rule run_command_stuck [OF i3(1) assms(4)]) (use stuck i3(2) in simp)
  with t assms(3) show ?thesis by simp
qed

text \<open>A key that arrives while the firmware waits for one.\<close>

lemma getc_arrives:
  assumes "inv m" "waiting m = []" "ev m = Some m1" "inv m1" "waiting m1 = [k]" "view m1 = view m" "tpm m1 = tpm m"
  shows "\<exists>m2. UART_getc B (ev # evs) m = Some (char_of (unat (k AND 0xFF)), evs, m2) \<and> inv m2 \<and>
    waiting m2 = [] \<and> view m2 = view m \<and> tpm m2 = tpm m"
  using getc_waiting [OF assms(4,5), of evs] getc_polls [of m ev m1 evs] assms(1-3,6,7) by auto

lemma main_start_ok: "inv m \<Longrightarrow> \<exists>m' bs. main_start B m = Some m' \<and> prints m bs m'"
proof -
  assume m: "inv m"
  then have "bus_write B UART0_BAUDDIV 16 m = Some m" "bus_write B UART0_CTRL 1 m = Some m"
    using uart.no_reg(1) [of m 1] uart.no_reg(2) [of m 16] by (simp_all add: uart_wr_def)
  then have "UART_init B m = Some m" by (simp add: UART_init_def)
  moreover obtain m1 bs where "UART_printf B ''--- TPM Firmware Test Started ---\<newline>'' [] m = Some m1" "prints m bs m1"
    by (rule printf_fits [OF m messages_fit(19)])
  ultimately show ?thesis by (auto simp: main_start_def)
qed

end

end
