(* ===== verification/CC_Header.thy ===== *)
theory CC_Header
  imports TPM_Codes
begin

text \<open>
  The command and response headers: \<^verbatim>\<open>include/tpm/command_chain/cc_header.h\<close> (validation
  and marshalling of headers), \<^verbatim>\<open>hw/tpm/tpm_cc.c\<close> (the header and mode checks the device runs
  on every command) and \<open>MarshalResponseHeader\<close> of \<^verbatim>\<open>cc_marshal.h\<close>.

  An output parameter is passed in with its old value and returned with its new one, so a
  function that fails half way shows what it has already stored.  Buffers are slices: the
  length of the list is the size argument.  Byte counts are natural numbers: a count never
  exceeds the 32-bit size of the buffer it counts in, so it cannot wrap.  Pointers to locals and
  to members, which every caller passes with \<open>&\<close>, are taken to be non-NULL.
\<close>

record TPM_CMD_HEADER =
  cmd_tag :: u16
  cmd_hsize :: u32
  cmd_code :: u32

record TPM_RSP_HEADER =
  rsp_tag :: u16
  rsp_hsize :: u32
  rsp_code :: u32

datatype tpm_operational_mode =
  TPM_MODE_NORMAL | TPM_MODE_FAILURE | TPM_MODE_FIELD | TPM_MODE_NOINIT

abbreviation (input) TPM_CMD_HEADER_SIZE :: nat where "TPM_CMD_HEADER_SIZE \<equiv> 10"
abbreviation (input) TPM_RSP_HEADER_SIZE :: nat where "TPM_RSP_HEADER_SIZE \<equiv> 10"
abbreviation (input) TPM_MIN_COMMAND_SIZE :: u32 where "TPM_MIN_COMMAND_SIZE \<equiv> 10"
abbreviation (input) TPM_MAX_COMMAND_SIZE :: u32 where "TPM_MAX_COMMAND_SIZE \<equiv> 4096"
abbreviation (input) TPM_MIN_RESPONSE_SIZE :: u32 where "TPM_MIN_RESPONSE_SIZE \<equiv> 10"
abbreviation (input) TPM_MAX_RESPONSE_SIZE :: u32 where "TPM_MAX_RESPONSE_SIZE \<equiv> 4096"

section \<open>cc_header.h: field checks\<close>

definition UnmarshalCommandTag :: "u16 \<Rightarrow> TPM_RC" where
  "UnmarshalCommandTag tag =
     (if tag \<noteq> TPM_ST_NO_SESSIONS \<and> tag \<noteq> TPM_ST_SESSIONS then TPM_RC_BAD_TAG
      else TPM_RC_SUCCESS)"

definition UnmarshalResponseTag :: "u16 \<Rightarrow> TPM_RC" where
  "UnmarshalResponseTag tag =
     (if tag \<noteq> TPM_ST_NO_SESSIONS \<and> tag \<noteq> TPM_ST_SESSIONS then TPM_RC_BAD_TAG
      else TPM_RC_SUCCESS)"

definition UnmarshalCommandSize :: "u32 \<Rightarrow> TPM_RC" where
  "UnmarshalCommandSize commandSize =
     (if commandSize < TPM_MIN_COMMAND_SIZE \<or> commandSize > TPM_MAX_COMMAND_SIZE
      then TPM_RC_COMMAND_SIZE else TPM_RC_SUCCESS)"

definition UnmarshalResponseSize :: "u32 \<Rightarrow> TPM_RC" where
  "UnmarshalResponseSize responseSize =
     (if responseSize < TPM_MIN_RESPONSE_SIZE \<or> responseSize > TPM_MAX_RESPONSE_SIZE
      then TPM_RC_SIZE else TPM_RC_SUCCESS)"

definition UnmarshalCommandCode :: "u32 \<Rightarrow> TPM_RC" where
  "UnmarshalCommandCode commandCode =
     (if (commandCode \<ge> TPM_CC_FIRST \<and> commandCode \<le> TPM_CC_LAST) \<or>
         (commandCode \<ge> CC_VEND \<and> commandCode \<le> 0x2FFFFFFF)
      then TPM_RC_SUCCESS else TPM_RC_COMMAND_CODE)"

section \<open>cc_header.h: whole headers\<close>

definition UnmarshalCommandHeader ::
  "bytes \<Rightarrow> TPM_CMD_HEADER \<Rightarrow> nat \<Rightarrow> TPM_RC \<times> TPM_CMD_HEADER \<times> nat" where
  "UnmarshalCommandHeader buffer header bytesRead =
    (if length buffer < TPM_CMD_HEADER_SIZE then (TPM_RC_INSUFFICIENT, header, bytesRead)
     else let h1 = header\<lparr>cmd_tag := be16 (buffer ! 0) (buffer ! 1)\<rparr>;
              rc = UnmarshalCommandTag (cmd_tag h1)
     in if rc \<noteq> TPM_RC_SUCCESS then (rc, h1, bytesRead)
     else let h2 = h1\<lparr>cmd_hsize := be32 (buffer ! 2) (buffer ! 3) (buffer ! 4) (buffer ! 5)\<rparr>;
              rc = UnmarshalCommandSize (cmd_hsize h2)
     in if rc \<noteq> TPM_RC_SUCCESS then (rc, h2, bytesRead)
     else if unat (cmd_hsize h2) > length buffer then (TPM_RC_COMMAND_SIZE, h2, bytesRead)
     else let h3 = h2\<lparr>cmd_code := be32 (buffer ! 6) (buffer ! 7) (buffer ! 8) (buffer ! 9)\<rparr>;
              rc = UnmarshalCommandCode (cmd_code h3)
     in if rc \<noteq> TPM_RC_SUCCESS then (rc, h3, bytesRead)
     else (TPM_RC_SUCCESS, h3, 10))"

definition UnmarshalResponseHeader ::
  "bytes \<Rightarrow> TPM_RSP_HEADER \<Rightarrow> nat \<Rightarrow> TPM_RC \<times> TPM_RSP_HEADER \<times> nat" where
  "UnmarshalResponseHeader buffer header bytesRead =
    (if length buffer < TPM_RSP_HEADER_SIZE then (TPM_RC_INSUFFICIENT, header, bytesRead)
     else let h1 = header\<lparr>rsp_tag := be16 (buffer ! 0) (buffer ! 1)\<rparr>;
              rc = UnmarshalResponseTag (rsp_tag h1)
     in if rc \<noteq> TPM_RC_SUCCESS then (rc, h1, bytesRead)
     else let h2 = h1\<lparr>rsp_hsize := be32 (buffer ! 2) (buffer ! 3) (buffer ! 4) (buffer ! 5)\<rparr>;
              rc = UnmarshalResponseSize (rsp_hsize h2)
     in if rc \<noteq> TPM_RC_SUCCESS then (rc, h2, bytesRead)
     else if unat (rsp_hsize h2) > length buffer then (TPM_RC_SIZE, h2, bytesRead)
     else (TPM_RC_SUCCESS,
           h2\<lparr>rsp_code := be32 (buffer ! 6) (buffer ! 7) (buffer ! 8) (buffer ! 9)\<rparr>, 10))"

definition MarshalCommandHeader ::
  "bytes \<Rightarrow> TPM_CMD_HEADER \<Rightarrow> nat \<Rightarrow> TPM_RC \<times> bytes \<times> nat" where
  "MarshalCommandHeader buffer header bytesWritten =
    (if length buffer < TPM_CMD_HEADER_SIZE then (TPM_RC_INSUFFICIENT, buffer, bytesWritten)
     else if UnmarshalCommandTag (cmd_tag header) \<noteq> TPM_RC_SUCCESS
          then (TPM_RC_BAD_TAG, buffer, bytesWritten)
     else if UnmarshalCommandSize (cmd_hsize header) \<noteq> TPM_RC_SUCCESS
          then (TPM_RC_COMMAND_SIZE, buffer, bytesWritten)
     else if UnmarshalCommandCode (cmd_code header) \<noteq> TPM_RC_SUCCESS
          then (TPM_RC_COMMAND_CODE, buffer, bytesWritten)
     else (TPM_RC_SUCCESS,
           overwrite buffer 0
             (be16_bytes (cmd_tag header) @ be32_bytes (cmd_hsize header) @
              be32_bytes (cmd_code header)), 10))"

text \<open>The response header is marshalled by \<^verbatim>\<open>cc_marshal.h\<close>, which checks no field.\<close>

definition MarshalResponseHeader ::
  "bytes \<Rightarrow> TPM_RSP_HEADER \<Rightarrow> nat \<Rightarrow> TPM_RC \<times> bytes \<times> nat" where
  "MarshalResponseHeader buffer header bytesWritten =
    (if length buffer < TPM_RSP_HEADER_SIZE then (TPM_RC_INSUFFICIENT, buffer, bytesWritten)
     else (TPM_RC_SUCCESS,
           overwrite buffer 0
             (be16_bytes (rsp_tag header) @ be32_bytes (rsp_hsize header) @
              be32_bytes (rsp_code header)), 10))"

definition HasSessions :: "u16 \<Rightarrow> int" where
  "HasSessions tag = (if tag = TPM_ST_SESSIONS then 1 else 0)"

definition GetResponseTag :: "u16 \<Rightarrow> u16" where
  "GetResponseTag commandTag = commandTag"

section \<open>tpm_cc.c: the checks the device runs\<close>

definition is_valid_cc_command :: "u32 \<Rightarrow> bool" where
  "is_valid_cc_command commandCode \<longleftrightarrow>
     (commandCode \<ge> TPM_CC_FIRST \<and> commandCode \<le> TPM_CC_LAST) \<or>
     (commandCode \<ge> CC_VEND \<and> commandCode \<le> 0x2FFFFFFF)"

text \<open>The buffer is \<open>None\<close> for a NULL pointer; the result is the C return value, 0 or -1.\<close>

definition tpm_unpack_header ::
  "bytes option \<Rightarrow> TPM_CMD_HEADER \<Rightarrow> int \<times> TPM_CMD_HEADER" where
  "tpm_unpack_header buffer header =
    (case buffer of
       None \<Rightarrow> (-1, header)
     | Some buf \<Rightarrow>
         if length buf < 10 then (-1, header)
         else (0, \<lparr>cmd_tag = be16 (buf ! 0) (buf ! 1),
                   cmd_hsize = be32 (buf ! 2) (buf ! 3) (buf ! 4) (buf ! 5),
                   cmd_code = be32 (buf ! 6) (buf ! 7) (buf ! 8) (buf ! 9)\<rparr>))"

definition TPM2_ValidateCommandHeader ::
  "bytes option \<Rightarrow> TPM_CMD_HEADER \<Rightarrow> TPM_RC \<times> TPM_CMD_HEADER" where
  "TPM2_ValidateCommandHeader cmdBuf hdr0 =
    (case cmdBuf of
       None \<Rightarrow> (TPM_RC_COMMAND_SIZE, hdr0)
     | Some buf \<Rightarrow>
         if length buf < 10 then (TPM_RC_COMMAND_SIZE, hdr0)
         else (case tpm_unpack_header cmdBuf hdr0 of (ret, hdr) \<Rightarrow>
           if ret = -1 then (TPM_RC_COMMAND_SIZE, hdr)
           else if cmd_tag hdr \<noteq> TPM_ST_NO_SESSIONS \<and> cmd_tag hdr \<noteq> TPM_ST_SESSIONS
             then (TPM_RC_BAD_TAG, hdr)
           else if cmd_hsize hdr < 10 \<or> unat (cmd_hsize hdr) \<noteq> length buf
             then (TPM_RC_COMMAND_SIZE, hdr)
           else if \<not> is_valid_cc_command (cmd_code hdr) then (TPM_RC_COMMAND_CODE, hdr)
           else (TPM_RC_SUCCESS, hdr)))"

text \<open>\<open>TPM2_ValidateMode\<close> reads nothing of the TPM state but its operational mode.\<close>

definition TPM2_ValidateMode :: "TPM_CMD_HEADER \<Rightarrow> tpm_operational_mode \<Rightarrow> TPM_RC" where
  "TPM2_ValidateMode cmdHeader tpm_mode =
    (case tpm_mode of
       TPM_MODE_FAILURE \<Rightarrow>
         if \<not> ((cmd_code cmdHeader = TPM_CC_GetTestResult \<or>
                 cmd_code cmdHeader = TPM_CC_GetCapability) \<and>
                cmd_tag cmdHeader = TPM_ST_NO_SESSIONS)
         then TPM_RC_FAILURE else TPM_RC_SUCCESS
     | TPM_MODE_FIELD \<Rightarrow>
         if \<not> (cmd_code cmdHeader = TPM_CC_FieldUpgradeData)
         then TPM_RC_UPGRADE else TPM_RC_SUCCESS
     | TPM_MODE_NOINIT \<Rightarrow>
         if \<not> (cmd_code cmdHeader = TPM_CC_Startup)
         then TPM_RC_INITIALIZE else TPM_RC_SUCCESS
     | TPM_MODE_NORMAL \<Rightarrow> TPM_RC_SUCCESS)"

text \<open>The ten bytes of a header, as both marshalling routines store them.\<close>

definition header_bytes :: "u16 \<Rightarrow> u32 \<Rightarrow> u32 \<Rightarrow> bytes" where
  "header_bytes tag sz code = be16_bytes tag @ be32_bytes sz @ be32_bytes code"

section \<open>Lemmas\<close>

lemmas header_field_checks =
  UnmarshalCommandTag_def UnmarshalResponseTag_def UnmarshalCommandSize_def
  UnmarshalResponseSize_def UnmarshalCommandCode_def

lemma length_header_bytes [simp]: "length (header_bytes t s c) = 10"
  by (simp add: header_bytes_def)

lemma header_bytes_decode:
  assumes "take 10 buf = header_bytes t s c"
  shows "be16 (buf ! 0) (buf ! 1) = t"
    and "be32 (buf ! 2) (buf ! 3) (buf ! 4) (buf ! 5) = s"
    and "be32 (buf ! 6) (buf ! 7) (buf ! 8) (buf ! 9) = c"
proof -
  have nth: "buf ! i = header_bytes t s c ! i" if "i < 10" for i
    using assms that by (metis nth_take)
  show "be16 (buf ! 0) (buf ! 1) = t"
    by (simp add: nth header_bytes_def be16_bytes_def be32_bytes_def be_simps)
  show "be32 (buf ! 2) (buf ! 3) (buf ! 4) (buf ! 5) = s"
    by (simp add: nth header_bytes_def be16_bytes_def be32_bytes_def be_simps)
  show "be32 (buf ! 6) (buf ! 7) (buf ! 8) (buf ! 9) = c"
    by (simp add: nth header_bytes_def be16_bytes_def be32_bytes_def be_simps)
qed

lemma header_bytes_inject [simp]:
  "header_bytes t s c = header_bytes t' s' c' \<longleftrightarrow> t = t' \<and> s = s' \<and> c = c'"
  using header_bytes_decode [of "header_bytes t s c" t s c]
    header_bytes_decode [of "header_bytes t s c" t' s' c'] by auto

lemma take_overwrite_0 [simp]: "take (length src) (overwrite dst 0 src) = src"
  by (simp add: overwrite_def)

lemma MarshalResponseHeader_bytes:
  "10 \<le> length buffer \<Longrightarrow>
   MarshalResponseHeader buffer h n =
     (TPM_RC_SUCCESS,
      overwrite buffer 0 (header_bytes (rsp_tag h) (rsp_hsize h) (rsp_code h)), 10)"
  by (simp add: MarshalResponseHeader_def header_bytes_def)

lemma header_bytes_of_fields:
  "10 \<le> length buf \<Longrightarrow>
   header_bytes (be16 (buf ! 0) (buf ! 1)) (be32 (buf ! 2) (buf ! 3) (buf ! 4) (buf ! 5))
     (be32 (buf ! 6) (buf ! 7) (buf ! 8) (buf ! 9)) = take 10 buf"
  by (rule nth_equalityI)
    (auto simp: header_bytes_def be_simps less_Suc_eq numeral_eq_Suc)

lemma tpm_unpack_header_iff:
  "10 \<le> length buf \<Longrightarrow>
   tpm_unpack_header (Some buf) h0 = (0, h) \<longleftrightarrow>
     take 10 buf = header_bytes (cmd_tag h) (cmd_hsize h) (cmd_code h)"
  unfolding tpm_unpack_header_def
  by (auto simp: header_bytes_of_fields [symmetric])

lemma tpm_unpack_header_ok:
  "10 \<le> length buf \<Longrightarrow> \<exists>h. tpm_unpack_header (Some buf) h0 = (0, h)"
  by (simp add: tpm_unpack_header_def)

lemma MarshalCommandHeader_success_iff:
  "fst (MarshalCommandHeader buf h n) = TPM_RC_SUCCESS \<longleftrightarrow>
     10 \<le> length buf \<and> UnmarshalCommandTag (cmd_tag h) = TPM_RC_SUCCESS \<and>
     UnmarshalCommandSize (cmd_hsize h) = TPM_RC_SUCCESS \<and>
     UnmarshalCommandCode (cmd_code h) = TPM_RC_SUCCESS"
  by (auto simp: MarshalCommandHeader_def)

lemma MarshalCommandHeader_bytes:
  "MarshalCommandHeader buf h n = (TPM_RC_SUCCESS, buf', n') \<Longrightarrow>
   10 \<le> length buf \<and> n' = 10 \<and>
   buf' = overwrite buf 0 (header_bytes (cmd_tag h) (cmd_hsize h) (cmd_code h))"
  by (auto simp: MarshalCommandHeader_def header_bytes_def split: if_splits)

lemma UnmarshalCommandHeader_success_iff:
  "UnmarshalCommandHeader buf h0 n0 = (TPM_RC_SUCCESS, h, n) \<longleftrightarrow>
     10 \<le> length buf \<and> n = 10 \<and>
     take 10 buf = header_bytes (cmd_tag h) (cmd_hsize h) (cmd_code h) \<and>
     UnmarshalCommandTag (cmd_tag h) = TPM_RC_SUCCESS \<and>
     UnmarshalCommandSize (cmd_hsize h) = TPM_RC_SUCCESS \<and>
     unat (cmd_hsize h) \<le> length buf \<and>
     UnmarshalCommandCode (cmd_code h) = TPM_RC_SUCCESS"
  unfolding UnmarshalCommandHeader_def
  by (cases h; cases h0) (auto simp: Let_def header_bytes_of_fields [symmetric])

lemma ValidateCommandHeader_success_iff:
  "TPM2_ValidateCommandHeader (Some buf) h0 = (TPM_RC_SUCCESS, h) \<longleftrightarrow>
     10 \<le> length buf \<and>
     take 10 buf = header_bytes (cmd_tag h) (cmd_hsize h) (cmd_code h) \<and>
     (cmd_tag h = TPM_ST_NO_SESSIONS \<or> cmd_tag h = TPM_ST_SESSIONS) \<and>
     unat (cmd_hsize h) = length buf \<and> is_valid_cc_command (cmd_code h)"
  unfolding TPM2_ValidateCommandHeader_def tpm_unpack_header_def
  by (cases h) (auto simp: header_bytes_of_fields [symmetric] word_less_nat_alt)

lemma MarshalCommandHeader_checked:
  "MarshalCommandHeader buf h n = (TPM_RC_SUCCESS, buf', n') \<Longrightarrow>
   UnmarshalCommandTag (cmd_tag h) = TPM_RC_SUCCESS \<and>
   UnmarshalCommandSize (cmd_hsize h) = TPM_RC_SUCCESS \<and>
   UnmarshalCommandCode (cmd_code h) = TPM_RC_SUCCESS"
  using MarshalCommandHeader_success_iff [of buf h n] by simp

lemma header_prefix_overwrite:
  "10 \<le> length buf \<Longrightarrow> take 10 (overwrite buf 0 (header_bytes t s c)) = header_bytes t s c"
  using take_overwrite_0 [of "header_bytes t s c" buf] by simp

section \<open>Properties\<close>

text \<open>
  C27.  A command header that \<open>MarshalCommandHeader\<close> accepts and stores in a buffer at least as
  long as the size it declares is read back unchanged, and in full, by
  \<open>UnmarshalCommandHeader\<close>, whatever the output parameters held before.
\<close>

theorem command_header_roundtrip:
  assumes "MarshalCommandHeader buf h n = (TPM_RC_SUCCESS, buf', n')"
    and "unat (cmd_hsize h) \<le> length buf"
  shows "UnmarshalCommandHeader buf' h0 n0 = (TPM_RC_SUCCESS, h, n')"
  using MarshalCommandHeader_bytes [OF assms(1)] MarshalCommandHeader_checked [OF assms(1)] assms(2)
  by (simp add: UnmarshalCommandHeader_success_iff header_prefix_overwrite)

theorem command_header_roundtrip_witness:
  "UnmarshalCommandHeader
     (header_bytes 0x8001 12 0x17B @ [0, 8]) \<lparr>cmd_tag = 0, cmd_hsize = 0, cmd_code = 0\<rparr> 0 =
   (TPM_RC_SUCCESS, \<lparr>cmd_tag = 0x8001, cmd_hsize = 12, cmd_code = 0x17B\<rparr>, 10)"
  by (rule command_header_roundtrip [of "replicate 10 0 @ [0, 8]" _ 0])
    (simp_all add: MarshalCommandHeader_def header_field_checks header_bytes_def overwrite_def)

text \<open>
  C22.  The device accepts a command buffer exactly when it starts with the ten bytes of a header
  whose tag is one of the two session tags, whose size field is the number of bytes received and
  whose code lies in the implemented or in the vendor range; the header it hands on is that one.
\<close>

theorem validate_command_header_exact:
  "TPM2_ValidateCommandHeader (Some buf) h0 = (TPM_RC_SUCCESS, h) \<longleftrightarrow>
     10 \<le> length buf \<and>
     take 10 buf = header_bytes (cmd_tag h) (cmd_hsize h) (cmd_code h) \<and>
     (cmd_tag h = TPM_ST_NO_SESSIONS \<or> cmd_tag h = TPM_ST_SESSIONS) \<and>
     unat (cmd_hsize h) = length buf \<and> is_valid_cc_command (cmd_code h)"
  by (rule ValidateCommandHeader_success_iff)

text \<open>
  C28.  The two header routines of the code base agree: a buffer of at most 4096 bytes that passes
  the device's \<open>TPM2_ValidateCommandHeader\<close> also passes \<open>UnmarshalCommandHeader\<close>, with
  the same header.
\<close>

theorem header_routines_agree:
  assumes "TPM2_ValidateCommandHeader (Some buf) h0 = (TPM_RC_SUCCESS, h)"
    and "length buf \<le> 4096"
  shows "UnmarshalCommandHeader buf h1 n = (TPM_RC_SUCCESS, h, 10)"
  using assms unfolding ValidateCommandHeader_success_iff UnmarshalCommandHeader_success_iff
  by (auto simp: header_field_checks is_valid_cc_command_def word_less_nat_alt)

theorem header_routines_agree_witness:
  "UnmarshalCommandHeader (header_bytes 0x8001 12 0x17B @ [0, 8])
     \<lparr>cmd_tag = 0, cmd_hsize = 0, cmd_code = 0\<rparr> 0 =
   (TPM_RC_SUCCESS, \<lparr>cmd_tag = 0x8001, cmd_hsize = 12, cmd_code = 0x17B\<rparr>, 10)"
  by (rule header_routines_agree [where ?h0.0 = "\<lparr>cmd_tag = 0, cmd_hsize = 0, cmd_code = 0\<rparr>"])
    (simp_all add: ValidateCommandHeader_success_iff is_valid_cc_command_def)

end
