(* ===== verification/CC_Unmarshal.thy ===== *)
theory CC_Unmarshal
  imports CC_Codec
begin

text \<open>
  \<^verbatim>\<open>include/tpm/command_chain/cc_unmarshal.h\<close>: reading command parameters.  The integers
  and the size-prefixed buffers (TPM2B) are interpretations of the decoder contract; the
  parameter areas of the five commands are sequences of them.  The header is compiled into
  \<^verbatim>\<open>tpm_hw.c\<close> with the macro \<open>TPM_RC_VALUE\<close> of \<^verbatim>\<open>tpm2_alg_structs.h\<close>, which is 0: the
  early return of \<open>Unmarshal_NV_Write\<close> and \<open>Unmarshal_NV_Read\<close> on a non-empty
  authorization area therefore reports success.
\<close>

section \<open>Basic types\<close>

definition Unmarshal_UINT8 :: "bytes \<Rightarrow> u8 \<Rightarrow> nat \<Rightarrow> TPM_RC \<times> u8 \<times> nat" where
  "Unmarshal_UINT8 buffer val bytesRead =
     (if length buffer < 1 then (TPM_RC_INSUFFICIENT, val, bytesRead)
      else (TPM_RC_SUCCESS, buffer ! 0, 1))"

definition Unmarshal_UINT16 :: "bytes \<Rightarrow> u16 \<Rightarrow> nat \<Rightarrow> TPM_RC \<times> u16 \<times> nat" where
  "Unmarshal_UINT16 buffer val bytesRead =
     (if length buffer < 2 then (TPM_RC_INSUFFICIENT, val, bytesRead)
      else (TPM_RC_SUCCESS, be16 (buffer ! 0) (buffer ! 1), 2))"

definition Unmarshal_UINT32 :: "bytes \<Rightarrow> u32 \<Rightarrow> nat \<Rightarrow> TPM_RC \<times> u32 \<times> nat" where
  "Unmarshal_UINT32 buffer val bytesRead =
     (if length buffer < 4 then (TPM_RC_INSUFFICIENT, val, bytesRead)
      else (TPM_RC_SUCCESS, be32 (buffer ! 0) (buffer ! 1) (buffer ! 2) (buffer ! 3), 4))"

definition Unmarshal_UINT64 :: "bytes \<Rightarrow> u64 \<Rightarrow> nat \<Rightarrow> TPM_RC \<times> u64 \<times> nat" where
  "Unmarshal_UINT64 buffer val bytesRead =
     (if length buffer < 8 then (TPM_RC_INSUFFICIENT, val, bytesRead)
      else (TPM_RC_SUCCESS,
            be64 (buffer ! 0) (buffer ! 1) (buffer ! 2) (buffer ! 3)
                 (buffer ! 4) (buffer ! 5) (buffer ! 6) (buffer ! 7), 8))"

text \<open>The destination of a TPM2B is the pair of \<open>*dataSize\<close> and the array \<open>dataBuffer\<close>.\<close>

definition Unmarshal_TPM2B :: "u16 \<Rightarrow> (u16 \<times> bytes) unmarshaller" where
  "Unmarshal_TPM2B maxSize buffer dst bytesRead =
     (case dst of (dataSize0, dataBuffer) \<Rightarrow>
      case Unmarshal_UINT16 buffer dataSize0 0 of (rc, dataSize, consumed) \<Rightarrow>
        if rc \<noteq> TPM_RC_SUCCESS then Some (rc, (dataSize, dataBuffer), bytesRead)
        else if dataSize > maxSize then Some (TPM_RC_SIZE, (dataSize, dataBuffer), bytesRead)
        else if length buffer - consumed < unat dataSize
          then Some (TPM_RC_INSUFFICIENT, (dataSize, dataBuffer), bytesRead)
        else (case (if dataSize > 0
                    then memcpy dataBuffer 0 (drop consumed buffer) (unat dataSize)
                    else Some dataBuffer) of
                None \<Rightarrow> None
              | Some dataBuffer' \<Rightarrow>
                  Some (TPM_RC_SUCCESS, (dataSize, dataBuffer'), consumed + unat dataSize)))"

section \<open>Parameter areas\<close>

definition Unmarshal_GetRandom :: "bytes \<Rightarrow> u16 \<Rightarrow> nat \<Rightarrow> TPM_RC \<times> u16 \<times> nat" where
  "Unmarshal_GetRandom buffer bytesRequested bytesRead =
     Unmarshal_UINT16 buffer bytesRequested bytesRead"

record CreatePrimary_Params =
  cp_primaryHandle :: u32
  cp_authorizationSize :: u32
  cp_inSensitiveSize :: u16
  cp_userAuthSize :: u16
  cp_userAuth :: bytes
  cp_dataSize :: u16
  cp_data :: bytes
  cp_inPublicSize :: u16

definition Unmarshal_CreatePrimary :: "CreatePrimary_Params unmarshaller" where
  "Unmarshal_CreatePrimary buffer params bytesRead = finish
    (fbind (unmarshal_at (no_fault Unmarshal_UINT32) cp_primaryHandle
              (\<lambda>v p. p\<lparr>cp_primaryHandle := v\<rparr>) buffer params 0) (\<lambda>p off.
     fbind (unmarshal_at (no_fault Unmarshal_UINT16) cp_inSensitiveSize
              (\<lambda>v p. p\<lparr>cp_inSensitiveSize := v\<rparr>) buffer p off) (\<lambda>p off.
     fbind (if cp_inSensitiveSize p > 0 then
              fbind (unmarshal_at (Unmarshal_TPM2B 64) (\<lambda>p. (cp_userAuthSize p, cp_userAuth p))
                       (\<lambda>(n, b) p. p\<lparr>cp_userAuthSize := n, cp_userAuth := b\<rparr>) buffer p off) (\<lambda>p off.
              unmarshal_at (Unmarshal_TPM2B 256) (\<lambda>p. (cp_dataSize p, cp_data p))
                       (\<lambda>(n, b) p. p\<lparr>cp_dataSize := n, cp_data := b\<rparr>) buffer p off)
            else Next p off) (\<lambda>p off.
     fbind (unmarshal_at (no_fault Unmarshal_UINT16) cp_inPublicSize
              (\<lambda>v p. p\<lparr>cp_inPublicSize := v\<rparr>) buffer p off) (\<lambda>p off.
     if length buffer - off < unat (cp_inPublicSize p) then Return TPM_RC_INSUFFICIENT p
     else Next p (off + unat (cp_inPublicSize p)))))))
    bytesRead"

record NV_DefineSpace_Params =
  ds_authHandle :: u32
  ds_authSize :: u16
  ds_auth :: bytes
  ds_publicSize :: u16
  ds_nvIndex :: u32
  ds_nameAlg :: u16
  ds_attributes :: u32
  ds_authPolicySize :: u16
  ds_authPolicy :: bytes
  ds_dataSize :: u16

definition Unmarshal_NV_DefineSpace :: "NV_DefineSpace_Params unmarshaller" where
  "Unmarshal_NV_DefineSpace buffer params bytesRead = finish
    (fbind (unmarshal_at (no_fault Unmarshal_UINT32) ds_authHandle
              (\<lambda>v p. p\<lparr>ds_authHandle := v\<rparr>) buffer params 0) (\<lambda>p off.
     fbind (unmarshal_at (Unmarshal_TPM2B 64) (\<lambda>p. (ds_authSize p, ds_auth p))
              (\<lambda>(n, b) p. p\<lparr>ds_authSize := n, ds_auth := b\<rparr>) buffer p off) (\<lambda>p off.
     fbind (unmarshal_at (no_fault Unmarshal_UINT16) ds_publicSize
              (\<lambda>v p. p\<lparr>ds_publicSize := v\<rparr>) buffer p off) (\<lambda>p off.
     fbind (unmarshal_at (no_fault Unmarshal_UINT32) ds_nvIndex
              (\<lambda>v p. p\<lparr>ds_nvIndex := v\<rparr>) buffer p off) (\<lambda>p off.
     fbind (unmarshal_at (no_fault Unmarshal_UINT16) ds_nameAlg
              (\<lambda>v p. p\<lparr>ds_nameAlg := v\<rparr>) buffer p off) (\<lambda>p off.
     fbind (unmarshal_at (no_fault Unmarshal_UINT32) ds_attributes
              (\<lambda>v p. p\<lparr>ds_attributes := v\<rparr>) buffer p off) (\<lambda>p off.
     fbind (unmarshal_at (Unmarshal_TPM2B 64) (\<lambda>p. (ds_authPolicySize p, ds_authPolicy p))
              (\<lambda>(n, b) p. p\<lparr>ds_authPolicySize := n, ds_authPolicy := b\<rparr>) buffer p off) (\<lambda>p off.
     unmarshal_at (no_fault Unmarshal_UINT16) ds_dataSize
              (\<lambda>v p. p\<lparr>ds_dataSize := v\<rparr>) buffer p off))))))))
    bytesRead"

record TPM2B_MAX_NV_BUFFER =
  nvb_size :: u16
  nvb_buffer :: bytes

record NV_Write_Params =
  nw_authHandle :: TPM_HANDLE
  nw_nvIndex :: u32
  nw_data :: TPM2B_MAX_NV_BUFFER
  nw_offset :: u16

record NV_Read_Params =
  nr_authHandle :: TPM_HANDLE
  nr_nvIndex :: u32
  nr_sizeToRead :: u16
  nr_offset :: u16

record NV_Read_Response =
  nrr_data :: TPM2B_MAX_NV_BUFFER

definition Unmarshal_TPM2B_MAX_NV_BUFFER :: "TPM2B_MAX_NV_BUFFER unmarshaller" where
  "Unmarshal_TPM2B_MAX_NV_BUFFER buffer target bytesRead =
     (case Unmarshal_UINT16 buffer (nvb_size target) 0 of (rc, sz, consumed) \<Rightarrow>
        if rc \<noteq> TPM_RC_SUCCESS then Some (rc, target\<lparr>nvb_size := sz\<rparr>, bytesRead)
        else if sz > 1024 then Some (TPM_RC_SIZE, target\<lparr>nvb_size := sz\<rparr>, bytesRead)
        else if length buffer - consumed < unat sz
          then Some (TPM_RC_INSUFFICIENT, target\<lparr>nvb_size := sz\<rparr>, bytesRead)
        else (case memcpy (nvb_buffer target) 0 (drop consumed buffer) (unat sz) of
                None \<Rightarrow> None
              | Some b \<Rightarrow> Some (TPM_RC_SUCCESS, target\<lparr>nvb_size := sz, nvb_buffer := b\<rparr>,
                                consumed + unat sz)))"

text \<open>
  The authorization area: a local \<open>authSize\<close>, which must be 0.  When it is not, the routine
  returns \<open>TPM_RC_VALUE\<close>, that is 0.
\<close>

definition skip_auth_area :: "bytes \<Rightarrow> 'p \<Rightarrow> nat \<Rightarrow> 'p flow" where
  "skip_auth_area buffer p off =
     (case Unmarshal_UINT16 (drop off buffer) 0 0 of (rc, authSize, consumed) \<Rightarrow>
        if rc \<noteq> TPM_RC_SUCCESS then Return rc p
        else if authSize \<noteq> 0 then Return TPM_RC_VALUE_macro p
        else Next p (off + consumed))"

definition Unmarshal_NV_Write :: "NV_Write_Params unmarshaller" where
  "Unmarshal_NV_Write buffer params bytesRead = finish
    (fbind (unmarshal_at (no_fault Unmarshal_UINT32) nw_authHandle
              (\<lambda>v p. p\<lparr>nw_authHandle := v\<rparr>) buffer params 0) (\<lambda>p off.
     fbind (unmarshal_at (no_fault Unmarshal_UINT32) nw_nvIndex
              (\<lambda>v p. p\<lparr>nw_nvIndex := v\<rparr>) buffer p off) (\<lambda>p off.
     fbind (skip_auth_area buffer p off) (\<lambda>p off.
     fbind (unmarshal_at Unmarshal_TPM2B_MAX_NV_BUFFER nw_data
              (\<lambda>v p. p\<lparr>nw_data := v\<rparr>) buffer p off) (\<lambda>p off.
     unmarshal_at (no_fault Unmarshal_UINT16) nw_offset
              (\<lambda>v p. p\<lparr>nw_offset := v\<rparr>) buffer p off)))))
    bytesRead"

definition Unmarshal_NV_Read :: "NV_Read_Params unmarshaller" where
  "Unmarshal_NV_Read buffer params bytesRead = finish
    (fbind (unmarshal_at (no_fault Unmarshal_UINT32) nr_authHandle
              (\<lambda>v p. p\<lparr>nr_authHandle := v\<rparr>) buffer params 0) (\<lambda>p off.
     fbind (unmarshal_at (no_fault Unmarshal_UINT32) nr_nvIndex
              (\<lambda>v p. p\<lparr>nr_nvIndex := v\<rparr>) buffer p off) (\<lambda>p off.
     fbind (skip_auth_area buffer p off) (\<lambda>p off.
     fbind (unmarshal_at (no_fault Unmarshal_UINT16) nr_sizeToRead
              (\<lambda>v p. p\<lparr>nr_sizeToRead := v\<rparr>) buffer p off) (\<lambda>p off.
     unmarshal_at (no_fault Unmarshal_UINT16) nr_offset
              (\<lambda>v p. p\<lparr>nr_offset := v\<rparr>) buffer p off)))))
    bytesRead"

section \<open>Well-formed parameter structures\<close>

text \<open>The arrays of a structure have the lengths they are declared with.\<close>

definition wf_CreatePrimary_Params :: "CreatePrimary_Params \<Rightarrow> bool" where
  "wf_CreatePrimary_Params p \<longleftrightarrow> length (cp_userAuth p) = 64 \<and> length (cp_data p) = 256"

definition wf_NV_DefineSpace_Params :: "NV_DefineSpace_Params \<Rightarrow> bool" where
  "wf_NV_DefineSpace_Params p \<longleftrightarrow> length (ds_auth p) = 64 \<and> length (ds_authPolicy p) = 64"

definition wf_NV_Write_Params :: "NV_Write_Params \<Rightarrow> bool" where
  "wf_NV_Write_Params p \<longleftrightarrow> length (nvb_buffer (nw_data p)) = 1024"

section \<open>Wire forms\<close>

definition tpm2b_bytes :: "bytes \<Rightarrow> bytes" where
  "tpm2b_bytes d = be16_bytes (of_nat (length d)) @ d"

definition tpm2b_store :: "bytes \<Rightarrow> u16 \<times> bytes \<Rightarrow> u16 \<times> bytes" where
  "tpm2b_store d dst = (of_nat (length d), overwrite (snd dst) 0 d)"

definition tpm2b_fits :: "u16 \<Rightarrow> bytes \<Rightarrow> u16 \<times> bytes \<Rightarrow> bool" where
  "tpm2b_fits maxSize d dst \<longleftrightarrow> length d \<le> unat maxSize \<and> length d \<le> length (snd dst)"

definition nv_buffer_store :: "bytes \<Rightarrow> TPM2B_MAX_NV_BUFFER \<Rightarrow> TPM2B_MAX_NV_BUFFER" where
  "nv_buffer_store d dst =
     dst\<lparr>nvb_size := of_nat (length d), nvb_buffer := overwrite (nvb_buffer dst) 0 d\<rparr>"

definition nv_buffer_fits :: "bytes \<Rightarrow> TPM2B_MAX_NV_BUFFER \<Rightarrow> bool" where
  "nv_buffer_fits d dst \<longleftrightarrow> length d \<le> 1024 \<and> length d \<le> length (nvb_buffer dst)"

definition nv_write_wire :: "u32 \<Rightarrow> u32 \<Rightarrow> bytes \<Rightarrow> u16 \<Rightarrow> bytes" where
  "nv_write_wire h i d off =
     be32_bytes h @ be32_bytes i @ be16_bytes 0 @ tpm2b_bytes d @ be16_bytes off"

definition nv_read_wire :: "u32 \<Rightarrow> u32 \<Rightarrow> u16 \<Rightarrow> u16 \<Rightarrow> bytes" where
  "nv_read_wire h i n off =
     be32_bytes h @ be32_bytes i @ be16_bytes 0 @ be16_bytes n @ be16_bytes off"

definition define_space_wire ::
  "u32 \<Rightarrow> bytes \<Rightarrow> u16 \<Rightarrow> u32 \<Rightarrow> u16 \<Rightarrow> u32 \<Rightarrow> bytes \<Rightarrow> u16 \<Rightarrow> bytes" where
  "define_space_wire h auth psz idx alg attrs policy dsz =
     be32_bytes h @ tpm2b_bytes auth @ be16_bytes psz @ be32_bytes idx @ be16_bytes alg @
     be32_bytes attrs @ tpm2b_bytes policy @ be16_bytes dsz"

section \<open>The field routines meet the decoder contract\<close>

lemma be16_bytes_nth [simp]:
  "2 \<le> length buf \<Longrightarrow> be16_bytes (be16 (buf ! 0) (buf ! Suc 0)) = take 2 buf"
  by (rule nth_equalityI) (auto simp: be_simps less_Suc_eq numeral_eq_Suc)

lemma be32_bytes_nth [simp]:
  "4 \<le> length buf \<Longrightarrow>
   be32_bytes (be32 (buf ! 0) (buf ! Suc 0) (buf ! 2) (buf ! 3)) = take 4 buf"
  by (rule nth_equalityI) (auto simp: be_simps less_Suc_eq numeral_eq_Suc)

lemma unmarshal_be16 [simp]:
  "Unmarshal_UINT16 (be16_bytes v @ rest) a n = (TPM_RC_SUCCESS, v, 2)"
  by (simp add: Unmarshal_UINT16_def nth_append)

lemma unmarshal_be32 [simp]:
  "Unmarshal_UINT32 (be32_bytes v @ rest) a n = (TPM_RC_SUCCESS, v, 4)"
  by (simp add: Unmarshal_UINT32_def be32_bytes_def be_simps)

lemma unmarshal_be64 [simp]:
  "Unmarshal_UINT64 (be64_bytes v @ rest) a n = (TPM_RC_SUCCESS, v, 8)"
  by (simp add: Unmarshal_UINT64_def be64_bytes_def be_simps)

lemma unmarshal_uint16_sound:
  "Unmarshal_UINT16 buf a n = (TPM_RC_SUCCESS, v, m) \<Longrightarrow>
   m = 2 \<and> buf = be16_bytes v @ drop 2 buf"
  by (auto simp: Unmarshal_UINT16_def split: if_splits)

lemma unmarshal_uint32_sound:
  "Unmarshal_UINT32 buf a n = (TPM_RC_SUCCESS, v, m) \<Longrightarrow>
   m = 4 \<and> buf = be32_bytes v @ drop 4 buf"
  by (auto simp: Unmarshal_UINT32_def split: if_splits)

lemma length_tpm2b_bytes [simp]: "length (tpm2b_bytes d) = 2 + length d"
  by (simp add: tpm2b_bytes_def)

lemma unat_of_nat_u16 [simp]: "n < 65536 \<Longrightarrow> unat (of_nat n :: u16) = n"
  by (simp add: unat_of_nat take_bit_nat_eq_self)

lemma u16_lt: "unat (x :: u16) < 65536"
  using unsigned_less [where ?'a = nat, of x] by simp

interpretation u16d: decoder be16_bytes "\<lambda>v _. v" "\<lambda>_ _. True" "no_fault Unmarshal_UINT16"
  by unfold_locales (auto simp: no_fault_def dest: unmarshal_uint16_sound)

interpretation u32d: decoder be32_bytes "\<lambda>v _. v" "\<lambda>_ _. True" "no_fault Unmarshal_UINT32"
  by unfold_locales (auto simp: no_fault_def dest: unmarshal_uint32_sound)

lemma tpm2b_enc:
  assumes "tpm2b_fits maxSize d dst"
  shows "Unmarshal_TPM2B maxSize (tpm2b_bytes d @ rest) dst n =
           Some (TPM_RC_SUCCESS, tpm2b_store d dst, length (tpm2b_bytes d))"
proof -
  have "length d < 65536" using assms u16_lt [of maxSize] by (simp add: tpm2b_fits_def)
  with assms show ?thesis
    by (cases dst) (auto simp: Unmarshal_TPM2B_def tpm2b_bytes_def tpm2b_store_def tpm2b_fits_def
        memcpy_def word_less_nat_alt word_le_nat_alt)
qed

lemma tpm2b_sound:
  assumes "Unmarshal_TPM2B maxSize buf dst n = Some (TPM_RC_SUCCESS, dst', m)"
  shows "\<exists>d rest. tpm2b_fits maxSize d dst \<and> buf = tpm2b_bytes d @ rest \<and>
           dst' = tpm2b_store d dst \<and> m = length (tpm2b_bytes d)"
proof -
  obtain sz c where u: "Unmarshal_UINT16 buf (fst dst) 0 = (TPM_RC_SUCCESS, sz, c)"
    and le: "sz \<le> maxSize" "unat sz \<le> length buf - c"
    and r: "(if sz > 0 then memcpy (snd dst) 0 (drop c buf) (unat sz) else Some (snd dst)) =
              Some (snd dst')" "fst dst' = sz" "m = c + unat sz"
    using assms by (cases dst)
      (auto simp: Unmarshal_TPM2B_def not_less split: prod.splits if_splits option.splits)
  from unmarshal_uint16_sound [OF u] have c: "c = 2" and b: "buf = be16_bytes sz @ drop 2 buf"
    by auto
  let ?d = "take (unat sz) (drop 2 buf)"
  have l: "length ?d = unat sz" using le c by simp
  have bd: "buf = tpm2b_bytes ?d @ drop (unat sz) (drop 2 buf)"
    unfolding tpm2b_bytes_def l append.assoc append_take_drop_id using b by simp
  have "tpm2b_fits maxSize ?d dst \<and> dst' = tpm2b_store ?d dst"
    using r le l c by (cases dst') (auto simp: tpm2b_fits_def tpm2b_store_def word_le_nat_alt
        memcpy_Some_iff word_less_nat_alt unat_eq_0 split: if_splits)
  with bd r l c show ?thesis by (metis length_tpm2b_bytes)
qed

interpretation tpm2bd:
  decoder tpm2b_bytes tpm2b_store "tpm2b_fits maxSize" "Unmarshal_TPM2B maxSize" for maxSize
  by unfold_locales (erule tpm2b_enc, erule tpm2b_sound)

lemma nv_buffer_enc:
  "nv_buffer_fits d dst \<Longrightarrow>
   Unmarshal_TPM2B_MAX_NV_BUFFER (tpm2b_bytes d @ rest) dst n =
     Some (TPM_RC_SUCCESS, nv_buffer_store d dst, length (tpm2b_bytes d))"
  by (auto simp: Unmarshal_TPM2B_MAX_NV_BUFFER_def tpm2b_bytes_def nv_buffer_store_def
      nv_buffer_fits_def memcpy_def word_less_nat_alt)

text \<open>The NV buffer is a TPM2B with a limit of 1024 whose members are those of a struct.\<close>

lemma nv_buffer_as_tpm2b:
  "Unmarshal_TPM2B_MAX_NV_BUFFER buf dst n =
     map_option (\<lambda>(rc, (sz, b), m). (rc, dst\<lparr>nvb_size := sz, nvb_buffer := b\<rparr>, m))
       (Unmarshal_TPM2B 1024 buf (nvb_size dst, nvb_buffer dst) n)"
  by (auto simp: Unmarshal_TPM2B_MAX_NV_BUFFER_def Unmarshal_TPM2B_def memcpy_def word_gt_0
      split: prod.splits option.splits)

lemma nv_buffer_sound:
  assumes "Unmarshal_TPM2B_MAX_NV_BUFFER buf dst n = Some (TPM_RC_SUCCESS, dst', m)"
  shows "\<exists>d rest. nv_buffer_fits d dst \<and> buf = tpm2b_bytes d @ rest \<and>
           dst' = nv_buffer_store d dst \<and> m = length (tpm2b_bytes d)"
proof -
  obtain sz b where u: "Unmarshal_TPM2B 1024 buf (nvb_size dst, nvb_buffer dst) n =
      Some (TPM_RC_SUCCESS, (sz, b), m)" and d: "dst' = dst\<lparr>nvb_size := sz, nvb_buffer := b\<rparr>"
    using assms by (auto simp: nv_buffer_as_tpm2b)
  from tpm2b_sound [OF u] d show ?thesis
    by (auto simp: nv_buffer_fits_def nv_buffer_store_def tpm2b_fits_def tpm2b_store_def)
qed

interpretation nvbd:
  decoder tpm2b_bytes nv_buffer_store nv_buffer_fits Unmarshal_TPM2B_MAX_NV_BUFFER
  by unfold_locales (erule nv_buffer_enc, erule nv_buffer_sound)

section \<open>Parameter areas: wire form to parameters\<close>

lemma skip_auth_area_zero:
  "drop off buffer = be16_bytes 0 @ rest \<Longrightarrow> skip_auth_area buffer p off = Next p (off + 2)"
  by (simp add: skip_auth_area_def)

lemma skip_auth_area_nonzero:
  "drop off buffer = be16_bytes a @ rest \<Longrightarrow> a \<noteq> 0 \<Longrightarrow>
   skip_auth_area buffer p off = Return TPM_RC_SUCCESS p"
  by (simp add: skip_auth_area_def)

lemma unmarshal_nv_write_wire:
  assumes "nv_buffer_fits d (nw_data p)"
  shows "Unmarshal_NV_Write (nv_write_wire h i d off @ rest) p n =
           Some (TPM_RC_SUCCESS, p\<lparr>nw_authHandle := h, nw_nvIndex := i,
                   nw_data := nv_buffer_store d (nw_data p), nw_offset := off\<rparr>, 14 + length d)"
  using assms unfolding Unmarshal_NV_Write_def nv_write_wire_def
  by (simp add: u32d.at_enc [OF _ TrueI] u16d.at_enc [OF _ TrueI] nvbd.at_enc skip_auth_area_zero)

lemma unmarshal_nv_read_wire:
  "Unmarshal_NV_Read (nv_read_wire h i sz off @ rest) p n =
     Some (TPM_RC_SUCCESS, p\<lparr>nr_authHandle := h, nr_nvIndex := i,
             nr_sizeToRead := sz, nr_offset := off\<rparr>, 14)"
  unfolding Unmarshal_NV_Read_def nv_read_wire_def
  by (simp add: u32d.at_enc [OF _ TrueI] u16d.at_enc [OF _ TrueI] skip_auth_area_zero)

lemma unmarshal_define_space_wire:
  assumes "length auth \<le> 64" "length policy \<le> 64" "length (ds_auth p) = 64"
    "length (ds_authPolicy p) = 64"
  shows "Unmarshal_NV_DefineSpace (define_space_wire h auth psz idx alg attrs policy dsz @ rest) p n =
     Some (TPM_RC_SUCCESS,
       p\<lparr>ds_authHandle := h, ds_authSize := of_nat (length auth),
          ds_auth := overwrite (ds_auth p) 0 auth, ds_publicSize := psz, ds_nvIndex := idx,
          ds_nameAlg := alg, ds_attributes := attrs,
          ds_authPolicySize := of_nat (length policy),
          ds_authPolicy := overwrite (ds_authPolicy p) 0 policy, ds_dataSize := dsz\<rparr>,
       22 + length auth + length policy)"
  using assms unfolding Unmarshal_NV_DefineSpace_def define_space_wire_def
  by (simp add: u32d.at_enc [OF _ TrueI] u16d.at_enc [OF _ TrueI] tpm2bd.at_enc
      tpm2b_fits_def tpm2b_store_def)

section \<open>Parameter areas: safety\<close>

lemma safe_uint16 [simp]:
  "safe_result P len (no_fault Unmarshal_UINT16 buf a n) \<longleftrightarrow>
     (if length buf < 2 then P a else P (be16 (buf ! 0) (buf ! 1)) \<and> 2 \<le> len)"
  by (simp add: safe_result_def no_fault_def Unmarshal_UINT16_def)

lemma safe_uint32 [simp]:
  "safe_result P len (no_fault Unmarshal_UINT32 buf a n) \<longleftrightarrow>
     (if length buf < 4 then P a
      else P (be32 (buf ! 0) (buf ! 1) (buf ! 2) (buf ! 3)) \<and> 4 \<le> len)"
  by (simp add: safe_result_def no_fault_def Unmarshal_UINT32_def)

lemma safe_tpm2b:
  assumes "unat maxSize = length b" "length buf \<le> len"
    and "\<And>sz b'. length b' = length b \<Longrightarrow> P (sz, b')"
  shows "safe_result P len (Unmarshal_TPM2B maxSize buf (n0, b) n)"
  using assms by (auto simp: safe_result_def Unmarshal_TPM2B_def Unmarshal_UINT16_def memcpy_def
      word_less_nat_alt not_less split: option.splits)

lemma safe_nv_buffer:
  assumes "length (nvb_buffer dst) = 1024" "length buf \<le> len"
    and "\<And>sz b'. length b' = 1024 \<Longrightarrow> P (dst\<lparr>nvb_size := sz, nvb_buffer := b'\<rparr>)"
  shows "safe_result P len (Unmarshal_TPM2B_MAX_NV_BUFFER buf dst n)"
proof -
  have "safe_result (\<lambda>(sz, b'). P (dst\<lparr>nvb_size := sz, nvb_buffer := b'\<rparr>)) len
          (Unmarshal_TPM2B 1024 buf (nvb_size dst, nvb_buffer dst) n)"
    by (rule safe_tpm2b) (use assms in auto)
  then show ?thesis
    by (auto simp: nv_buffer_as_tpm2b safe_result_def split: option.splits prod.splits)
qed

lemma flow_ok_skip_auth_area:
  "P p \<Longrightarrow> off \<le> length buffer \<Longrightarrow> flow_ok P (length buffer) (skip_auth_area buffer p off)"
  by (auto simp: skip_auth_area_def Unmarshal_UINT16_def)

lemmas flow_safe =
  flow_ok_fbind flow_ok_unmarshal_at flow_ok_skip_auth_area safe_tpm2b safe_nv_buffer

lemma unmarshal_define_space_safe:
  "wf_NV_DefineSpace_Params p \<Longrightarrow>
   safe_result wf_NV_DefineSpace_Params (length buf) (Unmarshal_NV_DefineSpace buf p 0)"
  unfolding Unmarshal_NV_DefineSpace_def
  by (intro safe_result_finish flow_safe) (auto simp: wf_NV_DefineSpace_Params_def)

lemma unmarshal_nv_write_safe:
  "wf_NV_Write_Params p \<Longrightarrow>
   safe_result wf_NV_Write_Params (length buf) (Unmarshal_NV_Write buf p 0)"
  unfolding Unmarshal_NV_Write_def
  by (intro safe_result_finish flow_safe) (auto simp: wf_NV_Write_Params_def)

lemma unmarshal_nv_read_safe:
  "safe_result (\<lambda>_. True) (length buf) (Unmarshal_NV_Read buf p 0)"
  unfolding Unmarshal_NV_Read_def
  by (intro safe_result_finish flow_safe) auto

lemma unmarshal_create_primary_safe:
  "wf_CreatePrimary_Params p \<Longrightarrow>
   safe_result wf_CreatePrimary_Params (length buf) (Unmarshal_CreatePrimary buf p 0)"
  unfolding Unmarshal_CreatePrimary_def
  by (intro safe_result_finish flow_safe)
    (auto simp: wf_CreatePrimary_Params_def intro!: flow_safe)

section \<open>Parameter areas: what is accepted\<close>

lemma skip_auth_area_finish:
  assumes "finish (fbind (skip_auth_area buffer p off) k) n = Some (TPM_RC_SUCCESS, q, m)"
  obtains (zero) "drop off buffer = be16_bytes 0 @ drop (off + 2) buffer"
      "finish (k p (off + 2)) n = Some (TPM_RC_SUCCESS, q, m)"
    | (nonzero) a where "a \<noteq> 0" "drop off buffer = be16_bytes a @ drop (off + 2) buffer" "q = p" "m = n"
proof -
  obtain rc a c where u: "Unmarshal_UINT16 (drop off buffer) 0 0 = (rc, a, c)"
    by (cases "Unmarshal_UINT16 (drop off buffer) 0 0") auto
  with assms have rc: "rc = TPM_RC_SUCCESS" by (auto simp: skip_auth_area_def split: if_splits)
  have c: "c = 2" "drop off buffer = be16_bytes a @ drop (off + 2) buffer"
    using unmarshal_uint16_sound [OF u [unfolded rc]] by (simp_all add: add.commute)
  show thesis
    using assms u rc c zero nonzero by (cases "a = 0") (auto simp: skip_auth_area_def)
qed

text \<open>
  An NV_Write parameter area that is accepted is a well-formed one, or has a non-empty
  authorization area, in which case nothing after the handles has been read.
\<close>

lemma unmarshal_nv_write_sound:
  assumes "Unmarshal_NV_Write buf p n = Some (TPM_RC_SUCCESS, q, m)"
  obtains (wire) h i d off rest where "nv_buffer_fits d (nw_data p)"
      "buf = nv_write_wire h i d off @ rest"
      "q = p\<lparr>nw_authHandle := h, nw_nvIndex := i,
             nw_data := nv_buffer_store d (nw_data p), nw_offset := off\<rparr>"
    | (auth) h i a rest where "a \<noteq> 0" "buf = be32_bytes h @ be32_bytes i @ be16_bytes a @ rest"
      "q = p\<lparr>nw_authHandle := h, nw_nvIndex := i\<rparr>"
proof -
  from assms obtain h i where h: "buf = be32_bytes h @ drop 4 buf"
    and i: "drop 4 buf = be32_bytes i @ drop 8 buf" and **: "finish
      (fbind (skip_auth_area buf (p\<lparr>nw_authHandle := h, nw_nvIndex := i\<rparr>) 8) (\<lambda>p off.
       fbind (unmarshal_at Unmarshal_TPM2B_MAX_NV_BUFFER nw_data
              (\<lambda>v p. p\<lparr>nw_data := v\<rparr>) buf p off) (\<lambda>p off.
       unmarshal_at (no_fault Unmarshal_UINT16) nw_offset
              (\<lambda>v p. p\<lparr>nw_offset := v\<rparr>) buf p off))) n = Some (TPM_RC_SUCCESS, q, m)"
    unfolding Unmarshal_NV_Write_def by (elim u32d.finish_bindE) simp
  from ** show thesis
  proof (cases rule: skip_auth_area_finish)
    case zero
    from zero(2) show thesis
    proof (elim nvbd.finish_bindE u16d.finish_lastE)
      fix d off
      assume "nv_buffer_fits d (nw_data (p\<lparr>nw_authHandle := h, nw_nvIndex := i\<rparr>))"
        and d: "drop (8 + 2) buf = tpm2b_bytes d @ drop (8 + 2 + length (tpm2b_bytes d)) buf"
        and o: "drop (8 + 2 + length (tpm2b_bytes d)) buf = be16_bytes off @
          drop (8 + 2 + length (tpm2b_bytes d) + length (be16_bytes off)) buf"
        and "q = nw_offset_update (\<lambda>_. off) (nw_data_update (\<lambda>_. nv_buffer_store d
          (nw_data (p\<lparr>nw_authHandle := h, nw_nvIndex := i\<rparr>))) (p\<lparr>nw_authHandle := h, nw_nvIndex := i\<rparr>))"
      moreover have "buf = nv_write_wire h i d off @
          drop (8 + 2 + length (tpm2b_bytes d) + length (be16_bytes off)) buf"
        unfolding nv_write_wire_def append.assoc o [symmetric] d [symmetric]
        using h i zero(1) by simp
      ultimately show thesis by (intro wire) simp_all
    qed
  next
    case (nonzero a)
    with h i auth show thesis by metis
  qed
qed

lemma unmarshal_define_space_sound:
  assumes "Unmarshal_NV_DefineSpace buf p n = Some (TPM_RC_SUCCESS, q, m)"
  obtains h auth psz idx alg attrs policy dsz rest where
    "length auth \<le> 64" "length policy \<le> 64"
    "buf = define_space_wire h auth psz idx alg attrs policy dsz @ rest"
    "q = p\<lparr>ds_authHandle := h, ds_authSize := of_nat (length auth),
          ds_auth := overwrite (ds_auth p) 0 auth, ds_publicSize := psz, ds_nvIndex := idx,
          ds_nameAlg := alg, ds_attributes := attrs,
          ds_authPolicySize := of_nat (length policy),
          ds_authPolicy := overwrite (ds_authPolicy p) 0 policy, ds_dataSize := dsz\<rparr>"
    "m = 22 + length auth + length policy"
  using assms unfolding Unmarshal_NV_DefineSpace_def
proof (elim u32d.finish_bindE tpm2bd.finish_bindE u16d.finish_bindE u16d.finish_lastE, goal_cases)
  case (1 h auth psz idx alg attrs policy dsz)
  note d = 1(3,5,7,9,11,13,15,17)
  have "buf = define_space_wire h auth psz idx alg attrs policy dsz @
      drop (22 + (length auth + length policy)) buf"
    unfolding define_space_wire_def append.assoc
    using d by simp
  with 1 show ?case
    by (intro 1(1)) (simp_all add: tpm2b_fits_def tpm2b_store_def)
qed

section \<open>Properties\<close>

text \<open>
  C23.  \<open>Unmarshal_NV_DefineSpace\<close> accepts exactly the wire form of an NV_DefineSpace parameter
  area with an authorization value and a policy of at most 64 bytes, followed by anything; it
  stores each field in its member and counts the bytes of the area.
\<close>

theorem define_space_params_exact:
  assumes "wf_NV_DefineSpace_Params p"
  shows "Unmarshal_NV_DefineSpace buf p n = Some (TPM_RC_SUCCESS, q, m) \<longleftrightarrow>
    (\<exists>h auth psz idx alg attrs policy dsz rest.
       length auth \<le> 64 \<and> length policy \<le> 64 \<and>
       buf = define_space_wire h auth psz idx alg attrs policy dsz @ rest \<and>
       q = p\<lparr>ds_authHandle := h, ds_authSize := of_nat (length auth),
             ds_auth := overwrite (ds_auth p) 0 auth, ds_publicSize := psz, ds_nvIndex := idx,
             ds_nameAlg := alg, ds_attributes := attrs,
             ds_authPolicySize := of_nat (length policy),
             ds_authPolicy := overwrite (ds_authPolicy p) 0 policy, ds_dataSize := dsz\<rparr> \<and>
       m = 22 + length auth + length policy)"
  (is "?l \<longleftrightarrow> ?r")
proof
  show "?l \<Longrightarrow> ?r" by (erule unmarshal_define_space_sound) blast
  show "?r \<Longrightarrow> ?l"
    using assms by (auto simp: unmarshal_define_space_wire wf_NV_DefineSpace_Params_def)
qed

text \<open>
  C21.  Memory safety of the parameter parsers: on any input and on structures whose arrays have
  their declared lengths, none of the four routines writes outside an array, the arrays keep their
  lengths, and a successful routine has consumed no more than the buffer holds.
\<close>

theorem unmarshal_memory_safe:
  assumes "wf_CreatePrimary_Params p1" "wf_NV_DefineSpace_Params p2" "wf_NV_Write_Params p3"
  shows "safe_result wf_CreatePrimary_Params (length buf) (Unmarshal_CreatePrimary buf p1 0) \<and>
    safe_result wf_NV_DefineSpace_Params (length buf) (Unmarshal_NV_DefineSpace buf p2 0) \<and>
    safe_result wf_NV_Write_Params (length buf) (Unmarshal_NV_Write buf p3 0) \<and>
    safe_result (\<lambda>_. True) (length buf) (Unmarshal_NV_Read buf p4 0)"
  using assms by (intro conjI unmarshal_create_primary_safe unmarshal_define_space_safe
      unmarshal_nv_write_safe unmarshal_nv_read_safe)

text \<open>
  C35.  An NV_Write or NV_Read parameter area with a non-empty authorization area is reported as
  successfully parsed, although the size, data and offset members keep whatever they held before:
  the error code \<open>TPM_RC_VALUE\<close> the code returns there is the macro with value 0.
\<close>

theorem nonempty_auth_area_accepted:
  assumes "a \<noteq> 0"
  shows "Unmarshal_NV_Write (be32_bytes h @ be32_bytes i @ be16_bytes a @ rest) p n =
      Some (TPM_RC_SUCCESS, p\<lparr>nw_authHandle := h, nw_nvIndex := i\<rparr>, n) \<and>
    Unmarshal_NV_Read (be32_bytes h @ be32_bytes i @ be16_bytes a @ rest) p' n =
      Some (TPM_RC_SUCCESS, p'\<lparr>nr_authHandle := h, nr_nvIndex := i\<rparr>, n)"
  using assms unfolding Unmarshal_NV_Write_def Unmarshal_NV_Read_def
  by (simp add: u32d.at_enc [OF _ TrueI] skip_auth_area_nonzero)

theorem nonempty_auth_area_accepted_witness:
  "Unmarshal_NV_Write (be32_bytes 0x40000001 @ be32_bytes 0x1500016 @ be16_bytes 9 @ [])
     \<lparr>nw_authHandle = 0, nw_nvIndex = 0, nw_data = \<lparr>nvb_size = 7, nvb_buffer = []\<rparr>, nw_offset = 3\<rparr> 0 =
   Some (TPM_RC_SUCCESS, \<lparr>nw_authHandle = 0x40000001, nw_nvIndex = 0x1500016,
     nw_data = \<lparr>nvb_size = 7, nvb_buffer = []\<rparr>, nw_offset = 3\<rparr>, 0)"
  using nonempty_auth_area_accepted [of 9 "0x40000001" "0x1500016" "[]"
    "\<lparr>nw_authHandle = 0, nw_nvIndex = 0, nw_data = \<lparr>nvb_size = 7, nvb_buffer = []\<rparr>, nw_offset = 3\<rparr>" 0
    "\<lparr>nr_authHandle = 0, nr_nvIndex = 0, nr_sizeToRead = 0, nr_offset = 0\<rparr>"] by simp

theorem define_space_params_exact_witness:
  "\<exists>q m. Unmarshal_NV_DefineSpace
      (define_space_wire 0x40000001 [1, 2, 3, 4] 14 0x1500020 0xB 0x60006 [] 32)
      \<lparr>ds_authHandle = 0, ds_authSize = 0, ds_auth = replicate 64 0, ds_publicSize = 0,
       ds_nvIndex = 0, ds_nameAlg = 0, ds_attributes = 0, ds_authPolicySize = 0,
       ds_authPolicy = replicate 64 0, ds_dataSize = 0\<rparr> 0 = Some (TPM_RC_SUCCESS, q, m) \<and> m = 26"
  by (subst define_space_params_exact)
    (simp add: wf_NV_DefineSpace_Params_def,
     rule exI, rule exI, rule conjI, rule exI [of _ "0x40000001"], rule exI [of _ "[1, 2, 3, 4]"],
     rule exI [of _ 14], rule exI [of _ "0x1500020"], rule exI [of _ "0xB"], rule exI [of _ "0x60006"],
     rule exI [of _ "[]"], rule exI [of _ 32], rule exI [of _ "[]"], simp_all)

theorem unmarshal_memory_safe_witness:
  "safe_result wf_NV_Write_Params (length [0xFF, 0xFF])
     (Unmarshal_NV_Write [0xFF, 0xFF]
       \<lparr>nw_authHandle = 0, nw_nvIndex = 0,
        nw_data = \<lparr>nvb_size = 0, nvb_buffer = replicate 1024 0\<rparr>, nw_offset = 0\<rparr> 0)"
  using unmarshal_memory_safe [of
      "\<lparr>cp_primaryHandle = 0, cp_authorizationSize = 0, cp_inSensitiveSize = 0,
        cp_userAuthSize = 0, cp_userAuth = replicate 64 0, cp_dataSize = 0,
        cp_data = replicate 256 0, cp_inPublicSize = 0\<rparr>"
      "\<lparr>ds_authHandle = 0, ds_authSize = 0, ds_auth = replicate 64 0, ds_publicSize = 0,
        ds_nvIndex = 0, ds_nameAlg = 0, ds_attributes = 0, ds_authPolicySize = 0,
        ds_authPolicy = replicate 64 0, ds_dataSize = 0\<rparr>"
      "\<lparr>nw_authHandle = 0, nw_nvIndex = 0,
        nw_data = \<lparr>nvb_size = 0, nvb_buffer = replicate 1024 0\<rparr>, nw_offset = 0\<rparr>"
      "[0xFF, 0xFF]"]
  by (simp add: wf_CreatePrimary_Params_def wf_NV_DefineSpace_Params_def wf_NV_Write_Params_def)

end
