(* ===== verification/CC_Marshal.thy ===== *)
theory CC_Marshal
  imports CC_Header CC_Unmarshal
begin

text \<open>
  \<^verbatim>\<open>include/tpm/command_chain/cc_marshal.h\<close>: writing response parameters.  A routine takes the
  slice it may write, and returns the code, the slice after the writes and the byte count.  It
  faults when it reads past the end of the array the data come from.  The routines for the basic
  types are interpretations of the encoder contract, and together with \<open>CC_Unmarshal\<close> of the
  codec contract.
\<close>

section \<open>Basic types\<close>

definition Marshal_UINT8 :: "bytes \<Rightarrow> u8 \<Rightarrow> nat \<Rightarrow> TPM_RC \<times> bytes \<times> nat" where
  "Marshal_UINT8 buffer val bytesWritten =
     (if length buffer < 1 then (TPM_RC_INSUFFICIENT, buffer, bytesWritten)
      else (TPM_RC_SUCCESS, overwrite buffer 0 [val], 1))"

definition Marshal_UINT16 :: "bytes \<Rightarrow> u16 \<Rightarrow> nat \<Rightarrow> TPM_RC \<times> bytes \<times> nat" where
  "Marshal_UINT16 buffer val bytesWritten =
     (if length buffer < 2 then (TPM_RC_INSUFFICIENT, buffer, bytesWritten)
      else (TPM_RC_SUCCESS, overwrite buffer 0 (be16_bytes val), 2))"

definition Marshal_UINT32 :: "bytes \<Rightarrow> u32 \<Rightarrow> nat \<Rightarrow> TPM_RC \<times> bytes \<times> nat" where
  "Marshal_UINT32 buffer val bytesWritten =
     (if length buffer < 4 then (TPM_RC_INSUFFICIENT, buffer, bytesWritten)
      else (TPM_RC_SUCCESS, overwrite buffer 0 (be32_bytes val), 4))"

definition Marshal_UINT64 :: "bytes \<Rightarrow> u64 \<Rightarrow> nat \<Rightarrow> TPM_RC \<times> bytes \<times> nat" where
  "Marshal_UINT64 buffer val bytesWritten =
     (if length buffer < 8 then (TPM_RC_INSUFFICIENT, buffer, bytesWritten)
      else (TPM_RC_SUCCESS, overwrite buffer 0 (be64_bytes val), 8))"

text \<open>The source of a TPM2B is the pair of \<open>dataSize\<close> and the array \<open>dataBuffer\<close>.\<close>

definition Marshal_TPM2B :: "(u16 \<times> bytes) marshaller" where
  "Marshal_TPM2B buffer src bytesWritten =
     (case src of (dataSize, dataBuffer) \<Rightarrow>
      case Marshal_UINT16 buffer dataSize 0 of (rc, buffer1, consumed) \<Rightarrow>
        if rc \<noteq> TPM_RC_SUCCESS then Some (rc, buffer1, bytesWritten)
        else if length buffer - consumed < unat dataSize
          then Some (TPM_RC_INSUFFICIENT, buffer1, bytesWritten)
        else (case (if dataSize > 0 then memcpy buffer1 consumed dataBuffer (unat dataSize)
                    else Some buffer1) of
                None \<Rightarrow> None
              | Some buffer2 \<Rightarrow>
                  Some (TPM_RC_SUCCESS, buffer2, consumed + unat dataSize)))"

section \<open>Response bodies\<close>

definition Marshal_GetRandom_Response :: "(u16 \<times> bytes) marshaller" where
  "Marshal_GetRandom_Response buffer random bytesWritten =
     Marshal_TPM2B buffer random bytesWritten"

record CreatePrimary_Response =
  cr_objectHandle :: u32
  cr_outPublicSize :: u16
  cr_outPublic :: bytes
  cr_creationDataSize :: u16
  cr_creationData :: bytes
  cr_creationHashSize :: u16
  cr_creationHash :: bytes
  cr_creationTicketTag :: u16
  cr_creationTicketHierarchy :: u32
  cr_creationTicketDigestSize :: u16
  cr_creationTicketDigest :: bytes
  cr_nameSize :: u16
  cr_name :: bytes

definition Marshal_CreatePrimary_Response :: "CreatePrimary_Response marshaller" where
  "Marshal_CreatePrimary_Response buffer r bytesWritten = finish
    (fbind (marshal_at (no_fault Marshal_UINT32) (cr_objectHandle r) buffer 0) (\<lambda>b off.
     fbind (marshal_at Marshal_TPM2B (cr_outPublicSize r, cr_outPublic r) b off) (\<lambda>b off.
     fbind (marshal_at Marshal_TPM2B (cr_creationDataSize r, cr_creationData r) b off) (\<lambda>b off.
     fbind (marshal_at Marshal_TPM2B (cr_creationHashSize r, cr_creationHash r) b off) (\<lambda>b off.
     fbind (marshal_at (no_fault Marshal_UINT16) (cr_creationTicketTag r) b off) (\<lambda>b off.
     fbind (marshal_at (no_fault Marshal_UINT32) (cr_creationTicketHierarchy r) b off) (\<lambda>b off.
     fbind (marshal_at Marshal_TPM2B
              (cr_creationTicketDigestSize r, cr_creationTicketDigest r) b off) (\<lambda>b off.
     marshal_at Marshal_TPM2B (cr_nameSize r, cr_name r) b off))))))))
    bytesWritten"

definition Marshal_NV_DefineSpace_Response :: "bytes \<Rightarrow> nat \<Rightarrow> TPM_RC \<times> bytes \<times> nat" where
  "Marshal_NV_DefineSpace_Response buffer bytesWritten = (TPM_RC_SUCCESS, buffer, 0)"

definition Marshal_TPM2B_MAX_NV_BUFFER :: "TPM2B_MAX_NV_BUFFER marshaller" where
  "Marshal_TPM2B_MAX_NV_BUFFER buffer src bytesWritten =
     (case Marshal_UINT16 buffer (nvb_size src) 0 of (rc, buffer1, consumed) \<Rightarrow>
        if rc \<noteq> TPM_RC_SUCCESS then Some (rc, buffer1, bytesWritten)
        else if nvb_size src > 1024 then Some (TPM_RC_SIZE, buffer1, bytesWritten)
        else if length buffer - consumed < unat (nvb_size src)
          then Some (TPM_RC_INSUFFICIENT, buffer1, bytesWritten)
        else (case memcpy buffer1 consumed (nvb_buffer src) (unat (nvb_size src)) of
                None \<Rightarrow> None
              | Some buffer2 \<Rightarrow>
                  Some (TPM_RC_SUCCESS, buffer2, consumed + unat (nvb_size src))))"

definition Marshal_NV_Read_Response :: "NV_Read_Response marshaller" where
  "Marshal_NV_Read_Response buffer response bytesWritten =
     finish (marshal_at Marshal_TPM2B_MAX_NV_BUFFER (nrr_data response) buffer 0) bytesWritten"

section \<open>Wire forms of sources\<close>

definition tpm2b_src_wf :: "u16 \<times> bytes \<Rightarrow> bool" where
  "tpm2b_src_wf src \<longleftrightarrow> unat (fst src) \<le> length (snd src)"

definition tpm2b_data :: "u16 \<times> bytes \<Rightarrow> bytes" where
  "tpm2b_data src = take (unat (fst src)) (snd src)"

definition tpm2b_src_bytes :: "u16 \<times> bytes \<Rightarrow> bytes" where
  "tpm2b_src_bytes src = be16_bytes (fst src) @ tpm2b_data src"

definition nv_buffer_src :: "TPM2B_MAX_NV_BUFFER \<Rightarrow> u16 \<times> bytes" where
  "nv_buffer_src src = (nvb_size src, nvb_buffer src)"

definition nv_buffer_src_wf :: "TPM2B_MAX_NV_BUFFER \<Rightarrow> bool" where
  "nv_buffer_src_wf src \<longleftrightarrow> nvb_size src \<le> 1024 \<and> length (nvb_buffer src) = 1024"

definition wf_CreatePrimary_Response :: "CreatePrimary_Response \<Rightarrow> bool" where
  "wf_CreatePrimary_Response r \<longleftrightarrow>
     tpm2b_src_wf (cr_outPublicSize r, cr_outPublic r) \<and>
     tpm2b_src_wf (cr_creationDataSize r, cr_creationData r) \<and>
     tpm2b_src_wf (cr_creationHashSize r, cr_creationHash r) \<and>
     tpm2b_src_wf (cr_creationTicketDigestSize r, cr_creationTicketDigest r) \<and>
     tpm2b_src_wf (cr_nameSize r, cr_name r)"

definition create_primary_response_wire :: "CreatePrimary_Response \<Rightarrow> bytes" where
  "create_primary_response_wire r =
     be32_bytes (cr_objectHandle r) @
     tpm2b_src_bytes (cr_outPublicSize r, cr_outPublic r) @
     tpm2b_src_bytes (cr_creationDataSize r, cr_creationData r) @
     tpm2b_src_bytes (cr_creationHashSize r, cr_creationHash r) @
     be16_bytes (cr_creationTicketTag r) @
     be32_bytes (cr_creationTicketHierarchy r) @
     tpm2b_src_bytes (cr_creationTicketDigestSize r, cr_creationTicketDigest r) @
     tpm2b_src_bytes (cr_nameSize r, cr_name r)"

section \<open>The field routines meet the encoder contract\<close>

interpretation u16e: encoder be16_bytes "\<lambda>_. True" "no_fault Marshal_UINT16"
  by unfold_locales (auto simp: no_fault_def Marshal_UINT16_def)

interpretation u32e: encoder be32_bytes "\<lambda>_. True" "no_fault Marshal_UINT32"
  by unfold_locales (auto simp: no_fault_def Marshal_UINT32_def)

interpretation u64e: encoder be64_bytes "\<lambda>_. True" "no_fault Marshal_UINT64"
  by unfold_locales (auto simp: no_fault_def Marshal_UINT64_def)

lemma length_tpm2b_src_bytes [simp]:
  "tpm2b_src_wf src \<Longrightarrow> length (tpm2b_src_bytes src) = 2 + unat (fst src)"
  by (simp add: tpm2b_src_bytes_def tpm2b_data_def tpm2b_src_wf_def)

lemma tpm2b_mar_ok:
  assumes "tpm2b_src_wf src" "length (tpm2b_src_bytes src) \<le> length buf"
  shows "Marshal_TPM2B buf src n =
    Some (TPM_RC_SUCCESS, overwrite buf 0 (tpm2b_src_bytes src), length (tpm2b_src_bytes src))"
proof -
  have "overwrite (overwrite buf 0 (be16_bytes (fst src))) 2 (tpm2b_data src) =
      overwrite buf 0 (tpm2b_src_bytes src)"
    using assms overwrite_join [of 2 0 "be16_bytes (fst src)" "tpm2b_data src" buf]
    by (simp add: tpm2b_src_bytes_def tpm2b_data_def tpm2b_src_wf_def)
  with assms show ?thesis
    by (cases src) (auto simp: Marshal_TPM2B_def Marshal_UINT16_def memcpy_def tpm2b_src_wf_def
        tpm2b_data_def word_gt_0 unat_eq_0)
qed

lemma tpm2b_mar_short:
  "tpm2b_src_wf src \<Longrightarrow> length buf < length (tpm2b_src_bytes src) \<Longrightarrow>
   \<exists>buf'. Marshal_TPM2B buf src n = Some (TPM_RC_INSUFFICIENT, buf', n) \<and> length buf' = length buf"
  by (cases src) (auto simp: Marshal_TPM2B_def Marshal_UINT16_def)

interpretation tpm2be: encoder tpm2b_src_bytes tpm2b_src_wf Marshal_TPM2B
  by unfold_locales (erule tpm2b_mar_ok, assumption, erule tpm2b_mar_short)

text \<open>Within its limit of 1024 the NV buffer is marshalled as any other TPM2B.\<close>

lemma nv_buffer_mar_as_tpm2b:
  "nvb_size src \<le> 1024 \<Longrightarrow>
   Marshal_TPM2B_MAX_NV_BUFFER buf src n = Marshal_TPM2B buf (nv_buffer_src src) n"
  by (auto simp: Marshal_TPM2B_MAX_NV_BUFFER_def Marshal_TPM2B_def nv_buffer_src_def memcpy_def
      Marshal_UINT16_def word_gt_0 split: prod.splits)

lemma nv_buffer_src_wf_tpm2b: "nv_buffer_src_wf src \<Longrightarrow> tpm2b_src_wf (nv_buffer_src src)"
  by (simp add: nv_buffer_src_wf_def tpm2b_src_wf_def nv_buffer_src_def word_le_nat_alt)

interpretation nvbe:
  encoder "\<lambda>src. tpm2b_src_bytes (nv_buffer_src src)" nv_buffer_src_wf Marshal_TPM2B_MAX_NV_BUFFER
proof
  show "Marshal_TPM2B_MAX_NV_BUFFER buf w n = Some (TPM_RC_SUCCESS,
      overwrite buf 0 (tpm2b_src_bytes (nv_buffer_src w)), length (tpm2b_src_bytes (nv_buffer_src w)))"
    if "nv_buffer_src_wf w" "length (tpm2b_src_bytes (nv_buffer_src w)) \<le> length buf" for w buf n
    using that tpm2b_mar_ok [OF nv_buffer_src_wf_tpm2b [OF that(1)] that(2)]
    by (simp add: nv_buffer_mar_as_tpm2b nv_buffer_src_wf_def)
  show "\<exists>buf'. Marshal_TPM2B_MAX_NV_BUFFER buf w n = Some (TPM_RC_INSUFFICIENT, buf', n) \<and>
      length buf' = length buf"
    if "nv_buffer_src_wf w" "length buf < length (tpm2b_src_bytes (nv_buffer_src w))" for w buf n
    using that tpm2b_mar_short [OF nv_buffer_src_wf_tpm2b [OF that(1)] that(2)]
    by (simp add: nv_buffer_mar_as_tpm2b nv_buffer_src_wf_def)
qed

lemma tpm2b_same_wire:
  "tpm2b_src_wf src \<Longrightarrow> tpm2b_src_bytes src = tpm2b_bytes (tpm2b_data src)"
  by (simp add: tpm2b_src_bytes_def tpm2b_bytes_def tpm2b_data_def tpm2b_src_wf_def)

interpretation u16c: codec be16_bytes "\<lambda>_. True" "no_fault Marshal_UINT16"
  be16_bytes "\<lambda>v _. v" "\<lambda>_ _. True" "no_fault Unmarshal_UINT16" "\<lambda>v. v"
  by unfold_locales simp

interpretation u32c: codec be32_bytes "\<lambda>_. True" "no_fault Marshal_UINT32"
  be32_bytes "\<lambda>v _. v" "\<lambda>_ _. True" "no_fault Unmarshal_UINT32" "\<lambda>v. v"
  by unfold_locales simp

interpretation tpm2bc: codec tpm2b_src_bytes tpm2b_src_wf Marshal_TPM2B
  tpm2b_bytes tpm2b_store "tpm2b_fits maxSize" "Unmarshal_TPM2B maxSize" tpm2b_data for maxSize
  by unfold_locales (rule tpm2b_same_wire)

interpretation nvbc: codec "\<lambda>src. tpm2b_src_bytes (nv_buffer_src src)" nv_buffer_src_wf
  Marshal_TPM2B_MAX_NV_BUFFER tpm2b_bytes nv_buffer_store nv_buffer_fits
  Unmarshal_TPM2B_MAX_NV_BUFFER "\<lambda>src. tpm2b_data (nv_buffer_src src)"
  by unfold_locales (rule tpm2b_same_wire [OF nv_buffer_src_wf_tpm2b])

section \<open>Response bodies\<close>

lemma marshal_nv_read_room:
  assumes "nv_buffer_src_wf (nrr_data r)" "2 + unat (nvb_size (nrr_data r)) \<le> length buf"
  shows "Marshal_NV_Read_Response buf r n =
    Some (TPM_RC_SUCCESS, overwrite buf 0 (tpm2b_src_bytes (nv_buffer_src (nrr_data r))),
          2 + unat (nvb_size (nrr_data r)))"
  using assms nv_buffer_src_wf_tpm2b [OF assms(1)]
  by (simp add: Marshal_NV_Read_Response_def nvbe.at_room nv_buffer_src_def)

lemma marshal_nv_read_no_room:
  assumes "nv_buffer_src_wf (nrr_data r)" "length buf < 2 + unat (nvb_size (nrr_data r))"
  shows "\<exists>buf'. Marshal_NV_Read_Response buf r n = Some (TPM_RC_INSUFFICIENT, buf', n) \<and>
    length buf' = length buf"
proof -
  have "length buf < 0 + length (tpm2b_src_bytes (nv_buffer_src (nrr_data r)))"
    using assms(2) nv_buffer_src_wf_tpm2b [OF assms(1)] by (simp add: nv_buffer_src_def)
  from nvbe.at_no_room [OF assms(1) _ this] show ?thesis
    by (auto simp: Marshal_NV_Read_Response_def)
qed

lemma marshal_create_primary_room:
  assumes "wf_CreatePrimary_Response r" "length (create_primary_response_wire r) \<le> length buf"
  shows "Marshal_CreatePrimary_Response buf r n =
    Some (TPM_RC_SUCCESS, overwrite buf 0 (create_primary_response_wire r),
          length (create_primary_response_wire r))"
  using assms
  by (simp add: Marshal_CreatePrimary_Response_def create_primary_response_wire_def
      wf_CreatePrimary_Response_def u32e.at_room [OF TrueI] u16e.at_room [OF TrueI] tpm2be.at_room
      overwrite_join)

section \<open>Properties\<close>

text \<open>
  C25.  Marshalling and unmarshalling are inverse for the integers of 16, 32 and 64 bits, for TPM2B
  buffers and for the NV buffer: what a marshalling routine stores in a buffer with enough
  room is read back as the same value, with the same byte count, and the bytes of a buffer land at
  the start of the destination array.
\<close>

theorem marshal_unmarshal_roundtrip:
  assumes "tpm2b_src_wf src" "unat (fst src) \<le> unat maxSize" "unat (fst src) \<le> length (snd dst)"
    and "2 + unat (fst src) \<le> length buf" "8 \<le> length buf2"
  shows "(\<exists>b m. Marshal_TPM2B buf src n = Some (TPM_RC_SUCCESS, b, m) \<and>
      Unmarshal_TPM2B maxSize b dst k =
        Some (TPM_RC_SUCCESS, (fst src, overwrite (snd dst) 0 (take (unat (fst src)) (snd src))), m)) \<and>
    (\<exists>b m. Marshal_UINT16 buf2 v n = (TPM_RC_SUCCESS, b, m) \<and>
      Unmarshal_UINT16 b v0 k = (TPM_RC_SUCCESS, v, m)) \<and>
    (\<exists>b m. Marshal_UINT32 buf2 w n = (TPM_RC_SUCCESS, b, m) \<and>
      Unmarshal_UINT32 b w0 k = (TPM_RC_SUCCESS, w, m)) \<and>
    (\<exists>b m. Marshal_UINT64 buf2 x n = (TPM_RC_SUCCESS, b, m) \<and>
      Unmarshal_UINT64 b x0 k = (TPM_RC_SUCCESS, x, m)) \<and>
    (nvb_size nv \<le> 1024 \<and> length (nvb_buffer nv) = 1024 \<and> length (nvb_buffer nv0) = 1024 \<and>
       2 + unat (nvb_size nv) \<le> length buf3 \<longrightarrow>
     (\<exists>b m. Marshal_TPM2B_MAX_NV_BUFFER buf3 nv n = Some (TPM_RC_SUCCESS, b, m) \<and>
      Unmarshal_TPM2B_MAX_NV_BUFFER b nv0 k = Some (TPM_RC_SUCCESS, nv0\<lparr>nvb_size := nvb_size nv,
        nvb_buffer := overwrite (nvb_buffer nv0) 0 (take (unat (nvb_size nv)) (nvb_buffer nv))\<rparr>, m)))"
proof (intro conjI impI)
  show "\<exists>b m. Marshal_TPM2B buf src n = Some (TPM_RC_SUCCESS, b, m) \<and>
      Unmarshal_TPM2B maxSize b dst k =
        Some (TPM_RC_SUCCESS, (fst src, overwrite (snd dst) 0 (take (unat (fst src)) (snd src))), m)"
    using tpm2bc.roundtrip [of src buf maxSize dst n k] assms
    by (simp add: tpm2b_fits_def tpm2b_store_def tpm2b_data_def tpm2b_src_wf_def)
  assume nv: "nvb_size nv \<le> 1024 \<and> length (nvb_buffer nv) = 1024 \<and> length (nvb_buffer nv0) = 1024 \<and>
    2 + unat (nvb_size nv) \<le> length buf3"
  then have "tpm2b_src_wf (nv_buffer_src nv)" by (simp add: nv_buffer_src_wf_tpm2b nv_buffer_src_wf_def)
  with nvbc.roundtrip [of nv buf3 nv0 n k] nv
  show "\<exists>b m. Marshal_TPM2B_MAX_NV_BUFFER buf3 nv n = Some (TPM_RC_SUCCESS, b, m) \<and>
      Unmarshal_TPM2B_MAX_NV_BUFFER b nv0 k = Some (TPM_RC_SUCCESS, nv0\<lparr>nvb_size := nvb_size nv,
        nvb_buffer := overwrite (nvb_buffer nv0) 0 (take (unat (nvb_size nv)) (nvb_buffer nv))\<rparr>, m)"
    by (simp add: nv_buffer_src_wf_def nv_buffer_fits_def nv_buffer_store_def nv_buffer_src_def tpm2b_data_def
        word_le_nat_alt)
qed (use assms u16c.roundtrip [of v buf2 n v0 k] u32c.roundtrip [of w buf2 n w0 k] in
  \<open>simp_all add: no_fault_def Marshal_UINT64_def overwrite_def\<close>)

theorem marshal_unmarshal_roundtrip_witness:
  "\<exists>b m. Marshal_TPM2B [0, 0, 0, 0, 0, 0, 0, 0] (4, [84, 69, 83, 84, 0]) 0 =
       Some (TPM_RC_SUCCESS, b, m) \<and>
     Unmarshal_TPM2B 64 b (0, [1, 1, 1, 1, 1, 1]) 0 =
       Some (TPM_RC_SUCCESS, (4, [84, 69, 83, 84, 1, 1]), m)"
  using marshal_unmarshal_roundtrip [of "(4, [84, 69, 83, 84, 0])" 64 "(0, [1, 1, 1, 1, 1, 1])"
      "[0, 0, 0, 0, 0, 0, 0, 0]" "[0, 0, 0, 0, 0, 0, 0, 0]" 0 0]
  by (simp add: tpm2b_src_wf_def overwrite_def)

text \<open>
  C26.  The CreatePrimary response body is marshalled completely and in the specified order: with
  enough room, the routine stores exactly the wire form of the response and nothing behind it.
\<close>

theorem create_primary_response_marshalled:
  assumes "wf_CreatePrimary_Response r" "length (create_primary_response_wire r) \<le> length buf"
  shows "Marshal_CreatePrimary_Response buf r n =
    Some (TPM_RC_SUCCESS,
          create_primary_response_wire r @ drop (length (create_primary_response_wire r)) buf,
          length (create_primary_response_wire r))"
  using marshal_create_primary_room [OF assms] by (simp add: overwrite_def)

theorem create_primary_response_marshalled_witness:
  "\<exists>r b m. cr_nameSize r = 2 \<and>
     Marshal_CreatePrimary_Response (replicate 24 7) r 0 = Some (TPM_RC_SUCCESS, b, m) \<and>
     m = 22 \<and> drop 22 b = [7, 7]"
proof -
  let ?r = "\<lparr>cr_objectHandle = 0x80000001, cr_outPublicSize = 0, cr_outPublic = [],
    cr_creationDataSize = 0, cr_creationData = [], cr_creationHashSize = 0, cr_creationHash = [],
    cr_creationTicketTag = 0x8021, cr_creationTicketHierarchy = 0x40000001,
    cr_creationTicketDigestSize = 0, cr_creationTicketDigest = [], cr_nameSize = 2,
    cr_name = [0, 0xB]\<rparr>"
  have "wf_CreatePrimary_Response ?r" "length (create_primary_response_wire ?r) = 22"
    by (simp_all add: wf_CreatePrimary_Response_def create_primary_response_wire_def tpm2b_src_wf_def)
  with create_primary_response_marshalled [of ?r "replicate 24 7" 0] show ?thesis
    by (intro exI [of _ ?r]) (simp add: numeral_eq_Suc)
qed

end
