(* ===== verification/TPM_State.thy ===== *)
theory TPM_State
  imports CC_Header CC_Unmarshal
begin

text \<open>
  The data of the device: the state \<open>struct TPM2State\<close> (\<^verbatim>\<open>include/tpm/tpm2_device.h\<close>), the NV
  structures (\<^verbatim>\<open>tpm2_nv.h\<close>, \<^verbatim>\<open>tpm2_nv_entry.h\<close>) and the key objects
  (\<^verbatim>\<open>tpm2_keyobj.h\<close>).  A sized buffer (TPM2B) is the pair of its size and its array.

  Members the code never reads or writes in its behaviour (the QOM parent, the memory regions and
  the interrupt line) are left out.  A host pointer into the NV bank is the offset it points at.
  The hash table of NV entries is a map; it is \<open>None\<close> for the NULL pointer before
  \<open>tpm2_nv_init\<close>.  Of the unions of a key object the model has the members for elliptic-curve
  keys, the only ones the code uses.
\<close>

type_synonym tpm2b = "u16 \<times> bytes"
type_synonym TPM_NV_INDEX = u32

section \<open>NV structures\<close>

text \<open>\<open>TPMA_NV\<close>, a struct of bit-fields.\<close>

record TPMA_NV =
  a_ppWrite :: bool
  a_ownerWrite :: bool
  a_authWrite :: bool
  a_policyWrite :: bool
  a_reserved1 :: u8
  a_nvType :: u8
  a_policyDelete :: bool
  a_writeLocked :: bool
  a_writeAll :: bool
  a_writeDefine :: bool
  a_writeStClear :: bool
  a_globalLock :: bool
  a_ppRead :: bool
  a_ownerRead :: bool
  a_authRead :: bool
  a_policyRead :: bool
  a_reserved2 :: u8
  a_noDA :: bool
  a_orderly :: bool
  a_clearStClear :: bool
  a_readLocked :: bool
  a_written :: bool
  a_platformCreate :: bool
  a_readStClear :: bool

text \<open>
  The widths add up to 33 bits, so the struct occupies two 32-bit units: on the little-endian
  host the fields fill the first unit from bit 0 upwards, and \<open>readStClear\<close> is bit 0 of the
  second one.
\<close>

definition TPMA_NV_of_units :: "u32 \<Rightarrow> u32 \<Rightarrow> TPMA_NV" where
  "TPMA_NV_of_units w0 w1 =
    \<lparr>a_ppWrite = bit w0 0, a_ownerWrite = bit w0 1, a_authWrite = bit w0 2,
     a_policyWrite = bit w0 3, a_reserved1 = ucast (drop_bit 4 w0 AND 7),
     a_nvType = ucast (drop_bit 7 w0 AND 15), a_policyDelete = bit w0 11,
     a_writeLocked = bit w0 12, a_writeAll = bit w0 13, a_writeDefine = bit w0 14,
     a_writeStClear = bit w0 15, a_globalLock = bit w0 16, a_ppRead = bit w0 17,
     a_ownerRead = bit w0 18, a_authRead = bit w0 19, a_policyRead = bit w0 20,
     a_reserved2 = ucast (drop_bit 21 w0 AND 31), a_noDA = bit w0 26, a_orderly = bit w0 27,
     a_clearStClear = bit w0 28, a_readLocked = bit w0 29, a_written = bit w0 30,
     a_platformCreate = bit w0 31, a_readStClear = bit w1 0\<rparr>"

abbreviation (input) TPM_NT_ORDINARY :: u8 where "TPM_NT_ORDINARY \<equiv> 0x0"
abbreviation (input) TPM_NT_COUNTER :: u8 where "TPM_NT_COUNTER \<equiv> 0x1"
abbreviation (input) TPM_NT_BITS :: u8 where "TPM_NT_BITS \<equiv> 0x2"
abbreviation (input) TPM_NT_EXTEND :: u8 where "TPM_NT_EXTEND \<equiv> 0x4"
abbreviation (input) TPM_NT_PIN_FAIL :: u8 where "TPM_NT_PIN_FAIL \<equiv> 0x8"
abbreviation (input) TPM_NT_PIN_PASS :: u8 where "TPM_NT_PIN_PASS \<equiv> 0x9"

record TPMS_NV_PUBLIC =
  p_nvIndex :: TPM_NV_INDEX
  p_nameAlg :: u16
  p_attributes :: TPMA_NV
  p_authPolicy :: bytes
  p_authPolicySize :: u16
  p_dataSize :: u16

record NVEntry =
  e_pub :: TPMS_NV_PUBLIC
  e_authValue :: bytes
  e_authValueLen :: u16
  e_name :: bytes
  e_nameLen :: u16
  e_data :: nat
  e_dataLen :: u16
  e_iv :: nat
  e_written :: bool
  e_readLocked :: bool
  e_writeLocked :: bool

record TPMI_RH_PROVISION =
  rp_owner :: u32
  rp_platform :: u32
  rp_responsefailcode :: TPM_RC

section \<open>Key objects\<close>

record TPMT_PUBLIC =
  t_type :: u16
  t_nameAlg :: u16
  t_objectAttributes :: u32
  t_curveID :: u16
  t_x :: tpm2b
  t_y :: tpm2b

record TPMT_SENSITIVE =
  sn_sensitiveType :: u16
  sn_authValue :: tpm2b
  sn_seedValue :: tpm2b
  sn_ecc :: tpm2b

section \<open>Device state\<close>

datatype tpm_state =
  TPM_STATE_IDLE | TPM_STATE_READY | TPM_STATE_RECEIVING | TPM_STATE_PROCESSING | TPM_STATE_SENDING

record TPM2State =
  nv_bank :: "bytes option"
  nv_bank_size :: u32
  nv_alloc_offset :: u32
  nv_map :: "(TPM_NV_INDEX \<rightharpoonup> NVEntry) option"
  nv_count :: u32
  nv_dirty :: bool
  ctrl :: u32
  status :: u32
  key_generated :: u32
  rsa_key :: bool
  random_data :: bytes
  command_buffer :: bytes
  response_buffer :: bytes
  cmd_size :: u32
  resp_size :: u32
  resp_idx :: u32
  dev_state :: tpm_state
  tpm_mode :: tpm_operational_mode
  pps :: bytes
  sps :: bytes
  eps :: bytes
  phProof :: bytes
  shProof :: bytes
  ehProof :: bytes
  primary_sensitive :: TPMT_SENSITIVE
  primary_public :: TPMT_PUBLIC
  primary_name_size :: u16
  next_transient_handle :: u32
  initialized :: bool

abbreviation (input) TPM2_NVSTORAGE_SIZE :: u32 where "TPM2_NVSTORAGE_SIZE \<equiv> 6962"
abbreviation (input) TPM2_MAX_NV_INDEXES :: u32 where "TPM2_MAX_NV_INDEXES \<equiv> 16"
abbreviation (input) MAX_NV_BUFFER_SIZE :: u16 where "MAX_NV_BUFFER_SIZE \<equiv> 1024"

text \<open>The state of a freshly allocated device object: all zero (\<open>tpm2_init\<close> adds nothing).\<close>

definition zero_sensitive :: TPMT_SENSITIVE where
  "zero_sensitive = \<lparr>sn_sensitiveType = 0, sn_authValue = (0, replicate 64 0),
     sn_seedValue = (0, replicate 64 0), sn_ecc = (0, replicate 64 0)\<rparr>"

definition zero_public :: TPMT_PUBLIC where
  "zero_public = \<lparr>t_type = 0, t_nameAlg = 0, t_objectAttributes = 0, t_curveID = 0,
     t_x = (0, replicate 64 0), t_y = (0, replicate 64 0)\<rparr>"

definition tpm2_init :: TPM2State where
  "tpm2_init =
    \<lparr>nv_bank = None, nv_bank_size = 0, nv_alloc_offset = 0, nv_map = None, nv_count = 0,
     nv_dirty = False, ctrl = 0, status = 0, key_generated = 0, rsa_key = False,
     random_data = replicate 32 0, command_buffer = replicate 1024 0,
     response_buffer = replicate 1024 0, cmd_size = 0, resp_size = 0, resp_idx = 0,
     dev_state = TPM_STATE_IDLE, tpm_mode = TPM_MODE_NORMAL,
     pps = replicate 32 0, sps = replicate 32 0, eps = replicate 32 0,
     phProof = replicate 32 0, shProof = replicate 32 0, ehProof = replicate 32 0,
     primary_sensitive = zero_sensitive, primary_public = zero_public, primary_name_size = 0,
     next_transient_handle = 0, initialized = False\<rparr>"

text \<open>\<open>g_hash_table_lookup\<close> and \<open>g_hash_table_insert\<close>; on NULL they find and do nothing.\<close>

definition nv_lookup :: "TPM2State \<Rightarrow> TPM_NV_INDEX \<Rightarrow> NVEntry option" where
  "nv_lookup s i = (case nv_map s of None \<Rightarrow> None | Some m \<Rightarrow> m i)"

definition nv_insert :: "TPM_NV_INDEX \<Rightarrow> NVEntry \<Rightarrow> TPM2State \<Rightarrow> TPM2State" where
  "nv_insert i e s = s\<lparr>nv_map := map_option (\<lambda>m. m(i \<mapsto> e)) (nv_map s)\<rparr>"

text \<open>The value of the \<open>STATUS\<close> register: the enumeration constant.\<close>

primrec tpm_state_value :: "tpm_state \<Rightarrow> u32" where
  "tpm_state_value TPM_STATE_IDLE = 0"
| "tpm_state_value TPM_STATE_READY = 1"
| "tpm_state_value TPM_STATE_RECEIVING = 2"
| "tpm_state_value TPM_STATE_PROCESSING = 3"
| "tpm_state_value TPM_STATE_SENDING = 4"

section \<open>The cryptographic library\<close>

text \<open>
  What the code calls of OpenSSL, as a parameter.  \<open>None\<close> stands for a call that reports
  failure.  \<open>public_image\<close> is the memory image of a \<open>TPMT_PUBLIC\<close>, which depends on the
  layout the compiler chooses.
\<close>

record ossl =
  hmac_sha256 :: "bytes \<Rightarrow> bytes \<Rightarrow> bytes option"
  sha256 :: "bytes \<Rightarrow> bytes option"
  aes_cfb128 :: "bool \<Rightarrow> bytes \<Rightarrow> bytes \<Rightarrow> bytes \<Rightarrow> bytes option"
  p256_pub :: "bytes \<Rightarrow> bytes \<times> bytes"
  public_image :: "TPMT_PUBLIC \<Rightarrow> bytes"

section \<open>Lemmas\<close>

lemma nv_lookup_insert:
  "nv_map s = Some m \<Longrightarrow> nv_lookup (nv_insert i e s) j = (if j = i then Some e else nv_lookup s j)"
  by (simp add: nv_lookup_def nv_insert_def)

end
