(* ===== verification/TPM_Crypto.thy ===== *)
theory TPM_Crypto
  imports TPM_State
begin

text \<open>
  \<^verbatim>\<open>hw/tpm/tpm_crypto.c\<close>: the wrappers around the cryptographic library and the creation of
  primary keys.  OpenSSL is the parameter \<open>L\<close>; laws of it that a property needs are hypotheses
  of that property.  \<open>None\<close> is an access outside an array, or for \<open>TPM2_KDFa\<close> a loop that
  does not end.
\<close>

section \<open>Wrappers\<close>

definition TPM2_SHA256 :: "ossl \<Rightarrow> bytes \<Rightarrow> bytes \<Rightarrow> (int \<times> bytes) option" where
  "TPM2_SHA256 L data out =
     (case sha256 L data of
        None \<Rightarrow> Some (0, out)
      | Some h \<Rightarrow> (case memcpy out 0 h (length h) of
            None \<Rightarrow> None
          | Some out' \<Rightarrow> Some (if length h = 32 then 1 else 0, out')))"

text \<open>
  The message one round of KDFa feeds to HMAC: the counter, the label without its terminating zero,
  a zero byte and the number of bits.
\<close>

definition kdfa_message :: "u32 \<Rightarrow> bytes \<Rightarrow> u32 \<Rightarrow> bytes" where
  "kdfa_message counter label bits = be32_bytes counter @ label @ [0x00] @ be32_bytes bits"

text \<open>
  The loop of \<open>TPM2_KDFa\<close>.  \<open>hmacLen\<close> is the length HMAC reports; a length of zero never ends
  the loop.
\<close>

partial_function (option) kdfa_loop ::
  "ossl \<Rightarrow> bytes \<Rightarrow> bytes \<Rightarrow> u32 \<Rightarrow> u32 \<Rightarrow> u32 \<Rightarrow> u32 \<Rightarrow> bytes \<Rightarrow> (int \<times> bytes) option" where
  "kdfa_loop L key label bits bytesToGenerate counter generated out =
     (if generated < bytesToGenerate then
        (case hmac_sha256 L key (kdfa_message counter label bits) of
           None \<Rightarrow> Some (0, out)
         | Some hmacBuf \<Rightarrow>
             let hmacLen = of_nat (length hmacBuf);
                 toCopy = (if generated + hmacLen > bytesToGenerate
                           then bytesToGenerate - generated else hmacLen)
             in (case memcpy out (unat generated) hmacBuf (unat toCopy) of
                   None \<Rightarrow> None
                 | Some out' \<Rightarrow>
                     kdfa_loop L key label bits bytesToGenerate (counter + 1)
                       (generated + toCopy) out'))
      else Some (1, out))"

definition TPM2_KDFa :: "ossl \<Rightarrow> bytes \<Rightarrow> bytes \<Rightarrow> u32 \<Rightarrow> bytes \<Rightarrow> (int \<times> bytes) option" where
  "TPM2_KDFa L hmacKey label bits out =
     (let bytesToGenerate = (bits + 7) div 8 in
      case kdfa_loop L hmacKey label bits bytesToGenerate 1 0 out of
        None \<Rightarrow> None
      | Some (ret, out1) \<Rightarrow>
          if ret = 0 then Some (0, out1)
          else if bits mod 8 \<noteq> 0 then
            let mask = (ucast (push_bit (8 - unat (bits mod 8)) (0xFF :: u32)) :: u8);
                i = unat (bytesToGenerate - 1)
            in (case rd out1 i of
                  None \<Rightarrow> None
                | Some b \<Rightarrow> Some (1, out1[i := b AND mask]))
          else Some (1, out1))"

text \<open>
  \<open>TPM2_AES_CFB_Crypt\<close>: \<open>key\<close>, \<open>iv\<close> and \<open>inp\<close> are the arrays the pointers point into.  The
  result is the number of bytes written, 0 on failure.
\<close>

definition TPM2_AES_CFB_Crypt ::
  "ossl \<Rightarrow> bytes \<Rightarrow> nat \<Rightarrow> bytes \<Rightarrow> bytes \<Rightarrow> nat \<Rightarrow> bytes \<Rightarrow> bool \<Rightarrow> (int \<times> bytes) option" where
  "TPM2_AES_CFB_Crypt L key keylen iv inp inlen out enc =
     (if keylen = 16 \<or> keylen = 24 \<or> keylen = 32 then
        if length key < keylen \<or> length iv < 16 \<or> length inp < inlen then None
        else (case aes_cfb128 L enc (take keylen key) (take 16 iv) (take inlen inp) of
                None \<Rightarrow> Some (0, out)
              | Some r \<Rightarrow> (case memcpy out 0 r (length r) of
                    None \<Rightarrow> None
                  | Some out' \<Rightarrow> Some (int (length r), out')))
      else Some (0, out))"

text \<open>
  The calls of the library that \<open>TPM2_RSA_Sign\<close> makes, on keys \<open>'k\<close>, contexts \<open>'c\<close> and digests \<open>'d\<close>;
  \<open>None\<close> is a result of at most zero.  \<open>pk_sign_size\<close> is \<open>EVP_PKEY_sign\<close> without a buffer, which reports
  the size a signature may need, and \<open>pk_sign\<close> the call with a buffer of a given size.
\<close>

record ('k, 'c, 'd) pkey_lib =
  pk_ctx_new :: "'k \<Rightarrow> 'c option"
  pk_sign_init :: "'c \<Rightarrow> 'c option"
  pk_set_md :: "'d \<Rightarrow> 'c \<Rightarrow> 'c option"
  pk_base_id :: "'k \<Rightarrow> int"
  pk_rsa :: int
  pk_rsa_pss :: int
  pk_pkcs1_padding :: int
  pk_pss_padding :: int
  pk_set_padding :: "int \<Rightarrow> 'c \<Rightarrow> 'c option"
  pk_set_saltlen :: "int \<Rightarrow> 'c \<Rightarrow> 'c option"
  pk_sign_size :: "'c \<Rightarrow> bytes \<Rightarrow> nat option"
  pk_sign :: "'c \<Rightarrow> nat \<Rightarrow> bytes \<Rightarrow> bytes option"

definition rsa_sign_context :: "('k, 'c, 'd) pkey_lib \<Rightarrow> 'k \<Rightarrow> 'd \<Rightarrow> 'c option" where
  "rsa_sign_context P pkey md =
     (case pk_ctx_new P pkey of None \<Rightarrow> None | Some ctx \<Rightarrow>
      (case pk_sign_init P ctx of None \<Rightarrow> None | Some ctx \<Rightarrow>
      (case pk_set_md P md ctx of None \<Rightarrow> None | Some ctx \<Rightarrow>
       let key_type = pk_base_id P pkey in
       if key_type = pk_rsa_pss P then
         (case pk_set_padding P (pk_pss_padding P) ctx of
            None \<Rightarrow> None | Some ctx \<Rightarrow> pk_set_saltlen P (- 1) ctx)
       else if key_type = pk_rsa P then pk_set_padding P (pk_pkcs1_padding P) ctx
       else None)))"

text \<open>
  The result, the buffer and the size written back.  The first of the two signature calls replaces
  the size of the caller's buffer by the size required.
\<close>

definition TPM2_RSA_Sign ::
  "('k, 'c, 'd) pkey_lib \<Rightarrow> 'k \<Rightarrow> bytes \<Rightarrow> bytes \<Rightarrow> nat \<Rightarrow> 'd \<Rightarrow> (int \<times> bytes \<times> nat) option" where
  "TPM2_RSA_Sign P pkey msg sig siglen md =
     (case rsa_sign_context P pkey md of
        None \<Rightarrow> Some (0, sig, siglen)
      | Some ctx \<Rightarrow>
          (case pk_sign_size P ctx msg of
             None \<Rightarrow> Some (0, sig, siglen)
           | Some siglen' \<Rightarrow>
               (case pk_sign P ctx siglen' msg of
                  None \<Rightarrow> Some (0, sig, siglen')
                | Some s \<Rightarrow>
                    (case memcpy sig 0 s (length s) of
                       None \<Rightarrow> None
                     | Some sig' \<Rightarrow> Some (1, sig', length s)))))"

section \<open>Creation of primary keys\<close>

text \<open>The seed of a hierarchy; \<open>None\<close> is the default case of the switch.\<close>

definition hierarchy_seed :: "TPM2State \<Rightarrow> u32 \<Rightarrow> bytes option" where
  "hierarchy_seed s primaryHandle =
     (if primaryHandle = TPM_RH_OWNER then Some (sps s)
      else if primaryHandle = TPM_RH_PLATFORM then Some (pps s)
      else if primaryHandle = TPM_RH_ENDORSEMENT then Some (eps s)
      else None)"

text \<open>The ASCII bytes of \<open>PRIMARY\<close>.\<close>

definition primary_label :: bytes where
  "primary_label = [0x50, 0x52, 0x49, 0x4D, 0x41, 0x52, 0x59]"

text \<open>The sensitive area after the \<open>memset\<close> and the three assignments that follow it.\<close>

definition fresh_sensitive :: "u16 \<Rightarrow> tpm2b \<Rightarrow> bytes \<Rightarrow> TPMT_SENSITIVE" where
  "fresh_sensitive typ userAuth seed =
     \<lparr>sn_sensitiveType = typ, sn_authValue = userAuth,
      sn_seedValue = (32, overwrite (replicate 64 0) 0 (take 32 seed)),
      sn_ecc = (0, replicate 64 0)\<rparr>"

text \<open>
  \<open>priv0\<close> and \<open>hash0\<close> are the contents of the uninitialised local arrays \<open>priv[32]\<close> and
  \<open>hash[32]\<close>; the code ignores the results of \<open>TPM2_KDFa\<close> and \<open>TPM2_SHA256\<close>, so they show
  when these fail.  \<open>name0\<close> is the caller's \<open>TPM2B_NAME\<close>: its size and the storage behind it.
  The struct ends in a flexible array member, so an object of that type by itself has no storage for
  the name at all; storing the 34 bytes of the name in less is an access out of bounds.  Of the
  name, the device state keeps the size only, since a struct assignment does not copy a flexible
  array member.
\<close>

definition tpm2_CreatePrimary ::
  "ossl \<Rightarrow> bytes \<Rightarrow> bytes \<Rightarrow> TPM2State \<Rightarrow> u32 \<Rightarrow> tpm2b \<Rightarrow> TPMT_PUBLIC \<Rightarrow> TPMT_PUBLIC \<Rightarrow> tpm2b \<Rightarrow>
   (TPM_RC \<times> TPM2State \<times> TPMT_PUBLIC \<times> tpm2b) option" where
  "tpm2_CreatePrimary L priv0 hash0 s primaryHandle userAuth tmpl outPublic0 name0 =
    (case hierarchy_seed s primaryHandle of
       None \<Rightarrow> Some (TPM_RC_HIERARCHY, s, outPublic0, name0)
     | Some seed \<Rightarrow>
        let sens = fresh_sensitive (t_type tmpl) userAuth seed;
            s1 = s\<lparr>primary_sensitive := sens\<rparr>
        in if t_type tmpl \<noteq> TPM_ALG_ECC then Some (TPM_RC_ASYMMETRIC, s1, outPublic0, name0)
        else (case TPM2_KDFa L (take 32 seed) primary_label 256 priv0 of
          None \<Rightarrow> None
        | Some (_, priv) \<Rightarrow>
           (case p256_pub L (take 32 priv) of (pubx, puby) \<Rightarrow>
            let sens' = sens\<lparr>sn_ecc := (32, overwrite (replicate 64 0) 0 (take 32 priv))\<rparr>;
                outPublic = tmpl\<lparr>t_x := (32, overwrite (snd (t_x tmpl)) 0 pubx),
                                 t_y := (32, overwrite (snd (t_y tmpl)) 0 puby)\<rparr>
            in (case TPM2_SHA256 L (public_image L outPublic) hash0 of
                  None \<Rightarrow> None
                | Some (_, hash) \<Rightarrow>
                    (case memcpy (snd name0) 0 (be16_bytes TPM_ALG_SHA256 @ take 32 hash) 34 of
                       None \<Rightarrow> None
                     | Some nm \<Rightarrow>
                         Some (TPM_RC_SUCCESS,
                           s1\<lparr>primary_sensitive := sens', primary_public := outPublic,
                               primary_name_size := 34\<rparr>,
                           outPublic, (34, nm)))))))"

section \<open>Reference definition of KDFa\<close>

text \<open>The concatenation of the outputs of \<open>n\<close> rounds, the first with counter \<open>c\<close>.\<close>

primrec kdfa_blocks :: "ossl \<Rightarrow> bytes \<Rightarrow> bytes \<Rightarrow> u32 \<Rightarrow> u32 \<Rightarrow> nat \<Rightarrow> bytes" where
  "kdfa_blocks L key label bits c 0 = []"
| "kdfa_blocks L key label bits c (Suc n) =
     the (hmac_sha256 L key (kdfa_message c label bits)) @ kdfa_blocks L key label bits (c + 1) n"

definition kdfa_stream :: "ossl \<Rightarrow> bytes \<Rightarrow> bytes \<Rightarrow> u32 \<Rightarrow> u32 \<Rightarrow> nat \<Rightarrow> bytes" where
  "kdfa_stream L key label bits c k = take k (kdfa_blocks L key label bits c ((k + 31) div 32))"

text \<open>Documented behaviour of the library: HMAC-SHA-256 succeeds and yields 32 bytes.\<close>

definition hmac_ok :: "ossl \<Rightarrow> bool" where
  "hmac_ok L \<longleftrightarrow> (\<forall>k m. \<exists>h. hmac_sha256 L k m = Some h \<and> length h = 32)"

text \<open>
  Further documented behaviour.  SHA-256 succeeds and yields 32 bytes, and the two coordinates of a
  point, padded by \<open>BN_bn2binpad\<close>, have 32 bytes.  AES in CFB-128 mode succeeds for every key
  of a supported length and a 16-byte initialisation vector, keeps the length, is inverted by
  decryption, and is a stream mode: a prefix of the input gives that prefix of the output.
\<close>

definition digest_ok :: "ossl \<Rightarrow> bool" where
  "digest_ok L \<longleftrightarrow> (\<forall>m. \<exists>h. sha256 L m = Some h \<and> length h = 32) \<and>
     (\<forall>d. length (fst (p256_pub L d)) = 32 \<and> length (snd (p256_pub L d)) = 32)"

definition cipher_ok :: "ossl \<Rightarrow> bool" where
  "cipher_ok L \<longleftrightarrow>
     (\<forall>e k iv d. length k \<in> {16, 24, 32} \<and> length iv = 16 \<longrightarrow>
        (\<exists>r. aes_cfb128 L e k iv d = Some r \<and> length r = length d \<and>
              aes_cfb128 L (\<not> e) k iv r = Some d) \<and>
        (\<forall>n. aes_cfb128 L e k iv (take n d) = map_option (take n) (aes_cfb128 L e k iv d)))"

text \<open>A concrete library with all these laws, on which the hypotheses are seen to hold.\<close>

definition demo_ossl :: ossl where
  "demo_ossl =
     \<lparr>hmac_sha256 = (\<lambda>k m. Some (replicate 32 (sum_list k + sum_list m))),
      sha256 = (\<lambda>m. Some (replicate 32 (sum_list m))),
      aes_cfb128 = (\<lambda>e k iv d. Some (map (\<lambda>b. b XOR hd k) d)),
      p256_pub = (\<lambda>d. (replicate 32 (sum_list d), replicate 32 (hd d))),
      public_image = (\<lambda>p. be16_bytes (t_type p) @ snd (t_x p) @ snd (t_y p))\<rparr>"

section \<open>Lemmas on KDFa\<close>

lemma length_kdfa_blocks: "hmac_ok L \<Longrightarrow> length (kdfa_blocks L key label bits c n) = 32 * n"
proof (induction n arbitrary: c)
  case (Suc n)
  obtain h where "hmac_sha256 L key (kdfa_message c label bits) = Some h" "length h = 32"
    using Suc.prems by (auto simp: hmac_ok_def)
  with Suc show ?case by simp
qed simp

lemma length_kdfa_stream [simp]: "hmac_ok L \<Longrightarrow> length (kdfa_stream L key label bits c k) = k"
  by (simp add: kdfa_stream_def length_kdfa_blocks)

lemma kdfa_stream_step:
  assumes "hmac_sha256 L key (kdfa_message c label bits) = Some h" "length h = 32" "0 < k"
  shows "kdfa_stream L key label bits c k =
    take k h @ kdfa_stream L key label bits (c + 1) (k - 32)"
proof -
  have "(k + 31) div 32 = Suc ((k - 32 + 31) div 32)" if "32 < k" using that by simp
  moreover have "(k + 31) div 32 = Suc 0" if "k \<le> 32" using that assms(3) by simp
  ultimately show ?thesis
    using assms by (cases "k \<le> 32") (simp_all add: kdfa_stream_def)
qed

text \<open>The loop ends, and writes the rest of the key stream behind what it has generated.\<close>

lemma kdfa_loop_spec:
  assumes "hmac_ok L"
  shows "unat g + k = unat N \<Longrightarrow> unat N + 32 < 2 ^ 32 \<Longrightarrow> unat N \<le> length out \<Longrightarrow>
    kdfa_loop L key label bits N c g out =
      Some (1, overwrite out (unat g) (kdfa_stream L key label bits c k))"
proof (induction k arbitrary: c g out rule: less_induct)
  case (less k)
  show ?case
  proof (cases "k = 0")
    case True
    with less.prems have "\<not> g < N" by (simp add: word_less_nat_alt)
    with True show ?thesis by (subst kdfa_loop.simps) (simp add: kdfa_stream_def)
  next
    case False
    obtain h where h: "hmac_sha256 L key (kdfa_message c label bits) = Some h" "length h = 32"
      using assms by (auto simp: hmac_ok_def)
    define t :: u32 where "t = (if g + 32 > N then N - g else 32)"
    have g32: "unat (g + 32) = unat g + 32"
      using less.prems by (subst unat_add_lem [THEN iffD1]) simp_all
    have gN: "g < N" "g \<le> N" using less.prems False by (simp_all add: word_less_nat_alt word_le_nat_alt)
    have t: "unat t = min k 32"
      using less.prems gN g32
      by (auto simp: t_def word_less_nat_alt unat_sub min_def)
    have gt: "unat (g + t) = unat g + min k 32"
      using less.prems t by (subst unat_add_lem [THEN iffD1]) simp_all
    have IH: "kdfa_loop L key label bits N (c + 1) (g + t) out' =
        Some (1, overwrite out' (unat (g + t)) (kdfa_stream L key label bits (c + 1) (k - 32)))"
      if "length out' = length out" for out'
      by (rule less.IH) (use less.prems gt that False in auto)
    have o: "overwrite (overwrite out (unat g) (take k h)) (unat g + min k 32)
        (kdfa_stream L key label bits (c + 1) (k - 32)) =
      overwrite out (unat g) (kdfa_stream L key label bits c k)"
      using overwrite_join [of "unat g + min k 32" "unat g" "take k h"
          "kdfa_stream L key label bits (c + 1) (k - 32)" out] less.prems h assms False
      by (simp add: kdfa_stream_step [OF h] min.commute)
    have mc: "memcpy out (unat g) h (unat t) = Some (overwrite out (unat g) (take k h))"
      using less.prems h t by (simp add: memcpy_def min_def)
    show ?thesis
      using h gN less.prems IH [of "overwrite out (unat g) (take k h)"] mc o gt
      by (subst kdfa_loop.simps) (simp add: t_def [symmetric] Let_def)
  qed
qed

lemma KDFa_spec:
  assumes "hmac_ok L" "(unat bits + 7) div 8 \<le> length out" "unat bits + 7 < 2 ^ 32"
  shows "TPM2_KDFa L key label bits out =
    Some (1, let n = (unat bits + 7) div 8;
                 o' = overwrite out 0 (kdfa_stream L key label bits 1 n)
             in if bits mod 8 = 0 then o'
                else o'[n - 1 := o' ! (n - 1) AND ucast (push_bit (8 - unat (bits mod 8)) (0xFF :: u32))])"
proof -
  let ?n = "(unat bits + 7) div 8"
  have "unat (bits + 7) = unat bits + 7"
    using assms(3) by (subst unat_add_lem [THEN iffD1]) simp_all
  then have N: "unat ((bits + 7) div 8) = ?n" by (simp add: unat_div)
  have lt: "?n + 32 < 2 ^ 32" using assms(3) by simp
  have "kdfa_loop L key label bits ((bits + 7) div 8) 1 0 out =
      Some (1, overwrite out (unat (0::u32)) (kdfa_stream L key label bits 1 ?n))"
    by (rule kdfa_loop_spec [OF assms(1)]) (use N lt assms(2) in simp_all)
  moreover have "unat ((bits + 7) div 8 - 1) = ?n - 1 \<and> ?n - 1 < length out" if "bits mod 8 \<noteq> 0"
  proof -
    have "bits \<noteq> 0" using that by auto
    then have "0 < unat bits" by (simp add: unat_gt_0)
    then have "1 \<le> ?n" by linarith
    with N have "1 \<le> (bits + 7) div 8" by (simp add: word_le_nat_alt)
    from unat_sub [OF this] N \<open>1 \<le> ?n\<close> assms(2) show ?thesis by simp
  qed
  ultimately show ?thesis
    using assms(1,2) by (auto simp: TPM2_KDFa_def Let_def)
qed

lemma demo_hmac_ok: "hmac_ok demo_ossl"
  by (simp add: hmac_ok_def demo_ossl_def)

lemma demo_digest_ok: "digest_ok demo_ossl"
  by (simp add: digest_ok_def demo_ossl_def)

lemma xor_twice: "map (\<lambda>b. b XOR k) (map (\<lambda>b. b XOR k) d) = (d :: bytes)"
  by (induction d) (simp_all add: xor.assoc)

lemma demo_cipher_ok: "cipher_ok demo_ossl"
  by (simp add: cipher_ok_def demo_ossl_def xor_twice take_map del: map_map)

section \<open>Lemmas on signatures\<close>

text \<open>A signature that is reported is in the buffer.\<close>

lemma rsa_sign_stored:
  assumes "TPM2_RSA_Sign P pkey msg sig siglen md = Some (1, sig', n)"
  obtains ctx n' s where "rsa_sign_context P pkey md = Some ctx" "pk_sign_size P ctx msg = Some n'"
    "pk_sign P ctx n' msg = Some s" "n = length s" "take n sig' = s"
  using assms by (auto simp: TPM2_RSA_Sign_def memcpy_def overwrite_def split: option.splits if_splits)

text \<open>The size of the caller's buffer is not respected: a longer signature is written over its end.\<close>

lemma rsa_sign_overruns:
  assumes "rsa_sign_context P pkey md = Some ctx" "pk_sign_size P ctx msg = Some n" "pk_sign P ctx n msg = Some s"
  shows "TPM2_RSA_Sign P pkey msg sig siglen md = None \<longleftrightarrow> length sig < length s"
  using assms by (auto simp: TPM2_RSA_Sign_def memcpy_def)

section \<open>Lemmas on primary keys\<close>

text \<open>The private key of a hierarchy.\<close>

abbreviation (input) primary_key :: "ossl \<Rightarrow> bytes \<Rightarrow> bytes" where
  "primary_key L seed \<equiv> kdfa_stream L seed primary_label 256 1 32"

lemma KDFa_primary:
  "hmac_ok L \<Longrightarrow> length priv0 = 32 \<Longrightarrow>
   TPM2_KDFa L seed primary_label 256 priv0 = Some (1, primary_key L seed)"
  using KDFa_spec [of L 256 priv0 seed primary_label] by (simp add: Let_def overwrite_def)

lemma SHA256_ok:
  "digest_ok L \<Longrightarrow> length out = 32 \<Longrightarrow> TPM2_SHA256 L m out = Some (1, the (sha256 L m))"
  unfolding digest_ok_def TPM2_SHA256_def
  by (elim conjE allE [of _ m] exE) (simp add: memcpy_def overwrite_def)

lemma CreatePrimary_hierarchy:
  "hierarchy_seed s h = None \<Longrightarrow>
   tpm2_CreatePrimary L priv0 hash0 s h auth tmpl o0 n0 = Some (TPM_RC_HIERARCHY, s, o0, n0)"
  by (simp add: tpm2_CreatePrimary_def)

lemma CreatePrimary_asymmetric:
  "hierarchy_seed s h = Some seed \<Longrightarrow> t_type tmpl \<noteq> TPM_ALG_ECC \<Longrightarrow>
   tpm2_CreatePrimary L priv0 hash0 s h auth tmpl o0 n0 =
     Some (TPM_RC_ASYMMETRIC,
       s\<lparr>primary_sensitive := fresh_sensitive (t_type tmpl) auth seed\<rparr>, o0, n0)"
  by (simp add: tpm2_CreatePrimary_def)

lemma CreatePrimary_success:
  assumes "hmac_ok L" "digest_ok L" "length priv0 = 32" "length hash0 = 32"
    and "hierarchy_seed s h = Some seed" "length seed = 32" "t_type tmpl = TPM_ALG_ECC"
  shows "tpm2_CreatePrimary L priv0 hash0 s h auth tmpl o0 n0 =
    (let key = primary_key L seed;
         pub = tmpl\<lparr>t_x := (32, overwrite (snd (t_x tmpl)) 0 (fst (p256_pub L key))),
                    t_y := (32, overwrite (snd (t_y tmpl)) 0 (snd (p256_pub L key)))\<rparr>
     in if length (snd n0) < 34 then None
        else Some (TPM_RC_SUCCESS,
          s\<lparr>primary_sensitive := (fresh_sensitive TPM_ALG_ECC auth seed)
                \<lparr>sn_ecc := (32, key @ replicate 32 0)\<rparr>,
             primary_public := pub, primary_name_size := 34\<rparr>,
          pub, (34, overwrite (snd n0) 0
                  (be16_bytes TPM_ALG_SHA256 @ the (sha256 L (public_image L pub))))))"
proof -
  have "length (the (sha256 L m)) = 32" for m
    using assms(2) by (metis digest_ok_def option.sel)
  with assms show ?thesis
    by (simp add: tpm2_CreatePrimary_def KDFa_primary SHA256_ok Let_def overwrite_def memcpy_def
        split: prod.split)
qed

section \<open>Properties\<close>

text \<open>
  C19.  \<open>TPM2_KDFa\<close> ends and returns 1 for every number of bits that does not overflow, and its
  output is the one of the counter-mode KDF: the first \<open>(bits + 7) div 8\<close> bytes of the
  concatenated HMACs with counters 1, 2, and so on, the unused low bits of the last byte cleared,
  and nothing written behind it.
\<close>

theorem KDFa_correct:
  assumes "hmac_ok L" "(unat bits + 7) div 8 \<le> length out" "unat bits + 7 < 2 ^ 32"
  shows "TPM2_KDFa L key label bits out =
    Some (1, let n = (unat bits + 7) div 8;
                 o' = kdfa_stream L key label bits 1 n @ drop n out
             in if bits mod 8 = 0 then o'
                else o'[n - 1 := o' ! (n - 1) AND ucast (push_bit (8 - unat (bits mod 8)) (0xFF :: u32))])"
  using KDFa_spec [OF assms] assms(1) by (simp add: overwrite_def Let_def)

theorem KDFa_correct_witness:
  "TPM2_KDFa demo_ossl [1, 2] [0x41] 16 [0, 0, 9] = Some (1, [0x55, 0x55, 9])"
proof -
  have r: "replicate 2 x = [x, x]" for x :: u8 by (simp add: numeral_2_eq_2)
  have h: "hmac_sha256 demo_ossl [1, 2] (kdfa_message 1 [0x41] 16) = Some (replicate 32 0x55)"
    by (simp add: demo_ossl_def kdfa_message_def be32_bytes_def)
  have k: "kdfa_stream demo_ossl [1, 2] [0x41] 16 1 2 = [0x55, 0x55]"
    by (subst kdfa_stream_step [OF h]) (simp_all add: r kdfa_stream_def)
  show ?thesis
    by (subst KDFa_correct [OF demo_hmac_ok]) (simp_all add: k)
qed

text \<open>
  C20.  Creating an elliptic-curve primary key succeeds in each of the three hierarchies.  The
  private key is the KDFa of the hierarchy's seed and nothing else: not of the template, the
  authorization value or the previous state, so the same hierarchy always yields the same key.
  The public area is the template with the point of that key, and the name is the algorithm
  followed by the digest of the public area.  The caller has to provide storage for the 34 bytes
  of the name.
\<close>

theorem CreatePrimary_correct:
  assumes "hmac_ok L" "digest_ok L" "length priv0 = 32" "length hash0 = 32"
    and "hierarchy_seed s h = Some seed" "length seed = 32" "t_type tmpl = TPM_ALG_ECC"
    and "34 \<le> length (snd n0)"
  shows "\<exists>s' pub name. tpm2_CreatePrimary L priv0 hash0 s h auth tmpl o0 n0 =
      Some (TPM_RC_SUCCESS, s', pub, (34, name)) \<and>
    sn_ecc (primary_sensitive s') =
      (32, kdfa_stream L seed primary_label 256 1 32 @ replicate 32 0) \<and>
    sn_authValue (primary_sensitive s') = auth \<and>
    pub = tmpl\<lparr>t_x := t_x pub, t_y := t_y pub\<rparr> \<and>
    take 32 (snd (t_x pub)) = fst (p256_pub L (kdfa_stream L seed primary_label 256 1 32)) \<and>
    take 32 (snd (t_y pub)) = snd (p256_pub L (kdfa_stream L seed primary_label 256 1 32)) \<and>
    primary_public s' = pub \<and> length name = length (snd n0) \<and>
    sha256 L (public_image L pub) = Some (slice name 2 32) \<and> take 2 name = be16_bytes TPM_ALG_SHA256 \<and>
    s' = s\<lparr>primary_sensitive := primary_sensitive s', primary_public := pub, primary_name_size := 34\<rparr>"
proof -
  obtain x where "sha256 L (public_image L (tmpl\<lparr>
      t_x := (32, overwrite (snd (t_x tmpl)) 0 (fst (p256_pub L (primary_key L seed)))),
      t_y := (32, overwrite (snd (t_y tmpl)) 0 (snd (p256_pub L (primary_key L seed))))\<rparr>)) = Some x"
      "length x = 32"
    using assms(2) unfolding digest_ok_def by blast
  moreover have "length (fst (p256_pub L (primary_key L seed))) = 32"
      "length (snd (p256_pub L (primary_key L seed))) = 32"
    using assms(2) by (simp_all add: digest_ok_def)
  ultimately show ?thesis
    unfolding CreatePrimary_success [OF assms(1-7)] Let_def
    using assms(8) by (simp add: overwrite_def slice_def fresh_sensitive_def be16_bytes_def)
qed

theorem CreatePrimary_correct_witness:
  "\<exists>s' pub name.
     tpm2_CreatePrimary demo_ossl (replicate 32 0) (replicate 32 0) tpm2_init TPM_RH_OWNER (0, [])
       (zero_public\<lparr>t_type := TPM_ALG_ECC\<rparr>) zero_public (0, replicate 34 0) =
       Some (TPM_RC_SUCCESS, s', pub, (34, name)) \<and>
     sn_authValue (primary_sensitive s') = (0, [])"
proof -
  have h: "hierarchy_seed tpm2_init TPM_RH_OWNER = Some (replicate 32 0)"
    by (simp add: hierarchy_seed_def tpm2_init_def)
  have l: "length (replicate 32 (0 :: u8)) = 32" "t_type (zero_public\<lparr>t_type := TPM_ALG_ECC\<rparr>) = TPM_ALG_ECC"
    "34 \<le> length (snd (0 :: u16, replicate 34 (0 :: u8)))"
    by simp_all
  from CreatePrimary_correct [OF demo_hmac_ok demo_digest_ok l(1) l(1) h l(1) l(2) l(3),
      of "(0, [])" zero_public]
  show ?thesis by blast
qed

text \<open>
  C34.  A \<open>TPM2B_NAME\<close> declared as a variable has no storage for a name, and both callers pass the
  address of such a variable: every creation of a primary key that reaches the name, that is every
  one that would succeed, writes out of bounds.
\<close>

theorem CreatePrimary_name_overflow:
  assumes "hmac_ok L" "digest_ok L" "length priv0 = 32" "length hash0 = 32"
    and "hierarchy_seed s h = Some seed" "length seed = 32" "t_type tmpl = TPM_ALG_ECC"
  shows "tpm2_CreatePrimary L priv0 hash0 s h auth tmpl o0 (0, []) = None"
  unfolding CreatePrimary_success [OF assms] by (simp add: Let_def)

theorem CreatePrimary_name_overflow_witness:
  "tpm2_CreatePrimary demo_ossl (replicate 32 0) (replicate 32 0) tpm2_init TPM_RH_OWNER (0, [])
     (zero_public\<lparr>t_type := TPM_ALG_ECC\<rparr>) zero_public (0, []) = None"
  by (rule CreatePrimary_name_overflow [OF demo_hmac_ok demo_digest_ok, where seed = "replicate 32 0"])
    (simp_all add: hierarchy_seed_def tpm2_init_def)

text \<open>
  C32.  A failed key creation is not harmless.  An unknown hierarchy is refused and leaves the state
  as it was, but an unsupported key type is refused only after the previous primary key has been
  erased: its size is 0 afterwards.
\<close>

theorem CreatePrimary_failures:
  "(hierarchy_seed s h = None \<longrightarrow>
      tpm2_CreatePrimary L priv0 hash0 s h auth tmpl o0 n0 = Some (TPM_RC_HIERARCHY, s, o0, n0)) \<and>
   (hierarchy_seed s h \<noteq> None \<and> t_type tmpl \<noteq> TPM_ALG_ECC \<longrightarrow>
      (\<exists>s'. tpm2_CreatePrimary L priv0 hash0 s h auth tmpl o0 n0 =
              Some (TPM_RC_ASYMMETRIC, s', o0, n0) \<and>
            sn_ecc (primary_sensitive s') = (0, replicate 64 0) \<and>
            s' = s\<lparr>primary_sensitive := primary_sensitive s'\<rparr>))"
  by (auto simp: CreatePrimary_hierarchy CreatePrimary_asymmetric fresh_sensitive_def)

theorem CreatePrimary_failures_witness:
  "tpm2_CreatePrimary demo_ossl [] [] tpm2_init TPM_RH_NULL (0, []) zero_public zero_public (0, []) =
     Some (TPM_RC_HIERARCHY, tpm2_init, zero_public, (0, []))"
  using CreatePrimary_failures [of tpm2_init TPM_RH_NULL demo_ossl "[]" "[]" "(0, [])" zero_public
      zero_public "(0, [])"]
  by (simp add: hierarchy_seed_def)

end
