(* ===== verification/TPM_NV.thy ===== *)
theory TPM_NV
  imports TPM_Crypto
begin

text \<open>
  \<^verbatim>\<open>hw/tpm/tpm_nv.c\<close>: definition, encrypted writing and decrypted reading of NV indices.  The
  NV bank is one array; every index owns a slice of it, 16 bytes of initialisation vector followed
  by its data, handed out by a cursor that only grows.  \<open>None\<close> is an access outside an array.
\<close>

section \<open>Entries\<close>

definition impl_supports_counter :: "TPM2State \<Rightarrow> bool" where
  "impl_supports_counter s = True"

definition impl_supports_setbits :: "TPM2State \<Rightarrow> bool" where
  "impl_supports_setbits s = True"

definition impl_supports_undefine_policy_delete :: "TPM2State \<Rightarrow> bool" where
  "impl_supports_undefine_policy_delete s = True"

text \<open>The result has \<open>None\<close> for the entry when the function returns NULL.\<close>

definition nv_entry_alloc ::
  "TPM2State \<Rightarrow> TPM_NV_INDEX \<Rightarrow> u16 \<Rightarrow> u16 \<Rightarrow> TPMA_NV \<Rightarrow> (TPM2State \<times> NVEntry option) option" where
  "nv_entry_alloc s index dataSize nameAlg attrs =
     (case nv_bank s of
        None \<Rightarrow> Some (s, None)
      | Some bank \<Rightarrow>
          let need = 16 + unat dataSize; base = unat (nv_alloc_offset s) in
          if base + need > unat (nv_bank_size s) then Some (s, None)
          else (case memcpy bank base (replicate need 0) need of
             None \<Rightarrow> None
           | Some bank' \<Rightarrow>
               Some (s\<lparr>nv_bank := Some bank', nv_alloc_offset := nv_alloc_offset s + of_nat need\<rparr>,
                 Some \<lparr>e_pub = \<lparr>p_nvIndex = index, p_nameAlg = nameAlg, p_attributes = attrs,
                                p_authPolicy = replicate 64 0, p_authPolicySize = 0,
                                p_dataSize = dataSize\<rparr>,
                       e_authValue = replicate 64 0, e_authValueLen = 0,
                       e_name = replicate 64 0, e_nameLen = 0,
                       e_data = base + 16, e_dataLen = dataSize, e_iv = base,
                       e_written = False, e_readLocked = False, e_writeLocked = False\<rparr>)))"

definition tpm2_nv_flush_dirty :: "TPM2State \<Rightarrow> bool" where
  "tpm2_nv_flush_dirty s = True"

definition nv_index_type :: "TPMA_NV \<Rightarrow> u8" where
  "nv_index_type attrs = a_nvType attrs"

definition any_read_bit :: "TPMA_NV \<Rightarrow> bool" where
  "any_read_bit a \<longleftrightarrow> a_ppRead a \<or> a_ownerRead a \<or> a_authRead a \<or> a_policyRead a"

definition any_write_bit :: "TPMA_NV \<Rightarrow> bool" where
  "any_write_bit a \<longleftrightarrow> a_ppWrite a \<or> a_ownerWrite a \<or> a_authWrite a \<or> a_policyWrite a"

section \<open>TPM2_NV_DefineSpace\<close>

text \<open>The rules for the type of an index: the switch of step 10.\<close>

definition nv_type_rules :: "TPM2State \<Rightarrow> TPMA_NV \<Rightarrow> u16 \<Rightarrow> TPM_RC" where
  "nv_type_rules s attrs dataSize =
     (let nvt = nv_index_type attrs in
      if nvt = TPM_NT_COUNTER then
        (if \<not> impl_supports_counter s then TPM_RC_ATTRIBUTES
         else if a_clearStClear attrs then TPM_RC_ATTRIBUTES
         else if dataSize \<noteq> 8 then TPM_RC_SIZE else TPM_RC_SUCCESS)
      else if nvt = TPM_NT_BITS then
        (if \<not> impl_supports_setbits s then TPM_RC_ATTRIBUTES
         else if dataSize \<noteq> 8 then TPM_RC_SIZE else TPM_RC_SUCCESS)
      else if nvt = TPM_NT_PIN_FAIL then
        (if \<not> a_noDA attrs then TPM_RC_ATTRIBUTES
         else if dataSize \<noteq> 8 then TPM_RC_SIZE
         else if a_authWrite attrs then TPM_RC_ATTRIBUTES
         else if \<not> (a_ppWrite attrs \<or> a_ownerWrite attrs \<or> a_policyWrite attrs)
           then TPM_RC_ATTRIBUTES
         else TPM_RC_SUCCESS)
      else if nvt = TPM_NT_PIN_PASS then
        (if dataSize \<noteq> 8 then TPM_RC_SIZE
         else if a_authWrite attrs then TPM_RC_ATTRIBUTES
         else if \<not> (a_ppWrite attrs \<or> a_ownerWrite attrs \<or> a_policyWrite attrs)
           then TPM_RC_ATTRIBUTES
         else TPM_RC_SUCCESS)
      else TPM_RC_SUCCESS)"

text \<open>The checks of \<open>tpm2_nv_define_space\<close> before the allocation, in the order of the code.\<close>

definition nv_define_checks :: "TPM2State \<Rightarrow> TPMI_RH_PROVISION \<Rightarrow> TPMS_NV_PUBLIC \<Rightarrow> TPM_RC" where
  "nv_define_checks s authHandle nv =
     (let attrs = p_attributes nv; dataSize = p_dataSize nv; nvt = nv_index_type attrs;
          platformAuth = (rp_platform authHandle = TPM_RH_PLATFORM)
      in
      if p_nvIndex nv = 0 \<or> ucast dataSize > TPM2_NVSTORAGE_SIZE then TPM_RC_SIZE
      else if nv_lookup s (p_nvIndex nv) \<noteq> None then TPM_RC_NV_DEFINED
      else if nv_count s \<ge> TPM2_MAX_NV_INDEXES then TPM_RC_NV_SPACE
      else if a_written attrs \<or> a_readLocked attrs \<or> a_writeLocked attrs then TPM_RC_ATTRIBUTES
      else if nvt > TPM_NT_PIN_PASS then TPM_RC_ATTRIBUTES
      else if \<not> any_read_bit attrs then TPM_RC_ATTRIBUTES
      else if \<not> any_write_bit attrs then TPM_RC_ATTRIBUTES
      else if platformAuth \<and> \<not> a_platformCreate attrs then TPM_RC_ATTRIBUTES
      else if \<not> platformAuth \<and> a_platformCreate attrs then TPM_RC_ATTRIBUTES
      else if a_policyDelete attrs \<and> \<not> platformAuth then TPM_RC_ATTRIBUTES
      else if nv_type_rules s attrs dataSize \<noteq> TPM_RC_SUCCESS
        then nv_type_rules s attrs dataSize
      else if (nvt = TPM_NT_ORDINARY \<or> nvt = 0) \<and> ucast dataSize > nv_bank_size s
        then TPM_RC_SIZE
      else if (nvt = TPM_NT_ORDINARY \<or> nvt = 0) \<and> a_writeAll attrs \<and>
              dataSize > MAX_NV_BUFFER_SIZE then TPM_RC_SIZE
      else if a_policyDelete attrs \<and> \<not> impl_supports_undefine_policy_delete s
        then TPM_RC_ATTRIBUTES
      else TPM_RC_SUCCESS)"

text \<open>The authorization value of the new index is passed to the allocation, which ignores it.\<close>

definition tpm2_nv_define_space ::
  "TPM2State \<Rightarrow> TPMI_RH_PROVISION \<Rightarrow> tpm2b \<Rightarrow> TPMS_NV_PUBLIC \<Rightarrow> (TPM_RC \<times> TPM2State) option" where
  "tpm2_nv_define_space s authHandle auth nv =
     (let rc = nv_define_checks s authHandle nv in
      if rc \<noteq> TPM_RC_SUCCESS then Some (rc, s)
      else (case nv_entry_alloc s (p_nvIndex nv) (p_dataSize nv) (p_nameAlg nv) (p_attributes nv) of
          None \<Rightarrow> None
        | Some (s1, None) \<Rightarrow> Some (TPM_RC_MEMORY, s1)
        | Some (s1, Some e) \<Rightarrow>
            let s2 = (nv_insert (p_nvIndex nv) e s1)\<lparr>nv_count := nv_count s1 + 1, nv_dirty := True\<rparr>
            in Some (if \<not> tpm2_nv_flush_dirty s2 then TPM_RC_NV_SPACE else TPM_RC_SUCCESS, s2)))"

section \<open>Initialisation and clean-up\<close>

definition tpm2_nv_init :: "TPM2State \<Rightarrow> TPM2State" where
  "tpm2_nv_init s =
     (if nv_map s \<noteq> None then s
      else s\<lparr>nv_map := Some (\<lambda>_. None), nv_count := 0, nv_dirty := False,
             nv_bank_size := TPM2_NVSTORAGE_SIZE, nv_alloc_offset := 0\<rparr>)"

definition tpm2_nv_cleanup :: "TPM2State \<Rightarrow> TPM2State" where
  "tpm2_nv_cleanup s = s\<lparr>nv_map := None, nv_count := 0, nv_dirty := False\<rparr>"

section \<open>Encrypted write and decrypted read\<close>

text \<open>
  \<open>ciphertext0\<close> is the uninitialised local array of 1024 bytes.  \<open>TPM_RC_VALUE\<close> is the macro
  with value 0 here too.  The comparison before the last copy only saves the copy of equal bytes.
\<close>

definition TPM2_NV_Write ::
  "ossl \<Rightarrow> bytes \<Rightarrow> TPM2State \<Rightarrow> TPMI_RH_PROVISION \<Rightarrow> TPM_NV_INDEX \<Rightarrow> TPM2B_MAX_NV_BUFFER \<Rightarrow> u16 \<Rightarrow>
   (TPM_RC \<times> TPM2State) option" where
  "TPM2_NV_Write L ciphertext0 s authHandle nvIndex data offset =
    (case nv_lookup s nvIndex of
       None \<Rightarrow> Some (TPM_RC_HANDLE, s)
     | Some e \<Rightarrow>
        let attrs = p_attributes (e_pub e); sz = nvb_size data in
        if e_writeLocked e then Some (TPM_RC_NV_LOCKED, s)
        else if a_nvType attrs = TPM_NT_COUNTER \<or> a_nvType attrs = TPM_NT_BITS \<or>
                a_nvType attrs = TPM_NT_EXTEND then Some (TPM_RC_ATTRIBUTES, s)
        else if unat offset > unat (e_dataLen e) then Some (TPM_RC_VALUE_macro, s)
        else if unat offset + unat sz > unat (e_dataLen e) then Some (TPM_RC_NV_RANGE, s)
        else if a_writeAll attrs \<and> sz \<noteq> e_dataLen e then Some (TPM_RC_NV_RANGE, s)
        else if \<not> (a_ownerWrite attrs \<or> a_authWrite attrs \<or> a_policyWrite attrs \<or> a_ppWrite attrs)
          then Some (TPM_RC_AUTH_FAIL, s)
        else if sz > MAX_NV_BUFFER_SIZE then Some (TPM_RC_SIZE, s)
        else (case nv_bank s of None \<Rightarrow> None | Some bank \<Rightarrow>
          (case TPM2_AES_CFB_Crypt L (snd (sn_ecc (primary_sensitive s)))
                  (unat (fst (sn_ecc (primary_sensitive s)))) (drop (e_iv e) bank)
                  (nvb_buffer data) (unat sz) ciphertext0 True of
             None \<Rightarrow> None
           | Some (outlen, ciphertext) \<Rightarrow>
              if outlen \<le> 0 then Some (TPM_RC_FAILURE, s)
              else (case memcpy bank (e_data e + unat offset) ciphertext (unat sz) of
                 None \<Rightarrow> None
               | Some bank' \<Rightarrow>
                   let differ = (slice bank (e_data e + unat offset) (unat sz) \<noteq>
                                 take (unat sz) ciphertext);
                       e' = e\<lparr>e_written := True,
                              e_pub := (e_pub e)\<lparr>p_attributes := attrs\<lparr>a_written := True\<rparr>\<rparr>\<rparr>
                   in Some (TPM_RC_SUCCESS,
                        nv_insert nvIndex e' (s\<lparr>nv_bank := Some (if differ then bank' else bank)\<rparr>))))))"

definition nv_read_decrypt_from_bank ::
  "ossl \<Rightarrow> TPM2State \<Rightarrow> NVEntry \<Rightarrow> bytes \<Rightarrow> u16 \<Rightarrow> u16 \<Rightarrow> (TPM_RC \<times> bytes) option" where
  "nv_read_decrypt_from_bank L s e out len offset =
     (if unat offset + unat len > unat (e_dataLen e) then Some (TPM_RC_SIZE, out)
      else (case nv_bank s of None \<Rightarrow> None | Some bank \<Rightarrow>
        (case TPM2_AES_CFB_Crypt L (snd (sn_ecc (primary_sensitive s)))
                (unat (fst (sn_ecc (primary_sensitive s)))) (drop (e_iv e) bank)
                (drop (e_data e + unat offset) bank) (unat len) out False of
           None \<Rightarrow> None
         | Some (outlen, out') \<Rightarrow>
             Some (if outlen > 0 then TPM_RC_SUCCESS else TPM_RC_FAILURE, out'))))"

section \<open>Invariant\<close>

text \<open>
  An entry owns a slice of the used part of the bank; its initialisation vector is the zero vector
  the allocation left there.  Different entries own disjoint slices, and the counter counts them.
\<close>

definition nv_entry_ok :: "bytes \<Rightarrow> nat \<Rightarrow> TPM_NV_INDEX \<Rightarrow> NVEntry \<Rightarrow> bool" where
  "nv_entry_ok bank used i e \<longleftrightarrow>
     i \<noteq> 0 \<and> p_nvIndex (e_pub e) = i \<and> e_dataLen e = p_dataSize (e_pub e) \<and>
     e_data e = e_iv e + 16 \<and> e_data e + unat (e_dataLen e) \<le> used \<and>
     slice bank (e_iv e) 16 = replicate 16 0"

definition nv_disjoint :: "NVEntry \<Rightarrow> NVEntry \<Rightarrow> bool" where
  "nv_disjoint e f \<longleftrightarrow>
     e_data e + unat (e_dataLen e) \<le> e_iv f \<or> e_data f + unat (e_dataLen f) \<le> e_iv e"

definition nv_layout_ok :: "bytes \<Rightarrow> nat \<Rightarrow> (TPM_NV_INDEX \<rightharpoonup> NVEntry) \<Rightarrow> bool" where
  "nv_layout_ok bank used m \<longleftrightarrow>
     (\<forall>i e. m i = Some e \<longrightarrow> nv_entry_ok bank used i e) \<and>
     (\<forall>i j e f. m i = Some e \<and> m j = Some f \<and> i \<noteq> j \<longrightarrow> nv_disjoint e f)"

definition nv_ok :: "TPM2State \<Rightarrow> bool" where
  "nv_ok s \<longleftrightarrow>
     (\<exists>bank m. nv_bank s = Some bank \<and> nv_map s = Some m \<and> nv_bank_size s = 6962 \<and>
        length bank = 6962 \<and> unat (nv_alloc_offset s) \<le> 6962 \<and> finite (dom m) \<and>
        card (dom m) = unat (nv_count s) \<and> nv_count s \<le> 16 \<and>
        nv_layout_ok bank (unat (nv_alloc_offset s)) m)"

text \<open>What an index stores: its slice of the bank, which is ciphertext.\<close>

definition nv_contents :: "TPM2State \<Rightarrow> TPM_NV_INDEX \<Rightarrow> bytes option" where
  "nv_contents s i =
     (case (nv_lookup s i, nv_bank s) of
        (Some e, Some bank) \<Rightarrow> Some (slice bank (e_data e) (unat (e_dataLen e)))
      | _ \<Rightarrow> None)"

text \<open>The entry and the state a successful definition leaves.\<close>

definition nv_new_entry :: "nat \<Rightarrow> TPMS_NV_PUBLIC \<Rightarrow> NVEntry" where
  "nv_new_entry used nv =
     \<lparr>e_pub = nv\<lparr>p_authPolicy := replicate 64 0, p_authPolicySize := 0\<rparr>,
      e_authValue = replicate 64 0, e_authValueLen = 0, e_name = replicate 64 0, e_nameLen = 0,
      e_data = used + 16, e_dataLen = p_dataSize nv, e_iv = used,
      e_written = False, e_readLocked = False, e_writeLocked = False\<rparr>"

definition nv_defined :: "TPM2State \<Rightarrow> TPMS_NV_PUBLIC \<Rightarrow> TPM2State" where
  "nv_defined s nv =
     (let need = 16 + unat (p_dataSize nv); used = unat (nv_alloc_offset s) in
      s\<lparr>nv_bank := map_option (\<lambda>b. overwrite b used (replicate need 0)) (nv_bank s),
         nv_alloc_offset := nv_alloc_offset s + of_nat need,
         nv_map := map_option (\<lambda>m. m(p_nvIndex nv \<mapsto> nv_new_entry used nv)) (nv_map s),
         nv_count := nv_count s + 1, nv_dirty := True\<rparr>)"

text \<open>
  The writes \<open>TPM2_NV_Write\<close> does not refuse, the key it uses, and the state it leaves when it
  stores the ciphertext \<open>ct\<close> at an offset of the index \<open>i\<close>.
\<close>

definition nv_write_accepts :: "NVEntry \<Rightarrow> u16 \<Rightarrow> u16 \<Rightarrow> bool" where
  "nv_write_accepts e sz offset \<longleftrightarrow>
     \<not> e_writeLocked e \<and>
     a_nvType (p_attributes (e_pub e)) \<notin> {TPM_NT_COUNTER, TPM_NT_BITS, TPM_NT_EXTEND} \<and>
     unat offset + unat sz \<le> unat (e_dataLen e) \<and>
     (a_writeAll (p_attributes (e_pub e)) \<longrightarrow> sz = e_dataLen e) \<and>
     any_write_bit (p_attributes (e_pub e)) \<and> sz \<le> MAX_NV_BUFFER_SIZE"

definition nv_key :: "TPM2State \<Rightarrow> bytes" where
  "nv_key s = take (unat (fst (sn_ecc (primary_sensitive s)))) (snd (sn_ecc (primary_sensitive s)))"

definition nv_key_usable :: "TPM2State \<Rightarrow> bool" where
  "nv_key_usable s \<longleftrightarrow> unat (fst (sn_ecc (primary_sensitive s))) \<in> {16, 24, 32}"

definition nv_written :: "TPM2State \<Rightarrow> TPM_NV_INDEX \<Rightarrow> NVEntry \<Rightarrow> nat \<Rightarrow> bytes \<Rightarrow> TPM2State" where
  "nv_written s i e offset ct =
     s\<lparr>nv_bank := map_option (\<lambda>b. overwrite b (e_data e + offset) ct) (nv_bank s),
        nv_map := map_option (\<lambda>m. m(i \<mapsto> e\<lparr>e_written := True,
          e_pub := (e_pub e)\<lparr>p_attributes := (p_attributes (e_pub e))\<lparr>a_written := True\<rparr>\<rparr>\<rparr>)) (nv_map s)\<rparr>"

text \<open>The operations of the NV component as values, and sequences of them.\<close>

datatype nv_op =
    NV_Define TPMI_RH_PROVISION tpm2b TPMS_NV_PUBLIC
  | NV_Write TPMI_RH_PROVISION TPM_NV_INDEX TPM2B_MAX_NV_BUFFER u16

primrec nv_step :: "ossl \<Rightarrow> bytes \<Rightarrow> nv_op \<Rightarrow> TPM2State \<Rightarrow> (TPM_RC \<times> TPM2State) option" where
  "nv_step L ct0 (NV_Define h auth nv) s = tpm2_nv_define_space s h auth nv"
| "nv_step L ct0 (NV_Write h i d off) s = TPM2_NV_Write L ct0 s h i d off"

primrec nv_target :: "nv_op \<Rightarrow> TPM_NV_INDEX" where
  "nv_target (NV_Define h auth nv) = p_nvIndex nv"
| "nv_target (NV_Write h i d off) = i"

section \<open>The contract of a store\<close>

text \<open>
  What a client of the NV component relies on: an operation keeps the invariant, a failed one
  changes no contents, and a successful one changes those of its own index only.
\<close>

primrec run_ops :: "('op \<Rightarrow> 's \<Rightarrow> (TPM_RC \<times> 's) option) \<Rightarrow> 'op list \<Rightarrow> 's \<Rightarrow> 's option" where
  "run_ops step [] s = Some s"
| "run_ops step (op # ops) s =
     (case step op s of None \<Rightarrow> None | Some (rc, s') \<Rightarrow> run_ops step ops s')"

locale nv_store =
  fixes inv :: "'s \<Rightarrow> bool"
    and contents :: "'s \<Rightarrow> 'i \<Rightarrow> bytes option"
    and step :: "'op \<Rightarrow> 's \<Rightarrow> (TPM_RC \<times> 's) option"
    and target :: "'op \<Rightarrow> 'i"
  assumes step_inv: "inv s \<Longrightarrow> step op s = Some (rc, s') \<Longrightarrow> inv s'"
    and step_fail:
      "inv s \<Longrightarrow> step op s = Some (rc, s') \<Longrightarrow> rc \<noteq> TPM_RC_SUCCESS \<Longrightarrow> contents s' = contents s"
    and step_frame:
      "inv s \<Longrightarrow> step op s = Some (rc, s') \<Longrightarrow> j \<noteq> target op \<Longrightarrow> contents s' j = contents s j"
begin

lemma run_inv: "inv s \<Longrightarrow> run_ops step ops s = Some s' \<Longrightarrow> inv s'"
  by (induction ops arbitrary: s) (auto split: option.splits dest: step_inv)

lemma run_frame:
  "inv s \<Longrightarrow> run_ops step ops s = Some s' \<Longrightarrow> j \<notin> target ` set ops \<Longrightarrow> contents s' j = contents s j"
proof (induction ops arbitrary: s)
  case (Cons op ops)
  then obtain rc s1 where s1: "step op s = Some (rc, s1)" "run_ops step ops s1 = Some s'"
    by (auto split: option.splits)
  have "contents s' j = contents s1 j"
    using Cons.IH [OF step_inv [OF Cons.prems(1) s1(1)] s1(2)] Cons.prems(3) by simp
  also have "\<dots> = contents s j"
    using step_frame [OF Cons.prems(1) s1(1)] Cons.prems(3) by simp
  finally show ?case .
qed simp

end

section \<open>Lemmas\<close>

lemma nv_okE:
  assumes "nv_ok s"
  obtains bank m where "nv_bank s = Some bank" "nv_map s = Some m" "nv_bank_size s = 6962"
    "length bank = 6962" "unat (nv_alloc_offset s) \<le> 6962" "finite (dom m)"
    "card (dom m) = unat (nv_count s)" "nv_count s \<le> 16"
    "nv_layout_ok bank (unat (nv_alloc_offset s)) m"
  using assms unfolding nv_ok_def by blast

lemma nv_ok_lookup:
  assumes "nv_ok s" "nv_lookup s i = Some e"
  obtains bank where "nv_bank s = Some bank" "length bank = 6962"
    "nv_entry_ok bank (unat (nv_alloc_offset s)) i e" "unat (nv_alloc_offset s) \<le> 6962"
proof -
  from assms(1) obtain bank m where "nv_bank s = Some bank" "nv_map s = Some m" "length bank = 6962"
    "unat (nv_alloc_offset s) \<le> 6962" "nv_layout_ok bank (unat (nv_alloc_offset s)) m"
    by (rule nv_okE)
  with assms(2) show thesis by (intro that) (auto simp: nv_lookup_def nv_layout_ok_def)
qed

text \<open>Adding an entry at the cursor keeps the layout.\<close>

lemma nv_layout_alloc:
  assumes lay: "nv_layout_ok bank used m" and i: "m i = None" "i \<noteq> 0"
    and e: "e_iv e = used" "e_data e = used + 16" "e_dataLen e = p_dataSize (e_pub e)"
      "p_nvIndex (e_pub e) = i"
    and room: "used + (16 + unat (e_dataLen e)) \<le> length bank"
  shows "nv_layout_ok (overwrite bank used (replicate (16 + unat (e_dataLen e)) 0))
    (used + (16 + unat (e_dataLen e))) (m(i \<mapsto> e))"
proof -
  let ?b = "overwrite bank used (replicate (16 + unat (e_dataLen e)) 0)"
  let ?u = "used + (16 + unat (e_dataLen e))"
  have new: "slice ?b used 16 = replicate 16 0"
    using slice_overwrite_prefix [of used "replicate (16 + unat (e_dataLen e)) 0" bank 16] room
    by (simp add: min_def)
  have old: "nv_entry_ok ?b ?u j f \<and> nv_disjoint e f \<and> nv_disjoint f e" if "m j = Some f" for j f
  proof -
    have f: "nv_entry_ok bank used j f" using lay that by (simp add: nv_layout_ok_def)
    then have "slice ?b (e_iv f) 16 = slice bank (e_iv f) 16"
      using room by (intro slice_overwrite_disjoint) (simp_all add: nv_entry_ok_def)
    with f e show ?thesis by (auto simp: nv_entry_ok_def nv_disjoint_def)
  qed
  have "nv_entry_ok ?b ?u i e" using e i new by (simp add: nv_entry_ok_def)
  with old lay show ?thesis
    unfolding nv_layout_ok_def by (auto split: if_splits)
qed

lemma define_checks_ok:
  assumes "nv_define_checks s authHandle nv = TPM_RC_SUCCESS"
  shows "p_nvIndex nv \<noteq> 0 \<and> nv_lookup s (p_nvIndex nv) = None \<and> nv_count s < 16"
  using assms unfolding nv_define_checks_def Let_def by (auto split: if_splits simp: not_le)

lemma unat_offset_add:
  assumes "unat (a :: u32) + n \<le> 6962"
  shows "unat (a + of_nat n) = unat a + n"
proof -
  have "unat (of_nat n :: u32) = n" using assms by (simp add: unat_of_nat take_bit_nat_eq_self)
  then show ?thesis using assms by (subst unat_add_lem [THEN iffD1]) simp_all
qed

lemma layout_slice_frame:
  assumes "nv_layout_ok bank used m" "m j = Some f" "used \<le> off" "off + length src \<le> length bank"
  shows "slice (overwrite bank off src) (e_data f) (unat (e_dataLen f)) =
    slice bank (e_data f) (unat (e_dataLen f))"
proof -
  have "nv_entry_ok bank used j f" using assms by (simp add: nv_layout_ok_def)
  then have "e_data f + unat (e_dataLen f) \<le> used" unfolding nv_entry_ok_def by blast
  with assms show ?thesis by (intro slice_overwrite_disjoint) simp_all
qed

lemma define_space_run:
  assumes "nv_ok s" "nv_define_checks s h nv = TPM_RC_SUCCESS"
  shows "tpm2_nv_define_space s h auth nv =
    (if unat (nv_alloc_offset s) + (16 + unat (p_dataSize nv)) \<le> 6962
     then Some (TPM_RC_SUCCESS, nv_defined s nv) else Some (TPM_RC_MEMORY, s))"
  using assms(1)
proof (rule nv_okE)
  fix bank m
  assume "nv_bank s = Some bank" "nv_map s = Some m" "nv_bank_size s = 6962" "length bank = 6962"
  with assms(2) show ?thesis
    by (cases nv) (simp add: tpm2_nv_define_space_def nv_entry_alloc_def memcpy_def nv_defined_def
        nv_new_entry_def tpm2_nv_flush_dirty_def nv_insert_def Let_def)
qed

lemma nv_defined_lookup:
  assumes "nv_ok s"
  shows "nv_lookup (nv_defined s nv) =
    (nv_lookup s)(p_nvIndex nv \<mapsto> nv_new_entry (unat (nv_alloc_offset s)) nv)"
  using assms by (rule nv_okE) (auto simp: nv_defined_def nv_lookup_def Let_def)

lemma nv_defined_ok:
  assumes "nv_ok s" and chk: "p_nvIndex nv \<noteq> 0" "nv_lookup s (p_nvIndex nv) = None" "nv_count s < 16"
    and room: "unat (nv_alloc_offset s) + (16 + unat (p_dataSize nv)) \<le> 6962"
  shows "nv_ok (nv_defined s nv)"
  using assms(1)
proof (rule nv_okE)
  fix bank m
  assume s: "nv_bank s = Some bank" "nv_map s = Some m" "nv_bank_size s = 6962"
    "length bank = 6962" "finite (dom m)" "card (dom m) = unat (nv_count s)"
    and lay: "nv_layout_ok bank (unat (nv_alloc_offset s)) m"
  let ?e = "nv_new_entry (unat (nv_alloc_offset s)) nv"
  have mi: "m (p_nvIndex nv) = None" using chk s by (simp add: nv_lookup_def)
  have "nv_layout_ok (overwrite bank (unat (nv_alloc_offset s)) (replicate (16 + unat (p_dataSize nv)) 0))
      (unat (nv_alloc_offset s) + (16 + unat (p_dataSize nv))) (m(p_nvIndex nv \<mapsto> ?e))"
    using nv_layout_alloc [OF lay mi, of ?e] chk s room by (simp add: nv_new_entry_def)
  moreover have "unat (nv_count s + 1) = unat (nv_count s) + 1"
    using chk by (subst unat_add_lem [THEN iffD1]) (simp_all add: word_less_nat_alt)
  ultimately show ?thesis
    unfolding nv_ok_def using s room mi chk unat_offset_add [OF room]
    by (simp add: nv_defined_def Let_def card_insert_if domIff word_le_nat_alt word_less_nat_alt)
qed

lemma nv_defined_contents:
  assumes "nv_ok s" "nv_lookup s (p_nvIndex nv) = None"
    and room: "unat (nv_alloc_offset s) + (16 + unat (p_dataSize nv)) \<le> 6962"
  shows "nv_contents (nv_defined s nv) =
    (nv_contents s)(p_nvIndex nv \<mapsto> replicate (unat (p_dataSize nv)) 0)"
  using assms(1)
proof (rule nv_okE)
  fix bank m
  assume s: "nv_bank s = Some bank" "nv_map s = Some m" "length bank = 6962"
    and lay: "nv_layout_ok bank (unat (nv_alloc_offset s)) m"
  let ?u = "unat (nv_alloc_offset s)" and ?n = "unat (p_dataSize nv)"
  have new: "slice (overwrite bank ?u (replicate (16 + ?n) 0)) (?u + 16) ?n = replicate ?n 0"
    by (rule nth_equalityI) (use s room in \<open>auto simp: nth_slice nth_overwrite\<close>)
  have old: "slice (overwrite bank ?u (replicate (16 + ?n) 0)) (e_data f) (unat (e_dataLen f)) =
      slice bank (e_data f) (unat (e_dataLen f))" if "m j = Some f" for j f
    using layout_slice_frame [OF lay that] s room by simp
  show ?thesis
  proof
    fix j
    show "nv_contents (nv_defined s nv) j =
        ((nv_contents s)(p_nvIndex nv \<mapsto> replicate (unat (p_dataSize nv)) 0)) j"
      using s new old [of j] assms(2)
      by (cases "m j") (simp_all add: nv_contents_def nv_defined_def Let_def nv_lookup_def
          nv_new_entry_def)
  qed
qed

lemma define_space_cases:
  assumes "nv_ok s" "tpm2_nv_define_space s h auth nv = Some (rc, s')"
  obtains (same) "rc \<noteq> TPM_RC_SUCCESS" "s' = s"
    | (defined) "rc = TPM_RC_SUCCESS" "s' = nv_defined s nv" "nv_ok s'"
      "nv_define_checks s h nv = TPM_RC_SUCCESS" "nv_lookup s (p_nvIndex nv) = None"
      "unat (nv_alloc_offset s) + (16 + unat (p_dataSize nv)) \<le> 6962"
proof (cases "nv_define_checks s h nv = TPM_RC_SUCCESS \<and>
    unat (nv_alloc_offset s) + (16 + unat (p_dataSize nv)) \<le> 6962")
  case True
  then have "Some (rc, s') = Some (TPM_RC_SUCCESS, nv_defined s nv)"
    using assms(2) define_space_run [OF assms(1), of h nv auth] by simp
  moreover have "nv_ok (nv_defined s nv)" "nv_lookup s (p_nvIndex nv) = None"
    using True define_checks_ok [of s h nv] nv_defined_ok [OF assms(1), of nv] by blast+
  ultimately show thesis using True by (intro defined) simp_all
next
  case False
  show thesis
  proof (cases "nv_define_checks s h nv = TPM_RC_SUCCESS")
    case True
    with False assms(2) define_space_run [OF assms(1) True, of auth] show thesis
      by (intro same) simp_all
  next
    case rej: False
    with assms(2) have "rc = nv_define_checks s h nv" "s' = s"
      by (auto simp: tpm2_nv_define_space_def Let_def)
    with rej show thesis by (intro same) simp_all
  qed
qed

lemma overwrite_slice: "off + n \<le> length b \<Longrightarrow> overwrite b off (slice b off n) = b"
  by (simp add: overwrite_def slice_def) (metis add.commute append_take_drop_id drop_drop)

lemma aes_total:
  assumes "cipher_ok L" "length key \<in> {16, 24, 32}" "length iv = 16"
  obtains r where "aes_cfb128 L enc key iv d = Some r" "length r = length d"
    "aes_cfb128 L (\<not> enc) key iv r = Some d"
  using assms unfolding cipher_ok_def by blast

lemma aes_prefix:
  assumes "cipher_ok L" "length key \<in> {16, 24, 32}" "length iv = 16"
  shows "aes_cfb128 L enc key iv (take n d) = map_option (take n) (aes_cfb128 L enc key iv d)"
  using assms unfolding cipher_ok_def by blast

text \<open>The cipher wrapper under the library's laws, with the zero vector of an entry.\<close>

lemma AES_run:
  assumes "cipher_ok L" "nv_key_usable s" "length (snd (sn_ecc (primary_sensitive s))) = 64"
    and "take 16 iv = replicate 16 0" "length iv \<ge> 16" "n \<le> length inp" "n \<le> length out"
  obtains r where "aes_cfb128 L enc (nv_key s) (replicate 16 0) (take n inp) = Some r" "length r = n"
    "TPM2_AES_CFB_Crypt L (snd (sn_ecc (primary_sensitive s)))
       (unat (fst (sn_ecc (primary_sensitive s)))) iv inp n out enc = Some (int n, overwrite out 0 r)"
proof -
  have k: "length (nv_key s) \<in> {16, 24, 32}"
    using assms(2,3) by (auto simp: nv_key_def nv_key_usable_def)
  obtain r where r: "aes_cfb128 L enc (nv_key s) (replicate 16 0) (take n inp) = Some r"
    "length r = length (take n inp)"
    using aes_total [OF assms(1) k, of "replicate 16 0" enc "take n inp"] by auto
  then have "TPM2_AES_CFB_Crypt L (snd (sn_ecc (primary_sensitive s)))
       (unat (fst (sn_ecc (primary_sensitive s)))) iv inp n out enc = Some (int n, overwrite out 0 r)"
    using assms by (auto simp: TPM2_AES_CFB_Crypt_def nv_key_usable_def nv_key_def memcpy_def)
  with r assms(6) show thesis by (intro that) simp_all
qed

lemma AES_unusable:
  "\<not> nv_key_usable s \<Longrightarrow>
   TPM2_AES_CFB_Crypt L (snd (sn_ecc (primary_sensitive s)))
     (unat (fst (sn_ecc (primary_sensitive s)))) iv inp n out enc = Some (0, out)"
  by (simp add: TPM2_AES_CFB_Crypt_def nv_key_usable_def)

lemma nv_entry_iv:
  "nv_entry_ok bank used i e \<Longrightarrow> used \<le> length bank \<Longrightarrow>
   take 16 (drop (e_iv e) bank) = replicate 16 0 \<and> 16 \<le> length (drop (e_iv e) bank)"
  by (auto simp: nv_entry_ok_def slice_def)

lemma nv_write_accepted:
  assumes "nv_lookup s i = Some e" "nv_write_accepts e (nvb_size d) off" "nv_bank s = Some bank"
  shows "TPM2_NV_Write L ct0 s h i d off =
    (case TPM2_AES_CFB_Crypt L (snd (sn_ecc (primary_sensitive s)))
            (unat (fst (sn_ecc (primary_sensitive s)))) (drop (e_iv e) bank)
            (nvb_buffer d) (unat (nvb_size d)) ct0 True of
       None \<Rightarrow> None
     | Some (outlen, ct) \<Rightarrow>
         if outlen \<le> 0 then Some (TPM_RC_FAILURE, s)
         else if unat (nvb_size d) \<le> length ct \<and>
                 e_data e + unat off + unat (nvb_size d) \<le> length bank
         then Some (TPM_RC_SUCCESS, nv_written s i e (unat off) (take (unat (nvb_size d)) ct))
         else None)"
proof -
  have "\<not> e_writeLocked e" "\<not> unat (e_dataLen e) < unat off"
    "\<not> unat (e_dataLen e) < unat off + unat (nvb_size d)" "\<not> MAX_NV_BUFFER_SIZE < nvb_size d"
    "\<not> (a_writeAll (p_attributes (e_pub e)) \<and> nvb_size d \<noteq> e_dataLen e)"
    "a_nvType (p_attributes (e_pub e)) \<noteq> TPM_NT_COUNTER" "a_nvType (p_attributes (e_pub e)) \<noteq> TPM_NT_BITS"
    "a_nvType (p_attributes (e_pub e)) \<noteq> TPM_NT_EXTEND"
    "a_ownerWrite (p_attributes (e_pub e)) \<or> a_authWrite (p_attributes (e_pub e)) \<or>
     a_policyWrite (p_attributes (e_pub e)) \<or> a_ppWrite (p_attributes (e_pub e))"
    using assms(2) by (auto simp: nv_write_accepts_def any_write_bit_def)
  moreover have "(if slice bank (e_data e + unat off) (unat (nvb_size d)) \<noteq> c
      then overwrite bank (e_data e + unat off) c else bank) = overwrite bank (e_data e + unat off) c"
    if "e_data e + unat off + unat (nvb_size d) \<le> length bank" for c
    using overwrite_slice [OF that] by auto
  ultimately show ?thesis
    using assms by (simp add: TPM2_NV_Write_def Let_def memcpy_def nv_written_def nv_insert_def
        split: option.split prod.split)
qed

lemma nv_write_run:
  assumes ok: "nv_ok s" and e: "nv_lookup s i = Some e" and acc: "nv_write_accepts e (nvb_size d) off"
    and L: "cipher_ok L" "nv_key_usable s" "length (snd (sn_ecc (primary_sensitive s))) = 64"
    and d: "length (nvb_buffer d) = 1024" "length ct0 = 1024" "nvb_size d \<noteq> 0"
  obtains ct where
    "aes_cfb128 L True (nv_key s) (replicate 16 0) (take (unat (nvb_size d)) (nvb_buffer d)) = Some ct"
    "length ct = unat (nvb_size d)"
    "TPM2_NV_Write L ct0 s h i d off = Some (TPM_RC_SUCCESS, nv_written s i e (unat off) ct)"
proof -
  obtain bank where bank: "nv_bank s = Some bank" "length bank = 6962"
    "nv_entry_ok bank (unat (nv_alloc_offset s)) i e" "unat (nv_alloc_offset s) \<le> 6962"
    using nv_ok_lookup [OF ok e] by blast
  have sz: "unat (nvb_size d) \<le> 1024" using acc by (simp add: nv_write_accepts_def word_le_nat_alt)
  obtain ct where ct: "aes_cfb128 L True (nv_key s) (replicate 16 0)
      (take (unat (nvb_size d)) (nvb_buffer d)) = Some ct" "length ct = unat (nvb_size d)"
    and run: "TPM2_AES_CFB_Crypt L (snd (sn_ecc (primary_sensitive s)))
       (unat (fst (sn_ecc (primary_sensitive s)))) (drop (e_iv e) bank) (nvb_buffer d)
       (unat (nvb_size d)) ct0 True = Some (int (unat (nvb_size d)), overwrite ct0 0 ct)"
    using AES_run [OF L, of "drop (e_iv e) bank" "unat (nvb_size d)" "nvb_buffer d" ct0 True]
      nv_entry_iv [OF bank(3)] bank d sz by auto
  have room: "e_data e + unat off + unat (nvb_size d) \<le> length bank"
    using bank acc by (auto simp: nv_entry_ok_def nv_write_accepts_def)
  have "TPM2_NV_Write L ct0 s h i d off = Some (TPM_RC_SUCCESS, nv_written s i e (unat off) ct)"
    unfolding nv_write_accepted [OF e acc bank(1)] run
    using d ct room sz by (simp add: overwrite_def unsigned_eq_0_iff)
  with ct show thesis by (rule that)
qed

text \<open>A write that is refused, or finds no usable key or no data, leaves the state alone.\<close>

lemma ex_return_if:
  "(\<exists>rc. (if c then Some (r, s) else x) = Some (rc, s)) \<longleftrightarrow> c \<or> (\<exists>rc. x = Some (rc, s))"
  by simp

lemma nv_write_refused:
  assumes "\<And>e. nv_lookup s i = Some e \<Longrightarrow> \<not> nv_write_accepts e (nvb_size d) off"
  shows "\<exists>rc. TPM2_NV_Write L ct0 s h i d off = Some (rc, s)"
proof (cases "nv_lookup s i")
  case None
  then show ?thesis by (simp add: TPM2_NV_Write_def)
next
  case (Some e)
  have "\<not> nv_write_accepts e (nvb_size d) off" using assms [OF Some] .
  then show ?thesis
    unfolding TPM2_NV_Write_def Some option.case Let_def ex_return_if nv_write_accepts_def
      any_write_bit_def not_less [symmetric]
    by blast
qed

lemma nv_write_failed:
  assumes "nv_ok s" "nv_lookup s i = Some e" "nv_write_accepts e (nvb_size d) off"
    and "\<not> nv_key_usable s"
  shows "TPM2_NV_Write L ct0 s h i d off = Some (TPM_RC_FAILURE, s)"
proof -
  obtain bank where bank: "nv_bank s = Some bank" using nv_ok_lookup [OF assms(1,2)] by blast
  show ?thesis
    unfolding nv_write_accepted [OF assms(2,3) bank] AES_unusable [OF assms(4)] by simp
qed

lemma nv_write_empty:
  assumes "nv_ok s" "nv_lookup s i = Some e" "nv_write_accepts e (nvb_size d) off"
    and "cipher_ok L" "nv_key_usable s" "length (snd (sn_ecc (primary_sensitive s))) = 64"
    and "nvb_size d = 0"
  shows "TPM2_NV_Write L ct0 s h i d off = Some (TPM_RC_FAILURE, s)"
proof -
  obtain bank where bank: "nv_bank s = Some bank" "length bank = 6962"
    "nv_entry_ok bank (unat (nv_alloc_offset s)) i e" "unat (nv_alloc_offset s) \<le> 6962"
    using nv_ok_lookup [OF assms(1,2)] by blast
  have iv: "take 16 (drop (e_iv e) bank) = replicate 16 0" "16 \<le> length (drop (e_iv e) bank)"
    using nv_entry_iv [OF bank(3)] bank by simp_all
  have "TPM2_AES_CFB_Crypt L (snd (sn_ecc (primary_sensitive s)))
     (unat (fst (sn_ecc (primary_sensitive s)))) (drop (e_iv e) bank) (nvb_buffer d) 0 ct0 True =
     Some (0, ct0)"
    by (rule AES_run [OF assms(4-6) iv, of 0 "nvb_buffer d" ct0 True]) simp_all
  then show ?thesis
    unfolding nv_write_accepted [OF assms(2,3) bank(1)] using assms(7) by simp
qed

lemma nv_written_lookup:
  "nv_lookup s i = Some e \<Longrightarrow>
   nv_lookup (nv_written s i e off ct) = (nv_lookup s)(i \<mapsto> e\<lparr>e_written := True,
     e_pub := (e_pub e)\<lparr>p_attributes := (p_attributes (e_pub e))\<lparr>a_written := True\<rparr>\<rparr>\<rparr>)"
  by (auto simp: nv_written_def nv_lookup_def split: option.splits)

lemma nv_layout_entry: "nv_layout_ok bank used m \<Longrightarrow> m i = Some e \<Longrightarrow> nv_entry_ok bank used i e"
  unfolding nv_layout_ok_def by blast

lemma nv_layout_disjoint:
  "nv_layout_ok bank used m \<Longrightarrow> m i = Some e \<Longrightarrow> m j = Some f \<Longrightarrow> i \<noteq> j \<Longrightarrow> nv_disjoint e f"
  unfolding nv_layout_ok_def by blast

lemma nv_layout_write:
  assumes lay: "nv_layout_ok bank used m" and e: "m i = Some e"
    and room: "off + length ct \<le> unat (e_dataLen e)" and len: "used \<le> length bank"
    and e': "e_iv e' = e_iv e" "e_data e' = e_data e" "e_dataLen e' = e_dataLen e"
      "p_nvIndex (e_pub e') = p_nvIndex (e_pub e)" "p_dataSize (e_pub e') = p_dataSize (e_pub e)"
  shows "nv_layout_ok (overwrite bank (e_data e + off) ct) used (m(i \<mapsto> e'))"
proof -
  have ei: "nv_entry_ok bank used i e" using lay e by (simp add: nv_layout_ok_def)
  have iv: "slice (overwrite bank (e_data e + off) ct) (e_iv f) 16 = replicate 16 0"
    if f: "m j = Some f" for j f
  proof -
    have fj: "nv_entry_ok bank used j f" using lay f by (simp add: nv_layout_ok_def)
    have "j = i \<and> f = e \<or> nv_disjoint e f"
      using nv_layout_disjoint [OF lay e f] e f by (cases "i = j") auto
    then have "slice (overwrite bank (e_data e + off) ct) (e_iv f) 16 = slice bank (e_iv f) 16"
      using ei fj room len
      by (intro slice_overwrite_disjoint) (auto simp: nv_entry_ok_def nv_disjoint_def)
    with fj show ?thesis by (simp add: nv_entry_ok_def)
  qed
  have old: "nv_entry_ok (overwrite bank (e_data e + off) ct) used j f" if "m j = Some f" for j f
    using nv_layout_entry [OF lay that] iv [OF that] unfolding nv_entry_ok_def by blast
  have new: "nv_entry_ok (overwrite bank (e_data e + off) ct) used i e'"
    using old [OF e] unfolding nv_entry_ok_def e' .
  have dis: "nv_disjoint e' f \<and> nv_disjoint f e'" if "m j = Some f" "j \<noteq> i" for j f
    using nv_layout_disjoint [OF lay e that(1)] nv_layout_disjoint [OF lay that(1) e] that(2) e'
    by (simp add: nv_disjoint_def)
  show ?thesis
    unfolding nv_layout_ok_def
  proof (intro conjI allI impI)
    fix j f
    assume "(m(i \<mapsto> e')) j = Some f"
    then show "nv_entry_ok (overwrite bank (e_data e + off) ct) used j f"
      using new old by (cases "j = i") simp_all
  next
    fix j k f g
    assume "(m(i \<mapsto> e')) j = Some f \<and> (m(i \<mapsto> e')) k = Some g \<and> j \<noteq> k"
    then show "nv_disjoint f g"
      using dis [of j f] dis [of k g] nv_layout_disjoint [OF lay, of j f k g]
      by (cases "j = i"; cases "k = i") auto
  qed
qed

lemma nv_written_ok:
  assumes "nv_ok s" "nv_lookup s i = Some e" "off + length ct \<le> unat (e_dataLen e)"
  shows "nv_ok (nv_written s i e off ct)"
  using assms(1)
proof (rule nv_okE)
  fix bank m
  assume s: "nv_bank s = Some bank" "nv_map s = Some m" "nv_bank_size s = 6962" "length bank = 6962"
    "unat (nv_alloc_offset s) \<le> 6962" "finite (dom m)" "card (dom m) = unat (nv_count s)"
    "nv_count s \<le> 16" and lay: "nv_layout_ok bank (unat (nv_alloc_offset s)) m"
  have e: "m i = Some e" using s assms(2) by (simp add: nv_lookup_def)
  have "e_data e + off + length ct \<le> 6962"
    using lay e assms(3) s unfolding nv_layout_ok_def nv_entry_ok_def by fastforce
  with nv_layout_write [OF lay e assms(3)] s e show ?thesis
    by (auto simp: nv_ok_def nv_written_def insert_absorb domI)
qed

lemma slice_of_overwrite:
  assumes "off + length ct \<le> n" "d + n \<le> length b"
  shows "slice (overwrite b (d + off) ct) d n = overwrite (slice b d n) off ct"
  by (rule nth_equalityI) (use assms in \<open>auto simp: nth_slice nth_overwrite\<close>)

lemma nv_written_contents:
  assumes "nv_ok s" "nv_lookup s i = Some e" "off + length ct \<le> unat (e_dataLen e)"
  shows "nv_contents (nv_written s i e off ct) =
    (nv_contents s)(i \<mapsto> overwrite (the (nv_contents s i)) off ct)"
  using assms(1)
proof (rule nv_okE)
  fix bank m
  assume s: "nv_bank s = Some bank" "nv_map s = Some m" "length bank = 6962"
    "unat (nv_alloc_offset s) \<le> 6962" and lay: "nv_layout_ok bank (unat (nv_alloc_offset s)) m"
  have e: "m i = Some e" using s assms(2) by (simp add: nv_lookup_def)
  from nv_layout_entry [OF lay e] have room: "e_data e + unat (e_dataLen e) \<le> length bank"
    using s unfolding nv_entry_ok_def by linarith
  have old: "slice (overwrite bank (e_data e + off) ct) (e_data f) (unat (e_dataLen f)) =
      slice bank (e_data f) (unat (e_dataLen f))" if f: "m j = Some f" "j \<noteq> i" for j f
    using nv_layout_entry [OF lay f(1)] nv_layout_entry [OF lay e]
      nv_layout_disjoint [OF lay e f(1)] f(2) room assms(3) s
    by (intro slice_overwrite_disjoint) (auto simp: nv_entry_ok_def nv_disjoint_def)
  show ?thesis
  proof
    fix j
    show "nv_contents (nv_written s i e off ct) j =
        ((nv_contents s)(i \<mapsto> overwrite (the (nv_contents s i)) off ct)) j"
      using s e slice_of_overwrite [OF assms(3) room] old [of j]
      by (cases "j = i"; cases "m j") (simp_all add: nv_contents_def nv_written_def nv_lookup_def)
  qed
qed

text \<open>Every result of a write, whatever the library does.\<close>

lemma nv_write_cases:
  assumes "nv_ok s" "TPM2_NV_Write L ct0 s h i d off = Some (rc, s')"
  obtains (same) "s' = s"
    | (written) e ct where "rc = TPM_RC_SUCCESS" "nv_lookup s i = Some e"
      "nv_write_accepts e (nvb_size d) off" "length ct = unat (nvb_size d)"
      "s' = nv_written s i e (unat off) ct"
proof (cases "\<exists>e. nv_lookup s i = Some e \<and> nv_write_accepts e (nvb_size d) off")
  case False
  with nv_write_refused [of s i d off L ct0 h] assms(2) show thesis by (intro same) auto
next
  case True
  then obtain e where e: "nv_lookup s i = Some e" "nv_write_accepts e (nvb_size d) off" by blast
  obtain bank where bank: "nv_bank s = Some bank" using nv_ok_lookup [OF assms(1) e(1)] by blast
  show thesis
  proof (cases "s' = s")
    case False
    with assms(2) obtain ct where "rc = TPM_RC_SUCCESS" "unat (nvb_size d) \<le> length ct"
      "s' = nv_written s i e (unat off) (take (unat (nvb_size d)) ct)"
      unfolding nv_write_accepted [OF e bank] by (auto split: option.splits prod.splits if_splits)
    then show thesis by (intro written [OF _ e]) simp_all
  qed (rule same)
qed

interpretation nvs: nv_store nv_ok nv_contents "nv_step L ct0" nv_target for L ct0
proof
  fix s :: TPM2State and op rc s'
  assume ok: "nv_ok s" and step: "nv_step L ct0 op s = Some (rc, s')"
  have "nv_ok s' \<and> (rc \<noteq> TPM_RC_SUCCESS \<longrightarrow> nv_contents s' = nv_contents s) \<and>
      (\<forall>j. j \<noteq> nv_target op \<longrightarrow> nv_contents s' j = nv_contents s j)"
  proof (cases op)
    case (NV_Define h auth nv)
    with step have run: "tpm2_nv_define_space s h auth nv = Some (rc, s')" by simp
    from ok run show ?thesis
    proof (cases rule: define_space_cases)
      case defined
      with NV_Define nv_defined_contents [OF ok defined(5,6)] show ?thesis by simp
    qed (use ok in simp)
  next
    case (NV_Write h i d off)
    with step have "TPM2_NV_Write L ct0 s h i d off = Some (rc, s')" by simp
    with ok show ?thesis
    proof (cases rule: nv_write_cases)
      case (written e ct)
      then have "unat off + length ct \<le> unat (e_dataLen e)" by (simp add: nv_write_accepts_def)
      with written NV_Write nv_written_ok [OF ok] nv_written_contents [OF ok] show ?thesis by simp
    qed (use ok in simp)
  qed
  then show "nv_ok s'" "rc \<noteq> TPM_RC_SUCCESS \<Longrightarrow> nv_contents s' = nv_contents s"
    "\<And>j. j \<noteq> nv_target op \<Longrightarrow> nv_contents s' j = nv_contents s j" by blast+
qed

lemma uint_pos_iff: "0 < uint (w :: u16) \<longleftrightarrow> w \<noteq> 0"
  by (simp add: less_le unsigned_eq_0_iff)

lemma nv_read_run:
  assumes ok: "nv_ok s" and e: "nv_lookup s i = Some e"
    and L: "cipher_ok L" "nv_key_usable s" "length (snd (sn_ecc (primary_sensitive s))) = 64"
    and r: "unat off + unat len \<le> unat (e_dataLen e)" "unat len \<le> length out"
  obtains p where "length p = unat len"
    "aes_cfb128 L False (nv_key s) (replicate 16 0)
       (slice (the (nv_contents s i)) (unat off) (unat len)) = Some p"
    "nv_read_decrypt_from_bank L s e out len off =
       Some (if len = 0 then TPM_RC_FAILURE else TPM_RC_SUCCESS, overwrite out 0 p)"
proof -
  obtain bank where bank: "nv_bank s = Some bank" "length bank = 6962"
    "nv_entry_ok bank (unat (nv_alloc_offset s)) i e" "unat (nv_alloc_offset s) \<le> 6962"
    using nv_ok_lookup [OF ok e] by blast
  have iv: "take 16 (drop (e_iv e) bank) = replicate 16 0" "16 \<le> length (drop (e_iv e) bank)"
    using nv_entry_iv [OF bank(3)] bank by simp_all
  have room: "e_data e + unat (e_dataLen e) \<le> 6962"
    using bank unfolding nv_entry_ok_def by linarith
  have sl: "take (unat len) (drop (e_data e + unat off) bank) =
      slice (the (nv_contents s i)) (unat off) (unat len)"
    using bank(1) e r by (simp add: nv_contents_def slice_def drop_take min_def add.commute)
  obtain p where "aes_cfb128 L False (nv_key s) (replicate 16 0)
      (take (unat len) (drop (e_data e + unat off) bank)) = Some p" "length p = unat len"
    and run: "TPM2_AES_CFB_Crypt L (snd (sn_ecc (primary_sensitive s)))
       (unat (fst (sn_ecc (primary_sensitive s)))) (drop (e_iv e) bank)
       (drop (e_data e + unat off) bank) (unat len) out False = Some (int (unat len), overwrite out 0 p)"
    by (rule AES_run [OF L iv, of "unat len" "drop (e_data e + unat off) bank" out False])
      (use room r bank in simp_all)
  then show thesis
    using r(1) bank(1) sl by (intro that [of p])
      (simp_all add: nv_read_decrypt_from_bank_def uint_pos_iff)
qed

text \<open>Reading more bytes than the destination array has overruns it.\<close>

lemma nv_read_overflow:
  assumes ok: "nv_ok s" and e: "nv_lookup s i = Some e"
    and L: "cipher_ok L" "nv_key_usable s" "length (snd (sn_ecc (primary_sensitive s))) = 64"
    and r: "unat off + unat len \<le> unat (e_dataLen e)" "length out < unat len"
  shows "nv_read_decrypt_from_bank L s e out len off = None"
proof -
  obtain bank where bank: "nv_bank s = Some bank" "length bank = 6962"
    "nv_entry_ok bank (unat (nv_alloc_offset s)) i e" "unat (nv_alloc_offset s) \<le> 6962"
    using nv_ok_lookup [OF ok e] by blast
  have k: "length (nv_key s) \<in> {16, 24, 32}"
    using L by (auto simp: nv_key_def nv_key_usable_def)
  have iv: "take 16 (drop (e_iv e) bank) = replicate 16 0" "16 \<le> length (drop (e_iv e) bank)"
    using nv_entry_iv [OF bank(3)] bank by simp_all
  have room: "e_data e + unat (e_dataLen e) \<le> 6962"
    using bank unfolding nv_entry_ok_def by linarith
  have l: "length (take (unat len) (drop (e_data e + unat off) bank)) = unat len"
    using room r bank by simp
  obtain p where "aes_cfb128 L False (nv_key s) (replicate 16 0)
      (take (unat len) (drop (e_data e + unat off) bank)) = Some p" "length p = unat len"
    using aes_total [OF L(1) k, of "replicate 16 0" False] l by (metis length_replicate)
  with L iv room r bank show ?thesis
    by (auto simp: nv_read_decrypt_from_bank_def TPM2_AES_CFB_Crypt_def nv_key_usable_def nv_key_def
        memcpy_def)
qed

text \<open>Decrypting a prefix of the ciphertext gives the prefix of the data.\<close>

lemma nv_stream_inverse:
  assumes "cipher_ok L" "nv_key_usable s" "length (snd (sn_ecc (primary_sensitive s))) = 64"
    and "aes_cfb128 L True (nv_key s) (replicate 16 0) d = Some ct"
  shows "aes_cfb128 L False (nv_key s) (replicate 16 0) (take n ct) = Some (take n d)"
proof -
  have k: "length (nv_key s) \<in> {16, 24, 32}" "length (replicate 16 (0 :: u8)) = 16"
    using assms(2,3) by (auto simp: nv_key_def nv_key_usable_def)
  obtain r where "aes_cfb128 L True (nv_key s) (replicate 16 0) d = Some r"
    "aes_cfb128 L (\<not> True) (nv_key s) (replicate 16 0) r = Some d"
    by (rule aes_total [OF assms(1) k])
  with assms(4) aes_prefix [OF assms(1) k, of False n ct] show ?thesis by simp
qed

lemma nv_contents_length:
  assumes "nv_ok s" "nv_lookup s i = Some e"
  shows "length (the (nv_contents s i)) = unat (e_dataLen e)"
proof -
  obtain bank where bank: "nv_bank s = Some bank" "length bank = 6962"
    "nv_entry_ok bank (unat (nv_alloc_offset s)) i e" "unat (nv_alloc_offset s) \<le> 6962"
    using nv_ok_lookup [OF assms] by blast
  then have "e_data e + unat (e_dataLen e) \<le> length bank" unfolding nv_entry_ok_def by linarith
  with bank(1) assms(2) show ?thesis by (simp add: nv_contents_def)
qed

lemma nv_init_ok:
  "nv_map s = None \<Longrightarrow> nv_bank s = Some bank \<Longrightarrow> length bank = 6962 \<Longrightarrow> nv_ok (tpm2_nv_init s)"
  by (simp add: nv_ok_def tpm2_nv_init_def nv_layout_ok_def)

text \<open>A concrete device with an empty NV bank, a 32-byte key and a public area for witnesses.\<close>

abbreviation (input) demo_nv_state :: TPM2State where
  "demo_nv_state \<equiv> tpm2_nv_init (tpm2_init\<lparr>nv_bank := Some (replicate 6962 0),
     primary_sensitive := zero_sensitive\<lparr>sn_ecc := (32, replicate 64 1)\<rparr>\<rparr>)"

abbreviation (input) demo_nv_public :: TPMS_NV_PUBLIC where
  "demo_nv_public \<equiv> \<lparr>p_nvIndex = 0x1500016, p_nameAlg = 0xB,
     p_attributes = TPMA_NV_of_units 0x040C0006 0, p_authPolicy = replicate 64 0,
     p_authPolicySize = 0, p_dataSize = 32\<rparr>"

abbreviation (input) demo_owner :: TPMI_RH_PROVISION where
  "demo_owner \<equiv> \<lparr>rp_owner = TPM_RH_OWNER, rp_platform = TPM_RH_OWNER,
     rp_responsefailcode = TPM_RH_OWNER\<rparr>"

lemma demo_nv_ok: "nv_ok demo_nv_state"
  by (rule nv_init_ok [of _ "replicate 6962 0"]) (simp_all add: tpm2_init_def)

lemma demo_nv_checks: "nv_define_checks demo_nv_state demo_owner demo_nv_public = TPM_RC_SUCCESS"
  by (simp add: nv_define_checks_def tpm2_nv_init_def tpm2_init_def nv_lookup_def TPMA_NV_of_units_def
      nv_index_type_def any_read_bit_def any_write_bit_def nv_type_rules_def Let_def bit_numeral_rec)

lemma demo_nv_offset: "nv_alloc_offset demo_nv_state = 0"
  by (simp add: tpm2_nv_init_def tpm2_init_def)

text \<open>The same device with the index defined, and four bytes of data to write.\<close>

abbreviation (input) demo_nv_defined :: TPM2State where
  "demo_nv_defined \<equiv> nv_defined demo_nv_state demo_nv_public"

abbreviation (input) demo_nv_data :: TPM2B_MAX_NV_BUFFER where
  "demo_nv_data \<equiv> \<lparr>nvb_size = 4, nvb_buffer = [0x54, 0x45, 0x53, 0x54] @ replicate 1020 0\<rparr>"

lemma demo_nv_defined_ok: "nv_ok demo_nv_defined"
  by (rule nv_defined_ok [OF demo_nv_ok])
    (simp_all add: tpm2_nv_init_def tpm2_init_def nv_lookup_def)

lemma demo_nv_defined_lookup:
  "nv_lookup demo_nv_defined 0x1500016 = Some (nv_new_entry 0 demo_nv_public)"
  by (simp add: nv_defined_lookup [OF demo_nv_ok] demo_nv_offset)

lemma demo_nv_accepts: "nv_write_accepts (nv_new_entry 0 demo_nv_public) 4 0"
  by (simp add: nv_write_accepts_def nv_new_entry_def TPMA_NV_of_units_def any_write_bit_def
      bit_numeral_rec)

lemma demo_nv_key:
  "nv_key_usable demo_nv_defined" "length (snd (sn_ecc (primary_sensitive demo_nv_defined))) = 64"
  by (simp_all add: nv_key_usable_def nv_defined_def tpm2_nv_init_def tpm2_init_def Let_def)

section \<open>Properties\<close>

text \<open>
  C10.  Isolation of NV indices: whatever sequence of definitions and writes runs on a well-formed
  device, with whatever results, the layout of the bank stays well formed (disjoint slices, the
  counter right, at most 16 indices) and the stored bytes of every index that no operation of the
  sequence names are unchanged.
\<close>

theorem nv_sequence_isolated:
  assumes "nv_ok s" "run_ops (nv_step L ct0) ops s = Some s'"
  shows "nv_ok s' \<and> (\<forall>j. j \<notin> nv_target ` set ops \<longrightarrow> nv_contents s' j = nv_contents s j)"
  using nvs.run_inv [OF assms] nvs.run_frame [OF assms] by blast

theorem nv_sequence_isolated_witness:
  "\<exists>s'. run_ops (nv_step demo_ossl []) [NV_Define demo_owner (0, []) demo_nv_public] demo_nv_state =
     Some s' \<and> nv_ok s' \<and> nv_contents s' 1 = nv_contents demo_nv_state 1"
proof -
  have run: "run_ops (nv_step demo_ossl []) [NV_Define demo_owner (0, []) demo_nv_public] demo_nv_state =
      Some (nv_defined demo_nv_state demo_nv_public)"
    using define_space_run [OF demo_nv_ok demo_nv_checks, of "(0, [])"] demo_nv_offset by simp
  from nv_sequence_isolated [OF demo_nv_ok run] run show ?thesis by simp
qed

text \<open>
  C17.  \<open>tpm2_nv_define_space\<close> returns on every well-formed state, succeeds exactly when the
  checks pass and the bank has room for 16 bytes and the data, and then adds one index whose
  contents are zero bytes, unlocked and not yet written, without touching any other; when it
  fails, nothing has changed.
\<close>

theorem define_space_correct:
  assumes "nv_ok s"
  shows "\<exists>rc s'. tpm2_nv_define_space s h auth nv = Some (rc, s') \<and>
    (rc = TPM_RC_SUCCESS \<longleftrightarrow> nv_define_checks s h nv = TPM_RC_SUCCESS \<and>
       unat (nv_alloc_offset s) + 16 + unat (p_dataSize nv) \<le> 6962) \<and>
    (rc \<noteq> TPM_RC_SUCCESS \<longrightarrow> s' = s) \<and>
    (rc = TPM_RC_SUCCESS \<longrightarrow>
       nv_contents s' = (nv_contents s)(p_nvIndex nv \<mapsto> replicate (unat (p_dataSize nv)) 0) \<and>
       (\<exists>e. nv_lookup s' = (nv_lookup s)(p_nvIndex nv \<mapsto> e) \<and> p_attributes (e_pub e) = p_attributes nv \<and>
            e_dataLen e = p_dataSize nv \<and> \<not> e_written e \<and> \<not> e_readLocked e \<and> \<not> e_writeLocked e) \<and>
       nv_count s' = nv_count s + 1 \<and> nv_ok s')"
proof (cases "nv_define_checks s h nv = TPM_RC_SUCCESS")
  case True
  note chk = define_checks_ok [OF True]
  show ?thesis
  proof (cases "unat (nv_alloc_offset s) + (16 + unat (p_dataSize nv)) \<le> 6962")
    case room: True
    have "nv_count (nv_defined s nv) = nv_count s + 1" by (simp add: nv_defined_def Let_def)
    with True room define_space_run [OF assms True, of auth] chk nv_defined_ok [OF assms _ _ _ room]
      nv_defined_contents [OF assms _ room] show ?thesis
      by (auto simp: nv_defined_lookup [OF assms] nv_new_entry_def)
  next
    case False
    with True define_space_run [OF assms True, of auth] show ?thesis by simp
  qed
next
  case False
  then show ?thesis by (simp add: tpm2_nv_define_space_def Let_def)
qed

theorem define_space_correct_witness:
  "\<exists>s'. tpm2_nv_define_space demo_nv_state demo_owner (0, []) demo_nv_public =
     Some (TPM_RC_SUCCESS, s') \<and> nv_contents s' 0x1500016 = Some (replicate 32 0)"
proof -
  obtain rc s' where r: "tpm2_nv_define_space demo_nv_state demo_owner (0, []) demo_nv_public =
      Some (rc, s')" "rc = TPM_RC_SUCCESS \<longleftrightarrow>
        nv_define_checks demo_nv_state demo_owner demo_nv_public = TPM_RC_SUCCESS \<and>
        unat (nv_alloc_offset demo_nv_state) + 16 + unat (p_dataSize demo_nv_public) \<le> 6962"
      "rc = TPM_RC_SUCCESS \<longrightarrow> nv_contents s' = (nv_contents demo_nv_state)
        (p_nvIndex demo_nv_public \<mapsto> replicate (unat (p_dataSize demo_nv_public)) 0)"
    using define_space_correct [OF demo_nv_ok, of demo_owner "(0, [])" demo_nv_public] by blast
  have "rc = TPM_RC_SUCCESS" using r(2) demo_nv_checks demo_nv_offset by simp
  with r show ?thesis by simp
qed

text \<open>
  C9.  What is written is read back: after a successful write, reading any number of bytes up to the
  number written, at the same offset and with the same key, yields exactly the beginning of the
  data.  This needs the cipher to be inverted by decryption and to be a stream mode.
\<close>

theorem nv_write_read_roundtrip:
  assumes "nv_ok s" "nv_lookup s i = Some e" "nv_write_accepts e (nvb_size d) off" "nvb_size d \<noteq> 0"
    and "cipher_ok L" "nv_key_usable s" "length (snd (sn_ecc (primary_sensitive s))) = 64"
    and "length (nvb_buffer d) = 1024" "length ct0 = 1024" "len \<le> nvb_size d" "len \<noteq> 0"
    and "unat len \<le> length out"
  shows "\<exists>s' e'. TPM2_NV_Write L ct0 s h i d off = Some (TPM_RC_SUCCESS, s') \<and>
    nv_lookup s' i = Some e' \<and> e_written e' \<and>
    nv_read_decrypt_from_bank L s' e' out len off =
      Some (TPM_RC_SUCCESS, overwrite out 0 (take (unat len) (nvb_buffer d)))"
proof -
  obtain ct where ct: "aes_cfb128 L True (nv_key s) (replicate 16 0)
      (take (unat (nvb_size d)) (nvb_buffer d)) = Some ct" "length ct = unat (nvb_size d)"
    and w: "TPM2_NV_Write L ct0 s h i d off = Some (TPM_RC_SUCCESS, nv_written s i e (unat off) ct)"
    by (rule nv_write_run [OF assms(1-3,5-9,4)])
  let ?s = "nv_written s i e (unat off) ct"
  let ?e = "e\<lparr>e_written := True,
    e_pub := (e_pub e)\<lparr>p_attributes := (p_attributes (e_pub e))\<lparr>a_written := True\<rparr>\<rparr>\<rparr>"
  have room: "unat off + length ct \<le> unat (e_dataLen e)" using assms(3) ct(2) by (simp add: nv_write_accepts_def)
  have k: "nv_key ?s = nv_key s" "nv_key_usable ?s" "length (snd (sn_ecc (primary_sensitive ?s))) = 64"
    using assms(6,7) by (simp_all add: nv_written_def nv_key_def nv_key_usable_def)
  have e': "nv_lookup ?s i = Some ?e" using nv_written_lookup [OF assms(2)] by simp
  have len: "unat len \<le> length ct" using assms(10) ct(2) by (simp add: word_le_nat_alt)
  have sl: "slice (the (nv_contents ?s i)) (unat off) (unat len) = take (unat len) ct"
    using nv_written_contents [OF assms(1,2) room] slice_overwrite_prefix [OF _ len]
      nv_contents_length [OF assms(1,2)] room by simp
  obtain p where p: "aes_cfb128 L False (nv_key ?s) (replicate 16 0)
      (slice (the (nv_contents ?s i)) (unat off) (unat len)) = Some p"
    and r: "nv_read_decrypt_from_bank L ?s ?e out len off =
      Some (if len = 0 then TPM_RC_FAILURE else TPM_RC_SUCCESS, overwrite out 0 p)"
    by (rule nv_read_run [OF nv_written_ok [OF assms(1,2) room] e' assms(5) k(2,3), of off len out])
      (use room len assms(12) in simp_all)
  have "p = take (unat len) (nvb_buffer d)"
    using nv_stream_inverse [OF assms(5,6,7) ct(1), of "unat len"] p len ct(2) unfolding sl k(1)
    by (simp add: min_def)
  with w e' r assms(11) show ?thesis by auto
qed

theorem nv_write_read_roundtrip_witness:
  "\<exists>s' e'. TPM2_NV_Write demo_ossl (replicate 1024 0) demo_nv_defined demo_owner 0x1500016
       demo_nv_data 0 = Some (TPM_RC_SUCCESS, s') \<and>
     nv_read_decrypt_from_bank demo_ossl s' e' (replicate 1024 0) 4 0 =
       Some (TPM_RC_SUCCESS, overwrite (replicate 1024 0) 0 [0x54, 0x45, 0x53, 0x54])"
  using nv_write_read_roundtrip [OF demo_nv_defined_ok demo_nv_defined_lookup, of demo_nv_data 0
      demo_ossl "replicate 1024 0" 4 "replicate 1024 0" demo_owner]
    demo_nv_accepts demo_cipher_ok demo_nv_key
  by auto



text \<open>
  C36.  A silent failure of \<open>TPM2_NV_Write\<close>: an offset beyond the index is reported as a success
  although nothing is written, because \<open>TPM_RC_VALUE\<close> is the macro with value 0.  Its only caller,
  \<open>handle_NV_Write\<close>, checks the range first and never passes such an offset.
\<close>

theorem nv_write_offset_beyond:
  assumes "nv_lookup s i = Some e" "\<not> e_writeLocked e"
    and "a_nvType (p_attributes (e_pub e)) \<notin> {TPM_NT_COUNTER, TPM_NT_BITS, TPM_NT_EXTEND}"
    and "unat (e_dataLen e) < unat off"
  shows "TPM2_NV_Write L ct0 s h i d off = Some (TPM_RC_SUCCESS, s)"
  using assms by (simp add: TPM2_NV_Write_def)

theorem nv_write_offset_beyond_witness:
  "TPM2_NV_Write demo_ossl [] demo_nv_defined demo_owner 0x1500016 demo_nv_data 33 =
     Some (TPM_RC_SUCCESS, demo_nv_defined)"
  by (rule nv_write_offset_beyond [OF demo_nv_defined_lookup])
    (simp_all add: nv_new_entry_def TPMA_NV_of_units_def)

end
