(* ===== verification/TPM_Device.thy ===== *)
theory TPM_Device
  imports CC_Marshal TPM_NV TPM_Link
begin

text \<open>
  \<^verbatim>\<open>hw/tpm/tpm_hw.c\<close>: the registers of the device, the command dispatcher and the command
  handlers.  A handler maps the device state to the state it leaves; \<open>None\<close> is an access outside
  an array.  The outside world enters through parameters: \<open>L\<close> is the cryptographic library,
  \<open>rnd\<close> what \<open>RAND_bytes\<close> delivers (\<open>None\<close> when it fails, which the code ignores), and \<open>stk\<close>
  the contents of the uninitialised locals.  \<open>st_name\<close> is the memory behind the local
  \<open>TPM2B_NAME name\<close> that a write may use without harm.  The source reserves none, so \<open>[]\<close> is what
  the declaration gives; \<open>name_room\<close> says that there are the 34 bytes a key creation writes there,
  and a result that relies on it has it in its statement, or speaks of a device that was realized.
\<close>

record stack0 =
  st_create :: CreatePrimary_Params
  st_define :: NV_DefineSpace_Params
  st_write :: NV_Write_Params
  st_read :: NV_Read_Params
  st_auth :: bytes
  st_policy :: bytes
  st_priv :: bytes
  st_hash :: bytes
  st_name :: bytes
  st_ciphertext :: bytes
  st_bytesRequested :: u16

section \<open>Responses\<close>

definition build_error_response :: "TPM_RC \<Rightarrow> TPM2State \<Rightarrow> TPM2State" where
  "build_error_response rc s =
     (case MarshalResponseHeader (response_buffer s)
             \<lparr>rsp_tag = TPM_ST_NO_SESSIONS, rsp_hsize = 10, rsp_code = rc\<rparr> 0 of
        (_, buf, _) \<Rightarrow>
          s\<lparr>response_buffer := buf, resp_size := 10, resp_idx := 0, dev_state := TPM_STATE_SENDING\<rparr>)"

definition build_success_response :: "nat \<Rightarrow> TPM2State \<Rightarrow> TPM2State option" where
  "build_success_response bodySize s =
     (let actual_size = 10 + of_nat bodySize :: u32;
          padded_size = (actual_size + 3) AND NOT 3
      in case MarshalResponseHeader (response_buffer s)
                \<lparr>rsp_tag = TPM_ST_NO_SESSIONS, rsp_hsize = actual_size, rsp_code = TPM_RC_SUCCESS\<rparr> 0 of
        (_, buf, _) \<Rightarrow>
          (case (if actual_size < padded_size
                 then memcpy buf (unat actual_size)
                        (replicate (unat padded_size - unat actual_size) 0)
                        (unat padded_size - unat actual_size)
                 else Some buf) of
             None \<Rightarrow> None
           | Some buf' \<Rightarrow>
               Some (s\<lparr>response_buffer := buf', resp_size := padded_size, resp_idx := 0,
                       dev_state := TPM_STATE_SENDING\<rparr>)))"

text \<open>
  The end of every handler with a body: the body is marshalled behind the space for the header;
  an error of the marshalling routine becomes an error response.
\<close>

definition respond :: "'r marshaller \<Rightarrow> 'r \<Rightarrow> TPM2State \<Rightarrow> TPM2State option" where
  "respond mar r s =
     (case mar (drop 10 (response_buffer s)) r 0 of
        None \<Rightarrow> None
      | Some (rc, body, bytesWritten) \<Rightarrow>
          let s1 = s\<lparr>response_buffer := take 10 (response_buffer s) @ body\<rparr> in
          if rc \<noteq> TPM_RC_SUCCESS then Some (build_error_response rc s1)
          else build_success_response bytesWritten s1)"

section \<open>Handlers\<close>

text \<open>\<open>cmdBody\<close> and \<open>bodySize\<close> of the dispatcher, as one slice of the command buffer.\<close>

definition cmd_body :: "TPM2State \<Rightarrow> bytes" where
  "cmd_body s = take (unat (cmd_size s) - 10) (drop 10 (command_buffer s))"

definition tpm2_generate_random :: "bytes option \<Rightarrow> TPM2State \<Rightarrow> TPM2State" where
  "tpm2_generate_random rnd s = (case rnd of None \<Rightarrow> s | Some r \<Rightarrow> s\<lparr>random_data := r\<rparr>)"

text \<open>
  Not called by any handler; \<open>fresh\<close> says whether \<open>RSA_new\<close> returns an object, which the code
  does not check.
\<close>

definition tpm2_generate_rsa_key :: "bool \<Rightarrow> TPM2State \<Rightarrow> TPM2State" where
  "tpm2_generate_rsa_key fresh s = s\<lparr>rsa_key := fresh, key_generated := 1\<rparr>"

definition handle_GetRandom :: "stack0 \<Rightarrow> bytes option \<Rightarrow> TPM2State \<Rightarrow> TPM2State option" where
  "handle_GetRandom stk rnd s =
     (case Unmarshal_GetRandom (cmd_body s) (st_bytesRequested stk) 0 of (rc, bytesRequested, _) \<Rightarrow>
        if rc \<noteq> TPM_RC_SUCCESS then Some (build_error_response rc s)
        else if unat bytesRequested > 32 then Some (build_error_response TPM_RC_SIZE s)
        else let s1 = tpm2_generate_random rnd s
             in respond Marshal_GetRandom_Response (bytesRequested, random_data s1) s1)"

text \<open>
  The parts of \<open>handle_CreatePrimary\<close>.  The authorization value and the data are copied into
  arrays of 64 and 128 bytes; the data are not used afterwards.
\<close>

definition cp_sensitive :: "CreatePrimary_Params \<Rightarrow> tpm2b option" where
  "cp_sensitive p =
     (case (if cp_userAuthSize p > 0
            then memcpy (replicate 64 0) 0 (cp_userAuth p) (unat (cp_userAuthSize p))
            else Some (replicate 64 0)) of
        None \<Rightarrow> None
      | Some auth \<Rightarrow>
          (case (if cp_dataSize p > 0
                 then memcpy (replicate 128 0) 0 (cp_data p) (unat (cp_dataSize p))
                 else Some (replicate 128 0)) of
             None \<Rightarrow> None
           | Some _ \<Rightarrow> Some (cp_userAuthSize p, auth)))"

definition rd16 :: "bytes \<Rightarrow> nat \<Rightarrow> u16 option" where
  "rd16 mem i = (if i + 2 \<le> length mem then Some (be16 (mem ! i) (mem ! (i + 1))) else None)"

definition rd32 :: "bytes \<Rightarrow> nat \<Rightarrow> u32 option" where
  "rd32 mem i = (if i + 4 \<le> length mem
     then Some (be32 (mem ! i) (mem ! (i + 1)) (mem ! (i + 2)) (mem ! (i + 3))) else None)"

text \<open>
  The public template, read from the command buffer at \<open>pubBuf\<close> without regard to the size of the
  template or of the command.
\<close>

definition cp_template :: "bytes \<Rightarrow> nat \<Rightarrow> TPMT_PUBLIC option" where
  "cp_template mem pubBuf =
     (case (rd16 mem pubBuf, rd16 mem (pubBuf + 2), rd32 mem (pubBuf + 4), rd16 mem (pubBuf + 8)) of
        (Some typ, Some alg, Some attrs, Some authPolicySize) \<Rightarrow>
          let pub = zero_public\<lparr>t_type := typ, t_nameAlg := alg, t_objectAttributes := attrs\<rparr> in
          if typ = TPM_ALG_ECC then
            (case rd16 mem (pubBuf + 10 + unat authPolicySize + 4) of
               None \<Rightarrow> None
             | Some curve \<Rightarrow> Some (pub\<lparr>t_curveID := curve\<rparr>))
          else Some pub
      | _ \<Rightarrow> None)"

text \<open>The public area as it is written into the 512 bytes of \<open>tempBuf\<close>.\<close>

definition cp_out_public :: "TPMT_PUBLIC \<Rightarrow> bytes option" where
  "cp_out_public pub =
     (let hd = be16_bytes (t_type pub) @ be16_bytes (t_nameAlg pub) @
               be32_bytes (t_objectAttributes pub) @ [0x00, 0x00];
          coord = (\<lambda>c. be16_bytes (fst c) @ take (unat (fst c)) (snd c));
          body = (if t_type pub = TPM_ALG_ECC
                  then hd @ [0x00, 0x10] @ [0x00, 0x10] @ be16_bytes (t_curveID pub) @ [0x00, 0x10] @
                       coord (t_x pub) @ coord (t_y pub)
                  else hd)
      in if (t_type pub = TPM_ALG_ECC \<longrightarrow>
              unat (fst (t_x pub)) \<le> length (snd (t_x pub)) \<and>
              unat (fst (t_y pub)) \<le> length (snd (t_y pub))) \<and> length body \<le> 512
         then Some body else None)"

definition cp_response ::
  "u32 \<Rightarrow> u32 \<Rightarrow> bytes \<Rightarrow> u16 \<Rightarrow> bytes \<Rightarrow> CreatePrimary_Response" where
  "cp_response objectHandle primaryHandle pub nameSize name =
     \<lparr>cr_objectHandle = objectHandle,
      cr_outPublicSize = of_nat (length pub), cr_outPublic = overwrite (replicate 512 0) 0 pub,
      cr_creationDataSize = 0, cr_creationData = replicate 256 0,
      cr_creationHashSize = 0, cr_creationHash = replicate 64 0,
      cr_creationTicketTag = TPM_ST_CREATION, cr_creationTicketHierarchy = primaryHandle,
      cr_creationTicketDigestSize = 0, cr_creationTicketDigest = replicate 64 0,
      cr_nameSize = nameSize, cr_name = name\<rparr>"

definition handle_CreatePrimary :: "ossl \<Rightarrow> stack0 \<Rightarrow> TPM2State \<Rightarrow> TPM2State option" where
  "handle_CreatePrimary L stk s =
     (case Unmarshal_CreatePrimary (cmd_body s) (st_create stk) 0 of
        None \<Rightarrow> None
      | Some (rc, p, bytesRead) \<Rightarrow>
          if rc \<noteq> TPM_RC_SUCCESS then Some (build_error_response rc s)
          else (case (cp_sensitive p,
                      cp_template (command_buffer s) (10 + bytesRead - unat (cp_inPublicSize p))) of
              (Some userAuth, Some tmpl) \<Rightarrow>
                let objectHandle = 0x80000000 OR next_transient_handle s;
                    s1 = s\<lparr>next_transient_handle := next_transient_handle s + 1\<rparr>
                in (case tpm2_CreatePrimary L (st_priv stk) (st_hash stk) s1 (cp_primaryHandle p)
                           userAuth tmpl zero_public (0, st_name stk) of
                      None \<Rightarrow> None
                    | Some (rc, s2, outPublic, name) \<Rightarrow>
                        if rc \<noteq> TPM_RC_SUCCESS then Some (build_error_response rc s2)
                        else (case cp_out_public outPublic of
                            None \<Rightarrow> None
                          | Some pub \<Rightarrow>
                              (case memcpy (replicate 64 0) 0 (snd name) (unat (fst name)) of
                                 None \<Rightarrow> None
                               | Some nm \<Rightarrow>
                                   respond Marshal_CreatePrimary_Response
                                     (cp_response objectHandle (cp_primaryHandle p) pub (fst name) nm) s2)))
            | _ \<Rightarrow> None))"

text \<open>
  The provision handle both NV handlers that change the store build from the authorization handle;
  \<open>None\<close> is the refusal with \<open>TPM_RC_HANDLE\<close>.
\<close>

definition provision_handle :: "u32 \<Rightarrow> TPMI_RH_PROVISION option" where
  "provision_handle authHandle =
     (if authHandle = 0x4000000C
      then Some \<lparr>rp_owner = TPM_RH_PLATFORM, rp_platform = TPM_RH_PLATFORM,
                 rp_responsefailcode = TPM_RH_PLATFORM\<rparr>
      else if authHandle = 0x40000001
      then Some \<lparr>rp_owner = TPM_RH_OWNER, rp_platform = TPM_RH_OWNER,
                 rp_responsefailcode = TPM_RH_OWNER\<rparr>
      else None)"

text \<open>
  The attributes are copied with the size of \<open>TPMA_NV\<close>, 8 bytes, from a member of 4: the second
  unit is the two bytes of \<open>authPolicySize\<close> and the first two of \<open>authPolicy\<close> behind it.
\<close>

definition ds_attribute_units :: "NV_DefineSpace_Params \<Rightarrow> TPMA_NV" where
  "ds_attribute_units p = TPMA_NV_of_units (ds_attributes p)
     (ucast (ds_authPolicySize p) OR push_bit 16 (ucast (ds_authPolicy p ! 0)) OR
      push_bit 24 (ucast (ds_authPolicy p ! 1)))"

definition handle_NV_DefineSpace :: "stack0 \<Rightarrow> TPM2State \<Rightarrow> TPM2State option" where
  "handle_NV_DefineSpace stk s =
     (case Unmarshal_NV_DefineSpace (cmd_body s) (st_define stk) 0 of
        None \<Rightarrow> None
      | Some (rc, p, _) \<Rightarrow>
          if rc \<noteq> TPM_RC_SUCCESS then Some (build_error_response rc s)
          else (case provision_handle (ds_authHandle p) of
            None \<Rightarrow> Some (build_error_response TPM_RC_HANDLE s)
          | Some provHandle \<Rightarrow>
              (case (memcpy (st_auth stk) 0 (ds_auth p) (unat (ds_authSize p)),
                     memcpy (st_policy stk) 0 (ds_authPolicy p) (unat (ds_authPolicySize p))) of
                 (Some auth, Some policy) \<Rightarrow>
                   (case tpm2_nv_define_space s provHandle (ds_authSize p, auth)
                           \<lparr>p_nvIndex = ds_nvIndex p, p_nameAlg = ds_nameAlg p,
                            p_attributes = ds_attribute_units p, p_authPolicy = policy,
                            p_authPolicySize = ds_authPolicySize p, p_dataSize = ds_dataSize p\<rparr> of
                      None \<Rightarrow> None
                    | Some (rc, s1) \<Rightarrow>
                        if rc \<noteq> TPM_RC_SUCCESS then Some (build_error_response rc s1)
                        else build_success_response 0 s1)
               | _ \<Rightarrow> None)))"

text \<open>\<open>e->written = true\<close> on the entry the hash table holds.\<close>

definition mark_written :: "TPM_NV_INDEX \<Rightarrow> TPM2State \<Rightarrow> TPM2State" where
  "mark_written i s =
     (case nv_lookup s i of None \<Rightarrow> s | Some e \<Rightarrow> nv_insert i (e\<lparr>e_written := True\<rparr>) s)"

definition handle_NV_Write :: "ossl \<Rightarrow> stack0 \<Rightarrow> TPM2State \<Rightarrow> TPM2State option" where
  "handle_NV_Write L stk s =
     (case Unmarshal_NV_Write (cmd_body s) (st_write stk) 0 of
        None \<Rightarrow> None
      | Some (rc, p, _) \<Rightarrow>
          if rc \<noteq> TPM_RC_SUCCESS then Some (build_error_response rc s)
          else (case nv_lookup s (nw_nvIndex p) of
            None \<Rightarrow> Some (build_error_response TPM_RC_HANDLE s)
          | Some e \<Rightarrow>
              if unat (nw_offset p) + unat (nvb_size (nw_data p)) > unat (p_dataSize (e_pub e))
              then Some (build_error_response TPM_RC_NV_RANGE s)
              else (case provision_handle (nw_authHandle p) of
                None \<Rightarrow> Some (build_error_response TPM_RC_HANDLE s)
              | Some provHandle \<Rightarrow>
                  (case TPM2_NV_Write L (st_ciphertext stk) s provHandle (nw_nvIndex p)
                          (nw_data p) (nw_offset p) of
                     None \<Rightarrow> None
                   | Some (rc, s1) \<Rightarrow>
                       if rc \<noteq> TPM_RC_SUCCESS then Some (build_error_response rc s1)
                       else build_success_response 0
                              ((mark_written (nw_nvIndex p) s1)\<lparr>nv_dirty := True\<rparr>)))))"

text \<open>\<open>response.data.buffer\<close> has 1024 bytes, zeroed before the read.\<close>

definition handle_NV_Read :: "ossl \<Rightarrow> stack0 \<Rightarrow> TPM2State \<Rightarrow> TPM2State option" where
  "handle_NV_Read L stk s =
     (case Unmarshal_NV_Read (cmd_body s) (st_read stk) 0 of
        None \<Rightarrow> None
      | Some (rc, p, _) \<Rightarrow>
          if rc \<noteq> TPM_RC_SUCCESS then Some (build_error_response rc s)
          else (case nv_lookup s (nr_nvIndex p) of
            None \<Rightarrow> Some (build_error_response TPM_RC_HANDLE s)
          | Some e \<Rightarrow>
              if \<not> e_written e then Some (build_error_response TPM_RC_NV_UNINITIALIZED s)
              else if unat (nr_offset p) + unat (nr_sizeToRead p) > unat (p_dataSize (e_pub e))
                then Some (build_error_response TPM_RC_NV_RANGE s)
              else if e_readLocked e then Some (build_error_response TPM_RC_NV_LOCKED s)
              else (case nv_read_decrypt_from_bank L s e (replicate 1024 0) (nr_sizeToRead p)
                           (nr_offset p) of
                 None \<Rightarrow> None
               | Some (rc, buf) \<Rightarrow>
                   if rc \<noteq> TPM_RC_SUCCESS then Some (build_error_response rc s)
                   else respond Marshal_NV_Read_Response
                     \<lparr>nrr_data = \<lparr>nvb_size = nr_sizeToRead p, nvb_buffer = buf\<rparr>\<rparr> s)))"

section \<open>Dispatcher\<close>

definition tpm2_process_command ::
  "ossl \<Rightarrow> stack0 \<Rightarrow> bytes option \<Rightarrow> TPM2State \<Rightarrow> TPM2State option" where
  "tpm2_process_command L stk rnd s =
     (case TPM2_ValidateCommandHeader (Some (take (unat (cmd_size s)) (command_buffer s)))
             \<lparr>cmd_tag = 0, cmd_hsize = 0, cmd_code = 0\<rparr> of (rc, header) \<Rightarrow>
        if rc \<noteq> TPM_RC_SUCCESS then Some (build_error_response rc s)
        else let rc = TPM2_ValidateMode header (tpm_mode s) in
        if rc \<noteq> TPM_RC_SUCCESS then Some (build_error_response rc s)
        else if cmd_code header = TPM_CC_GetRandom then handle_GetRandom stk rnd s
        else if cmd_code header = TPM_CC_CreatePrimary then handle_CreatePrimary L stk s
        else if cmd_code header = TPM_CC_NV_DefineSpace then handle_NV_DefineSpace stk s
        else if cmd_code header = TPM_CC_NV_Write then handle_NV_Write L stk s
        else if cmd_code header = TPM_CC_NV_Read then handle_NV_Read L stk s
        else Some (build_error_response TPM_RC_COMMAND_CODE s))"

section \<open>Registers\<close>

abbreviation (input) TPM2_CTRL_REG :: u64 where "TPM2_CTRL_REG \<equiv> 0x00"
abbreviation (input) TPM2_STATUS_REG :: u64 where "TPM2_STATUS_REG \<equiv> 0x04"
abbreviation (input) TPM2_CMD_REG :: u64 where "TPM2_CMD_REG \<equiv> 0x0C"
abbreviation (input) TPM2_DATA_REG :: u64 where "TPM2_DATA_REG \<equiv> 0x10"

definition tpm2_reset :: "TPM2State \<Rightarrow> TPM2State" where
  "tpm2_reset s =
     s\<lparr>ctrl := 0, status := 0, key_generated := 0, dev_state := TPM_STATE_IDLE, cmd_size := 0,
        resp_size := 0, resp_idx := 0, command_buffer := replicate 1024 0,
        response_buffer := replicate 1024 0, rsa_key := False, random_data := replicate 32 0\<rparr>"

definition tpm2_mmio_read :: "u64 \<Rightarrow> TPM2State \<Rightarrow> (u64 \<times> TPM2State) option" where
  "tpm2_mmio_read addr s =
     (if addr = TPM2_CTRL_REG then Some (ucast (ctrl s), s)
      else if addr = TPM2_STATUS_REG then Some (ucast (tpm_state_value (dev_state s)), s)
      else if addr = TPM2_DATA_REG then
        if dev_state s \<noteq> TPM_STATE_SENDING then Some (0, s)
        else if resp_idx s \<ge> resp_size s then Some (0, s)
        else (case rd32 (response_buffer s) (unat (resp_idx s)) of
                None \<Rightarrow> None
              | Some val \<Rightarrow>
                  let s1 = s\<lparr>resp_idx := resp_idx s + 4\<rparr>;
                      s2 = (if resp_idx s1 \<ge> resp_size s1
                            then s1\<lparr>dev_state := TPM_STATE_IDLE, resp_idx := 0, resp_size := 0\<rparr>
                            else s1)
                  in Some (ucast val, s2))
      else Some (0, s))"

definition tpm2_mmio_write ::
  "ossl \<Rightarrow> stack0 \<Rightarrow> bytes option \<Rightarrow> u64 \<Rightarrow> u64 \<Rightarrow> TPM2State \<Rightarrow> TPM2State option" where
  "tpm2_mmio_write L stk rnd addr v s =
     (if addr = TPM2_CTRL_REG then
        if v = 1 then Some (s\<lparr>dev_state := TPM_STATE_RECEIVING, cmd_size := 0, resp_size := 0,
                              resp_idx := 0\<rparr>)
        else if v = 0 then Some (tpm2_reset s)
        else Some s
      else if addr = TPM2_CMD_REG then
        if v = 1 then
          if dev_state s \<noteq> TPM_STATE_RECEIVING then Some (s\<lparr>dev_state := TPM_STATE_IDLE\<rparr>)
          else (case rd32 (command_buffer s) 2 of
                  None \<Rightarrow> None
                | Some actual_size \<Rightarrow>
                    if actual_size > cmd_size s
                    then Some (build_error_response TPM_RC_COMMAND_SIZE
                                 (s\<lparr>dev_state := TPM_STATE_IDLE\<rparr>))
                    else tpm2_process_command L stk rnd
                           (s\<lparr>cmd_size := actual_size, dev_state := TPM_STATE_PROCESSING\<rparr>))
        else Some s
      else if addr = TPM2_DATA_REG then
        if dev_state s \<noteq> TPM_STATE_RECEIVING then Some s
        else if unat (cmd_size s + 4) > length (command_buffer s)
          then Some (s\<lparr>dev_state := TPM_STATE_IDLE\<rparr>)
        else (case memcpy (command_buffer s) (unat (cmd_size s)) (be32_bytes (ucast v)) 4 of
                None \<Rightarrow> None
              | Some buf \<Rightarrow> Some (s\<lparr>command_buffer := buf, cmd_size := cmd_size s + 4\<rparr>))
      else Some s)"

section \<open>Realization\<close>

definition tpm2_provision_owner :: TPMI_RH_PROVISION where
  "tpm2_provision_owner = \<lparr>rp_owner = TPM_RH_OWNER, rp_platform = TPM_RH_OWNER,
     rp_responsefailcode = TPM_RH_PLATFORM\<rparr>"

definition test_nv_public :: TPMS_NV_PUBLIC where
  "test_nv_public =
     \<lparr>p_nvIndex = 0x1500016, p_nameAlg = 0x000B,
      p_attributes = (TPMA_NV_of_units 0 0)\<lparr>a_ownerRead := True, a_ownerWrite := True,
        a_authRead := True, a_authWrite := True, a_noDA := True, a_nvType := TPM_NT_ORDINARY\<rparr>,
      p_authPolicy = replicate 64 0, p_authPolicySize = 0, p_dataSize = 32\<rparr>"

definition tpm2_test_definespace :: "TPM2State \<Rightarrow> TPM2State option" where
  "tpm2_test_definespace s =
     map_option snd (tpm2_nv_define_space s tpm2_provision_owner
       (4, [0x31, 0x32, 0x33, 0x34] @ replicate 60 0) test_nv_public)"

text \<open>An array filled by the loop with \<open>base + i\<close>.\<close>

definition seed_pattern :: "u8 \<Rightarrow> bytes" where
  "seed_pattern base = map (\<lambda>i. base + of_nat i) [0..<32]"

definition tpm2_test_CreatePrimary :: "ossl \<Rightarrow> stack0 \<Rightarrow> TPM2State \<Rightarrow> (TPM_RC \<times> TPM2State) option" where
  "tpm2_test_CreatePrimary L stk s =
     (let s1 = s\<lparr>sps := seed_pattern 0x10, shProof := seed_pattern 0x20, pps := seed_pattern 0x30,
                 phProof := seed_pattern 0x40, eps := seed_pattern 0x50, ehProof := seed_pattern 0x60,
                 next_transient_handle := 1, initialized := True\<rparr>
      in case tpm2_CreatePrimary L (st_priv stk) (st_hash stk) s1 TPM_RH_OWNER
                (6, [0x70, 0x61, 0x73, 0x73, 0x77, 0x64] @ replicate 58 0)
                (zero_public\<lparr>t_type := TPM_ALG_ECC, t_nameAlg := TPM_ALG_SHA256,
                   t_objectAttributes := 0x00030072, t_curveID := TPM_ECC_NIST_P256\<rparr>)
                zero_public (0, st_name stk) of
           None \<Rightarrow> None
         | Some (rc, s2, _, _) \<Rightarrow> Some (rc, s2))"

text \<open>
  \<open>ram_ok\<close> says whether \<open>memory_region_init_ram\<close> succeeds.  The interrupt line and the memory
  regions themselves are not part of the state.
\<close>

definition tpm2_realize :: "ossl \<Rightarrow> stack0 \<Rightarrow> bool \<Rightarrow> TPM2State \<Rightarrow> TPM2State option" where
  "tpm2_realize L stk ram_ok s =
     (if \<not> ram_ok then Some s
      else let s1 = s\<lparr>nv_bank := Some (replicate (unat TPM2_NVSTORAGE_SIZE) 0),
                      nv_bank_size := TPM2_NVSTORAGE_SIZE\<rparr>;
               s2 = (tpm2_nv_init s1)\<lparr>nv_alloc_offset := 0\<rparr>
      in case tpm2_test_definespace s2 of
           None \<Rightarrow> None
         | Some s3 \<Rightarrow> map_option snd (tpm2_test_CreatePrimary L stk s3))"

section \<open>Invariant\<close>

text \<open>
  The arrays have their declared lengths, the registers of the transfer stay inside them, and the
  device rests in one of three states.  What the interface holds in transit is its \<open>view\<close>; the
  rest of the state is its \<open>core\<close>.
\<close>

definition link_ok :: "TPM2State \<Rightarrow> bool" where
  "link_ok s \<longleftrightarrow>
     length (command_buffer s) = 1024 \<and> length (response_buffer s) = 1024 \<and>
     unat (cmd_size s) \<le> 1024 \<and> unat (resp_size s) \<le> 1024 \<and> 4 dvd unat (resp_idx s) \<and>
     (dev_state s = TPM_STATE_SENDING \<longrightarrow> resp_idx s < resp_size s) \<and>
     dev_state s \<in> {TPM_STATE_IDLE, TPM_STATE_RECEIVING, TPM_STATE_SENDING}"

definition core_ok :: "TPM2State \<Rightarrow> bool" where
  "core_ok s \<longleftrightarrow>
     nv_ok s \<and> length (random_data s) = 32 \<and>
     length (sps s) = 32 \<and> length (pps s) = 32 \<and> length (eps s) = 32 \<and>
     length (snd (sn_ecc (primary_sensitive s))) = 64"

definition dev_ok :: "TPM2State \<Rightarrow> bool" where
  "dev_ok s \<longleftrightarrow> link_ok s \<and> core_ok s"

definition dev_view :: "TPM2State \<Rightarrow> link" where
  "dev_view s =
     (case dev_state s of
        TPM_STATE_RECEIVING \<Rightarrow> Receiving (take (unat (cmd_size s)) (command_buffer s))
      | TPM_STATE_SENDING \<Rightarrow>
          Sending (slice (response_buffer s) (unat (resp_idx s))
                     (pad4 (unat (resp_size s)) - unat (resp_idx s)))
      | _ \<Rightarrow> Idle)"

definition dev_core :: "TPM2State \<Rightarrow> TPM2State" where
  "dev_core s = s\<lparr>command_buffer := [], response_buffer := [], cmd_size := 0, resp_size := 0,
     resp_idx := 0, dev_state := TPM_STATE_IDLE\<rparr>"

text \<open>The locals of the handlers have their declared lengths.\<close>

definition stack_ok :: "stack0 \<Rightarrow> bool" where
  "stack_ok stk \<longleftrightarrow>
     wf_CreatePrimary_Params (st_create stk) \<and> wf_NV_DefineSpace_Params (st_define stk) \<and>
     wf_NV_Write_Params (st_write stk) \<and> length (st_auth stk) = 64 \<and> length (st_policy stk) = 64 \<and>
     length (st_priv stk) = 32 \<and> length (st_hash stk) = 32 \<and> length (st_ciphertext stk) = 1024"

text \<open>
  There is memory for a name behind the local \<open>name\<close>.  It is not part of \<open>stack_ok\<close>: the variable
  itself has no storage for the name.
\<close>

definition name_room :: "stack0 \<Rightarrow> bool" where
  "name_room stk \<longleftrightarrow> 34 \<le> length (st_name stk)"

text \<open>\<open>RAND_bytes\<close> fills the array it is given, or fails.\<close>

definition rnd_ok :: "bytes option \<Rightarrow> bool" where
  "rnd_ok rnd \<longleftrightarrow> (\<forall>r. rnd = Some r \<longrightarrow> length r = 32)"

section \<open>Registers refine the transfer interface\<close>

lemma rd32_in: "i + 4 \<le> length mem \<Longrightarrow> \<exists>w. rd32 mem i = Some w \<and> slice mem i 4 = be32_bytes w"
proof -
  assume i: "i + 4 \<le> length mem"
  have "slice mem i 4 = [mem ! i, mem ! (i + 1), mem ! (i + 2), mem ! (i + 3)]"
    by (rule nth_equalityI) (use i in \<open>auto simp: nth_slice less_Suc_eq numeral_eq_Suc\<close>)
  with i show ?thesis by (simp add: rd32_def be_simps)
qed

lemma slice_split: "n = k + m \<Longrightarrow> slice xs i n = slice xs i k @ slice xs (i + k) m"
  by (simp add: slice_def take_add add.commute)

lemma core_ok_dev_core [simp]: "core_ok (dev_core s) = core_ok s"
  by (simp add: core_ok_def dev_core_def nv_ok_def)

lemma core_ok_cong: "dev_core s' = dev_core s \<Longrightarrow> core_ok s' = core_ok s"
  using core_ok_dev_core [of s] core_ok_dev_core [of s'] by simp

lemma unat_u32_add4: "unat (n :: u32) \<le> 1024 \<Longrightarrow> unat (n + 4) = unat n + 4"
  by (subst unat_add_lem [THEN iffD1]) simp_all

lemma mmio_start:
  "link_ok s \<Longrightarrow> \<exists>s'. tpm2_mmio_write L stk rnd TPM2_CTRL_REG 1 s = Some s' \<and> link_ok s' \<and>
     dev_view s' = Receiving [] \<and> dev_core s' = dev_core s"
  by (simp add: tpm2_mmio_write_def link_ok_def dev_view_def dev_core_def)

lemma mmio_put:
  assumes "link_ok s"
  shows "\<exists>s'. tpm2_mmio_write L stk rnd TPM2_DATA_REG v s = Some s' \<and> link_ok s' \<and>
    dev_view s' = link_put (ucast v) (dev_view s) \<and> dev_core s' = dev_core s"
proof (cases "dev_state s = TPM_STATE_RECEIVING")
  case False
  with assms show ?thesis
    by (cases "dev_state s") (auto simp: tpm2_mmio_write_def dev_view_def link_ok_def)
next
  case True
  have c: "unat (cmd_size s + 4) = unat (cmd_size s) + 4"
    using assms by (intro unat_u32_add4) (simp add: link_ok_def)
  have "take (unat (cmd_size s) + 4) (overwrite (command_buffer s) (unat (cmd_size s)) (be32_bytes w)) =
      take (unat (cmd_size s)) (command_buffer s) @ be32_bytes w"
    if "unat (cmd_size s) + 4 \<le> 1024" for w
    using assms that by (simp add: overwrite_def link_ok_def)
  with True c assms show ?thesis
    by (auto simp: tpm2_mmio_write_def dev_view_def link_ok_def dev_core_def memcpy_def)
qed

lemma mmio_status:
  "link_ok s \<Longrightarrow> tpm2_mmio_read TPM2_STATUS_REG s = Some (link_status (dev_view s), s)"
  by (cases "dev_state s") (simp_all add: tpm2_mmio_read_def dev_view_def link_ok_def)

lemma sending_next:
  assumes "link_ok s" "dev_state s = TPM_STATE_SENDING"
  shows "unat (resp_idx s) + 4 \<le> pad4 (unat (resp_size s))" "pad4 (unat (resp_size s)) \<le> 1024"
    "unat (resp_idx s + 4) = unat (resp_idx s) + 4"
proof -
  show i: "unat (resp_idx s) + 4 \<le> pad4 (unat (resp_size s))"
    using assms by (intro pad4_next) (auto simp: link_ok_def word_less_nat_alt)
  show p: "pad4 (unat (resp_size s)) \<le> 1024"
    using assms by (intro pad4_le_1024) (simp add: link_ok_def)
  show "unat (resp_idx s + 4) = unat (resp_idx s) + 4"
    using i p by (intro unat_u32_add4) simp
qed

lemma mmio_get_sending:
  assumes "link_ok s" "dev_state s = TPM_STATE_SENDING"
  shows "\<exists>s'. tpm2_mmio_read TPM2_DATA_REG s = Some (ucast (fst (link_get (dev_view s))), s') \<and>
    link_ok s' \<and> dev_view s' = snd (link_get (dev_view s)) \<and> dev_core s' = dev_core s"
proof -
  let ?i = "unat (resp_idx s)" and ?p = "pad4 (unat (resp_size s))"
  note n = sending_next [OF assms]
  obtain w where w: "rd32 (response_buffer s) ?i = Some w" "slice (response_buffer s) ?i 4 = be32_bytes w"
    using rd32_in [of ?i "response_buffer s"] n assms(1) by (auto simp: link_ok_def)
  have v: "dev_view s = Sending (be32_bytes w @ slice (response_buffer s) (?i + 4) (?p - (?i + 4)))"
    using slice_split [of "?p - ?i" 4 "?p - (?i + 4)" "response_buffer s" ?i] n assms(2) w(2)
    by (simp add: dev_view_def)
  have d: "resp_size s \<le> resp_idx s + 4 \<longleftrightarrow> ?p = ?i + 4"
    using n pad4_ge [of "unat (resp_size s)"] pad4_less [of "unat (resp_size s)"]
      pad4_done [of "?i + 4" "unat (resp_size s)"] assms(1)
    unfolding word_le_nat_alt link_ok_def by auto
  have e: "slice (response_buffer s) (?i + 4) (?p - (?i + 4)) = [] \<longleftrightarrow> ?p = ?i + 4"
    using n assms(1) by (auto simp: slice_def link_ok_def)
  have lt: "resp_idx s < resp_size s" "\<not> resp_size s \<le> resp_idx s"
    using assms by (auto simp: link_ok_def)
  show ?thesis
    unfolding v link_get_word e
    using assms w(1) lt d n
    by (auto simp: tpm2_mmio_read_def link_ok_def dev_view_def dev_core_def not_le)
qed

lemma mmio_get:
  assumes "link_ok s"
  shows "\<exists>s'. tpm2_mmio_read TPM2_DATA_REG s = Some (ucast (fst (link_get (dev_view s))), s') \<and>
    link_ok s' \<and> dev_view s' = snd (link_get (dev_view s)) \<and> dev_core s' = dev_core s"
proof (cases "dev_state s = TPM_STATE_SENDING")
  case True
  then show ?thesis by (rule mmio_get_sending [OF assms])
next
  case False
  with assms show ?thesis
    by (cases "dev_state s") (auto simp: tpm2_mmio_read_def dev_view_def link_ok_def)
qed

lemma dev_view_words:
  "link_ok s \<Longrightarrow> dev_view s = Sending r \<Longrightarrow> r \<noteq> [] \<and> 4 dvd length r"
  using sending_next [of s]
  by (cases "dev_state s") (auto simp: dev_view_def link_ok_def slice_def intro: dvd_diff_nat)

interpretation port: tpm_port "tpm2_mmio_write L stk rnd" tpm2_mmio_read dev_ok dev_view dev_core
  for L stk rnd
proof
  fix s :: TPM2State and v r
  assume ok: "dev_ok s"
  have keep: "link_ok s' \<Longrightarrow> dev_core s' = dev_core s \<Longrightarrow> dev_ok s'" for s'
    using ok core_ok_cong [of s' s] by (simp add: dev_ok_def)
  have l: "link_ok s" using ok by (simp add: dev_ok_def)
  show "\<exists>s'. tpm2_mmio_write L stk rnd 0x00 1 s = Some s' \<and> dev_ok s' \<and> dev_view s' = Receiving [] \<and>
      dev_core s' = dev_core s"
    using mmio_start [OF l] keep by blast
  show "\<exists>s'. tpm2_mmio_write L stk rnd 0x10 v s = Some s' \<and> dev_ok s' \<and>
      dev_view s' = link_put (ucast v) (dev_view s) \<and> dev_core s' = dev_core s"
    using mmio_put [OF l] keep by blast
  show "tpm2_mmio_read 0x04 s = Some (link_status (dev_view s), s)"
    by (rule mmio_status [OF l])
  show "\<exists>s'. tpm2_mmio_read 0x10 s = Some (ucast (fst (link_get (dev_view s))), s') \<and> dev_ok s' \<and>
      dev_view s' = snd (link_get (dev_view s)) \<and> dev_core s' = dev_core s"
    using mmio_get [OF l] keep by blast
  show "dev_view s = Sending r \<Longrightarrow> r \<noteq> [] \<and> 4 dvd length r"
    by (rule dev_view_words [OF l])
qed

end
