(* ===== verification/TPM_Commands.thy ===== *)
theory TPM_Commands
  imports TPM_Device
begin

text \<open>
  What the commands of the device do, as seen at the registers: every handler of
  \<^verbatim>\<open>hw/tpm/tpm_hw.c\<close> that returns leaves one well-formed response to be read, and changes the rest
  of the state as the command says.
\<close>

section \<open>Responses\<close>

text \<open>
  The bytes the driver can read are a header with the size of the response, its body, and padding
  to a whole number of words.
\<close>

definition response_is :: "bytes \<Rightarrow> TPM_RC \<Rightarrow> bytes \<Rightarrow> bool" where
  "response_is r rc body \<longleftrightarrow>
     length r = pad4 (10 + length body) \<and> length body \<le> 1014 \<and>
     take (10 + length body) r = header_bytes TPM_ST_NO_SESSIONS (of_nat (10 + length body)) rc @ body"

text \<open>The device offers a response, and its core is that of \<open>t\<close>.\<close>

definition answered :: "TPM_RC \<Rightarrow> bytes \<Rightarrow> TPM2State \<Rightarrow> TPM2State \<Rightarrow> bool" where
  "answered rc body t s \<longleftrightarrow>
     link_ok s \<and> dev_core s = dev_core t \<and> (\<exists>r. dev_view s = Sending r \<and> response_is r rc body)"

definition link_arrays :: "TPM2State \<Rightarrow> bool" where
  "link_arrays s \<longleftrightarrow>
     length (command_buffer s) = 1024 \<and> length (response_buffer s) = 1024 \<and> unat (cmd_size s) \<le> 1024"

lemma error_answered:
  assumes "link_arrays s"
  shows "answered rc [] s (build_error_response rc s)"
proof -
  let ?b = "overwrite (response_buffer s) 0 (header_bytes TPM_ST_NO_SESSIONS 10 rc)"
  have p: "pad4 10 = 12" by (simp add: pad4_def)
  have l: "length ?b = 1024" using assms by (simp add: link_arrays_def)
  have "build_error_response rc s =
      s\<lparr>response_buffer := ?b, resp_size := 10, resp_idx := 0, dev_state := TPM_STATE_SENDING\<rparr>"
    using assms by (simp add: build_error_response_def MarshalResponseHeader_bytes link_arrays_def)
  with assms l p show ?thesis
    by (auto simp: answered_def link_ok_def link_arrays_def dev_core_def dev_view_def response_is_def
        slice_def header_prefix_overwrite)
qed

lemma success_answered:
  assumes "link_arrays s" "n \<le> 1014"
  shows "\<exists>s'. build_success_response n s = Some s' \<and>
    answered TPM_RC_SUCCESS (slice (response_buffer s) 10 n) s s'"
proof -
  let ?h = "header_bytes TPM_ST_NO_SESSIONS (10 + of_nat n) TPM_RC_SUCCESS"
  let ?b = "overwrite (response_buffer s) 0 ?h"
  have a: "unat (10 + of_nat n :: u32) = 10 + n"
    using assms(2) by (subst unat_add_lem [THEN iffD1])
      (simp_all add: unat_of_nat take_bit_nat_eq_self)
  define pad where "pad = ((10 + of_nat n :: u32) + 3) AND NOT 3"
  have p: "unat pad = pad4 (10 + n)"
    unfolding pad_def using a assms(2) by (subst unat_pad4) simp_all
  have le: "10 + n \<le> pad4 (10 + n)" "pad4 (10 + n) \<le> 1024"
    using pad4_ge pad4_le_1024 [of "10 + n"] assms(2) by auto
  have b: "length ?b = 1024" "take (10 + n) ?b = ?h @ slice (response_buffer s) 10 n"
    using assms by (auto simp: link_arrays_def overwrite_def slice_def)
  let ?z = "replicate (pad4 (10 + n) - (10 + n)) (0 :: u8)"
  let ?s = "s\<lparr>response_buffer := overwrite ?b (10 + n) ?z, resp_size := pad, resp_idx := 0,
    dev_state := TPM_STATE_SENDING\<rparr>"
  have run: "build_success_response n s = Some ?s"
  proof (cases "10 + of_nat n < pad")
    case True
    then show ?thesis
      unfolding build_success_response_def Let_def pad_def [symmetric]
      using assms(1) a p b le by (simp add: MarshalResponseHeader_bytes link_arrays_def memcpy_def)
  next
    case False
    then have "pad4 (10 + n) = 10 + n" using a p le by (simp add: word_less_nat_alt)
    with False show ?thesis
      unfolding build_success_response_def Let_def pad_def [symmetric]
      using assms(1) by (simp add: MarshalResponseHeader_bytes link_arrays_def)
  qed
  have t: "take (10 + n) (overwrite ?b (10 + n) ?z) = ?h @ slice (response_buffer s) 10 n"
    "length (overwrite ?b (10 + n) ?z) = 1024"
    using b le by (simp_all add: overwrite_def)
  have ls: "length (slice (response_buffer s) 10 n) = n"
    using assms by (simp add: link_arrays_def)
  have "answered TPM_RC_SUCCESS (slice (response_buffer s) 10 n) s ?s"
    using assms t p le ls
    by (auto simp: answered_def link_ok_def link_arrays_def dev_core_def dev_view_def response_is_def
        slice_def word_less_nat_alt min_def)
  with run show ?thesis by blast
qed

lemma answered_core: "answered rc body t s \<Longrightarrow> dev_core t = dev_core t' \<Longrightarrow> answered rc body t' s"
  by (simp add: answered_def)

text \<open>A body that fits behind the header is sent; one that does not becomes an error response.\<close>

lemma respond_answered:
  assumes "link_arrays s" "length enc \<le> 1014"
    and "mar (drop 10 (response_buffer s)) r 0 =
      Some (TPM_RC_SUCCESS, overwrite (drop 10 (response_buffer s)) 0 enc, length enc)"
  shows "\<exists>s'. respond mar r s = Some s' \<and> answered TPM_RC_SUCCESS enc s s'"
proof -
  let ?b = "take 10 (response_buffer s) @ overwrite (drop 10 (response_buffer s)) 0 enc"
  have l: "link_arrays (s\<lparr>response_buffer := ?b\<rparr>)"
    using assms(1,2) by (simp add: link_arrays_def)
  have "slice ?b 10 (length enc) = enc"
    using assms(1) by (simp add: slice_def overwrite_def link_arrays_def)
  moreover have "dev_core (s\<lparr>response_buffer := ?b\<rparr>) = dev_core s" by (simp add: dev_core_def)
  ultimately show ?thesis
    using success_answered [OF l assms(2)] assms(3) by (auto simp: respond_def answered_def)
qed

lemma respond_error_answered:
  assumes "link_arrays s" "rc \<noteq> TPM_RC_SUCCESS"
    and "mar (drop 10 (response_buffer s)) r 0 = Some (rc, b, n)" "length b = 1014"
  shows "\<exists>s'. respond mar r s = Some s' \<and> answered rc [] s s'"
proof -
  let ?b = "take 10 (response_buffer s) @ b"
  have l: "link_arrays (s\<lparr>response_buffer := ?b\<rparr>)"
    using assms(1,4) by (simp add: link_arrays_def)
  have "dev_core (s\<lparr>response_buffer := ?b\<rparr>) = dev_core s" by (simp add: dev_core_def)
  with error_answered [OF l, of rc] assms(2,3) show ?thesis
    by (auto simp: respond_def answered_def)
qed

lemma link_arrays_core:
  "link_arrays s \<Longrightarrow> command_buffer s' = command_buffer s \<Longrightarrow> response_buffer s' = response_buffer s \<Longrightarrow>
   cmd_size s' = cmd_size s \<Longrightarrow> link_arrays s'"
  by (simp add: link_arrays_def)

section \<open>GetRandom\<close>

lemma unmarshal_get_random:
  "Unmarshal_GetRandom body n0 0 =
     (if length body < 2 then (TPM_RC_INSUFFICIENT, n0, 0)
      else (TPM_RC_SUCCESS, be16 (body ! 0) (body ! 1), 2))"
  by (simp add: Unmarshal_GetRandom_def Unmarshal_UINT16_def)

text \<open>The code and the body of the response to GetRandom.\<close>

definition get_random_answer :: "bytes \<Rightarrow> bytes \<Rightarrow> TPM_RC \<times> bytes" where
  "get_random_answer random body =
     (if length body < 2 then (TPM_RC_INSUFFICIENT, [])
      else let n = be16 (body ! 0) (body ! 1) in
      if unat n > 32 then (TPM_RC_SIZE, [])
      else (TPM_RC_SUCCESS, be16_bytes n @ take (unat n) random))"

lemma handle_GetRandom_answers:
  assumes "link_arrays s" "length (random_data s) = 32" "rnd_ok rnd"
  shows "\<exists>s'. handle_GetRandom stk rnd s = Some s' \<and>
    (case get_random_answer (random_data (tpm2_generate_random rnd s)) (cmd_body s) of (rc, body) \<Rightarrow>
       answered rc body (if rc = TPM_RC_SUCCESS then tpm2_generate_random rnd s else s) s')"
proof -
  let ?n = "be16 (cmd_body s ! 0) (cmd_body s ! 1)" and ?s = "tpm2_generate_random rnd s"
  have r: "length (random_data ?s) = 32"
    using assms(2,3) by (auto simp: tpm2_generate_random_def rnd_ok_def split: option.split)
  have l: "link_arrays ?s"
    using assms(1) by (auto simp: tpm2_generate_random_def link_arrays_def split: option.split)
  show ?thesis
  proof (cases "2 \<le> length (cmd_body s) \<and> unat ?n \<le> 32")
    case True
    let ?e = "tpm2b_src_bytes (?n, random_data ?s)"
    have w: "tpm2b_src_wf (?n, random_data ?s)" using True r by (simp add: tpm2b_src_wf_def)
    have e: "?e = be16_bytes ?n @ take (unat ?n) (random_data ?s)"
      by (simp add: tpm2b_src_bytes_def tpm2b_data_def)
    have "\<exists>s'. respond Marshal_GetRandom_Response (?n, random_data ?s) ?s = Some s' \<and>
        answered TPM_RC_SUCCESS ?e ?s s'"
    proof (rule respond_answered [OF l])
      show "length ?e \<le> 1014" using True w by simp
      then show "Marshal_GetRandom_Response (drop 10 (response_buffer ?s)) (?n, random_data ?s) 0 =
          Some (TPM_RC_SUCCESS, overwrite (drop 10 (response_buffer ?s)) 0 ?e, length ?e)"
        unfolding Marshal_GetRandom_Response_def using l
        by (intro tpm2b_mar_ok [OF w]) (simp add: link_arrays_def)
    qed
    with True e show ?thesis
      by (simp add: handle_GetRandom_def unmarshal_get_random get_random_answer_def Let_def not_less)
  next
    case False
    with error_answered [OF assms(1)] show ?thesis
      by (auto simp: handle_GetRandom_def unmarshal_get_random get_random_answer_def Let_def)
  qed
qed

section \<open>NV_DefineSpace\<close>

text \<open>The public area and the authorization value the handler builds from the parameters.\<close>

definition ds_public :: "stack0 \<Rightarrow> NV_DefineSpace_Params \<Rightarrow> TPMS_NV_PUBLIC" where
  "ds_public stk p = \<lparr>p_nvIndex = ds_nvIndex p, p_nameAlg = ds_nameAlg p,
     p_attributes = ds_attribute_units p,
     p_authPolicy = overwrite (st_policy stk) 0 (take (unat (ds_authPolicySize p)) (ds_authPolicy p)),
     p_authPolicySize = ds_authPolicySize p, p_dataSize = ds_dataSize p\<rparr>"

lemma define_space_link:
  assumes "nv_ok s" "tpm2_nv_define_space s h auth nv = Some (rc, s')"
  shows "(link_arrays s \<longrightarrow> link_arrays s') \<and> (core_ok s \<longrightarrow> core_ok s')"
  using assms(1) by (cases rule: define_space_cases [OF assms])
    (auto simp: core_ok_def nv_defined_def Let_def link_arrays_def)

lemma define_space_never_faults:
  "nv_ok s \<Longrightarrow> \<exists>rc s'. tpm2_nv_define_space s h auth nv = Some (rc, s')"
  using define_space_run [of s h nv auth]
  by (cases "nv_define_checks s h nv = TPM_RC_SUCCESS")
    (auto simp: tpm2_nv_define_space_def Let_def split: if_splits)

lemma unmarshal_define_space_sizes:
  assumes "Unmarshal_NV_DefineSpace buf p n = Some (TPM_RC_SUCCESS, q, m)" "wf_NV_DefineSpace_Params p"
  shows "unat (ds_authSize q) \<le> 64" "unat (ds_authPolicySize q) \<le> 64"
    "length (ds_auth q) = 64" "length (ds_authPolicy q) = 64"
  using assms by (auto elim!: unmarshal_define_space_sound simp: wf_NV_DefineSpace_Params_def)

lemma handle_NV_DefineSpace_answers:
  assumes "link_arrays s" "core_ok s" "stack_ok stk"
  shows "\<exists>s' rc t. handle_NV_DefineSpace stk s = Some s' \<and> answered rc [] t s' \<and> core_ok t \<and>
    (rc \<noteq> TPM_RC_SUCCESS \<longrightarrow> t = s) \<and>
    (rc = TPM_RC_SUCCESS \<longrightarrow> (\<exists>p m h.
       Unmarshal_NV_DefineSpace (cmd_body s) (st_define stk) 0 = Some (TPM_RC_SUCCESS, p, m) \<and>
       provision_handle (ds_authHandle p) = Some h \<and>
       nv_define_checks s h (ds_public stk p) = TPM_RC_SUCCESS \<and> t = nv_defined s (ds_public stk p)))"
proof -
  have wf: "wf_NV_DefineSpace_Params (st_define stk)" "length (st_auth stk) = 64"
      "length (st_policy stk) = 64" and nv: "nv_ok s"
    using assms(2,3) by (simp_all add: stack_ok_def core_ok_def)
  note err = error_answered [OF assms(1)]
  obtain urc p m where u: "Unmarshal_NV_DefineSpace (cmd_body s) (st_define stk) 0 = Some (urc, p, m)"
    using unmarshal_define_space_safe [OF wf(1), of "cmd_body s"]
    by (auto simp: safe_result_def split: option.splits)
  consider (bad) "urc \<noteq> TPM_RC_SUCCESS"
    | (handle) "urc = TPM_RC_SUCCESS" "provision_handle (ds_authHandle p) = None"
    | (run) h where "urc = TPM_RC_SUCCESS" "provision_handle (ds_authHandle p) = Some h"
    by (cases "provision_handle (ds_authHandle p)") auto
  then show ?thesis
  proof cases
    case bad
    with u err [of urc] assms(2) show ?thesis by (auto simp: handle_NV_DefineSpace_def)
  next
    case handle
    with u err [of TPM_RC_HANDLE] assms(2) show ?thesis
      by (intro exI [of _ "build_error_response TPM_RC_HANDLE s"] exI [of _ TPM_RC_HANDLE] exI [of _ s])
        (simp add: handle_NV_DefineSpace_def)
  next
    case (run h)
    note ok = run(1) and h = run(2)
    note sz = unmarshal_define_space_sizes [OF u [unfolded ok] wf(1)]
    define auth where "auth = (ds_authSize p,
      overwrite (st_auth stk) 0 (take (unat (ds_authSize p)) (ds_auth p)))"
    have body: "handle_NV_DefineSpace stk s =
        (case tpm2_nv_define_space s h auth (ds_public stk p) of
           None \<Rightarrow> None
         | Some (rc, s1) \<Rightarrow> if rc \<noteq> TPM_RC_SUCCESS then Some (build_error_response rc s1)
             else build_success_response 0 s1)"
      using u h sz wf ok by (simp add: handle_NV_DefineSpace_def memcpy_def ds_public_def auth_def)
    obtain rc s1 where r: "tpm2_nv_define_space s h auth (ds_public stk p) = Some (rc, s1)"
      using define_space_never_faults [OF nv] by blast
    from define_space_link [OF nv r] assms have l: "link_arrays s1" "core_ok s1" by auto
    from nv r show ?thesis
    proof (cases rule: define_space_cases)
      case same
      with body r err [of rc] assms(2) show ?thesis by auto
    next
      case defined
      with body r success_answered [OF l(1), of 0] l(2) u [unfolded ok] h show ?thesis
        by (auto simp: slice_def)
    qed
  qed
qed

section \<open>NV_Write\<close>

lemma written_flag_layout [simp]:
  "nv_entry_ok b u i (e\<lparr>e_written := x\<rparr>) = nv_entry_ok b u i e"
  "nv_disjoint (e\<lparr>e_written := x\<rparr>) f = nv_disjoint e f"
  "nv_disjoint e (f\<lparr>e_written := x\<rparr>) = nv_disjoint e f"
  by (simp_all add: nv_entry_ok_def nv_disjoint_def)

lemma mark_written_ok:
  assumes "nv_ok s"
  shows "nv_ok (mark_written i s)" "nv_contents (mark_written i s) = nv_contents s"
proof -
  obtain bank m where s: "nv_bank s = Some bank" "nv_map s = Some m" "nv_bank_size s = 6962"
    "length bank = 6962" "unat (nv_alloc_offset s) \<le> 6962" "finite (dom m)"
    "card (dom m) = unat (nv_count s)" "nv_count s \<le> 16"
    "nv_layout_ok bank (unat (nv_alloc_offset s)) m"
    using assms by (rule nv_okE)
  have lay: "nv_layout_ok bank (unat (nv_alloc_offset s)) (m(i \<mapsto> e\<lparr>e_written := True\<rparr>))"
    if e: "m i = Some e" for e
  proof -
    have "nv_disjoint e f" if "m j = Some f" "j \<noteq> i" for j f
      using nv_layout_disjoint [OF s(9) e that(1)] that(2) by simp
    with nv_layout_entry [OF s(9)] nv_layout_disjoint [OF s(9)] e show ?thesis
      unfolding nv_layout_ok_def by (auto split: if_splits)
  qed
  show "nv_ok (mark_written i s)"
    using s lay by (cases "m i")
      (auto simp: mark_written_def nv_lookup_def nv_insert_def nv_ok_def insert_absorb domI)
  show "nv_contents (mark_written i s) = nv_contents s"
    using s by (cases "m i")
      (auto simp: mark_written_def nv_contents_def nv_lookup_def nv_insert_def fun_eq_iff)
qed

lemma mark_written_id:
  "nv_lookup s i = Some e \<Longrightarrow> e_written e \<Longrightarrow> mark_written i s = s"
  by (cases "nv_map s") (auto simp: mark_written_def nv_insert_def nv_lookup_def fun_upd_idem)

lemma mark_nv_written:
  assumes "nv_lookup s i = Some e"
  shows "mark_written i (nv_written s i e off ct) = nv_written s i e off ct"
proof (rule mark_written_id)
  show "nv_lookup (nv_written s i e off ct) i = Some (e\<lparr>e_written := True,
      e_pub := (e_pub e)\<lparr>p_attributes := (p_attributes (e_pub e))\<lparr>a_written := True\<rparr>\<rparr>\<rparr>)"
    using nv_written_lookup [OF assms] by simp
qed simp

lemma mark_written_fields [simp]:
  "command_buffer (mark_written i s) = command_buffer s"
  "response_buffer (mark_written i s) = response_buffer s"
  "cmd_size (mark_written i s) = cmd_size s"
  "random_data (mark_written i s) = random_data s"
  "sps (mark_written i s) = sps s" "pps (mark_written i s) = pps s" "eps (mark_written i s) = eps s"
  "primary_sensitive (mark_written i s) = primary_sensitive s"
  by (simp_all add: mark_written_def nv_insert_def split: option.split)

lemma nv_write_link:
  assumes "nv_ok s" "TPM2_NV_Write L ct0 s h i d off = Some (rc, s')"
  shows "(link_arrays s \<longrightarrow> link_arrays s') \<and> (core_ok s \<longrightarrow> core_ok s')"
proof (cases rule: nv_write_cases [OF assms])
  case 1
  then show ?thesis by simp
next
  case (2 e ct)
  then have "nv_ok s'" by (auto intro!: nv_written_ok [OF assms(1)] simp: nv_write_accepts_def)
  with 2(5) show ?thesis by (auto simp: core_ok_def link_arrays_def nv_written_def)
qed


lemma ex_error_if:
  "(\<exists>rc. (if c then Some (r, s) else x) = Some (rc, s) \<and> rc \<noteq> (0 :: TPM_RC)) \<longleftrightarrow>
   (if c then r \<noteq> 0 else \<exists>rc. x = Some (rc, s) \<and> rc \<noteq> 0)"
  by auto

text \<open>Within the range the handler has checked, a refused write reports an error.\<close>

lemma nv_write_refused_in_range:
  assumes "nv_lookup s i = Some e" "\<not> nv_write_accepts e (nvb_size d) off"
    and "unat off + unat (nvb_size d) \<le> unat (e_dataLen e)"
  shows "\<exists>rc. TPM2_NV_Write L ct0 s h i d off = Some (rc, s) \<and> rc \<noteq> TPM_RC_SUCCESS"
  using assms(2,3)
  unfolding TPM2_NV_Write_def assms(1) option.case Let_def ex_error_if nv_write_accepts_def
    any_write_bit_def not_less [symmetric]
  by auto

lemma nv_write_outcome:
  assumes "core_ok s" "cipher_ok L" "nv_lookup s i = Some e" "length (nvb_buffer d) = 1024"
    and "length ct0 = 1024" "unat off + unat (nvb_size d) \<le> unat (e_dataLen e)"
  obtains (failed) rc where "TPM2_NV_Write L ct0 s h i d off = Some (rc, s)" "rc \<noteq> TPM_RC_SUCCESS"
      "\<not> (nv_write_accepts e (nvb_size d) off \<and> nv_key_usable s \<and> nvb_size d \<noteq> 0)"
    | (written) ct where
      "TPM2_NV_Write L ct0 s h i d off = Some (TPM_RC_SUCCESS, nv_written s i e (unat off) ct)"
      "nv_write_accepts e (nvb_size d) off" "nv_key_usable s" "nvb_size d \<noteq> 0"
      "length ct = unat (nvb_size d)" "aes_cfb128 L True (nv_key s) (replicate 16 0)
         (take (unat (nvb_size d)) (nvb_buffer d)) = Some ct"
proof -
  have nv: "nv_ok s" "length (snd (sn_ecc (primary_sensitive s))) = 64"
    using assms(1) by (simp_all add: core_ok_def)
  consider "\<not> nv_write_accepts e (nvb_size d) off"
    | "nv_write_accepts e (nvb_size d) off" "\<not> nv_key_usable s"
    | "nv_write_accepts e (nvb_size d) off" "nv_key_usable s" "nvb_size d = 0"
    | "nv_write_accepts e (nvb_size d) off" "nv_key_usable s" "nvb_size d \<noteq> 0" by blast
  then show thesis
  proof cases
    case 1
    with nv_write_refused_in_range [OF assms(3) 1 assms(6)] failed show thesis by blast
  next
    case 2
    with nv_write_failed [OF nv(1) assms(3) 2] show thesis by (intro failed) auto
  next
    case 3
    with nv_write_empty [OF nv(1) assms(3) 3(1) assms(2) 3(2) nv(2) 3(3)] show thesis
      by (intro failed) auto
  next
    case 4
    show thesis
      by (rule nv_write_run [OF nv(1) assms(3) 4(1) assms(2) 4(2) nv(2) assms(4,5) 4(3)])
        (rule written [OF _ 4])
  qed
qed

lemma handle_NV_Write_cases:
  assumes "core_ok s" "stack_ok stk"
  obtains (error) rc where "rc \<noteq> TPM_RC_SUCCESS"
      "handle_NV_Write L stk s = Some (build_error_response rc s)"
    | (run) p m e h where
      "Unmarshal_NV_Write (cmd_body s) (st_write stk) 0 = Some (TPM_RC_SUCCESS, p, m)"
      "nv_lookup s (nw_nvIndex p) = Some e" "length (nvb_buffer (nw_data p)) = 1024"
      "unat (nw_offset p) + unat (nvb_size (nw_data p)) \<le> unat (e_dataLen e)"
      "provision_handle (nw_authHandle p) = Some h"
      "handle_NV_Write L stk s =
        (case TPM2_NV_Write L (st_ciphertext stk) s h (nw_nvIndex p) (nw_data p) (nw_offset p) of
           None \<Rightarrow> None
         | Some (rc, s1) \<Rightarrow> if rc \<noteq> TPM_RC_SUCCESS then Some (build_error_response rc s1)
             else build_success_response 0 ((mark_written (nw_nvIndex p) s1)\<lparr>nv_dirty := True\<rparr>))"
proof -
  have wf: "wf_NV_Write_Params (st_write stk)" and nv: "nv_ok s"
    using assms by (simp_all add: stack_ok_def core_ok_def)
  obtain urc p m where u: "Unmarshal_NV_Write (cmd_body s) (st_write stk) 0 = Some (urc, p, m)"
    and buf: "length (nvb_buffer (nw_data p)) = 1024"
    using unmarshal_nv_write_safe [OF wf, of "cmd_body s"]
    by (auto simp: safe_result_def wf_NV_Write_Params_def split: option.splits)
  have dl: "e_dataLen e = p_dataSize (e_pub e)" if "nv_lookup s (nw_nvIndex p) = Some e" for e
    by (rule nv_ok_lookup [OF nv that]) (simp add: nv_entry_ok_def)
  note d = handle_NV_Write_def [of L stk s, unfolded u]
  show thesis
  proof (cases "urc = TPM_RC_SUCCESS")
    case False
    with d show thesis by (intro error [of urc]) simp_all
  next
    case ok: True
    show thesis
    proof (cases "nv_lookup s (nw_nvIndex p)")
      case None
      with ok d show thesis by (intro error [of TPM_RC_HANDLE]) simp_all
    next
      case e: (Some e)
      show thesis
      proof (cases "unat (nw_offset p) + unat (nvb_size (nw_data p)) \<le> unat (e_dataLen e)")
        case False
        with ok d e dl show thesis by (intro error [of TPM_RC_NV_RANGE]) simp_all
      next
        case True
        with ok d e dl u buf show thesis
          by (cases "provision_handle (nw_authHandle p)")
            (intro error [of TPM_RC_HANDLE], simp_all add: run)
      qed
    qed
  qed
qed

lemma handle_NV_Write_answers:
  assumes "link_arrays s" "core_ok s" "stack_ok stk" "cipher_ok L"
  shows "\<exists>s' rc t. handle_NV_Write L stk s = Some s' \<and> answered rc [] t s' \<and> core_ok t \<and>
    (rc \<noteq> TPM_RC_SUCCESS \<longrightarrow> t = s) \<and>
    (rc = TPM_RC_SUCCESS \<longrightarrow> (\<exists>p m e ct.
       Unmarshal_NV_Write (cmd_body s) (st_write stk) 0 = Some (TPM_RC_SUCCESS, p, m) \<and>
       nv_lookup s (nw_nvIndex p) = Some e \<and>
       nv_write_accepts e (nvb_size (nw_data p)) (nw_offset p) \<and> nv_key_usable s \<and>
       length ct = unat (nvb_size (nw_data p)) \<and> aes_cfb128 L True (nv_key s) (replicate 16 0)
         (take (unat (nvb_size (nw_data p))) (nvb_buffer (nw_data p))) = Some ct \<and>
       t = (nv_written s (nw_nvIndex p) e (unat (nw_offset p)) ct)\<lparr>nv_dirty := True\<rparr>))"
proof (cases rule: handle_NV_Write_cases [OF assms(2,3), of L])
  case (1 rc)
  with error_answered [OF assms(1), of rc] assms(2) show ?thesis by auto
next
  case (2 p m e h)
  let ?i = "nw_nvIndex p" and ?d = "nw_data p" and ?o = "nw_offset p"
  have c: "length (st_ciphertext stk) = 1024" using assms(3) by (simp add: stack_ok_def)
  show ?thesis
  proof (cases rule: nv_write_outcome [OF assms(2,4) 2(2,3) c 2(4), of h])
    case (1 rc)
    with 2(6) error_answered [OF assms(1), of rc] assms(2) show ?thesis by auto
  next
    case w: (2 ct)
    let ?t = "(nv_written s ?i e (unat ?o) ct)\<lparr>nv_dirty := True\<rparr>"
    have h: "handle_NV_Write L stk s = build_success_response 0 ?t"
      using 2(6) w(1) mark_nv_written [OF 2(2)] by simp
    have "nv_ok (nv_written s ?i e (unat ?o) ct)"
      using assms(2) w(2,5) by (intro nv_written_ok [OF _ 2(2)])
        (simp_all add: core_ok_def nv_write_accepts_def)
    then have t: "link_arrays ?t" "core_ok ?t"
      using assms(1,2) by (simp_all add: link_arrays_def core_ok_def nv_written_def nv_ok_def)
    obtain s' where "build_success_response 0 ?t = Some s'" "answered TPM_RC_SUCCESS [] ?t s'"
      using success_answered [OF t(1), of 0] by (auto simp: slice_def)
    with h t(2) 2(1,2) w show ?thesis
      by (intro exI [of _ s'] exI [of _ TPM_RC_SUCCESS] exI [of _ ?t]) auto
  qed
qed

section \<open>NV_Read\<close>

text \<open>A read that passes the checks of the handler.\<close>

definition nv_read_allowed :: "TPM2State \<Rightarrow> NV_Read_Params \<Rightarrow> NVEntry \<Rightarrow> bool" where
  "nv_read_allowed s p e \<longleftrightarrow>
     nv_lookup s (nr_nvIndex p) = Some e \<and> e_written e \<and> \<not> e_readLocked e \<and>
     unat (nr_offset p) + unat (nr_sizeToRead p) \<le> unat (e_dataLen e)"

lemma handle_NV_Read_cases:
  assumes "core_ok s"
  obtains (error) rc where "rc \<noteq> TPM_RC_SUCCESS"
      "handle_NV_Read L stk s = Some (build_error_response rc s)"
    | (run) p m e where
      "Unmarshal_NV_Read (cmd_body s) (st_read stk) 0 = Some (TPM_RC_SUCCESS, p, m)"
      "nv_read_allowed s p e"
      "handle_NV_Read L stk s =
        (case nv_read_decrypt_from_bank L s e (replicate 1024 0) (nr_sizeToRead p) (nr_offset p) of
           None \<Rightarrow> None
         | Some (rc, buf) \<Rightarrow> if rc \<noteq> TPM_RC_SUCCESS then Some (build_error_response rc s)
             else respond Marshal_NV_Read_Response
               \<lparr>nrr_data = \<lparr>nvb_size = nr_sizeToRead p, nvb_buffer = buf\<rparr>\<rparr> s)"
proof -
  have nv: "nv_ok s" using assms by (simp add: core_ok_def)
  obtain urc p m where u: "Unmarshal_NV_Read (cmd_body s) (st_read stk) 0 = Some (urc, p, m)"
    using unmarshal_nv_read_safe [of "cmd_body s" "st_read stk"]
    by (auto simp: safe_result_def split: option.splits)
  note d = handle_NV_Read_def [of L stk s, unfolded u]
  show thesis
  proof (cases "urc = TPM_RC_SUCCESS")
    case False
    with d show thesis by (intro error [of urc]) simp_all
  next
    case ok: True
    show thesis
    proof (cases "nv_lookup s (nr_nvIndex p)")
      case None
      with ok d show thesis by (intro error [of TPM_RC_HANDLE]) simp_all
    next
      case e: (Some e)
      have dl: "e_dataLen e = p_dataSize (e_pub e)"
        by (rule nv_ok_lookup [OF nv e]) (simp add: nv_entry_ok_def)
      consider "\<not> e_written e" | "e_written e" "\<not> nv_read_allowed s p e" "e_readLocked e"
          "unat (nr_offset p) + unat (nr_sizeToRead p) \<le> unat (e_dataLen e)"
        | "e_written e" "unat (nr_offset p) + unat (nr_sizeToRead p) > unat (e_dataLen e)"
        | "nv_read_allowed s p e"
        using e by (fastforce simp: nv_read_allowed_def)
      then show thesis
      proof cases
        case 1
        with ok d e dl show thesis by (intro error [of TPM_RC_NV_UNINITIALIZED]) simp_all
      next
        case 2
        with ok d e dl show thesis by (intro error [of TPM_RC_NV_LOCKED]) simp_all
      next
        case 3
        with ok d e dl show thesis by (intro error [of TPM_RC_NV_RANGE]) simp_all
      next
        case 4
        with ok d e dl u show thesis by (intro run [of p m e]) (simp_all add: nv_read_allowed_def)
      qed
    qed
  qed
qed

text \<open>The end of the handler: as many bytes as fit behind the header are sent.\<close>

lemma respond_nv_read:
  assumes "link_arrays s" "length buf = 1024" "unat n \<le> 1024"
  shows "\<exists>s'. respond Marshal_NV_Read_Response \<lparr>nrr_data = \<lparr>nvb_size = n, nvb_buffer = buf\<rparr>\<rparr> s = Some s' \<and>
    (if unat n \<le> 1012 then answered TPM_RC_SUCCESS (be16_bytes n @ take (unat n) buf) s s'
     else answered TPM_RC_INSUFFICIENT [] s s')"
proof -
  let ?r = "\<lparr>nrr_data = \<lparr>nvb_size = n, nvb_buffer = buf\<rparr>\<rparr>"
  let ?e = "tpm2b_src_bytes (nv_buffer_src (nrr_data ?r))"
  have w: "nv_buffer_src_wf (nrr_data ?r)"
    using assms(2,3) by (simp add: nv_buffer_src_wf_def word_le_nat_alt)
  have l: "length (drop 10 (response_buffer s)) = 1014" using assms(1) by (simp add: link_arrays_def)
  have e: "?e = be16_bytes n @ take (unat n) buf"
    by (simp add: tpm2b_src_bytes_def tpm2b_data_def nv_buffer_src_def)
  have le: "length ?e = 2 + unat n" using assms(2,3) e by simp
  show ?thesis
  proof (cases "unat n \<le> 1012")
    case True
    have "\<exists>s'. respond Marshal_NV_Read_Response ?r s = Some s' \<and> answered TPM_RC_SUCCESS ?e s s'"
      using marshal_nv_read_room [OF w, of "drop 10 (response_buffer s)" 0] True l le
      by (intro respond_answered [OF assms(1)]) simp_all
    with True e show ?thesis by simp
  next
    case False
    have "\<exists>b. Marshal_NV_Read_Response (drop 10 (response_buffer s)) ?r 0 =
        Some (TPM_RC_INSUFFICIENT, b, 0) \<and> length b = length (drop 10 (response_buffer s))"
      by (rule marshal_nv_read_no_room [OF w]) (use False l in simp)
    with False l respond_error_answered [OF assms(1), of TPM_RC_INSUFFICIENT] show ?thesis by auto
  qed
qed

lemma nv_read_unusable:
  assumes "nv_ok s" "nv_lookup s i = Some e" "\<not> nv_key_usable s"
    and "unat off + unat len \<le> unat (e_dataLen e)"
  shows "nv_read_decrypt_from_bank L s e out len off = Some (TPM_RC_FAILURE, out)"
  using assms(4) AES_unusable [OF assms(3)]
  by (auto intro: nv_ok_lookup [OF assms(1,2)] simp: nv_read_decrypt_from_bank_def)

lemma handle_NV_Read_outcome:
  assumes "link_arrays s" "core_ok s" "cipher_ok L"
  obtains (error) rc s' where "handle_NV_Read L stk s = Some s'" "answered rc [] s s'"
      "rc \<noteq> TPM_RC_SUCCESS"
    | (data) p m e plain s' where
      "Unmarshal_NV_Read (cmd_body s) (st_read stk) 0 = Some (TPM_RC_SUCCESS, p, m)"
      "nv_read_allowed s p e" "nv_key_usable s" "nr_sizeToRead p \<noteq> 0"
      "length plain = unat (nr_sizeToRead p)" "aes_cfb128 L False (nv_key s) (replicate 16 0)
         (slice (the (nv_contents s (nr_nvIndex p))) (unat (nr_offset p)) (unat (nr_sizeToRead p))) =
         Some plain"
      "handle_NV_Read L stk s = Some s'"
      "answered TPM_RC_SUCCESS (be16_bytes (nr_sizeToRead p) @ plain) s s'"
    | (fault) p m e where
      "Unmarshal_NV_Read (cmd_body s) (st_read stk) 0 = Some (TPM_RC_SUCCESS, p, m)"
      "nv_read_allowed s p e" "nv_key_usable s" "1024 < unat (nr_sizeToRead p)"
      "handle_NV_Read L stk s = None"
proof (cases rule: handle_NV_Read_cases [OF assms(2), of L stk])
  case (1 rc)
  with error_answered [OF assms(1)] show thesis by (intro error) simp_all
next
  case (2 p m e)
  let ?n = "nr_sizeToRead p" and ?o = "nr_offset p" and ?out = "replicate 1024 (0 :: u8)"
  have nv: "nv_ok s" "length (snd (sn_ecc (primary_sensitive s))) = 64"
    using assms(2) by (simp_all add: core_ok_def)
  have e: "nv_lookup s (nr_nvIndex p) = Some e" "unat ?o + unat ?n \<le> unat (e_dataLen e)"
    using 2(2) by (simp_all add: nv_read_allowed_def)
  consider "\<not> nv_key_usable s" | "nv_key_usable s" "1024 < unat ?n" | "nv_key_usable s" "unat ?n \<le> 1024"
    by linarith
  then show thesis
  proof cases
    case 1
    with 2(3) nv_read_unusable [OF nv(1) e(1) 1 e(2)] error_answered [OF assms(1)] show thesis
      by (intro error [where rc = TPM_RC_FAILURE]) simp_all
  next
    case k: 2
    with 2 nv_read_overflow [OF nv(1) e(1) assms(3) k(1) nv(2) e(2), of ?out] show thesis
      by (intro fault) simp_all
  next
    case k: 3
    have lo: "unat ?n \<le> length ?out" using k by simp
    obtain plain where pl: "length plain = unat ?n" "aes_cfb128 L False (nv_key s) (replicate 16 0)
        (slice (the (nv_contents s (nr_nvIndex p))) (unat ?o) (unat ?n)) = Some plain"
      and r: "nv_read_decrypt_from_bank L s e ?out ?n ?o =
        Some (if ?n = 0 then TPM_RC_FAILURE else TPM_RC_SUCCESS, overwrite ?out 0 plain)"
      by (rule nv_read_run [OF nv(1) e(1) assms(3) k(1) nv(2) e(2) lo])
    have b: "length (overwrite ?out 0 plain) = 1024" "take (unat ?n) (overwrite ?out 0 plain) = plain"
      using pl(1) k by (simp_all add: overwrite_def)
    show thesis
    proof (cases "?n = 0")
      case True
      with 2(3) r error_answered [OF assms(1)] show thesis
        by (intro error [where rc = TPM_RC_FAILURE]) simp_all
    next
      case False
      with 2 r k pl b respond_nv_read [OF assms(1) b(1) k(2)] show thesis
        by (auto split: if_splits intro: error data)
    qed
  qed
qed

section \<open>CreatePrimary\<close>

lemma CreatePrimary_core:
  assumes "tpm2_CreatePrimary L priv0 hash0 s h auth tmpl o0 n0 = Some (rc, s', pub, name)"
  shows "s' = s\<lparr>primary_sensitive := primary_sensitive s', primary_public := primary_public s',
      primary_name_size := primary_name_size s'\<rparr>"
    "length (snd (sn_ecc (primary_sensitive s'))) = 64 \<or> s' = s"
    "rc = TPM_RC_SUCCESS \<Longrightarrow> fst name = 34"
  using assms
  by (auto simp: tpm2_CreatePrimary_def fresh_sensitive_def Let_def split: option.splits if_splits prod.splits)

lemma cp_out_public_length: "cp_out_public pub = Some b \<Longrightarrow> length b \<le> 512"
  by (auto simp: cp_out_public_def Let_def split: if_splits)

lemma cp_response_marshals:
  assumes "length pub \<le> 512" "unat nsz \<le> 64" "length nm = 64"
  shows "wf_CreatePrimary_Response (cp_response oh ph pub nsz nm)"
    "length (create_primary_response_wire (cp_response oh ph pub nsz nm)) = 20 + length pub + unat nsz"
  using assms by (simp_all add: wf_CreatePrimary_Response_def create_primary_response_wire_def
      cp_response_def tpm2b_src_wf_def)

lemma respond_create_primary:
  assumes "link_arrays s" "length pub \<le> 512" "unat nsz \<le> 64" "length nm = 64"
  shows "\<exists>s'. respond Marshal_CreatePrimary_Response (cp_response oh ph pub nsz nm) s = Some s' \<and>
    answered TPM_RC_SUCCESS (create_primary_response_wire (cp_response oh ph pub nsz nm)) s s'"
  using cp_response_marshals [OF assms(2-4), of oh ph] assms
  by (intro respond_answered marshal_create_primary_room) (simp_all add: link_arrays_def)

lemma handle_CreatePrimary_replies:
  assumes "link_arrays s" "core_ok s" "handle_CreatePrimary L stk s = Some s'"
  shows "\<exists>rc body t. answered rc body t s' \<and> core_ok t \<and>
    t = s\<lparr>next_transient_handle := next_transient_handle t,
          primary_sensitive := primary_sensitive t, primary_public := primary_public t,
          primary_name_size := primary_name_size t\<rparr>"
proof -
  from assms(3) obtain urc p m where
    u: "Unmarshal_CreatePrimary (cmd_body s) (st_create stk) 0 = Some (urc, p, m)"
    by (auto simp: handle_CreatePrimary_def split: option.splits)
  show ?thesis
  proof (cases "urc = TPM_RC_SUCCESS")
    case False
    with u assms error_answered [OF assms(1), of urc] show ?thesis
      by (intro exI [of _ urc] exI [of _ "[]"] exI [of _ s]) (auto simp: handle_CreatePrimary_def)
  next
    case True
    define s1 where "s1 = s\<lparr>next_transient_handle := next_transient_handle s + 1\<rparr>"
    from True u assms(3) obtain auth tmpl rc s2 pub name where
      r: "tpm2_CreatePrimary L (st_priv stk) (st_hash stk) s1 (cp_primaryHandle p) auth tmpl
            zero_public (0, st_name stk) = Some (rc, s2, pub, name)"
      and end_: "if rc \<noteq> TPM_RC_SUCCESS then s' = build_error_response rc s2
        else \<exists>b nm. cp_out_public pub = Some b \<and>
          memcpy (replicate 64 0) 0 (snd name) (unat (fst name)) = Some nm \<and>
          respond Marshal_CreatePrimary_Response (cp_response (0x80000000 OR next_transient_handle s)
            (cp_primaryHandle p) b (fst name) nm) s2 = Some s'"
      by (auto simp: handle_CreatePrimary_def Let_def s1_def split: option.splits prod.splits if_splits)
    note c = CreatePrimary_core [OF r]
    have n: "next_transient_handle s2 = next_transient_handle s + 1"
      using arg_cong [OF c(1), of next_transient_handle] by (simp add: s1_def)
    have frame: "s2 = s\<lparr>next_transient_handle := next_transient_handle s2,
        primary_sensitive := primary_sensitive s2, primary_public := primary_public s2,
        primary_name_size := primary_name_size s2\<rparr>"
      using c(1) n by (cases s) (simp add: s1_def)
    have l: "link_arrays s2" "core_ok s2"
      using assms(1,2) c(2) by (subst frame, auto simp: link_arrays_def core_ok_def nv_ok_def s1_def)+
    show ?thesis
    proof (cases "rc = TPM_RC_SUCCESS")
      case False
      with end_ error_answered [OF l(1), of rc] l(2) frame show ?thesis by auto
    next
      case True
      with end_ c(3) obtain b nm where b: "cp_out_public pub = Some b"
        "memcpy (replicate 64 0) 0 (snd name) 34 = Some nm"
        "respond Marshal_CreatePrimary_Response (cp_response (0x80000000 OR next_transient_handle s)
            (cp_primaryHandle p) b 34 nm) s2 = Some s'"
        by auto
      have "length nm = 64" using length_memcpy [OF b(2)] by simp
      with respond_create_primary [OF l(1) cp_out_public_length [OF b(1)], of 34 nm
          "0x80000000 OR next_transient_handle s" "cp_primaryHandle p"] b(3)
      have "\<exists>body. answered TPM_RC_SUCCESS body s2 s'" by auto
      with l(2) frame show ?thesis by blast
    qed
  qed
qed

section \<open>The dispatcher\<close>

text \<open>The documented behaviour of the cryptographic library, all together.\<close>

definition lib_ok :: "ossl \<Rightarrow> bool" where
  "lib_ok L \<longleftrightarrow> hmac_ok L \<and> digest_ok L \<and> cipher_ok L"

text \<open>The device offers a response of the right form and is in order otherwise.\<close>

definition replies :: "TPM2State \<Rightarrow> bool" where
  "replies s \<longleftrightarrow> dev_ok s \<and> (\<exists>r rc body. dev_view s = Sending r \<and> response_is r rc body)"

lemma repliesI: "answered rc body t s \<Longrightarrow> core_ok t \<Longrightarrow> replies s"
  using core_ok_cong [of s t] by (auto simp: answered_def replies_def dev_ok_def)

lemma error_replies: "link_arrays s \<Longrightarrow> core_ok s \<Longrightarrow> replies (build_error_response rc s)"
  by (rule repliesI [OF error_answered])

lemma get_random_replies:
  assumes "link_arrays s" "core_ok s" "rnd_ok rnd"
  shows "\<exists>s'. handle_GetRandom stk rnd s = Some s' \<and> replies s'"
proof -
  have "core_ok (tpm2_generate_random rnd s)"
    using assms(2,3) by (auto simp: core_ok_def tpm2_generate_random_def rnd_ok_def nv_ok_def
        split: option.split)
  with handle_GetRandom_answers [OF assms(1) _ assms(3), of stk] assms(2) repliesI show ?thesis
    by (fastforce simp: core_ok_def split: prod.splits if_splits)
qed

text \<open>
  The memory accesses of a command that can leave an array.  A CreatePrimary command does so while it
  copies the sensitive area, while it reads the template, or, when both are inside their arrays and
  the key is created, with the name.
\<close>

definition create_primary_overruns :: "stack0 \<Rightarrow> TPM2State \<Rightarrow> bool" where
  "create_primary_overruns stk s \<longleftrightarrow>
     (\<exists>p m. Unmarshal_CreatePrimary (cmd_body s) (st_create stk) 0 = Some (TPM_RC_SUCCESS, p, m) \<and>
        (cp_sensitive p = None \<or>
         (case cp_template (command_buffer s) (10 + m - unat (cp_inPublicSize p)) of
            None \<Rightarrow> True
          | Some tmpl \<Rightarrow> hierarchy_seed s (cp_primaryHandle p) \<noteq> None \<and> t_type tmpl = TPM_ALG_ECC \<and>
              \<not> name_room stk)))"

definition nv_read_overruns :: "stack0 \<Rightarrow> TPM2State \<Rightarrow> bool" where
  "nv_read_overruns stk s \<longleftrightarrow>
     nv_key_usable s \<and>
     (\<exists>p m e. Unmarshal_NV_Read (cmd_body s) (st_read stk) 0 = Some (TPM_RC_SUCCESS, p, m) \<and>
        nv_read_allowed s p e \<and> 1024 < unat (nr_sizeToRead p))"

lemma nv_read_fault_iff:
  assumes "link_arrays s" "core_ok s" "cipher_ok L"
  shows "handle_NV_Read L stk s = None \<longleftrightarrow> nv_read_overruns stk s"
proof
  show "handle_NV_Read L stk s = None \<Longrightarrow> nv_read_overruns stk s"
    by (cases rule: handle_NV_Read_outcome [OF assms, of stk]) (auto simp: nv_read_overruns_def)
  assume "nv_read_overruns stk s"
  then obtain p m e where k: "nv_key_usable s"
    and u: "Unmarshal_NV_Read (cmd_body s) (st_read stk) 0 = Some (TPM_RC_SUCCESS, p, m)"
    and e: "nv_read_allowed s p e" "1024 < unat (nr_sizeToRead p)"
    by (auto simp: nv_read_overruns_def)
  have nv: "nv_ok s" "length (snd (sn_ecc (primary_sensitive s))) = 64"
    using assms(2) by (simp_all add: core_ok_def)
  have a: "nv_lookup s (nr_nvIndex p) = Some e" "e_written e" "\<not> e_readLocked e"
      "unat (nr_offset p) + unat (nr_sizeToRead p) \<le> unat (e_dataLen e)"
    using e(1) by (simp_all add: nv_read_allowed_def)
  have "e_dataLen e = p_dataSize (e_pub e)"
    by (rule nv_ok_lookup [OF nv(1) a(1)]) (simp add: nv_entry_ok_def)
  moreover have "nv_read_decrypt_from_bank L s e (replicate 1024 0) (nr_sizeToRead p) (nr_offset p) = None"
    using nv_read_overflow [OF nv(1) a(1) assms(3) k nv(2) a(4)] e(2) by simp
  ultimately show "handle_NV_Read L stk s = None"
    using u a by (simp add: handle_NV_Read_def)
qed

text \<open>The key creation itself gets stuck exactly at the name.\<close>

lemma CreatePrimary_returns:
  assumes "hmac_ok L" "digest_ok L" "length priv0 = 32" "length hash0 = 32" "core_ok s"
    and "length (snd (t_x tmpl)) = 64" "length (snd (t_y tmpl)) = 64"
  shows "case tpm2_CreatePrimary L priv0 hash0 s h auth tmpl o0 (0, nm0) of
      None \<Rightarrow> hierarchy_seed s h \<noteq> None \<and> t_type tmpl = TPM_ALG_ECC \<and> length nm0 < 34
    | Some (rc, s', pub, nm) \<Rightarrow>
        (hierarchy_seed s h \<noteq> None \<and> t_type tmpl = TPM_ALG_ECC \<longrightarrow> 34 \<le> length nm0) \<and>
        (rc = TPM_RC_SUCCESS \<longrightarrow> fst nm = 34 \<and> 34 \<le> length (snd nm) \<and> cp_out_public pub \<noteq> None)"
proof (cases "hierarchy_seed s h")
  case None
  then show ?thesis by (simp add: CreatePrimary_hierarchy)
next
  case (Some seed)
  then have l: "length seed = 32"
    using assms(5) by (auto simp: hierarchy_seed_def core_ok_def split: if_splits)
  have d: "length (fst (p256_pub L x)) = 32" "length (snd (p256_pub L x)) = 32"
      "length (the (sha256 L y)) = 32" for x y
    using assms(2) unfolding digest_ok_def by (auto, metis option.sel)
  show ?thesis
  proof (cases "t_type tmpl = TPM_ALG_ECC")
    case True
    with CreatePrimary_success [OF assms(1-4) Some l True, of auth o0 "(0, nm0)"] assms(6,7) d Some
    show ?thesis by (simp add: Let_def cp_out_public_def)
  next
    case False
    with CreatePrimary_asymmetric [OF Some False] show ?thesis by simp
  qed
qed

lemma option_case_True: "(case x of None \<Rightarrow> True | Some y \<Rightarrow> P y) \<longleftrightarrow> x = None \<or> (\<exists>y. x = Some y \<and> P y)"
  by (cases x) simp_all

lemma cp_template_arrays:
  "cp_template mem i = Some tmpl \<Longrightarrow> length (snd (t_x tmpl)) = 64 \<and> length (snd (t_y tmpl)) = 64"
  by (auto simp: cp_template_def zero_public_def Let_def split: option.splits if_splits)

text \<open>With the sensitive area and the template inside their arrays, only the name is left.\<close>

lemma create_primary_name_iff:
  assumes "link_arrays s" "core_ok s" "stack_ok stk" "lib_ok L"
    and ok: "Unmarshal_CreatePrimary (cmd_body s) (st_create stk) 0 = Some (TPM_RC_SUCCESS, p, m)"
      "cp_sensitive p = Some auth" "cp_template (command_buffer s) (10 + m - unat (cp_inPublicSize p)) = Some tmpl"
  shows "handle_CreatePrimary L stk s = None \<longleftrightarrow>
    hierarchy_seed s (cp_primaryHandle p) \<noteq> None \<and> t_type tmpl = TPM_ALG_ECC \<and> \<not> name_room stk"
proof -
  have stk: "length (st_priv stk) = 32" "length (st_hash stk) = 32" and L: "hmac_ok L" "digest_ok L"
    using assms(3,4) by (simp_all add: stack_ok_def lib_ok_def)
  let ?s = "s\<lparr>next_transient_handle := next_transient_handle s + 1\<rparr>"
  let ?c = "tpm2_CreatePrimary L (st_priv stk) (st_hash stk) ?s (cp_primaryHandle p) auth tmpl zero_public (0, st_name stk)"
  have c: "core_ok ?s" "link_arrays ?s" and seed: "hierarchy_seed ?s h = hierarchy_seed s h" for h
    using assms(1,2) by (simp_all add: core_ok_def nv_ok_def link_arrays_def hierarchy_seed_def)
  note r = CreatePrimary_returns [OF L stk c(1), where tmpl = tmpl and h = "cp_primaryHandle p" and auth = auth
      and ?o0.0 = zero_public and ?nm0.0 = "st_name stk", unfolded seed]
  show ?thesis
  proof (cases ?c)
    case None
    with r cp_template_arrays [OF ok(3)] ok show ?thesis by (simp add: handle_CreatePrimary_def name_room_def)
  next
    case (Some x)
    obtain rc s2 pub nm where x: "x = (rc, s2, pub, nm)" by (cases x)
    note run = Some [unfolded x]
    have room: "hierarchy_seed s (cp_primaryHandle p) \<noteq> None \<and> t_type tmpl = TPM_ALG_ECC \<longrightarrow> name_room stk"
      and b: "rc = TPM_RC_SUCCESS \<longrightarrow> fst nm = 34 \<and> 34 \<le> length (snd nm) \<and> cp_out_public pub \<noteq> None"
      using r cp_template_arrays [OF ok(3)] run by (simp_all add: name_room_def not_less)
    have l: "link_arrays s2" using c(2) by (subst CreatePrimary_core(1) [OF run]) (simp add: link_arrays_def)
    have "handle_CreatePrimary L stk s \<noteq> None"
    proof (cases "rc = TPM_RC_SUCCESS")
      case True
      with b obtain bs where bs: "cp_out_public pub = Some bs" by blast
      let ?nm = "overwrite (replicate 64 0) 0 (take 34 (snd nm))"
      have "length ?nm = 64" using b True by simp
      with respond_create_primary [OF l cp_out_public_length [OF bs], of 34 ?nm] ok run b bs True
      show ?thesis by (fastforce simp: handle_CreatePrimary_def memcpy_def)
    qed (use ok run in \<open>simp add: handle_CreatePrimary_def\<close>)
    with room show ?thesis by blast
  qed
qed

lemma create_primary_fault_iff:
  assumes "link_arrays s" "core_ok s" "stack_ok stk" "lib_ok L"
  shows "handle_CreatePrimary L stk s = None \<longleftrightarrow> create_primary_overruns stk s"
proof -
  have "wf_CreatePrimary_Params (st_create stk)" using assms(3) by (simp add: stack_ok_def)
  then obtain urc p m where u: "Unmarshal_CreatePrimary (cmd_body s) (st_create stk) 0 = Some (urc, p, m)"
    using unmarshal_create_primary_safe [of "st_create stk" "cmd_body s"]
    by (auto simp: safe_result_def split: option.splits)
  show ?thesis
  proof (cases "urc = TPM_RC_SUCCESS")
    case False
    with u show ?thesis by (simp add: create_primary_overruns_def handle_CreatePrimary_def)
  next
    case True
    note u = u [unfolded True]
    show ?thesis
      by (cases "cp_sensitive p"; cases "cp_template (command_buffer s) (10 + m - unat (cp_inPublicSize p))")
        (use u create_primary_name_iff [OF assms u] in
          \<open>simp_all add: create_primary_overruns_def handle_CreatePrimary_def\<close>)
  qed
qed

end
