(* ===== verification/TPM_System.thy ===== *)
theory TPM_System
  imports TPM_Commands
begin

text \<open>
  The device as a whole: execution of a command, the states it can reach through its registers after
  realization, and the properties of \<^verbatim>\<open>hw/tpm/tpm_hw.c\<close> that span its handlers.
\<close>

section \<open>Execution\<close>

lemma process_command_replies:
  assumes "link_arrays s" "core_ok s" "stack_ok stk" "rnd_ok rnd" "lib_ok L"
    and "tpm2_process_command L stk rnd s = Some s'"
  shows "replies s'"
proof -
  have L: "cipher_ok L" using assms(5) by (simp add: lib_ok_def)
  note e = error_replies [OF assms(1,2)]
  have "handle_CreatePrimary L stk s = Some s' \<Longrightarrow> replies s'"
    using handle_CreatePrimary_replies [OF assms(1,2)] repliesI by blast
  moreover have "handle_NV_Read L stk s = Some s' \<Longrightarrow> replies s'"
    by (cases rule: handle_NV_Read_outcome [OF assms(1,2) L, of stk]) (use repliesI assms(2) in auto)
  moreover obtain s1 where "handle_GetRandom stk rnd s = Some s1" "replies s1"
    using get_random_replies [OF assms(1,2,4)] by blast
  moreover obtain s2 where "handle_NV_DefineSpace stk s = Some s2" "replies s2"
    using handle_NV_DefineSpace_answers [OF assms(1-3)] repliesI by blast
  moreover obtain s3 where "handle_NV_Write L stk s = Some s3" "replies s3"
    using handle_NV_Write_answers [OF assms(1-3) L] repliesI by blast
  ultimately show ?thesis
    using assms(6) unfolding tpm2_process_command_def by (auto simp: e Let_def split: prod.splits if_splits)
qed

text \<open>No command changes the operational mode.\<close>

lemma answered_mode: "answered rc body t s \<Longrightarrow> tpm_mode s = tpm_mode t"
proof -
  assume "answered rc body t s"
  then have "tpm_mode (dev_core s) = tpm_mode (dev_core t)" by (simp add: answered_def)
  then show ?thesis by (simp add: dev_core_def)
qed

lemma process_command_mode:
  assumes "link_arrays s" "core_ok s" "stack_ok stk" "rnd_ok rnd" "lib_ok L"
    and "tpm2_process_command L stk rnd s = Some s'"
  shows "tpm_mode s' = tpm_mode s"
proof -
  have L: "cipher_ok L" using assms(5) by (simp add: lib_ok_def)
  have e: "tpm_mode (build_error_response rc s) = tpm_mode s" for rc
    by (rule answered_mode [OF error_answered [OF assms(1)]])
  have cp: "tpm_mode s' = tpm_mode s" if "handle_CreatePrimary L stk s = Some s'"
  proof -
    from handle_CreatePrimary_replies [OF assms(1,2) that] obtain rc body t where
      a: "answered rc body t s'" and t: "t = s\<lparr>next_transient_handle := next_transient_handle t,
        primary_sensitive := primary_sensitive t, primary_public := primary_public t,
        primary_name_size := primary_name_size t\<rparr>" by blast
    from arg_cong [OF t, of tpm_mode] answered_mode [OF a] show ?thesis by simp
  qed
  have nr: "tpm_mode s' = tpm_mode s" if "handle_NV_Read L stk s = Some s'"
    by (cases rule: handle_NV_Read_outcome [OF assms(1,2) L, of stk]) (use that answered_mode in auto)
  have gr: "tpm_mode s' = tpm_mode s" if "handle_GetRandom stk rnd s = Some s'"
    using handle_GetRandom_answers [OF assms(1) _ assms(4), of stk] assms(2) that answered_mode
    by (fastforce simp: core_ok_def tpm2_generate_random_def split: prod.splits if_splits option.splits)
  have ds: "tpm_mode s' = tpm_mode s" if "handle_NV_DefineSpace stk s = Some s'"
    using handle_NV_DefineSpace_answers [OF assms(1-3)] that answered_mode
    by (fastforce simp: nv_defined_def Let_def)
  have nw: "tpm_mode s' = tpm_mode s" if "handle_NV_Write L stk s = Some s'"
    using handle_NV_Write_answers [OF assms(1-3) L] that answered_mode by (fastforce simp: nv_written_def)
  show ?thesis
    using assms(6) cp nr gr ds nw unfolding tpm2_process_command_def
    by (auto simp: e Let_def split: prod.splits if_splits)
qed

text \<open>
  The command in the buffer is one of the two that can leave an array, and does so: its header is
  valid, of a size that has been received, names the command, and the device is in the mode that
  executes it.
\<close>

definition command_overruns :: "stack0 \<Rightarrow> TPM2State \<Rightarrow> bool" where
  "command_overruns stk s \<longleftrightarrow>
     (\<exists>tag code. take 10 (command_buffer s) = header_bytes tag (cmd_size s) code \<and>
        (tag = TPM_ST_NO_SESSIONS \<or> tag = TPM_ST_SESSIONS) \<and> 10 \<le> unat (cmd_size s) \<and>
        tpm_mode s = TPM_MODE_NORMAL \<and>
        (code = TPM_CC_CreatePrimary \<and> create_primary_overruns stk s \<or>
         code = TPM_CC_NV_Read \<and> nv_read_overruns stk s))"

lemma validate_mode_normal:
  "cmd_code h = TPM_CC_CreatePrimary \<or> cmd_code h = TPM_CC_NV_Read \<Longrightarrow>
   TPM2_ValidateMode h m = TPM_RC_SUCCESS \<longleftrightarrow> m = TPM_MODE_NORMAL"
  by (auto simp: TPM2_ValidateMode_def split: tpm_operational_mode.splits)

lemma process_command_stuck_iff:
  assumes "link_arrays s" "core_ok s" "stack_ok stk" "rnd_ok rnd" "lib_ok L"
  shows "tpm2_process_command L stk rnd s = None \<longleftrightarrow> command_overruns stk s"
proof -
  have L: "cipher_ok L" using assms(5) by (simp add: lib_ok_def)
  let ?b = "take (unat (cmd_size s)) (command_buffer s)"
  have len: "length ?b = unat (cmd_size s)" using assms(1) by (simp add: link_arrays_def)
  obtain rc h where v: "TPM2_ValidateCommandHeader (Some ?b) \<lparr>cmd_tag = 0, cmd_hsize = 0, cmd_code = 0\<rparr> = (rc, h)"
    by fastforce
  obtain s1 s2 s3 where "handle_GetRandom stk rnd s = Some s1" "handle_NV_DefineSpace stk s = Some s2"
      "handle_NV_Write L stk s = Some s3"
    using get_random_replies [OF assms(1,2,4)] handle_NV_DefineSpace_answers [OF assms(1-3)]
      handle_NV_Write_answers [OF assms(1-3) L] by blast
  with v have "tpm2_process_command L stk rnd s = None \<longleftrightarrow>
      rc = TPM_RC_SUCCESS \<and> TPM2_ValidateMode h (tpm_mode s) = TPM_RC_SUCCESS \<and>
      (cmd_code h = TPM_CC_CreatePrimary \<and> create_primary_overruns stk s \<or>
       cmd_code h = TPM_CC_NV_Read \<and> nv_read_overruns stk s)"
    using create_primary_fault_iff [OF assms(1-3,5)] nv_read_fault_iff [OF assms(1,2) L]
    by (auto simp: tpm2_process_command_def Let_def)
  also have "\<dots> \<longleftrightarrow> command_overruns stk s"
  proof (intro iffI; (elim conjE)?)
    assume rc: "rc = TPM_RC_SUCCESS" and m: "TPM2_ValidateMode h (tpm_mode s) = TPM_RC_SUCCESS"
      and o: "cmd_code h = TPM_CC_CreatePrimary \<and> create_primary_overruns stk s \<or>
        cmd_code h = TPM_CC_NV_Read \<and> nv_read_overruns stk s"
    from v [unfolded rc ValidateCommandHeader_success_iff len] have hd:
      "10 \<le> unat (cmd_size s)" "unat (cmd_hsize h) = unat (cmd_size s)"
      "cmd_tag h = TPM_ST_NO_SESSIONS \<or> cmd_tag h = TPM_ST_SESSIONS"
      "take 10 ?b = header_bytes (cmd_tag h) (cmd_hsize h) (cmd_code h)"
      by blast+
    from hd(2) have "cmd_hsize h = cmd_size s" by (simp add: word_unat_eq_iff)
    with hd(1,4) have "take 10 (command_buffer s) = header_bytes (cmd_tag h) (cmd_size s) (cmd_code h)"
      by (simp add: min.absorb1)
    moreover have "tpm_mode s = TPM_MODE_NORMAL" using validate_mode_normal [of h "tpm_mode s"] m o by blast
    ultimately show "command_overruns stk s" using hd(1,3) o unfolding command_overruns_def by blast
  next
    assume "command_overruns stk s"
    then obtain tag code where hd: "take 10 (command_buffer s) = header_bytes tag (cmd_size s) code"
        "tag = TPM_ST_NO_SESSIONS \<or> tag = TPM_ST_SESSIONS" "10 \<le> unat (cmd_size s)"
      and m: "tpm_mode s = TPM_MODE_NORMAL"
      and o: "code = TPM_CC_CreatePrimary \<and> create_primary_overruns stk s \<or>
        code = TPM_CC_NV_Read \<and> nv_read_overruns stk s" unfolding command_overruns_def by blast
    from o have "is_valid_cc_command code" by (auto simp: is_valid_cc_command_def)
    with hd len have "TPM2_ValidateCommandHeader (Some ?b) \<lparr>cmd_tag = 0, cmd_hsize = 0, cmd_code = 0\<rparr> =
        (TPM_RC_SUCCESS, \<lparr>cmd_tag = tag, cmd_hsize = cmd_size s, cmd_code = code\<rparr>)"
      unfolding ValidateCommandHeader_success_iff by (simp add: min.absorb1)
    with v have h: "rc = TPM_RC_SUCCESS" "cmd_code h = code" by auto
    with validate_mode_normal [of h "tpm_mode s"] m o
    show "rc = TPM_RC_SUCCESS \<and> TPM2_ValidateMode h (tpm_mode s) = TPM_RC_SUCCESS \<and>
      (cmd_code h = TPM_CC_CreatePrimary \<and> create_primary_overruns stk s \<or>
       cmd_code h = TPM_CC_NV_Read \<and> nv_read_overruns stk s)" by blast
  qed
  finally show ?thesis .
qed

text \<open>The state in which the dispatcher runs when the driver writes 1 to the command register.\<close>

definition executing :: "u32 \<Rightarrow> TPM2State \<Rightarrow> TPM2State" where
  "executing n s = s\<lparr>cmd_size := n, dev_state := TPM_STATE_PROCESSING\<rparr>"

lemma executing_ok:
  assumes "dev_ok s" "n \<le> cmd_size s"
  shows "link_arrays (executing n s)" "core_ok (executing n s)"
  using assms by (auto simp: dev_ok_def link_ok_def link_arrays_def core_ok_def executing_def nv_ok_def
      word_le_nat_alt)

lemma mmio_execute:
  assumes "dev_ok s" "dev_state s = TPM_STATE_RECEIVING"
  obtains (short) "tpm2_mmio_write L stk rnd TPM2_CMD_REG 1 s =
      Some (build_error_response TPM_RC_COMMAND_SIZE (s\<lparr>dev_state := TPM_STATE_IDLE\<rparr>))"
    | (run) n where "rd32 (command_buffer s) 2 = Some n" "n \<le> cmd_size s"
      "tpm2_mmio_write L stk rnd TPM2_CMD_REG 1 s = tpm2_process_command L stk rnd (executing n s)"
proof -
  have "2 + 4 \<le> length (command_buffer s)" using assms(1) by (simp add: dev_ok_def link_ok_def)
  then obtain n where n: "rd32 (command_buffer s) 2 = Some n" using rd32_in by blast
  show thesis
  proof (cases "n \<le> cmd_size s")
    case True
    then have "\<not> cmd_size s < n" by simp
    with True n assms(2) show thesis by (intro run) (simp_all add: tpm2_mmio_write_def executing_def)
  next
    case False
    then have "cmd_size s < n" by simp
    with n assms(2) show thesis by (intro short) (simp add: tpm2_mmio_write_def)
  qed
qed

lemma mmio_execute_safe:
  assumes "dev_ok s" "dev_state s = TPM_STATE_RECEIVING" "stack_ok stk" "rnd_ok rnd" "lib_ok L"
    and "tpm2_mmio_write L stk rnd TPM2_CMD_REG 1 s = Some s'"
  shows "replies s'"
proof (cases rule: mmio_execute [OF assms(1,2), of L stk rnd])
  case 1
  have "link_arrays (s\<lparr>dev_state := TPM_STATE_IDLE\<rparr>)" "core_ok (s\<lparr>dev_state := TPM_STATE_IDLE\<rparr>)"
    using assms(1) by (simp_all add: dev_ok_def link_ok_def link_arrays_def core_ok_def nv_ok_def)
  with 1 assms(6) show ?thesis by (auto simp: error_replies)
next
  case (2 n)
  with process_command_replies [OF executing_ok [OF assms(1) 2(2)] assms(3-5)] assms(6) show ?thesis by simp
qed

lemma rd32_header_size:
  assumes "take 10 buf = header_bytes t n c" "10 \<le> length buf"
  shows "rd32 buf 2 = Some n"
  using header_bytes_decode(2) [OF assms(1)] assms(2) by (simp add: rd32_def)

lemma mmio_execute_mode:
  assumes "dev_ok s" "dev_state s = TPM_STATE_RECEIVING" "stack_ok stk" "rnd_ok rnd" "lib_ok L"
    and "tpm2_mmio_write L stk rnd TPM2_CMD_REG 1 s = Some s'"
  shows "tpm_mode s' = tpm_mode s"
proof (cases rule: mmio_execute [OF assms(1,2), of L stk rnd])
  case 1
  have "link_arrays (s\<lparr>dev_state := TPM_STATE_IDLE\<rparr>)"
    using assms(1) by (simp add: dev_ok_def link_ok_def link_arrays_def)
  from answered_mode [OF error_answered [OF this]] 1 assms(6) show ?thesis by auto
next
  case (2 n)
  with process_command_mode [OF executing_ok [OF assms(1) 2(2)] assms(3-5)] assms(6) show ?thesis
    by (simp add: executing_def)
qed

text \<open>
  An execution gets stuck exactly when the header announces no more bytes than have been received
  and the command, cut to that size, leaves an array.
\<close>

definition execution_overruns :: "stack0 \<Rightarrow> TPM2State \<Rightarrow> bool" where
  "execution_overruns stk s \<longleftrightarrow>
     (\<exists>n. rd32 (command_buffer s) 2 = Some n \<and> n \<le> cmd_size s \<and> command_overruns stk (executing n s))"

lemma execution_stuck_iff:
  assumes "dev_ok s" "dev_state s = TPM_STATE_RECEIVING" "stack_ok stk" "rnd_ok rnd" "lib_ok L"
  shows "tpm2_mmio_write L stk rnd TPM2_CMD_REG 1 s = None \<longleftrightarrow> execution_overruns stk s"
proof -
  have "2 + 4 \<le> length (command_buffer s)" using assms(1) by (simp add: dev_ok_def link_ok_def)
  then obtain n where n: "rd32 (command_buffer s) 2 = Some n" using rd32_in by blast
  show ?thesis
  proof (cases "n \<le> cmd_size s")
    case False
    with n assms(2) show ?thesis by (simp add: tpm2_mmio_write_def execution_overruns_def not_le)
  next
    case True
    then have "\<not> cmd_size s < n" by simp
    with n assms(2) have "tpm2_mmio_write L stk rnd TPM2_CMD_REG 1 s = tpm2_process_command L stk rnd (executing n s)"
      by (simp add: tpm2_mmio_write_def executing_def)
    then show ?thesis
      using process_command_stuck_iff [OF executing_ok [OF assms(1) True] assms(3-5)] n True
      by (simp add: execution_overruns_def)
  qed
qed

text \<open>The same with the header written out, and in terms of the bytes received.\<close>

lemma execution_overruns_iff:
  assumes "dev_ok s"
  shows "execution_overruns stk s \<longleftrightarrow>
    (\<exists>tag n code. take 10 (command_buffer s) = header_bytes tag n code \<and>
       (tag = TPM_ST_NO_SESSIONS \<or> tag = TPM_ST_SESSIONS) \<and> 10 \<le> unat n \<and> n \<le> cmd_size s \<and>
       tpm_mode s = TPM_MODE_NORMAL \<and>
       (code = TPM_CC_CreatePrimary \<and> create_primary_overruns stk (executing n s) \<or>
        code = TPM_CC_NV_Read \<and> nv_read_overruns stk (executing n s)))"
proof -
  have "rd32 (command_buffer s) 2 = Some n" if "take 10 (command_buffer s) = header_bytes tag n code" for tag n code
    using rd32_header_size [OF that] assms by (simp add: dev_ok_def link_ok_def)
  moreover have "command_buffer (executing n s) = command_buffer s" "cmd_size (executing n s) = n"
      "tpm_mode (executing n s) = tpm_mode s" for n by (simp_all add: executing_def)
  ultimately show ?thesis unfolding execution_overruns_def command_overruns_def by (simp only:) blast
qed

lemma execution_stuck:
  assumes "dev_ok s" "dev_view s = Receiving bs" "execution_overruns stk s"
  obtains n code where "take 10 bs = header_bytes TPM_ST_NO_SESSIONS n code \<or>
      take 10 bs = header_bytes TPM_ST_SESSIONS n code" "unat n \<le> length bs"
    "cmd_body (executing n s) = take (unat n - 10) (drop 10 bs)"
    "code = TPM_CC_CreatePrimary \<and> create_primary_overruns stk (executing n s) \<or>
     code = TPM_CC_NV_Read \<and> nv_read_overruns stk (executing n s)"
proof -
  have bs: "bs = take (unat (cmd_size s)) (command_buffer s)"
      and len: "unat (cmd_size s) \<le> 1024" "length (command_buffer s) = 1024"
    using assms(1,2) by (auto simp: dev_view_def dev_ok_def link_ok_def split: tpm_state.splits)
  from assms(3) obtain n tag code where le: "unat n \<le> unat (cmd_size s)" "10 \<le> unat n"
    and hd: "take 10 (command_buffer s) = header_bytes tag n code" "tag = TPM_ST_NO_SESSIONS \<or> tag = TPM_ST_SESSIONS"
    and o: "code = TPM_CC_CreatePrimary \<and> create_primary_overruns stk (executing n s) \<or>
     code = TPM_CC_NV_Read \<and> nv_read_overruns stk (executing n s)"
    unfolding execution_overruns_def command_overruns_def by (auto simp: executing_def word_le_nat_alt)
  have "take 10 bs = header_bytes tag n code" unfolding bs using hd(1) le by (simp add: min.absorb1)
  moreover have "cmd_body (executing n s) = take (unat n - 10) (drop 10 bs)"
    unfolding bs cmd_body_def executing_def using le(1) by (simp add: drop_take min_def)
  ultimately show thesis using that [of n code] hd(2) le(1) len o unfolding bs by auto
qed

section \<open>Register accesses keep the device in order\<close>

lemma mmio_read_safe: "dev_ok s \<Longrightarrow> \<exists>v s'. tpm2_mmio_read addr s = Some (v, s') \<and> dev_ok s'"
  using port.get [of s] by (cases "addr = TPM2_DATA_REG") (auto simp: tpm2_mmio_read_def)

lemma reset_ok: "dev_ok s \<Longrightarrow> dev_ok (tpm2_reset s)"
  by (simp add: dev_ok_def link_ok_def core_ok_def tpm2_reset_def nv_ok_def)

lemma mmio_write_safe:
  assumes "dev_ok s" "stack_ok stk" "rnd_ok rnd" "lib_ok L"
  shows "case tpm2_mmio_write L stk rnd addr v s of
      None \<Rightarrow> addr = TPM2_CMD_REG \<and> v = 1 \<and> dev_state s = TPM_STATE_RECEIVING \<and> execution_overruns stk s
    | Some s' \<Rightarrow> dev_ok s'"
proof -
  have other: "tpm2_mmio_write L stk rnd addr v s = Some s"
    if "addr \<noteq> TPM2_DATA_REG" "\<not> (addr = TPM2_CTRL_REG \<and> (v = 0 \<or> v = 1))"
      "\<not> (addr = TPM2_CMD_REG \<and> v = 1)"
    unfolding tpm2_mmio_write_def using that by simp
  consider "addr = TPM2_DATA_REG" | "addr = TPM2_CTRL_REG" "v = 1" | "addr = TPM2_CTRL_REG" "v = 0"
    | "addr = TPM2_CMD_REG" "v = 1" "dev_state s = TPM_STATE_RECEIVING"
    | "addr = TPM2_CMD_REG" "v = 1" "dev_state s \<noteq> TPM_STATE_RECEIVING"
    | "tpm2_mmio_write L stk rnd addr v s = Some s"
    using other by blast
  then show ?thesis
  proof cases
    case 1
    with port.put [OF assms(1), of L stk rnd v] show ?thesis by auto
  next
    case 2
    with port.start [OF assms(1), of L stk rnd] show ?thesis by auto
  next
    case 3
    with reset_ok [OF assms(1)] show ?thesis by (simp add: tpm2_mmio_write_def)
  next
    case 4
    with mmio_execute_safe [OF assms(1) 4(3) assms(2-4)] execution_stuck_iff [OF assms(1) 4(3) assms(2-4)]
    show ?thesis by (auto simp: replies_def split: option.splits)
  next
    case 5
    with assms(1) show ?thesis
      by (simp add: tpm2_mmio_write_def dev_ok_def link_ok_def core_ok_def nv_ok_def)
  next
    case 6
    with assms(1) show ?thesis by simp
  qed
qed

lemma mmio_write_stuck_iff:
  assumes "dev_ok s" "stack_ok stk" "rnd_ok rnd" "lib_ok L"
  shows "tpm2_mmio_write L stk rnd addr v s = None \<longleftrightarrow>
    addr = TPM2_CMD_REG \<and> v = 1 \<and> dev_state s = TPM_STATE_RECEIVING \<and> execution_overruns stk s"
  using mmio_write_safe [OF assms, of addr v] execution_stuck_iff [OF assms(1) _ assms(2-4)]
  by (auto split: option.splits)

section \<open>Realization\<close>

lemma length_seed_pattern [simp]: "length (seed_pattern b) = 32"
  by (simp add: seed_pattern_def)

lemma test_definespace_checks:
  "nv_map s = Some (\<lambda>_. None) \<Longrightarrow> nv_count s = 0 \<Longrightarrow> nv_bank_size s = 6962 \<Longrightarrow>
   nv_define_checks s tpm2_provision_owner test_nv_public = TPM_RC_SUCCESS"
  by (simp add: nv_define_checks_def nv_lookup_def test_nv_public_def TPMA_NV_of_units_def
      nv_index_type_def any_read_bit_def any_write_bit_def nv_type_rules_def Let_def
      tpm2_provision_owner_def)

lemma test_CreatePrimary_run:
  assumes "lib_ok L" "stack_ok stk"
  shows "name_room stk \<Longrightarrow> \<exists>pub. tpm2_test_CreatePrimary L stk s = Some (TPM_RC_SUCCESS,
    s\<lparr>sps := seed_pattern 0x10, shProof := seed_pattern 0x20, pps := seed_pattern 0x30,
       phProof := seed_pattern 0x40, eps := seed_pattern 0x50, ehProof := seed_pattern 0x60,
       next_transient_handle := 1, initialized := True,
       primary_sensitive := (fresh_sensitive TPM_ALG_ECC
           (6, [0x70, 0x61, 0x73, 0x73, 0x77, 0x64] @ replicate 58 0) (seed_pattern 0x10))
         \<lparr>sn_ecc := (32, primary_key L (seed_pattern 0x10) @ replicate 32 0)\<rparr>,
       primary_public := pub, primary_name_size := 34\<rparr>)"
    and "\<not> name_room stk \<Longrightarrow> tpm2_test_CreatePrimary L stk s = None"
proof -
  let ?s = "s\<lparr>sps := seed_pattern 0x10, shProof := seed_pattern 0x20, pps := seed_pattern 0x30,
    phProof := seed_pattern 0x40, eps := seed_pattern 0x50, ehProof := seed_pattern 0x60,
    next_transient_handle := 1, initialized := True\<rparr>"
  let ?t = "zero_public\<lparr>t_type := TPM_ALG_ECC, t_nameAlg := TPM_ALG_SHA256,
    t_objectAttributes := 0x00030072, t_curveID := TPM_ECC_NIST_P256\<rparr>"
  let ?a = "(6 :: u16, [0x70, 0x61, 0x73, 0x73, 0x77, 0x64] @ replicate 58 (0 :: u8))"
  have L: "hmac_ok L" "digest_ok L" and stk: "length (st_priv stk) = 32" "length (st_hash stk) = 32"
    using assms by (simp_all add: lib_ok_def stack_ok_def)
  have h: "hierarchy_seed ?s TPM_RH_OWNER = Some (seed_pattern 0x10)" by (simp add: hierarchy_seed_def)
  have t: "t_type ?t = TPM_ALG_ECC" by simp
  note r = CreatePrimary_success [OF L stk h length_seed_pattern t, of ?a zero_public
      "(0, st_name stk)", unfolded Let_def]
  {
    assume "name_room stk"
    then have n: "\<not> length (snd (0 :: u16, st_name stk)) < 34" by (simp add: name_room_def)
    show "\<exists>pub. tpm2_test_CreatePrimary L stk s = Some (TPM_RC_SUCCESS,
      s\<lparr>sps := seed_pattern 0x10, shProof := seed_pattern 0x20, pps := seed_pattern 0x30,
         phProof := seed_pattern 0x40, eps := seed_pattern 0x50, ehProof := seed_pattern 0x60,
         next_transient_handle := 1, initialized := True,
         primary_sensitive := (fresh_sensitive TPM_ALG_ECC ?a (seed_pattern 0x10))
           \<lparr>sn_ecc := (32, primary_key L (seed_pattern 0x10) @ replicate 32 0)\<rparr>,
         primary_public := pub, primary_name_size := 34\<rparr>)"
      unfolding tpm2_test_CreatePrimary_def Let_def r [unfolded if_not_P [OF n]] option.case prod.case
      by (rule exI, rule refl)
  next
    assume "\<not> name_room stk"
    then have n: "length (snd (0 :: u16, st_name stk)) < 34" by (simp add: name_room_def)
    show "tpm2_test_CreatePrimary L stk s = None"
      unfolding tpm2_test_CreatePrimary_def Let_def r [unfolded if_P [OF n]] option.case by (rule refl)
  }
qed

text \<open>Realization with memory for the name of the first key.\<close>

lemma realize_run:
  assumes "lib_ok L" "stack_ok stk" "name_room stk"
  obtains s where "tpm2_realize L stk True tpm2_init = Some s" "dev_ok s" "dev_view s = Idle"
    "nv_key s = primary_key L (seed_pattern 0x10)" "nv_key_usable s"
    "nv_lookup s = [0x1500016 \<mapsto> nv_new_entry 0 test_nv_public]"
    "tpm_mode s = TPM_MODE_NORMAL" "nv_count s = 1" "nv_alloc_offset s = 48"
proof -
  define s1 where "s1 = tpm2_init\<lparr>nv_bank := Some (replicate 6962 0), nv_bank_size := 6962\<rparr>"
  define s2 where "s2 = (tpm2_nv_init s1)\<lparr>nv_alloc_offset := 0\<rparr>"
  have s2: "nv_map s2 = Some (\<lambda>_. None)" "nv_count s2 = 0" "nv_bank_size s2 = 6962"
      "nv_alloc_offset s2 = 0" "nv_bank s2 = Some (replicate 6962 0)"
    by (simp_all add: s2_def s1_def tpm2_nv_init_def tpm2_init_def)
  then have ok2: "nv_ok s2" by (simp add: nv_ok_def nv_layout_ok_def)
  define s3 where "s3 = nv_defined s2 test_nv_public"
  have d: "tpm2_test_definespace s2 = Some s3"
    using define_space_run [OF ok2 test_definespace_checks [OF s2(1-3)]] s2(4)
    by (simp add: tpm2_test_definespace_def s3_def test_nv_public_def)
  have ok3: "nv_ok s3"
    unfolding s3_def by (rule nv_defined_ok [OF ok2])
      (use s2 in \<open>simp_all add: nv_lookup_def test_nv_public_def\<close>)
  have lk: "nv_lookup s3 = [0x1500016 \<mapsto> nv_new_entry 0 test_nv_public]"
    unfolding s3_def nv_defined_lookup [OF ok2] using s2
    by (auto simp: fun_eq_iff nv_lookup_def test_nv_public_def)
  have f3: "nv_count s3 = 1" "nv_alloc_offset s3 = 48" "tpm_mode s3 = TPM_MODE_NORMAL" "link_ok s3"
      "dev_state s3 = TPM_STATE_IDLE" "length (random_data s3) = 32"
    by (simp_all add: s3_def s2_def s1_def nv_defined_def tpm2_nv_init_def tpm2_init_def link_ok_def
        test_nv_public_def Let_def)
  obtain pub where c: "map_option snd (tpm2_test_CreatePrimary L stk s3) = Some
    (s3\<lparr>sps := seed_pattern 0x10, shProof := seed_pattern 0x20, pps := seed_pattern 0x30,
       phProof := seed_pattern 0x40, eps := seed_pattern 0x50, ehProof := seed_pattern 0x60,
       next_transient_handle := 1, initialized := True,
       primary_sensitive := (fresh_sensitive TPM_ALG_ECC
           (6, [0x70, 0x61, 0x73, 0x73, 0x77, 0x64] @ replicate 58 0) (seed_pattern 0x10))
         \<lparr>sn_ecc := (32, primary_key L (seed_pattern 0x10) @ replicate 32 0)\<rparr>,
       primary_public := pub, primary_name_size := 34\<rparr>)" (is "_ = Some ?s")
    using test_CreatePrimary_run(1) [OF assms, of s3] by auto
  have k: "length (primary_key L (seed_pattern 0x10)) = 32" using assms(1) by (simp add: lib_ok_def)
  have "tpm2_realize L stk True tpm2_init = Some ?s"
    using d c by (simp add: tpm2_realize_def s2_def s1_def)
  then show thesis
    by (rule that) (use ok3 lk f3 k in \<open>simp_all add: dev_ok_def core_ok_def link_ok_def dev_view_def
        nv_key_def nv_key_usable_def nv_lookup_def fun_eq_iff nv_ok_def\<close>)
qed

text \<open>Without memory for the name realization gets stuck at the creation of the first key.\<close>

lemma realize_stuck:
  assumes "lib_ok L" "stack_ok stk" "\<not> name_room stk"
  shows "tpm2_realize L stk True s = None"
  using test_CreatePrimary_run(2) [OF assms] by (simp add: tpm2_realize_def Let_def split: option.split)

lemma realized_name_room:
  "lib_ok L \<Longrightarrow> stack_ok stk \<Longrightarrow> tpm2_realize L stk True s = Some s' \<Longrightarrow> name_room stk"
  using realize_stuck by fastforce

section \<open>Execution of a whole command\<close>

text \<open>A command without sessions, as it is put on the wire.\<close>

definition command_bytes :: "u32 \<Rightarrow> bytes \<Rightarrow> bytes" where
  "command_bytes code body =
     header_bytes TPM_ST_NO_SESSIONS (of_nat (10 + length body)) code @ body"

lemma length_command_bytes [simp]: "length (command_bytes code body) = 10 + length body"
  by (simp add: command_bytes_def)

declare unat_of_nat_u32 [simp]

text \<open>
  The bytes behind the command are padding: the device cuts the command to the size its header
  declares, checks it and hands its body to the handler.
\<close>

lemma execute_command:
  assumes ok: "dev_ok s" and v: "dev_view s = Receiving (command_bytes code body @ pad)"
    and c: "is_valid_cc_command code" "tpm_mode s = TPM_MODE_NORMAL"
  obtains e where "link_arrays e" "core_ok e" "dev_core e = dev_core s" "cmd_body e = body"
    "tpm2_mmio_write L stk rnd TPM2_CMD_REG 1 s =
      (if code = TPM_CC_GetRandom then handle_GetRandom stk rnd e
       else if code = TPM_CC_CreatePrimary then handle_CreatePrimary L stk e
       else if code = TPM_CC_NV_DefineSpace then handle_NV_DefineSpace stk e
       else if code = TPM_CC_NV_Write then handle_NV_Write L stk e
       else if code = TPM_CC_NV_Read then handle_NV_Read L stk e
       else Some (build_error_response TPM_RC_COMMAND_CODE e))"
proof -
  define n :: u32 where "n = of_nat (10 + length body)"
  let ?c = "command_bytes code body" and ?e = "executing n s"
  have cb: "?c = header_bytes TPM_ST_NO_SESSIONS n code @ body"
    by (simp add: command_bytes_def n_def)
  have st: "dev_state s = TPM_STATE_RECEIVING" and t: "take (unat (cmd_size s)) (command_buffer s) = ?c @ pad"
    and le: "unat (cmd_size s) \<le> 1024" "length (command_buffer s) = 1024"
    using ok v by (auto simp: dev_view_def dev_ok_def link_ok_def split: tpm_state.splits)
  have len: "unat (cmd_size s) = 10 + length body + length pad"
    using arg_cong [OF t, of length] le by simp
  then have n: "unat n = 10 + length body"
    unfolding n_def using le(1) by (intro unat_of_nat_u32) simp
  have b: "command_buffer s = ?c @ pad @ drop (unat (cmd_size s)) (command_buffer s)"
    using t by (metis append.assoc append_take_drop_id)
  have h: "take 10 (command_buffer s) = header_bytes TPM_ST_NO_SESSIONS n code"
    by (subst b) (simp add: cb)
  have db: "take (length body) (drop 10 (command_buffer s)) = body" by (subst b) (simp add: cb)
  have tk: "take (10 + length body) (command_buffer s) = ?c" by (subst b) simp
  have "TPM2_ValidateCommandHeader (Some ?c) h0 =
      (TPM_RC_SUCCESS, \<lparr>cmd_tag = TPM_ST_NO_SESSIONS, cmd_hsize = n, cmd_code = code\<rparr>)" for h0
    unfolding ValidateCommandHeader_success_iff using n c by (simp add: cb)
  moreover have "cmd_body ?e = body"
    using n db by (simp add: cmd_body_def executing_def)
  moreover have "n \<le> cmd_size s" using n len by (simp add: word_le_nat_alt)
  moreover have "tpm2_mmio_write L stk rnd TPM2_CMD_REG 1 s = tpm2_process_command L stk rnd ?e"
    using rd32_header_size [OF h] le(2) st \<open>n \<le> cmd_size s\<close>
    by (simp add: tpm2_mmio_write_def executing_def not_less [symmetric])
  moreover have "unat (cmd_size ?e) = 10 + length body" "command_buffer ?e = command_buffer s"
      "tpm_mode ?e = TPM_MODE_NORMAL" "dev_core ?e = dev_core s"
    using n c by (simp_all add: executing_def dev_core_def)
  ultimately show thesis
    using that [of ?e] executing_ok [OF ok, of n] tk
    by (simp add: tpm2_process_command_def TPM2_ValidateMode_def)
qed

section \<open>NV commands on the wire\<close>

lemma core_facts [simp]:
  "nv_lookup (dev_core s) = nv_lookup s" "nv_contents (dev_core s) = nv_contents s"
  "nv_key (dev_core s) = nv_key s" "nv_key_usable (dev_core s) = nv_key_usable s"
  "tpm_mode (dev_core s) = tpm_mode s"
  by (simp_all add: fun_eq_iff dev_core_def nv_lookup_def nv_contents_def nv_key_def nv_key_usable_def)

lemma core_eq:
  assumes "dev_core t = dev_core s"
  shows "nv_lookup t = nv_lookup s" "nv_contents t = nv_contents s" "nv_key t = nv_key s"
    "nv_key_usable t = nv_key_usable s" "tpm_mode t = tpm_mode s"
  using core_facts [of t] core_facts [of s] assms by simp_all

lemma answered_keeps_nv:
  assumes "answered rc body t s'" "nv_map t = nv_map s" "nv_bank t = nv_bank s"
  shows "nv_lookup s' = nv_lookup s \<and> nv_contents s' = nv_contents s"
proof -
  have "nv_lookup t = nv_lookup s" using assms(2) by (simp add: fun_eq_iff nv_lookup_def)
  then have "nv_lookup t = nv_lookup s \<and> nv_contents t = nv_contents s"
    using assms(3) by (simp add: fun_eq_iff nv_contents_def)
  with assms(1) core_eq [of s' t] show ?thesis by (simp add: answered_def)
qed

lemma handle_NV_Write_wire:
  assumes "link_arrays s" "core_ok s" "stack_ok stk" "cipher_ok L"
    and b: "cmd_body s = nv_write_wire h i d off" and e: "nv_lookup s i = Some e"
    and h: "provision_handle h = Some ph" and acc: "nv_write_accepts e (of_nat (length d)) off"
    and d: "d \<noteq> []" "length d \<le> 1024" and k: "nv_key_usable s"
  obtains ct s' where "aes_cfb128 L True (nv_key s) (replicate 16 0) d = Some ct"
    "length ct = length d" "handle_NV_Write L stk s = Some s'"
    "answered TPM_RC_SUCCESS [] ((nv_written s i e (unat off) ct)\<lparr>nv_dirty := True\<rparr>) s'"
proof -
  let ?p = "(st_write stk)\<lparr>nw_authHandle := h, nw_nvIndex := i,
    nw_data := nv_buffer_store d (nw_data (st_write stk)), nw_offset := off\<rparr>"
  let ?b = "nv_buffer_store d (nw_data (st_write stk))"
  have stk: "length (nvb_buffer (nw_data (st_write stk))) = 1024" "length (st_ciphertext stk) = 1024"
    using assms(3) by (simp_all add: stack_ok_def wf_NV_Write_Params_def)
  have nv: "nv_ok s" "length (snd (sn_ecc (primary_sensitive s))) = 64"
    using assms(2) by (simp_all add: core_ok_def)
  have sz: "nvb_size ?b = of_nat (length d)" "unat (of_nat (length d) :: u16) = length d"
      "length (nvb_buffer ?b) = 1024" "take (length d) (nvb_buffer ?b) = d"
    using d stk(1) by (simp_all add: nv_buffer_store_def overwrite_def)
  have u: "Unmarshal_NV_Write (cmd_body s) (st_write stk) 0 = Some (TPM_RC_SUCCESS, ?p, 14 + length d)"
    using unmarshal_nv_write_wire [of d "st_write stk" h i off "[]" 0] d stk(1)
    by (simp add: b nv_buffer_fits_def)
  have dl: "e_dataLen e = p_dataSize (e_pub e)"
    by (rule nv_ok_lookup [OF nv(1) e]) (simp add: nv_entry_ok_def)
  have acc': "nv_write_accepts e (nvb_size ?b) off" using acc sz(1) by simp
  have rng: "unat off + length d \<le> unat (p_dataSize (e_pub e))"
    using acc dl sz(2) by (simp add: nv_write_accepts_def)
  have nz: "nvb_size ?b \<noteq> 0" using sz d(1) by (metis length_0_conv unat_0)
  obtain ct where ct: "aes_cfb128 L True (nv_key s) (replicate 16 0)
      (take (unat (nvb_size ?b)) (nvb_buffer ?b)) = Some ct" "length ct = unat (nvb_size ?b)"
    and w: "TPM2_NV_Write L (st_ciphertext stk) s ph i ?b off =
      Some (TPM_RC_SUCCESS, nv_written s i e (unat off) ct)"
    by (rule nv_write_run [OF nv(1) e acc' assms(4) k nv(2) sz(3) stk(2) nz])
  let ?t = "(nv_written s i e (unat off) ct)\<lparr>nv_dirty := True\<rparr>"
  have "handle_NV_Write L stk s = build_success_response 0 ?t"
    using u e h rng w sz mark_nv_written [OF e] by (simp add: handle_NV_Write_def)
  moreover have "link_arrays ?t" using assms(1) by (simp add: link_arrays_def nv_written_def)
  then obtain s' where "build_success_response 0 ?t = Some s'" "answered TPM_RC_SUCCESS [] ?t s'"
    using success_answered [of ?t 0] by (auto simp: slice_def)
  ultimately show thesis using that ct sz by simp
qed

lemma handle_NV_Read_wire:
  assumes "link_arrays s" "core_ok s" "cipher_ok L"
    and b: "cmd_body s = nv_read_wire h i n off" and e: "nv_lookup s i = Some e" "e_written e"
      "\<not> e_readLocked e" "unat off + unat n \<le> unat (e_dataLen e)"
    and n: "n \<noteq> 0" "unat n \<le> 1012" and k: "nv_key_usable s"
  obtains plain s' where "aes_cfb128 L False (nv_key s) (replicate 16 0)
      (slice (the (nv_contents s i)) (unat off) (unat n)) = Some plain" "length plain = unat n"
    "handle_NV_Read L stk s = Some s'" "answered TPM_RC_SUCCESS (be16_bytes n @ plain) s s'"
proof -
  let ?out = "replicate 1024 (0 :: u8)"
  have nv: "nv_ok s" "length (snd (sn_ecc (primary_sensitive s))) = 64"
    using assms(2) by (simp_all add: core_ok_def)
  have dl: "e_dataLen e = p_dataSize (e_pub e)"
    by (rule nv_ok_lookup [OF nv(1) e(1)]) (simp add: nv_entry_ok_def)
  have lo: "unat n \<le> length ?out" using n by simp
  obtain plain where pl: "length plain = unat n" "aes_cfb128 L False (nv_key s) (replicate 16 0)
      (slice (the (nv_contents s i)) (unat off) (unat n)) = Some plain"
    and r: "nv_read_decrypt_from_bank L s e ?out n off =
      Some (if n = 0 then TPM_RC_FAILURE else TPM_RC_SUCCESS, overwrite ?out 0 plain)"
    by (rule nv_read_run [OF nv(1) e(1) assms(3) k nv(2) e(4) lo])
  have o: "length (overwrite ?out 0 plain) = 1024" "take (unat n) (overwrite ?out 0 plain) = plain"
    using pl(1) n by (simp_all add: overwrite_def)
  have "handle_NV_Read L stk s =
      respond Marshal_NV_Read_Response \<lparr>nrr_data = \<lparr>nvb_size = n, nvb_buffer = overwrite ?out 0 plain\<rparr>\<rparr> s"
    using unmarshal_nv_read_wire [of h i n off "[]" "st_read stk" 0] e dl r n
    by (simp add: handle_NV_Read_def b)
  with respond_nv_read [OF assms(1) o(1), of n] n o(2) pl that show thesis by auto
qed

lemma execute_nv_write:
  assumes "lib_ok L" "stack_ok stk" "dev_ok s" "tpm_mode s = TPM_MODE_NORMAL"
    and v: "dev_view s = Receiving (command_bytes TPM_CC_NV_Write (nv_write_wire h i d off) @ pad)"
    and e: "nv_lookup s i = Some e" and h: "provision_handle h = Some ph"
    and acc: "nv_write_accepts e (of_nat (length d)) off" and d: "d \<noteq> []" "length d \<le> 1024"
    and k: "nv_key_usable s"
  obtains ct t s' where "aes_cfb128 L True (nv_key s) (replicate 16 0) d = Some ct"
    "length ct = length d" "dev_core t = dev_core s" "core_ok t"
    "tpm2_mmio_write L stk rnd TPM2_CMD_REG 1 s = Some s'"
    "answered TPM_RC_SUCCESS [] ((nv_written t i e (unat off) ct)\<lparr>nv_dirty := True\<rparr>) s'"
proof -
  have L: "cipher_ok L" using assms(1) by (simp add: lib_ok_def)
  have c: "is_valid_cc_command TPM_CC_NV_Write" by (simp add: is_valid_cc_command_def)
  show thesis
  proof (rule execute_command [OF assms(3) v c assms(4), of L stk rnd])
    fix t
    assume t: "link_arrays t" "core_ok t" "dev_core t = dev_core s" "cmd_body t = nv_write_wire h i d off"
      and w: "tpm2_mmio_write L stk rnd TPM2_CMD_REG 1 s =
        (if TPM_CC_NV_Write = TPM_CC_GetRandom then handle_GetRandom stk rnd t
         else if TPM_CC_NV_Write = TPM_CC_CreatePrimary then handle_CreatePrimary L stk t
         else if TPM_CC_NV_Write = TPM_CC_NV_DefineSpace then handle_NV_DefineSpace stk t
         else if TPM_CC_NV_Write = TPM_CC_NV_Write then handle_NV_Write L stk t
         else if TPM_CC_NV_Write = TPM_CC_NV_Read then handle_NV_Read L stk t
         else Some (build_error_response TPM_RC_COMMAND_CODE t))"
    note eq = core_eq [OF t(3)]
    from e k have "nv_lookup t i = Some e" "nv_key_usable t" by (simp_all add: eq)
    then show thesis
      by (rule handle_NV_Write_wire [OF t(1,2) assms(2) L t(4) _ h acc d])
        (use w t(2,3) eq that in auto)
  qed
qed

lemma execute_nv_read:
  assumes "lib_ok L" "dev_ok s" "tpm_mode s = TPM_MODE_NORMAL"
    and v: "dev_view s = Receiving (command_bytes TPM_CC_NV_Read (nv_read_wire h i n off) @ pad)"
    and e: "nv_lookup s i = Some e" "e_written e" "\<not> e_readLocked e"
      "unat off + unat n \<le> unat (e_dataLen e)"
    and n: "n \<noteq> 0" "unat n \<le> 1012" and k: "nv_key_usable s"
  obtains plain t s' where "aes_cfb128 L False (nv_key s) (replicate 16 0)
      (slice (the (nv_contents s i)) (unat off) (unat n)) = Some plain" "length plain = unat n"
    "tpm2_mmio_write L stk rnd TPM2_CMD_REG 1 s = Some s'" "dev_core t = dev_core s" "core_ok t"
    "answered TPM_RC_SUCCESS (be16_bytes n @ plain) t s'"
proof -
  have L: "cipher_ok L" using assms(1) by (simp add: lib_ok_def)
  have c: "is_valid_cc_command TPM_CC_NV_Read" by (simp add: is_valid_cc_command_def)
  show thesis
  proof (rule execute_command [OF assms(2) v c assms(3), of L stk rnd])
    fix t
    assume t: "link_arrays t" "core_ok t" "dev_core t = dev_core s" "cmd_body t = nv_read_wire h i n off"
      and w: "tpm2_mmio_write L stk rnd TPM2_CMD_REG 1 s =
        (if TPM_CC_NV_Read = TPM_CC_GetRandom then handle_GetRandom stk rnd t
         else if TPM_CC_NV_Read = TPM_CC_CreatePrimary then handle_CreatePrimary L stk t
         else if TPM_CC_NV_Read = TPM_CC_NV_DefineSpace then handle_NV_DefineSpace stk t
         else if TPM_CC_NV_Read = TPM_CC_NV_Write then handle_NV_Write L stk t
         else if TPM_CC_NV_Read = TPM_CC_NV_Read then handle_NV_Read L stk t
         else Some (build_error_response TPM_RC_COMMAND_CODE t))"
    note eq = core_eq [OF t(3)]
    from e(1) k have "nv_lookup t i = Some e" "nv_key_usable t" by (simp_all add: eq)
    then show thesis
      by (rule handle_NV_Read_wire [OF t(1,2) L t(4) _ e(2-4) n]) (use w t eq that in auto)
  qed
qed

text \<open>The store after a write, as a later read finds it.\<close>

lemma written_store:
  assumes "core_ok t" "nv_lookup t i = Some e" "unat off + length ct \<le> unat (e_dataLen e)"
    and "n \<le> length ct"
  defines "w \<equiv> (nv_written t i e (unat off) ct)\<lparr>nv_dirty := True\<rparr>"
  shows "core_ok w" "nv_key w = nv_key t" "nv_key_usable w = nv_key_usable t"
    "tpm_mode w = tpm_mode t"
    "nv_lookup w i = Some (e\<lparr>e_written := True,
       e_pub := (e_pub e)\<lparr>p_attributes := (p_attributes (e_pub e))\<lparr>a_written := True\<rparr>\<rparr>\<rparr>)"
    "slice (the (nv_contents w i)) (unat off) n = take n ct"
proof -
  let ?w = "nv_written t i e (unat off) ct"
  have nv: "nv_ok t" using assms(1) by (simp add: core_ok_def)
  have l: "nv_lookup w = nv_lookup ?w" "nv_contents w = nv_contents ?w"
    by (simp_all add: w_def fun_eq_iff nv_lookup_def nv_contents_def)
  show "core_ok w"
    using assms(1) nv_written_ok [OF nv assms(2,3)]
    by (simp add: w_def core_ok_def nv_ok_def) (simp add: nv_written_def)
  show "nv_key w = nv_key t" "nv_key_usable w = nv_key_usable t" "tpm_mode w = tpm_mode t"
    by (simp_all add: w_def nv_written_def nv_key_def nv_key_usable_def)
  show "nv_lookup w i = Some (e\<lparr>e_written := True,
       e_pub := (e_pub e)\<lparr>p_attributes := (p_attributes (e_pub e))\<lparr>a_written := True\<rparr>\<rparr>\<rparr>)"
    using nv_written_lookup [OF assms(2)] by (simp add: l)
  show "slice (the (nv_contents w i)) (unat off) n = take n ct"
    using nv_written_contents [OF nv assms(2,3)] slice_overwrite_prefix [OF _ assms(4)]
      nv_contents_length [OF nv assms(2)] assms(3) by (simp add: l)
qed

lemma execute_read_back:
  assumes "lib_ok L" "core_ok t" "nv_lookup t i = Some e" "\<not> e_readLocked e" "nv_key_usable t"
    and "tpm_mode t = TPM_MODE_NORMAL"
    and ct: "aes_cfb128 L True (nv_key t) (replicate 16 0) d = Some ct" "length ct = length d"
    and room: "unat off + length ct \<le> unat (e_dataLen e)"
    and s: "dev_ok s" "dev_core s = dev_core ((nv_written t i e (unat off) ct)\<lparr>nv_dirty := True\<rparr>)"
    and n: "n \<noteq> 0" "unat n \<le> length d" "unat n \<le> 1012"
    and v: "dev_view s = Receiving (command_bytes TPM_CC_NV_Read (nv_read_wire h i n off) @ pad)"
  obtains s' r where "tpm2_mmio_write L stk rnd TPM2_CMD_REG 1 s = Some s'" "dev_ok s'" "dev_view s' = Sending r"
    "response_is r TPM_RC_SUCCESS (be16_bytes n @ take (unat n) d)" "dev_core s' = dev_core s"
proof -
  have n': "unat n \<le> length ct" using n(2) ct(2) by simp
  note eq = core_eq [OF s(2)] and ws = written_store [OF assms(2,3) room n']
  let ?e = "e\<lparr>e_written := True,
    e_pub := (e_pub e)\<lparr>p_attributes := (p_attributes (e_pub e))\<lparr>a_written := True\<rparr>\<rparr>\<rparr>"
  have f: "tpm_mode s = TPM_MODE_NORMAL" "nv_lookup s i = Some ?e" "e_written ?e"
      "\<not> e_readLocked ?e" "unat off + unat n \<le> unat (e_dataLen ?e)" "nv_key_usable s"
    unfolding eq ws using assms(4-6) room n' by simp_all
  obtain plain t' s' where p: "aes_cfb128 L False (nv_key s) (replicate 16 0)
        (slice (the (nv_contents s i)) (unat off) (unat n)) = Some plain"
      and r: "tpm2_mmio_write L stk rnd TPM2_CMD_REG 1 s = Some s'" "dev_core t' = dev_core s" "core_ok t'"
        "answered TPM_RC_SUCCESS (be16_bytes n @ plain) t' s'"
    by (rule execute_nv_read [OF assms(1) s(1) f(1) v f(2-5) n(1,3) f(6)])
  have "plain = take (unat n) d"
    using p nv_stream_inverse [OF _ assms(5) _ ct(1), of "unat n"] assms(1,2) ws(2,6) eq
    by (simp add: lib_ok_def core_ok_def)
  with r core_ok_cong [of s' t'] that show thesis by (auto simp: answered_def dev_ok_def)
qed

section \<open>Reachable states\<close>

text \<open>
  One access to the registers.  Every access runs with its own uninitialised memory and its own
  outcome of the random number generator.
\<close>

inductive dev_step :: "ossl \<Rightarrow> TPM2State \<Rightarrow> TPM2State \<Rightarrow> bool" for L where
  rd_reg: "tpm2_mmio_read addr s = Some (v, s') \<Longrightarrow> dev_step L s s'"
| wr_reg: "tpm2_mmio_write L stk rnd addr v s = Some s' \<Longrightarrow> stack_ok stk \<Longrightarrow> rnd_ok rnd \<Longrightarrow>
    dev_step L s s'"

inductive dev_reachable :: "ossl \<Rightarrow> TPM2State \<Rightarrow> bool" for L where
  realized: "tpm2_realize L stk True tpm2_init = Some s \<Longrightarrow> stack_ok stk \<Longrightarrow> dev_reachable L s"
| step: "dev_reachable L s \<Longrightarrow> dev_step L s s' \<Longrightarrow> dev_reachable L s'"

inductive_cases dev_stepE: "dev_step L s s'"

text \<open>A device that has received a command, for concrete examples.\<close>

definition load :: "bytes \<Rightarrow> TPM2State \<Rightarrow> TPM2State" where
  "load cmd s = s\<lparr>dev_state := TPM_STATE_RECEIVING, cmd_size := of_nat (length cmd),
     command_buffer := cmd @ replicate (1024 - length cmd) 0\<rparr>"

definition demo_stack :: stack0 where
  "demo_stack =
     \<lparr>st_create = \<lparr>cp_primaryHandle = 0, cp_authorizationSize = 0, cp_inSensitiveSize = 0,
        cp_userAuthSize = 0, cp_userAuth = replicate 64 0, cp_dataSize = 0,
        cp_data = replicate 256 0, cp_inPublicSize = 0\<rparr>,
      st_define = \<lparr>ds_authHandle = 0, ds_authSize = 0, ds_auth = replicate 64 0, ds_publicSize = 0,
        ds_nvIndex = 0, ds_nameAlg = 0, ds_attributes = 0, ds_authPolicySize = 0,
        ds_authPolicy = replicate 64 0, ds_dataSize = 0\<rparr>,
      st_write = \<lparr>nw_authHandle = 0, nw_nvIndex = 0,
        nw_data = \<lparr>nvb_size = 0, nvb_buffer = replicate 1024 0\<rparr>, nw_offset = 0\<rparr>,
      st_read = \<lparr>nr_authHandle = 0, nr_nvIndex = 0, nr_sizeToRead = 0, nr_offset = 0\<rparr>,
      st_auth = replicate 64 0, st_policy = replicate 64 0, st_priv = replicate 32 0,
      st_hash = replicate 32 0, st_name = replicate 34 0, st_ciphertext = replicate 1024 0,
      st_bytesRequested = 0\<rparr>"

lemma dev_step_ok: "dev_step L s s' \<Longrightarrow> lib_ok L \<Longrightarrow> dev_ok s \<Longrightarrow> dev_ok s'"
proof (induction rule: dev_step.induct)
  case (rd_reg addr s v s')
  with mmio_read_safe [of s addr] show ?case by auto
next
  case (wr_reg stk rnd addr v s s')
  with mmio_write_safe [of s stk rnd L addr v] show ?case by simp
qed

lemma dev_reachable_ok: "dev_reachable L s \<Longrightarrow> lib_ok L \<Longrightarrow> dev_ok s"
proof (induction rule: dev_reachable.induct)
  case (realized stk s)
  from \<open>lib_ok L\<close> realized(2) realized_name_room [OF \<open>lib_ok L\<close> realized(2,1)] show ?case
    by (rule realize_run) (use realized(1) in simp)
next
  case (step s s')
  then show ?case by (blast intro: dev_step_ok)
qed

lemma demo_stack_ok: "stack_ok demo_stack" "name_room demo_stack"
  by (simp_all add: name_room_def stack_ok_def demo_stack_def wf_CreatePrimary_Params_def wf_NV_DefineSpace_Params_def
      wf_NV_Write_Params_def)

lemma demo_lib_ok: "lib_ok demo_ossl"
  by (simp add: lib_ok_def demo_hmac_ok demo_digest_ok demo_cipher_ok)

lemma load_ok:
  assumes "dev_ok s" "length cmd \<le> 1024"
  shows "dev_ok (load cmd s)" "dev_view (load cmd s) = Receiving cmd" "dev_core (load cmd s) = dev_core s"
proof -
  have n: "unat (of_nat (length cmd) :: u32) = length cmd"
    using assms(2) by (intro unat_of_nat_u32) simp
  show c: "dev_core (load cmd s) = dev_core s" by (simp add: load_def dev_core_def)
  show "dev_view (load cmd s) = Receiving cmd" using n by (simp add: load_def dev_view_def)
  have "link_ok (load cmd s)" using assms n by (simp add: load_def link_ok_def dev_ok_def)
  with core_ok_cong [OF c] assms(1) show "dev_ok (load cmd s)" by (simp add: dev_ok_def)
qed

text \<open>A realized device exists, and it accepts the four bytes of \<open>TEST\<close> for its test index.\<close>

lemma demo_realized:
  obtains s where "dev_reachable demo_ossl s" "dev_ok s" "nv_key_usable s"
    "nv_lookup s 0x1500016 = Some (nv_new_entry 0 test_nv_public)" "tpm_mode s = TPM_MODE_NORMAL"
  using realize_run [OF demo_lib_ok demo_stack_ok]
  by (metis dev_reachable.realized demo_stack_ok(1) fun_upd_same)

lemma test_entry_accepts: "nv_write_accepts (nv_new_entry 0 test_nv_public) 4 0"
  by (simp add: nv_write_accepts_def nv_new_entry_def test_nv_public_def TPMA_NV_of_units_def
      any_write_bit_def)

lemma demo_receiving:
  obtains s where "dev_reachable demo_ossl s" "dev_ok s" "dev_state s = TPM_STATE_RECEIVING"
    "cmd_size s = 0"
proof (rule demo_realized)
  fix s
  assume s: "dev_reachable demo_ossl s" "dev_ok s"
  let ?s = "s\<lparr>dev_state := TPM_STATE_RECEIVING, cmd_size := 0, resp_size := 0, resp_idx := 0\<rparr>"
  have "tpm2_mmio_write demo_ossl demo_stack None TPM2_CTRL_REG 1 s = Some ?s"
    by (simp add: tpm2_mmio_write_def)
  then have "dev_step demo_ossl s ?s"
    by (rule wr_reg) (simp_all add: demo_stack_ok(1) rnd_ok_def)
  with s show thesis
    by (intro that [of ?s]) (auto intro: dev_reachable.step dev_step_ok [OF _ demo_lib_ok])
qed

lemma demo_empty_execution:
  assumes "dev_ok s" "dev_state s = TPM_STATE_RECEIVING" "cmd_size s = 0"
  shows "\<exists>s'. tpm2_mmio_write L stk rnd TPM2_CMD_REG 1 s = Some s'"
  by (cases rule: mmio_execute [OF assms(1,2), of L stk rnd])
    (use assms(3) in \<open>auto simp: tpm2_process_command_def executing_def TPM2_ValidateCommandHeader_def\<close>)

lemma load_command:
  assumes "dev_ok s" "length body \<le> 1014"
  shows "dev_ok (load (command_bytes c body) s)" "link_arrays (load (command_bytes c body) s)"
    "core_ok (load (command_bytes c body) s)" "cmd_body (load (command_bytes c body) s) = body"
    "dev_core (load (command_bytes c body) s) = dev_core s"
proof -
  let ?c = "command_bytes c body"
  have n: "unat (of_nat (length ?c) :: u32) = length ?c"
    using assms(2) by (intro unat_of_nat_u32) simp
  have le: "length ?c \<le> 1024" using assms(2) by simp
  note l = load_ok [OF assms(1) le]
  show "dev_ok (load ?c s)" "dev_core (load ?c s) = dev_core s" by (rule l)+
  then show "link_arrays (load ?c s)" "core_ok (load ?c s)"
    by (simp_all add: dev_ok_def link_ok_def link_arrays_def)
  have b: "command_buffer (load ?c s) = ?c @ replicate (1024 - length ?c) 0"
      "unat (cmd_size (load ?c s)) = length ?c"
    unfolding load_def using n by simp_all
  show "cmd_body (load ?c s) = body"
    unfolding cmd_body_def b by (simp add: command_bytes_def)
qed

text \<open>A device with a second index of 2000 bytes that has been written.\<close>

lemma demo_large_index:
  obtains s e where "dev_ok s" "nv_key_usable s" "nv_lookup s 0x1500020 = Some e" "e_written e"
    "\<not> e_readLocked e" "e_dataLen e = 2000"
proof (rule realize_run [OF demo_lib_ok demo_stack_ok])
  fix s
  assume s: "dev_ok s" "nv_key_usable s" "nv_count s = 1" "nv_alloc_offset s = 48"
    "nv_lookup s = [0x1500016 \<mapsto> nv_new_entry 0 test_nv_public]"
  let ?p = "demo_nv_public\<lparr>p_nvIndex := 0x1500020, p_dataSize := 2000\<rparr>"
  let ?s = "nv_defined s ?p" and ?i = "0x1500020 :: u32"
  have nv: "nv_ok s" using s(1) by (simp add: dev_ok_def core_ok_def)
  have ok: "nv_ok ?s"
    by (rule nv_defined_ok [OF nv]) (use s in simp_all)
  have lk: "nv_lookup ?s ?i = Some (nv_new_entry 48 ?p)"
    using s(4) by (simp add: nv_defined_lookup [OF nv])
  obtain m where "nv_map ?s = Some m" using ok by (rule nv_okE)
  then have "nv_lookup (mark_written ?i ?s) ?i = Some ((nv_new_entry 48 ?p)\<lparr>e_written := True\<rparr>)"
    using lk by (simp add: mark_written_def nv_lookup_insert)
  moreover have "dev_ok (mark_written ?i ?s)"
    using s(1) mark_written_ok(1) [OF ok, of ?i]
    by (simp add: dev_ok_def link_ok_def core_ok_def mark_written_def nv_insert_def nv_defined_def Let_def
        split: option.splits)
  moreover have "nv_key_usable (mark_written ?i ?s)"
    using s(2) by (simp add: nv_key_usable_def nv_defined_def Let_def)
  ultimately show thesis
    by (intro that [of "mark_written ?i ?s" "(nv_new_entry 48 ?p)\<lparr>e_written := True\<rparr>"])
      (simp_all add: nv_new_entry_def)
qed

section \<open>Properties\<close>

text \<open>
  C2.  The device stays in order.  In every state that any sequence of register accesses can reach
  after realization the invariant holds (arrays of their lengths, transfer registers inside the
  buffers, the NV store well laid out, the key buffer whole); every read of any register returns;
  and a write of any value to any register returns, except, and exactly then, when it starts the
  execution of a command that leaves an array.  That is the case when the header in the command
  buffer is valid and declares no more bytes than were received, and it names CreatePrimary and the
  handler leaves an array on these bytes (\<open>create_primary_overruns\<close>, with the creation of a key
  without memory for its name among the cases), or it names NV_Read and the handler does
  (\<open>nv_read_overruns\<close>).
\<close>

theorem reachable_in_order:
  assumes "lib_ok L" "dev_reachable L s"
  shows "dev_ok s \<and> (\<forall>addr. tpm2_mmio_read addr s \<noteq> None) \<and>
    (\<forall>stk rnd addr v. stack_ok stk \<and> rnd_ok rnd \<longrightarrow>
       (tpm2_mmio_write L stk rnd addr v s = None \<longleftrightarrow>
        addr = TPM2_CMD_REG \<and> v = 1 \<and> dev_state s = TPM_STATE_RECEIVING \<and>
        (\<exists>tag n code. take 10 (command_buffer s) = header_bytes tag n code \<and>
           (tag = TPM_ST_NO_SESSIONS \<or> tag = TPM_ST_SESSIONS) \<and> 10 \<le> unat n \<and> n \<le> cmd_size s \<and>
           tpm_mode s = TPM_MODE_NORMAL \<and>
           (code = TPM_CC_CreatePrimary \<and> create_primary_overruns stk (executing n s) \<or>
            code = TPM_CC_NV_Read \<and> nv_read_overruns stk (executing n s)))))"
proof -
  have ok: "dev_ok s" by (rule dev_reachable_ok [OF assms(2,1)])
  have "tpm2_mmio_read addr s \<noteq> None" for addr using mmio_read_safe [OF ok, of addr] by auto
  with ok show ?thesis
    by (intro conjI allI impI mmio_write_stuck_iff [OF ok _ _ assms(1), unfolded execution_overruns_iff [OF ok]])
      simp_all
qed

theorem reachable_in_order_witness:
  "\<exists>s. dev_reachable demo_ossl s \<and> dev_ok s \<and> tpm2_mmio_read TPM2_DATA_REG s \<noteq> None"
proof (rule demo_realized)
  fix s
  assume s: "dev_reachable demo_ossl s"
  note c = reachable_in_order [OF demo_lib_ok s]
  from s c [THEN conjunct1] c [THEN conjunct2, THEN conjunct1] show ?thesis by blast
qed

text \<open>
  C8.  Every executed command is answered.  Whatever has been received, when the driver starts the
  execution and the handler stays inside its arrays, the status register shows that a response is
  ready, and the bytes to be read are a well-formed response: the tag, the size of the response, a
  code, a body of that size, and padding to a whole number of words.
\<close>

theorem execution_answers:
  assumes "lib_ok L" "dev_reachable L s" "dev_state s = TPM_STATE_RECEIVING" "stack_ok stk" "rnd_ok rnd"
    and "tpm2_mmio_write L stk rnd TPM2_CMD_REG 1 s = Some s'"
  shows "tpm2_mmio_read TPM2_STATUS_REG s' = Some (4, s') \<and>
    (\<exists>r rc body. dev_view s' = Sending r \<and> response_is r rc body)"
proof -
  have "replies s'"
    by (rule mmio_execute_safe [OF dev_reachable_ok [OF assms(2,1)] assms(3,4,5,1,6)])
  then show ?thesis
    using mmio_status [of s'] by (auto simp: replies_def dev_ok_def)
qed

theorem execution_answers_witness:
  "\<exists>s s'. dev_reachable demo_ossl s \<and>
     tpm2_mmio_write demo_ossl demo_stack None TPM2_CMD_REG 1 s = Some s' \<and>
     tpm2_mmio_read TPM2_STATUS_REG s' = Some (4, s')"
  by (rule demo_receiving) (use execution_answers [OF demo_lib_ok _ _ demo_stack_ok(1), of _ None]
      demo_empty_execution in \<open>force simp: rnd_ok_def\<close>)

text \<open>
  C3.  The data and status registers implement the abstract transfer interface: a word written is
  appended to the command in transit (or the command is dropped when it outgrows the buffer), a word
  read is the next one of the response and the last one ends the transfer, starting a transfer
  discards what was in transit, and none of it touches the rest of the device.
\<close>

theorem registers_refine_link:
  assumes "dev_ok s"
  shows "(\<exists>s'. tpm2_mmio_write L stk rnd TPM2_DATA_REG v s = Some s' \<and> dev_ok s' \<and>
      dev_view s' = link_put (ucast v) (dev_view s) \<and> dev_core s' = dev_core s) \<and>
    (\<exists>s'. tpm2_mmio_read TPM2_DATA_REG s = Some (ucast (fst (link_get (dev_view s))), s') \<and> dev_ok s' \<and>
      dev_view s' = snd (link_get (dev_view s)) \<and> dev_core s' = dev_core s) \<and>
    tpm2_mmio_read TPM2_STATUS_REG s = Some (link_status (dev_view s), s) \<and>
    (\<exists>s'. tpm2_mmio_write L stk rnd TPM2_CTRL_REG 1 s = Some s' \<and> dev_ok s' \<and>
      dev_view s' = Receiving [] \<and> dev_core s' = dev_core s)"
  by (intro conjI port.put port.get port.status_reg port.start) (rule assms)+

theorem registers_refine_link_witness:
  "\<exists>s s'. tpm2_mmio_write demo_ossl demo_stack None TPM2_DATA_REG 0x01020304 s = Some s' \<and>
     dev_view s = Receiving [0xAA] \<and> dev_view s' = Receiving [0xAA, 1, 2, 3, 4]"
proof (rule demo_realized)
  fix s
  assume "dev_ok s"
  then have s: "dev_ok (load [0xAA] s)" "dev_view (load [0xAA] s) = Receiving [0xAA]"
    using load_ok [of s "[0xAA]"] by simp_all
  have "be32_bytes (ucast (0x01020304 :: u64)) = [1, 2, 3, 4]" by (simp add: be32_bytes_def)
  with registers_refine_link [OF s(1), of demo_ossl demo_stack None "0x01020304"] s(2)
  have "\<exists>s'. tpm2_mmio_write demo_ossl demo_stack None TPM2_DATA_REG 0x01020304 (load [0xAA] s) = Some s' \<and>
      dev_view s' = Receiving [0xAA, 1, 2, 3, 4]" by auto
  with s(2)
  show ?thesis by blast
qed



text \<open>
  C5.  The NV store works over the registers.  A received NV_Write command for an existing index, with
  an authorization handle of the owner or the platform, within the limits of the index and with a key
  in place, is executed with a success response; and any later NV_Read command for the same index and
  offset that finds the store and the key as the write left them is answered with the beginning of
  the data written, as long as asked for (at most 1012 bytes).
\<close>

theorem nv_commands_roundtrip:
  assumes "lib_ok L" "stack_ok stk" "dev_ok s" "tpm_mode s = TPM_MODE_NORMAL"
    and "dev_view s = Receiving (command_bytes TPM_CC_NV_Write (nv_write_wire h i d off) @ pad)"
    and "nv_lookup s i = Some e" "provision_handle h = Some ph"
    and "nv_write_accepts e (of_nat (length d)) off" "d \<noteq> []" "length d \<le> 1024"
    and "nv_key_usable s" "\<not> e_readLocked e"
  shows "\<exists>s1 r1. tpm2_mmio_write L stk rnd TPM2_CMD_REG 1 s = Some s1 \<and> dev_ok s1 \<and>
    dev_view s1 = Sending r1 \<and> response_is r1 TPM_RC_SUCCESS [] \<and>
    (\<forall>s2 h2 n pad2 stk2. dev_ok s2 \<and> dev_core s2 = dev_core s1 \<and> n \<noteq> 0 \<and> unat n \<le> length d \<and>
       unat n \<le> 1012 \<and>
       dev_view s2 = Receiving (command_bytes TPM_CC_NV_Read (nv_read_wire h2 i n off) @ pad2) \<longrightarrow>
       (\<exists>s3 r3. tpm2_mmio_write L stk2 rnd TPM2_CMD_REG 1 s2 = Some s3 \<and> dev_ok s3 \<and>
          dev_view s3 = Sending r3 \<and>
          response_is r3 TPM_RC_SUCCESS (be16_bytes n @ take (unat n) d)))"
proof -
  obtain ct t s1 where ct: "aes_cfb128 L True (nv_key s) (replicate 16 0) d = Some ct"
      "length ct = length d" and t: "dev_core t = dev_core s"
    and w: "tpm2_mmio_write L stk rnd TPM2_CMD_REG 1 s = Some s1"
      "answered TPM_RC_SUCCESS [] ((nv_written t i e (unat off) ct)\<lparr>nv_dirty := True\<rparr>) s1"
    and c: "core_ok t"
    by (rule execute_nv_write [OF assms(1-11)])
  let ?w = "(nv_written t i e (unat off) ct)\<lparr>nv_dirty := True\<rparr>"
  note eq = core_eq [OF t]
  have e: "nv_lookup t i = Some e" using assms(6) by (simp add: eq)
  have dl: "unat (of_nat (length d) :: u16) = length d" using assms(10) by simp
  have room: "unat off + length ct \<le> unat (e_dataLen e)"
    using assms(8) ct(2) dl by (simp add: nv_write_accepts_def)
  note ws = written_store [OF c e room]
  obtain r1 where s1: "dev_ok s1" "dev_view s1 = Sending r1" "response_is r1 TPM_RC_SUCCESS []"
      and core: "dev_core s1 = dev_core ?w"
    using w(2) ws(1) core_ok_cong [of s1 ?w] by (auto simp: answered_def dev_ok_def)
  have k: "\<not> e_readLocked e" "nv_key_usable t" "tpm_mode t = TPM_MODE_NORMAL"
      "aes_cfb128 L True (nv_key t) (replicate 16 0) d = Some ct"
    using assms(4,11,12) ct(1) by (simp_all add: eq)
  have "\<exists>s3 r3. tpm2_mmio_write L stk2 rnd TPM2_CMD_REG 1 s2 = Some s3 \<and> dev_ok s3 \<and>
      dev_view s3 = Sending r3 \<and> response_is r3 TPM_RC_SUCCESS (be16_bytes n @ take (unat n) d)"
    if s2: "dev_ok s2" "dev_core s2 = dev_core s1" and n: "n \<noteq> 0" "unat n \<le> length d" "unat n \<le> 1012"
      and v: "dev_view s2 = Receiving (command_bytes TPM_CC_NV_Read (nv_read_wire h2 i n off) @ pad2)"
    for s2 h2 n pad2 stk2
    by (rule execute_read_back [OF assms(1) c e k ct(2) room s2(1) s2(2) [unfolded core] n v]) blast
  with w(1) s1 show ?thesis by blast
qed

theorem nv_commands_roundtrip_witness:
  "\<exists>s s1 s2 s3 r3. tpm2_mmio_write demo_ossl demo_stack None TPM2_CMD_REG 1 s = Some s1 \<and>
     dev_core s2 = dev_core s1 \<and>
     tpm2_mmio_write demo_ossl demo_stack None TPM2_CMD_REG 1 s2 = Some s3 \<and>
     dev_view s3 = Sending r3 \<and> response_is r3 TPM_RC_SUCCESS [0, 4, 0x54, 0x45, 0x53, 0x54]"
proof (rule demo_realized)
  fix s
  assume s: "dev_ok s" "nv_key_usable s" "tpm_mode s = TPM_MODE_NORMAL"
    "nv_lookup s 0x1500016 = Some (nv_new_entry 0 test_nv_public)"
  let ?d = "[0x54, 0x45, 0x53, 0x54] :: bytes"
  let ?w = "command_bytes TPM_CC_NV_Write (nv_write_wire 0x40000001 0x1500016 ?d 0)"
  let ?r = "command_bytes TPM_CC_NV_Read (nv_read_wire 0x40000001 0x1500016 4 0)"
  have w: "dev_ok (load ?w s)" "dev_view (load ?w s) = Receiving (?w @ [])"
      "dev_core (load ?w s) = dev_core s"
    using load_ok [OF s(1), of ?w] by (simp_all add: nv_write_wire_def)
  have acc: "nv_write_accepts (nv_new_entry 0 test_nv_public) (of_nat (length ?d)) 0"
    using test_entry_accepts by simp
  have h: "provision_handle 0x40000001 = Some \<lparr>rp_owner = TPM_RH_OWNER, rp_platform = TPM_RH_OWNER,
      rp_responsefailcode = TPM_RH_OWNER\<rparr>" by (simp add: provision_handle_def)
  have f: "tpm_mode (load ?w s) = TPM_MODE_NORMAL" "nv_key_usable (load ?w s)"
      "nv_lookup (load ?w s) 0x1500016 = Some (nv_new_entry 0 test_nv_public)"
      "?d \<noteq> []" "length ?d \<le> 1024" "\<not> e_readLocked (nv_new_entry 0 test_nv_public)"
    using s core_eq [OF w(3)] by (simp_all add: nv_new_entry_def)
  from nv_commands_roundtrip [OF demo_lib_ok demo_stack_ok(1) w(1) f(1) w(2) f(3) h acc f(4,5,2,6), of None]
  obtain s1 where s1: "tpm2_mmio_write demo_ossl demo_stack None TPM2_CMD_REG 1 (load ?w s) = Some s1"
      "dev_ok s1" and rd: "\<And>s2 n pad2. dev_ok s2 \<and> dev_core s2 = dev_core s1 \<and> n \<noteq> 0 \<and>
        unat n \<le> length ?d \<and> unat n \<le> 1012 \<and> dev_view s2 =
          Receiving (command_bytes TPM_CC_NV_Read (nv_read_wire 0x40000001 0x1500016 n 0) @ pad2) \<Longrightarrow>
       \<exists>s3 r3. tpm2_mmio_write demo_ossl demo_stack None TPM2_CMD_REG 1 s2 = Some s3 \<and> dev_ok s3 \<and>
         dev_view s3 = Sending r3 \<and> response_is r3 TPM_RC_SUCCESS (be16_bytes n @ take (unat n) ?d)"
    by blast
  have "dev_ok (load ?r s1)" "dev_core (load ?r s1) = dev_core s1"
      "dev_view (load ?r s1) = Receiving (?r @ [])"
    using load_ok [OF s1(2), of ?r] by (simp_all add: nv_read_wire_def)
  with rd [of "load ?r s1" 4 "[]"] have "\<exists>s3 r3.
      tpm2_mmio_write demo_ossl demo_stack None TPM2_CMD_REG 1 (load ?r s1) = Some s3 \<and>
      dev_view s3 = Sending r3 \<and> response_is r3 TPM_RC_SUCCESS [0, 4, 0x54, 0x45, 0x53, 0x54]"
    by (auto simp: be16_bytes_def)
  with s1(1) \<open>dev_core (load ?r s1) = dev_core s1\<close> show ?thesis by blast
qed

text \<open>
  C29.  The handler of NV_Read overruns its 1024-byte response buffer on the stack exactly when an
  allowed read asks for more than 1024 bytes while a key is in place.  Indices may be as large as
  the bank, and the only check before the decryption is against the size of the index.
\<close>

theorem nv_read_overrun_exact:
  assumes "link_arrays s" "core_ok s" "cipher_ok L"
  shows "handle_NV_Read L stk s = None \<longleftrightarrow>
    nv_key_usable s \<and>
    (\<exists>p m e. Unmarshal_NV_Read (cmd_body s) (st_read stk) 0 = Some (TPM_RC_SUCCESS, p, m) \<and>
       nv_lookup s (nr_nvIndex p) = Some e \<and> e_written e \<and> \<not> e_readLocked e \<and>
       unat (nr_offset p) + unat (nr_sizeToRead p) \<le> unat (e_dataLen e) \<and>
       1024 < unat (nr_sizeToRead p))"
  unfolding nv_read_fault_iff [OF assms] nv_read_overruns_def nv_read_allowed_def by auto

theorem nv_read_overrun_exact_witness:
  "\<exists>s. dev_ok s \<and> cmd_body s = nv_read_wire 0x40000001 0x1500020 1025 0 \<and>
     handle_NV_Read demo_ossl demo_stack s = None"
proof (rule demo_large_index)
  fix s e
  assume s: "dev_ok s" "nv_key_usable s" "nv_lookup s 0x1500020 = Some e" "e_written e"
    "\<not> e_readLocked e" "e_dataLen e = 2000"
  let ?b = "nv_read_wire 0x40000001 0x1500020 1025 0"
  let ?s = "load (command_bytes TPM_CC_NV_Read ?b) s"
  have l: "dev_ok ?s" "link_arrays ?s" "core_ok ?s" "cmd_body ?s = ?b" "dev_core ?s = dev_core s"
    using load_command [OF s(1), of ?b TPM_CC_NV_Read] by (simp_all add: nv_read_wire_def)
  have "handle_NV_Read demo_ossl demo_stack ?s = None"
    unfolding nv_read_overrun_exact [OF l(2,3) demo_cipher_ok] l(4)
    using unmarshal_nv_read_wire [of "0x40000001" "0x1500020" 1025 0 "[]" "st_read demo_stack" 0] s
      core_eq [OF l(5)] by simp
  with l show ?thesis by blast
qed

text \<open>
  C30.  The handler of CreatePrimary leaves an array exactly when it accepts the parameter area and
  one of these holds: the data of the sensitive area exceed the 128 bytes of their destination (the
  parser allows 256); the authorization value exceeds 64 bytes; a field of the public template lies
  beyond the command buffer, which the size of the policy in the template decides unchecked; or the
  hierarchy exists and the template asks for an elliptic curve key, so that the key is created, and
  there is no memory for its name (\<open>name_room\<close>), as there is none in the local \<open>name\<close> itself.
\<close>

theorem create_primary_overrun_exact:
  assumes "link_arrays s" "core_ok s" "stack_ok stk" "lib_ok L"
  shows "handle_CreatePrimary L stk s = None \<longleftrightarrow>
    (\<exists>p m. Unmarshal_CreatePrimary (cmd_body s) (st_create stk) 0 = Some (TPM_RC_SUCCESS, p, m) \<and>
       (64 < unat (cp_userAuthSize p) \<or> 128 < unat (cp_dataSize p) \<or>
        cp_template (command_buffer s) (10 + m - unat (cp_inPublicSize p)) = None \<or>
        (\<exists>tmpl. cp_template (command_buffer s) (10 + m - unat (cp_inPublicSize p)) = Some tmpl \<and>
           hierarchy_seed s (cp_primaryHandle p) \<noteq> None \<and> t_type tmpl = TPM_ALG_ECC \<and> \<not> name_room stk)))"
proof -
  have "cp_sensitive p = None \<longleftrightarrow> 64 < unat (cp_userAuthSize p) \<or> 128 < unat (cp_dataSize p)"
    if "Unmarshal_CreatePrimary (cmd_body s) (st_create stk) 0 = Some (TPM_RC_SUCCESS, p, m)" for p m
  proof -
    have "wf_CreatePrimary_Params p"
      using unmarshal_create_primary_safe [of "st_create stk" "cmd_body s"] assms(3) that
      by (simp add: stack_ok_def safe_result_def)
    then show ?thesis
      by (auto simp: cp_sensitive_def wf_CreatePrimary_Params_def memcpy_def word_gt_0 unat_eq_0
          split: option.splits)
  qed
  then show ?thesis
    unfolding create_primary_fault_iff [OF assms] create_primary_overruns_def option_case_True by blast
qed

theorem create_primary_overrun_exact_witness:
  "\<exists>s. dev_ok s \<and> length (cmd_body s) = 18 \<and> handle_CreatePrimary demo_ossl demo_stack s = None"
proof (rule demo_realized)
  fix s
  assume ok: "dev_ok s"
  let ?b = "[0x40, 0, 0, 1, 0, 0, 0, 0x0A, 0, 0x23, 0, 0x0B, 0, 3, 0, 0x72, 0xFF, 0xFF] :: bytes"
  let ?s = "load (command_bytes TPM_CC_CreatePrimary ?b) s"
  have l: "dev_ok ?s" "link_arrays ?s" "core_ok ?s" "cmd_body ?s = ?b"
      and c: "command_buffer ?s = command_bytes TPM_CC_CreatePrimary ?b @ replicate 996 0"
    using load_command [OF ok, of ?b TPM_CC_CreatePrimary] by (simp_all add: load_def)
  have u: "Unmarshal_CreatePrimary ?b (st_create demo_stack) 0 = Some (TPM_RC_SUCCESS,
      (st_create demo_stack)\<lparr>cp_primaryHandle := 0x40000001, cp_inSensitiveSize := 0,
        cp_inPublicSize := 10\<rparr>, 18)"
    by (simp add: Unmarshal_CreatePrimary_def unmarshal_at_def no_fault_def Unmarshal_UINT32_def
        Unmarshal_UINT16_def be32_def be16_def)
  have "cp_template (command_buffer ?s) 18 = None"
    unfolding c by (simp add: cp_template_def rd16_def rd32_def command_bytes_def nth_append be16_def)
  then have "handle_CreatePrimary demo_ossl demo_stack ?s = None"
    unfolding create_primary_overrun_exact [OF l(2,3) demo_stack_ok(1) demo_lib_ok] l(4) u by simp
  with l show ?thesis by (intro exI [of _ ?s]) simp
qed

text \<open>
  C13.  GetRandom over the registers.  A request for at most 32 bytes is answered with exactly as many
  bytes of the device's random array, refilled from the generator before; a larger one is refused
  with \<open>TPM_RC_SIZE\<close>.  When the generator fails the array keeps its old contents, and the response
  is a success all the same.
\<close>

theorem get_random_over_registers:
  assumes "dev_ok s" "tpm_mode s = TPM_MODE_NORMAL" "rnd_ok rnd"
    and "dev_view s = Receiving (command_bytes TPM_CC_GetRandom (be16_bytes n) @ pad)"
  shows "\<exists>s' r. tpm2_mmio_write L stk rnd TPM2_CMD_REG 1 s = Some s' \<and> dev_view s' = Sending r \<and>
    (if unat n \<le> 32
     then response_is r TPM_RC_SUCCESS
            (be16_bytes n @ take (unat n) (case rnd of None \<Rightarrow> random_data s | Some d \<Rightarrow> d))
     else response_is r TPM_RC_SIZE [])"
proof -
  have c: "is_valid_cc_command TPM_CC_GetRandom" by (simp add: is_valid_cc_command_def)
  show ?thesis
  proof (rule execute_command [OF assms(1,4) c assms(2), of L stk rnd])
    fix e
    assume e: "link_arrays e" "core_ok e" "dev_core e = dev_core s" "cmd_body e = be16_bytes n"
      and w: "tpm2_mmio_write L stk rnd TPM2_CMD_REG 1 s =
        (if TPM_CC_GetRandom = TPM_CC_GetRandom then handle_GetRandom stk rnd e
         else if TPM_CC_GetRandom = TPM_CC_CreatePrimary then handle_CreatePrimary L stk e
         else if TPM_CC_GetRandom = TPM_CC_NV_DefineSpace then handle_NV_DefineSpace stk e
         else if TPM_CC_GetRandom = TPM_CC_NV_Write then handle_NV_Write L stk e
         else if TPM_CC_GetRandom = TPM_CC_NV_Read then handle_NV_Read L stk e
         else Some (build_error_response TPM_RC_COMMAND_CODE e))"
    have "random_data (dev_core e) = random_data (dev_core s)" using e(3) by simp
    then have "random_data (tpm2_generate_random rnd e) = (case rnd of None \<Rightarrow> random_data s | Some d \<Rightarrow> d)"
      by (simp add: dev_core_def tpm2_generate_random_def split: option.split)
    then show ?thesis
      using handle_GetRandom_answers [OF e(1) _ assms(3), of stk] e(2,4) w
      by (cases "unat n \<le> 32") (auto simp: core_ok_def get_random_answer_def answered_def not_le)
  qed
qed

theorem get_random_over_registers_witness:
  "\<exists>s s' r. tpm2_mmio_write demo_ossl demo_stack (Some (replicate 32 7)) TPM2_CMD_REG 1 s = Some s' \<and>
     dev_view s' = Sending r \<and> response_is r TPM_RC_SUCCESS [0, 3, 7, 7, 7]"
proof (rule demo_realized)
  fix s
  assume s: "dev_ok s" "tpm_mode s = TPM_MODE_NORMAL"
  let ?c = "command_bytes TPM_CC_GetRandom (be16_bytes 3)"
  note l = load_ok [OF s(1), of ?c]
  have r: "rnd_ok (Some (replicate 32 7))" by (simp add: rnd_ok_def)
  have t: "take 3 (replicate 32 (7 :: u8)) = [7, 7, 7]" by (simp add: numeral_eq_Suc)
  from get_random_over_registers [OF _ _ r, of "load ?c s" 3 "[]" demo_ossl demo_stack] l s(2)
    core_eq [OF l(3)] t
  show ?thesis by (auto simp: be16_bytes_def)
qed

text \<open>
  C31.  A refused CreatePrimary locks the NV store: when the command names an existing hierarchy and a
  key type other than elliptic curves, it is refused, but the key of the NV store is gone, and from
  then on every NV_Read and every NV_Write command fails, until a key is created again.
\<close>

theorem refused_create_primary_locks_nv:
  assumes "link_arrays s" "core_ok s" "stack_ok stk" "cipher_ok L"
    and "Unmarshal_CreatePrimary (cmd_body s) (st_create stk) 0 = Some (TPM_RC_SUCCESS, p, m)"
    and "cp_sensitive p = Some auth"
    and "cp_template (command_buffer s) (10 + m - unat (cp_inPublicSize p)) = Some tmpl"
    and "t_type tmpl \<noteq> TPM_ALG_ECC" "hierarchy_seed s (cp_primaryHandle p) \<noteq> None"
  shows "\<exists>s' t. handle_CreatePrimary L stk s = Some s' \<and> answered TPM_RC_ASYMMETRIC [] t s' \<and>
    (\<forall>u. link_arrays u \<and> dev_core u = dev_core s' \<longrightarrow>
       (\<exists>u' rc. handle_NV_Read L stk u = Some u' \<and> answered rc [] u u' \<and> rc \<noteq> TPM_RC_SUCCESS) \<and>
       (\<exists>u' rc. handle_NV_Write L stk u = Some u' \<and> answered rc [] u u' \<and> rc \<noteq> TPM_RC_SUCCESS))"
proof -
  obtain seed where seed: "hierarchy_seed s (cp_primaryHandle p) = Some seed" using assms(9) by blast
  let ?s1 = "s\<lparr>next_transient_handle := next_transient_handle s + 1\<rparr>"
  let ?t = "?s1\<lparr>primary_sensitive := fresh_sensitive (t_type tmpl) auth seed\<rparr>"
  have "hierarchy_seed ?s1 (cp_primaryHandle p) = Some seed"
    using seed by (auto simp: hierarchy_seed_def split: if_splits)
  note r = CreatePrimary_asymmetric [OF this assms(8)]
  have h: "handle_CreatePrimary L stk s = Some (build_error_response TPM_RC_ASYMMETRIC ?t)"
    using assms(5-7) r by (simp add: handle_CreatePrimary_def)
  have t: "link_arrays ?t" "core_ok ?t" "\<not> nv_key_usable ?t"
    using assms(1,2) by (simp_all add: link_arrays_def core_ok_def nv_ok_def fresh_sensitive_def
        nv_key_usable_def)
  note a = error_answered [OF t(1), of TPM_RC_ASYMMETRIC]
  have "(\<exists>u' rc. handle_NV_Read L stk u = Some u' \<and> answered rc [] u u' \<and> rc \<noteq> TPM_RC_SUCCESS) \<and>
      (\<exists>u' rc. handle_NV_Write L stk u = Some u' \<and> answered rc [] u u' \<and> rc \<noteq> TPM_RC_SUCCESS)"
    if u: "link_arrays u" "dev_core u = dev_core ?t" for u
  proof -
    have c: "core_ok u" "\<not> nv_key_usable u" using t core_ok_cong [OF u(2)] core_eq [OF u(2)] by simp_all
    show ?thesis
      using c(2) handle_NV_Write_answers [OF u(1) c(1) assms(3,4)]
      by (intro conjI; (cases rule: handle_NV_Read_outcome [OF u(1) c(1) assms(4), of stk])?) blast+
  qed
  with h a show ?thesis by (auto simp: answered_def)
qed

theorem refused_create_primary_locks_nv_witness:
  "\<exists>s s'. dev_ok s \<and> nv_key_usable s \<and> handle_CreatePrimary demo_ossl demo_stack s = Some s' \<and>
     (\<forall>u. link_arrays u \<and> dev_core u = dev_core s' \<longrightarrow>
       (\<exists>u' rc. handle_NV_Read demo_ossl demo_stack u = Some u' \<and> answered rc [] u u' \<and>
          rc \<noteq> TPM_RC_SUCCESS))"
proof (rule demo_realized)
  fix s
  assume ok: "dev_ok s" "nv_key_usable s"
  let ?b = "[0x40, 0, 0, 1, 0, 0, 0, 0x0A, 0, 1, 0, 0x0B, 0, 3, 0, 0x72, 0, 0] :: bytes"
  let ?s = "load (command_bytes TPM_CC_CreatePrimary ?b) s"
  let ?p = "(st_create demo_stack)\<lparr>cp_primaryHandle := 0x40000001, cp_inSensitiveSize := 0,
        cp_inPublicSize := 10\<rparr>"
  have l: "dev_ok ?s" "link_arrays ?s" "core_ok ?s" "cmd_body ?s = ?b" "dev_core ?s = dev_core s"
      and c: "command_buffer ?s = command_bytes TPM_CC_CreatePrimary ?b @ replicate 996 0"
    using load_command [OF ok(1), of ?b TPM_CC_CreatePrimary] by (simp_all add: load_def)
  have u: "Unmarshal_CreatePrimary (cmd_body ?s) (st_create demo_stack) 0 = Some (TPM_RC_SUCCESS, ?p, 18)"
    unfolding l(4)
    by (simp add: Unmarshal_CreatePrimary_def unmarshal_at_def no_fault_def Unmarshal_UINT32_def
        Unmarshal_UINT16_def be32_def be16_def)
  have a: "cp_sensitive ?p = Some (0, replicate 64 0)"
    by (simp add: cp_sensitive_def demo_stack_def)
  have "\<exists>tmpl. cp_template (command_buffer ?s) (10 + 18 - unat (cp_inPublicSize ?p)) = Some tmpl \<and>
      t_type tmpl = 1"
    unfolding c by (simp add: cp_template_def rd16_def rd32_def command_bytes_def nth_append be16_def)
  then obtain tmpl where t: "cp_template (command_buffer ?s) (10 + 18 - unat (cp_inPublicSize ?p)) =
      Some tmpl" "t_type tmpl \<noteq> TPM_ALG_ECC" by auto
  have h: "hierarchy_seed ?s (cp_primaryHandle ?p) \<noteq> None" by (simp add: hierarchy_seed_def)
  have "nv_key_usable ?s" using ok(2) core_eq [OF l(5)] by simp
  with refused_create_primary_locks_nv [OF l(2,3) demo_stack_ok(1) demo_cipher_ok u a t h] l(1)
  show ?thesis by blast
qed

text \<open>
  C12.  Commands that are not meant to change the NV store do not: GetRandom, CreatePrimary and
  NV_Read leave the indices and their stored bytes as they were, whatever their result.
\<close>

theorem other_commands_keep_nv:
  assumes "link_arrays s" "core_ok s" "rnd_ok rnd" "cipher_ok L"
    and "handle_GetRandom stk rnd s = Some s' \<or> handle_CreatePrimary L stk s = Some s' \<or>
      handle_NV_Read L stk s = Some s'"
  shows "nv_lookup s' = nv_lookup s \<and> nv_contents s' = nv_contents s"
  using assms(5)
proof (elim disjE)
  assume h: "handle_GetRandom stk rnd s = Some s'"
  have "length (random_data s) = 32" using assms(2) by (simp add: core_ok_def)
  from handle_GetRandom_answers [OF assms(1) this assms(3), of stk] h obtain rc body where
    "answered rc body s s' \<or> answered rc body (tpm2_generate_random rnd s) s'"
    by (auto split: prod.splits if_splits)
  moreover have "nv_map (tpm2_generate_random rnd s) = nv_map s"
      "nv_bank (tpm2_generate_random rnd s) = nv_bank s"
    by (simp_all add: tpm2_generate_random_def split: option.split)
  ultimately show ?thesis using answered_keeps_nv by metis
next
  assume "handle_CreatePrimary L stk s = Some s'"
  from handle_CreatePrimary_replies [OF assms(1,2) this] obtain rc body t where
    a: "answered rc body t s'" and t: "t = s\<lparr>next_transient_handle := next_transient_handle t,
        primary_sensitive := primary_sensitive t, primary_public := primary_public t,
        primary_name_size := primary_name_size t\<rparr>" by blast
  have "nv_map t = nv_map s" "nv_bank t = nv_bank s" by (subst t, simp)+
  with a show ?thesis by (rule answered_keeps_nv)
next
  assume "handle_NV_Read L stk s = Some s'"
  then show ?thesis
    by (cases rule: handle_NV_Read_outcome [OF assms(1,2,4), of stk])
      (auto dest: answered_keeps_nv)
qed

theorem other_commands_keep_nv_witness:
  "\<exists>s s'. handle_NV_Read demo_ossl demo_stack s = Some s' \<and> nv_lookup s \<noteq> (\<lambda>_. None) \<and>
     nv_lookup s' = nv_lookup s \<and> nv_contents s' = nv_contents s"
proof (rule demo_realized)
  fix s
  assume s: "dev_ok s" "nv_lookup s 0x1500016 = Some (nv_new_entry 0 test_nv_public)"
  have "\<exists>s'. handle_NV_Read demo_ossl demo_stack (load [] s) = Some s'"
    by (simp add: handle_NV_Read_def load_def cmd_body_def Unmarshal_NV_Read_def unmarshal_at_def
        no_fault_def Unmarshal_UINT32_def)
  then obtain s' where h: "handle_NV_Read demo_ossl demo_stack (load [] s) = Some s'" by blast
  note k = load_ok [OF s(1), of "[]"]
  have l: "link_arrays (load [] s)" "core_ok (load [] s)"
    using k by (simp_all add: dev_ok_def link_ok_def link_arrays_def)
  have "nv_lookup (load [] s) = nv_lookup s" using core_eq [OF k(3)] by simp
  with s(2) have "nv_lookup (load [] s) \<noteq> (\<lambda>_. None)" by auto
  with other_commands_keep_nv [OF l, of None demo_ossl demo_stack s'] h demo_cipher_ok
  show ?thesis by (auto simp: rnd_ok_def)
qed

end
