(* ===== verification/Board.thy ===== *)
theory Board
  imports FW_Driver TPM_System
begin

text \<open>
  The machine of \<^verbatim>\<open>hw/arm/nxps32k3x8evb.c\<close> and \<^verbatim>\<open>nxps32k3x8evb_mcu.c\<close>: its memory map, its two devices,
  and the accesses of the processor to their registers.  The processor itself, the clock, the
  interrupt controller and the contents of RAM and flash belong to QEMU and are not modelled; an
  access outside the two device windows is \<open>None\<close>.  \<open>board\<close> interprets the contract the firmware relies on.
\<close>

section \<open>Memory map\<close>

abbreviation (input) ITCM_BASE_ADDRESS :: nat where "ITCM_BASE_ADDRESS \<equiv> 0"
abbreviation (input) ITCM_BLOCK_SIZE :: nat where "ITCM_BLOCK_SIZE \<equiv> 64 * 1024"
abbreviation (input) ITCM_NUM :: nat where "ITCM_NUM \<equiv> 1"
abbreviation (input) ITCM_SIZE :: nat where "ITCM_SIZE \<equiv> ITCM_BLOCK_SIZE + ITCM_NUM"
abbreviation (input) PFLASH_BASE_ADDRESS :: nat where "PFLASH_BASE_ADDRESS \<equiv> 0x00400000"
abbreviation (input) PFLASH_BLOCK_SIZE :: nat where "PFLASH_BLOCK_SIZE \<equiv> 2048 * 1024"
abbreviation (input) PFLASH_NUM :: nat where "PFLASH_NUM \<equiv> 4"
abbreviation (input) PFLASH_SIZE :: nat where "PFLASH_SIZE \<equiv> PFLASH_NUM * PFLASH_BLOCK_SIZE"
abbreviation (input) DFLASH_BASE_ADDRESS :: nat where "DFLASH_BASE_ADDRESS \<equiv> 0x10000000"
abbreviation (input) DFLASH_SIZE :: nat where "DFLASH_SIZE \<equiv> 256 * 1024 * 1"
abbreviation (input) SRAM_BASE_ADDRESS :: nat where "SRAM_BASE_ADDRESS \<equiv> 0x20400000"
abbreviation (input) SRAM_BLOCK_SIZE :: nat where "SRAM_BLOCK_SIZE \<equiv> 256 * 1024"
abbreviation (input) SRAM_NUM :: nat where "SRAM_NUM \<equiv> 3"
abbreviation (input) SRAM_SIZE :: nat where "SRAM_SIZE \<equiv> SRAM_BLOCK_SIZE * SRAM_NUM"
abbreviation (input) LPUART_BASE_ADDRESS :: nat where "LPUART_BASE_ADDRESS \<equiv> 0x40328000"
abbreviation (input) UART_SIZE :: nat where "UART_SIZE \<equiv> 16 * 1024"
abbreviation (input) TPM_BASE_ADDRESS :: nat where "TPM_BASE_ADDRESS \<equiv> 0xF0000000"
abbreviation (input) TPM_SIZE :: nat where "TPM_SIZE \<equiv> 4 * 1024"

datatype region = Itcm nat | Pflash nat | Sram nat | Dflash | Tpm | Uart

text \<open>
  A leaf region with its address and its size, and the blocks of a container of \<open>csize\<close> bytes at
  \<open>base\<close>, one every \<open>stride\<close> bytes: what lies outside the container cannot be reached.
\<close>

type_synonym leaf = "region \<times> nat \<times> nat"

definition container_blocks :: "(nat \<Rightarrow> region) \<Rightarrow> nat \<Rightarrow> nat \<Rightarrow> nat \<Rightarrow> nat \<Rightarrow> nat \<Rightarrow> leaf list" where
  "container_blocks name base csize num stride block_size =
     map (\<lambda>i. (name i, base + i * stride, min block_size (csize - i * stride)))
       (filter (\<lambda>i. i * stride < csize) [0..<num])"

definition mcu_regions :: "leaf list" where
  "mcu_regions =
     container_blocks Itcm ITCM_BASE_ADDRESS ITCM_SIZE ITCM_NUM ITCM_BLOCK_SIZE ITCM_BLOCK_SIZE @
     container_blocks Pflash PFLASH_BASE_ADDRESS PFLASH_SIZE PFLASH_NUM PFLASH_BASE_ADDRESS PFLASH_BLOCK_SIZE @
     container_blocks Sram SRAM_BASE_ADDRESS SRAM_SIZE SRAM_NUM SRAM_BLOCK_SIZE SRAM_BLOCK_SIZE @
     [(Dflash, DFLASH_BASE_ADDRESS, DFLASH_SIZE), (Tpm, TPM_BASE_ADDRESS, TPM_SIZE)]"

text \<open>The container of the board, behind the regions of the microcontroller, holds the serial port.\<close>

definition machine_regions :: "leaf list" where
  "machine_regions = [(Uart, LPUART_BASE_ADDRESS, UART_SIZE)]"

fun leaf_at :: "leaf list \<Rightarrow> nat \<Rightarrow> (region \<times> nat) option" where
  "leaf_at [] a = None"
| "leaf_at ((r, base, n) # ls) a = (if base \<le> a \<and> a < base + n then Some (r, a - base) else leaf_at ls a)"

definition resolve :: "u32 \<Rightarrow> (region \<times> nat) option" where
  "resolve addr = leaf_at (mcu_regions @ machine_regions) (unat addr)"

section \<open>Devices\<close>

record board =
  b_tpm :: TPM2State
  b_uart :: NXP_UART_STATE

text \<open>A register access of 32 bits, on the device the address belongs to.\<close>

definition board_write :: "ossl \<Rightarrow> stack0 \<Rightarrow> bytes option \<Rightarrow> u64 \<Rightarrow> u32 \<Rightarrow> u32 \<Rightarrow> board \<Rightarrow> board option" where
  "board_write L stk rnd clk addr v b =
     (case resolve addr of
        Some (Tpm, off) \<Rightarrow>
          map_option (\<lambda>s. b\<lparr>b_tpm := s\<rparr>) (tpm2_mmio_write L stk rnd (of_nat off) (ucast v) (b_tpm b))
      | Some (Uart, off) \<Rightarrow>
          map_option (\<lambda>s. b\<lparr>b_uart := s\<rparr>) (nxp_uart_write clk (of_nat off) (ucast v) (b_uart b))
      | _ \<Rightarrow> None)"

definition board_read :: "u32 \<Rightarrow> board \<Rightarrow> (u32 \<times> board) option" where
  "board_read addr b =
     (case resolve addr of
        Some (Tpm, off) \<Rightarrow>
          map_option (\<lambda>(v, s). (ucast v, b\<lparr>b_tpm := s\<rparr>)) (tpm2_mmio_read (of_nat off) (b_tpm b))
      | Some (Uart, off) \<Rightarrow>
          map_option (\<lambda>(v, s). (ucast v, b\<lparr>b_uart := s\<rparr>)) (nxp_uart_read (of_nat off) (b_uart b))
      | _ \<Rightarrow> None)"

definition board_bus :: "ossl \<Rightarrow> stack0 \<Rightarrow> bytes option \<Rightarrow> u64 \<Rightarrow> board bus" where
  "board_bus L stk rnd clk = \<lparr>bus_write = board_write L stk rnd clk, bus_read = board_read\<rparr>"

text \<open>
  The microcontroller realizes the TPM, the machine adds the serial port; then the reset of the
  machine resets both.
\<close>

definition nxps32k3x8evb_mcu_realize :: "ossl \<Rightarrow> stack0 \<Rightarrow> bool \<Rightarrow> TPM2State option" where
  "nxps32k3x8evb_mcu_realize L stk ram_ok = tpm2_realize L stk ram_ok tpm2_init"

definition nxps32k3x8evb_init :: "ossl \<Rightarrow> stack0 \<Rightarrow> bool \<Rightarrow> board option" where
  "nxps32k3x8evb_init L stk ram_ok =
     map_option (\<lambda>s. \<lparr>b_tpm = s, b_uart = nxp_uart_init\<rparr>) (nxps32k3x8evb_mcu_realize L stk ram_ok)"

definition board_reset :: "board \<Rightarrow> board" where
  "board_reset b = \<lparr>b_tpm = tpm2_reset (b_tpm b), b_uart = nxp_uart_reset (b_uart b)\<rparr>"

text \<open>A key pressed at the console, when the port has room for it.\<close>

definition board_key :: "u8 \<Rightarrow> board \<Rightarrow> board option" where
  "board_key k b =
     (if nxp_uart_can_receive (b_uart b) < 1 then None
      else map_option (\<lambda>s. b\<lparr>b_uart := s\<rparr>) (nxp_uart_receive [k] (b_uart b)))"

text \<open>
  A step of the machine: an access to a device, input or a line event from the backend of the serial
  port, or a reset.  The machine starts with the reset after its realization.
\<close>

inductive board_step :: "ossl \<Rightarrow> board \<Rightarrow> board \<Rightarrow> bool" for L where
  wr: "board_write L stk rnd clk addr v b = Some b' \<Longrightarrow> stack_ok stk \<Longrightarrow> rnd_ok rnd \<Longrightarrow> board_step L b b'"
| rd: "board_read addr b = Some (v, b') \<Longrightarrow> board_step L b b'"
| input: "int (length buf) \<le> nxp_uart_can_receive (b_uart b) \<Longrightarrow> nxp_uart_receive buf (b_uart b) = Some u \<Longrightarrow>
    board_step L b (b\<lparr>b_uart := u\<rparr>)"
| event: "nxp_uart_event is_break (b_uart b) = Some u \<Longrightarrow> board_step L b (b\<lparr>b_uart := u\<rparr>)"
| reset: "board_step L b (board_reset b)"

inductive board_reachable :: "ossl \<Rightarrow> board \<Rightarrow> bool" for L where
  start: "nxps32k3x8evb_init L stk True = Some b \<Longrightarrow> stack_ok stk \<Longrightarrow> board_reachable L (board_reset b)"
| step: "board_reachable L b \<Longrightarrow> board_step L b b' \<Longrightarrow> board_reachable L b'"

text \<open>The well-formedness of the state of the machine: every array and index of both devices.\<close>

definition board_typed :: "board \<Rightarrow> bool" where
  "board_typed b \<longleftrightarrow> dev_ok (b_tpm b) \<and> uart_ok (b_uart b)"

section \<open>Lemmas\<close>

lemma regions_eq:
  "mcu_regions @ machine_regions =
     [(Itcm 0, 0, 0x10000), (Pflash 0, 0x400000, 0x200000), (Pflash 1, 0x800000, 0x200000),
      (Sram 0, 0x20400000, 0x40000), (Sram 1, 0x20440000, 0x40000), (Sram 2, 0x20480000, 0x40000),
      (Dflash, 0x10000000, 0x40000), (Tpm, 0xF0000000, 0x1000), (Uart, 0x40328000, 0x4000)]"
  by (simp add: mcu_regions_def machine_regions_def container_blocks_def upt_rec)

text \<open>The two windows, and the rest of the map.\<close>

lemma resolve_tpm [simp]: "0xF0000000 \<le> unat addr \<Longrightarrow> unat addr < 0xF0001000 \<Longrightarrow>
    resolve addr = Some (Tpm, unat addr - 0xF0000000)"
  unfolding resolve_def regions_eq by simp

lemma resolve_uart [simp]: "0x40328000 \<le> unat addr \<Longrightarrow> unat addr < 0x4032C000 \<Longrightarrow>
    resolve addr = Some (Uart, unat addr - 0x40328000)"
  unfolding resolve_def regions_eq by simp

lemma tpm_register:
  assumes "unat (a :: u64) < 0x1000"
  shows "resolve (0xF0000000 + ucast a) = Some (Tpm, unat a)"
proof -
  have "unat (ucast a :: u32) = unat a" using assms by (simp add: unsigned_ucast_eq unsigned_take_bit_eq take_bit_nat_eq_self)
  then have "unat (0xF0000000 + ucast a :: u32) = 0xF0000000 + unat a"
    using assms by (subst unat_add_lem [THEN iffD1]) simp_all
  with assms show ?thesis by simp
qed

lemma uart_register:
  assumes "unat (a :: u64) < 0x4000"
  shows "resolve (0x40328000 + ucast a) = Some (Uart, unat a)"
proof -
  have "unat (ucast a :: u32) = unat a" using assms by (simp add: unsigned_ucast_eq unsigned_take_bit_eq take_bit_nat_eq_self)
  then have "unat (0x40328000 + ucast a :: u32) = 0x40328000 + unat a"
    using assms by (subst unat_add_lem [THEN iffD1]) simp_all
  with assms show ?thesis by simp
qed

lemma board_tpm_wr: "unat a < 0x1000 \<Longrightarrow> tpm_wr (board_bus L stk rnd clk) a v b =
    map_option (\<lambda>s. b\<lparr>b_tpm := s\<rparr>) (tpm2_mmio_write L stk rnd a (ucast (ucast v :: u32)) (b_tpm b))"
  by (simp add: tpm_wr_def board_bus_def board_write_def tpm_register)

lemma board_tpm_rd: "unat a < 0x1000 \<Longrightarrow> tpm_rd (board_bus L stk rnd clk) a b =
    map_option (\<lambda>(v, s). (ucast (ucast v :: u32), b\<lparr>b_tpm := s\<rparr>)) (tpm2_mmio_read a (b_tpm b))"
  by (cases "tpm2_mmio_read a (b_tpm b)") (auto simp: tpm_rd_def board_bus_def board_read_def tpm_register)

lemma board_uart_wr: "unat a < 0x4000 \<Longrightarrow> uart_wr (board_bus L stk rnd clk) a v b =
    map_option (\<lambda>s. b\<lparr>b_uart := s\<rparr>) (nxp_uart_write clk a (ucast (ucast v :: u32)) (b_uart b))"
  by (simp add: uart_wr_def board_bus_def board_write_def uart_register)

lemma board_uart_rd: "unat a < 0x4000 \<Longrightarrow> uart_rd (board_bus L stk rnd clk) a b =
    map_option (\<lambda>(v, s). (ucast (ucast v :: u32), b\<lparr>b_uart := s\<rparr>)) (nxp_uart_read a (b_uart b))"
  by (cases "nxp_uart_read a (b_uart b)") (auto simp: uart_rd_def board_bus_def board_read_def uart_register)


section \<open>The board keeps the contracts the firmware relies on\<close>

definition board_ok :: "board \<Rightarrow> bool" where
  "board_ok b \<longleftrightarrow> dev_ok (b_tpm b) \<and> serial_ok (b_uart b)"

lemma low_register [simp]:
  "unat (0x00 :: u64) < 0x1000" "unat (0x04 :: u64) < 0x1000" "unat (0x10 :: u64) < 0x1000"
  "unat (0x00 :: u64) < 0x4000" "unat (0x08 :: u64) < 0x4000" "unat (0x10 :: u64) < 0x4000"
  "unat (0x18 :: u64) < 0x4000"
  by simp_all

lemma ucast_byte: "ucast (ucast (ucast (v :: u64) :: u32) :: u64) = (ucast v :: u8)"
  by (rule bit_word_eqI) (auto simp: bit_simps)

interpretation board: fw_machine "board_bus L stk rnd clk" board_ok "\<lambda>b. dev_view (b_tpm b)"
    "\<lambda>b. dev_core (b_tpm b)" "\<lambda>b. uart_queue (b_uart b)" "\<lambda>b. uart_sent (b_uart b)"
  for L stk rnd clk
proof (unfold_locales, goal_cases)
  case (1 b)
  with port.start [of "b_tpm b" L stk rnd] show ?case by (auto simp: board_ok_def board_tpm_wr)
next
  case (2 b v)
  with port.put [of "b_tpm b" L stk rnd "ucast (ucast v :: u32)"] show ?case
    by (auto simp: board_ok_def board_tpm_wr)
next
  case (3 b)
  with port.status_reg [of "b_tpm b"] show ?case
    by (cases "dev_view (b_tpm b)") (auto simp: board_ok_def board_tpm_rd)
next
  case (4 b)
  with port.get [of "b_tpm b"] show ?case by (auto simp: board_ok_def board_tpm_rd)
next
  case (5 b r)
  then show ?case using port.whole_words [of "b_tpm b" r] by (simp add: board_ok_def)
next
  case (6 b v)
  with serial.send [of "b_uart b" clk "ucast (ucast v :: u32)"] show ?case
    by (auto simp: board_ok_def board_uart_wr ucast_byte)
next
  case (7 b)
  then obtain v where v: "nxp_uart_read 0x18 (b_uart b) = Some (v, b_uart b)"
      "bit v 4 \<longleftrightarrow> uart_queue (b_uart b) = []" "\<not> bit v 5"
    using serial.flag_reg [of "b_uart b"] by (auto simp: board_ok_def)
  then show ?case by (simp add: board_uart_rd bit_ucast_iff)
next
  case (8 b c q)
  with serial.fetch [of "b_uart b" c q] show ?case by (auto simp: board_ok_def board_uart_rd)
next
  case (9 b v)
  with serial.no_reg(1) [of "b_uart b" clk "ucast (ucast v :: u32)"] show ?case
    by (simp add: board_ok_def board_uart_wr)
next
  case (10 b v)
  with serial.no_reg(2) [of "b_uart b" clk "ucast (ucast v :: u32)"] show ?case
    by (simp add: board_ok_def board_uart_wr)
qed

text \<open>A board that has been reset after its realization, and a key that arrives.\<close>

lemma board_boots:
  assumes "lib_ok L" "stack_ok stk" "name_room stk"
  obtains b where "nxps32k3x8evb_init L stk True = Some b" "board_ok (board_reset b)"
    "dev_view (b_tpm (board_reset b)) = Idle" "uart_queue (b_uart (board_reset b)) = []"
    "uart_sent (b_uart (board_reset b)) = []" "nv_key_usable (b_tpm (board_reset b))"
    "tpm_mode (b_tpm (board_reset b)) = TPM_MODE_NORMAL"
    "nv_lookup (b_tpm (board_reset b)) = [0x1500016 \<mapsto> nv_new_entry 0 test_nv_public]"
    "nv_count (b_tpm (board_reset b)) = 1" "nv_alloc_offset (b_tpm (board_reset b)) = 48"
proof (rule realize_run [OF assms])
  fix s
  assume s: "tpm2_realize L stk True tpm2_init = Some s" "dev_ok s" "nv_key_usable s"
    "nv_lookup s = [0x1500016 \<mapsto> nv_new_entry 0 test_nv_public]" "tpm_mode s = TPM_MODE_NORMAL" "nv_count s = 1"
    "nv_alloc_offset s = 48"
  let ?b = "\<lparr>b_tpm = s, b_uart = nxp_uart_init\<rparr>"
  have f: "dev_view (tpm2_reset s) = Idle" "nv_key_usable (tpm2_reset s)" "tpm_mode (tpm2_reset s) = TPM_MODE_NORMAL"
      "nv_lookup (tpm2_reset s) = nv_lookup s" "nv_count (tpm2_reset s) = 1" "nv_alloc_offset (tpm2_reset s) = 48"
    using s by (simp_all add: tpm2_reset_def dev_view_def nv_key_usable_def nv_lookup_def fun_eq_iff)
  have u: "uart_queue (nxp_uart_reset nxp_uart_init) = []" "uart_sent (nxp_uart_reset nxp_uart_init) = []"
    by (simp_all add: nxp_uart_reset_def nxp_uart_init_def uart_queue_def uart_sent_def
        nxp_uart_reset_tx_fifo_def nxp_uart_reset_rx_fifo_def)
  show thesis
    by (rule that [of ?b]) (use s f u serial_reset reset_ok in
      \<open>simp_all add: nxps32k3x8evb_init_def nxps32k3x8evb_mcu_realize_def board_reset_def board_ok_def\<close>)
qed

lemma booted_name_room: "lib_ok L \<Longrightarrow> stack_ok stk \<Longrightarrow> nxps32k3x8evb_init L stk True = Some b \<Longrightarrow> name_room stk"
  using realized_name_room by (auto simp: nxps32k3x8evb_init_def nxps32k3x8evb_mcu_realize_def)

lemma key_arrives:
  assumes "board_ok b" "uart_queue (b_uart b) = []"
  shows "\<exists>b'. board_key k b = Some b' \<and> board_ok b' \<and> uart_queue (b_uart b') = [ucast k] \<and>
    uart_sent (b_uart b') = uart_sent (b_uart b) \<and> b_tpm b' = b_tpm b"
proof -
  let ?u = "b_uart b"
  have u: "uart_wf ?u" "uart_ok ?u" "\<not> nxp_uart_loopback_enabled ?u" "\<not> bit (u_flags ?u) 5"
    using assms(1) by (simp_all add: board_ok_def serial_ok_def uart_wf_def)
  have c: "u_read_count ?u = 0" using uart_queue_empty [OF u(1)] assms(2) by simp
  then have room: "1 \<le> nxp_uart_get_fifo_depth ?u - u_read_count ?u" using fifo_depth_cases [of ?u] by auto
  with rx_put_all_queue [OF u(1), of "[k]"] assms(2) obtain s where
    s: "rx_put_all [k] ?u = Some s" "uart_wf s" "uart_queue s = [ucast k]" "u_cr s = u_cr ?u" "u_chr s = u_chr ?u"
    by auto
  have "serial_ok s"
    using s(2,4) u(3,4) rx_put_all_txff [OF s(1)] by (simp add: serial_ok_def nxp_uart_loopback_enabled_def)
  with s u(3) room can_receive_wf [OF u(1)] assms(1) show ?thesis
    by (auto simp: board_key_def nxp_uart_receive_def board_ok_def uart_sent_def simp del: rx_put_all.simps)
qed

section \<open>Every reachable machine is well-formed\<close>

lemma board_write_typed:
  assumes "board_write L stk rnd clk addr v b = Some b'" "lib_ok L" "stack_ok stk" "rnd_ok rnd" "board_typed b"
  shows "board_typed b'"
proof -
  have t: "dev_ok s" if "tpm2_mmio_write L stk rnd a w (b_tpm b) = Some s" for a w s
    using mmio_write_safe [OF _ assms(3,4,2), of "b_tpm b" a w] assms(5) that by (simp add: board_typed_def)
  have u: "uart_ok s" if "nxp_uart_write clk a w (b_uart b) = Some s" for a w s
    using uart_write_ok [of "b_uart b" clk a w] assms(5) that by (auto simp: board_typed_def)
  from assms(1,5) t u show ?thesis
    by (auto simp: board_write_def board_typed_def split: option.splits prod.splits region.splits)
qed

lemma board_read_typed:
  assumes "board_read addr b = Some (v, b')" "board_typed b"
  shows "board_typed b'"
proof -
  have t: "dev_ok s" if "tpm2_mmio_read a (b_tpm b) = Some (w, s)" for a w s
    using mmio_read_safe [of "b_tpm b" a] assms(2) that by (auto simp: board_typed_def)
  have u: "uart_ok s" if "nxp_uart_read a (b_uart b) = Some (w, s)" for a w s
    using uart_read_ok [of "b_uart b" a] assms(2) that by (auto simp: board_typed_def)
  from assms t u show ?thesis
    by (auto simp: board_read_def board_typed_def split: option.splits prod.splits region.splits)
qed

lemma board_reset_typed: "dev_ok (b_tpm b) \<Longrightarrow> length (u_read_fifo (b_uart b)) = 16 \<Longrightarrow> board_typed (board_reset b)"
  using uart_reset_wf [of "b_uart b"] reset_ok by (simp add: board_typed_def board_reset_def uart_wf_def)

lemma board_step_typed: "board_step L b b' \<Longrightarrow> lib_ok L \<Longrightarrow> board_typed b \<Longrightarrow> board_typed b'"
proof (induction rule: board_step.induct)
  case (wr stk rnd clk addr v b b')
  then show ?case by (metis board_write_typed)
next
  case (rd addr b v b')
  then show ?case by (metis board_read_typed)
next
  case (input buf b u)
  with uart_receive_ok [of "b_uart b" buf] show ?case by (auto simp: board_typed_def)
next
  case (event is_break b u)
  with uart_event_ok [of "b_uart b" is_break] show ?case by (auto simp: board_typed_def)
next
  case (reset b)
  then have "dev_ok (b_tpm b)" "length (u_read_fifo (b_uart b)) = 16" by (simp_all add: board_typed_def uart_ok_def)
  then show ?case by (rule board_reset_typed)
qed

lemma board_reachable_typed: "board_reachable L b \<Longrightarrow> lib_ok L \<Longrightarrow> board_typed b"
proof (induction rule: board_reachable.induct)
  case (start stk b)
  from start(3,2) booted_name_room [OF start(3,2,1)] show ?case
  proof (rule board_boots)
    fix b1
    assume "nxps32k3x8evb_init L stk True = Some b1" "board_ok (board_reset b1)"
    with start(1) show ?thesis by (simp add: board_ok_def board_typed_def serial_ok_def uart_wf_def)
  qed
qed (use board_step_typed in blast)

lemma uart_offset:
  assumes "resolve addr = Some (Uart, off)"
  shows "drop_bit 2 (of_nat off :: u64) = 0x400 \<longleftrightarrow> off div 4 = 0x400"
proof -
  have "off < 0x4000"
    using assms unfolding resolve_def regions_eq by (auto split: if_splits)
  then have "unat (drop_bit 2 (of_nat off :: u64)) = off div 4"
    by (simp add: drop_bit_eq_div unat_div unat_of_nat take_bit_nat_eq_self)
  then show ?thesis by (auto simp: word_unat_eq_iff)
qed

lemma tpm_offset: "resolve addr = Some (Tpm, off) \<Longrightarrow> off < 0x1000"
  unfolding resolve_def regions_eq by (auto split: if_splits)

section \<open>Properties\<close>

text \<open>
  C7.  Every state the machine can reach, by register accesses of any kind, input, line events and
  resets, is well-formed: the arrays of both devices have their lengths and the positions in them are
  inside, whatever the number of characters the serial port counts (in loopback mode it can pass the
  largest \<open>int\<close> and become negative).  No access to the two windows gets stuck there, except, and
  exactly then, for two reasons.  The serial port reads beyond its identification array at one word of
  its enlarged window.  And a write of 1 to the command register of a TPM that has received a
  CreatePrimary or NV_Read command executes it, and the command leaves an array on the bytes received
  (among these cases: a key is created and there is no memory for its name).
\<close>

theorem board_type_sound:
  assumes "lib_ok L" "board_reachable L b"
  shows "board_typed b \<and>
    (\<forall>addr off. resolve addr = Some (Tpm, off) \<longrightarrow> board_read addr b \<noteq> None) \<and>
    (\<forall>addr off. resolve addr = Some (Uart, off) \<longrightarrow> (board_read addr b = None \<longleftrightarrow> off div 4 = 0x400)) \<and>
    (\<forall>addr off stk rnd clk v. resolve addr = Some (Uart, off) \<longrightarrow> board_write L stk rnd clk addr v b \<noteq> None) \<and>
    (\<forall>addr off stk rnd clk v. resolve addr = Some (Tpm, off) \<and> stack_ok stk \<and> rnd_ok rnd \<longrightarrow>
       (board_write L stk rnd clk addr v b = None \<longleftrightarrow>
        off = 0x0C \<and> v = 1 \<and> dev_state (b_tpm b) = TPM_STATE_RECEIVING \<and>
        (\<exists>tag n code. take 10 (command_buffer (b_tpm b)) = header_bytes tag n code \<and>
           (tag = TPM_ST_NO_SESSIONS \<or> tag = TPM_ST_SESSIONS) \<and> 10 \<le> unat n \<and> n \<le> cmd_size (b_tpm b) \<and>
           tpm_mode (b_tpm b) = TPM_MODE_NORMAL \<and>
           (code = TPM_CC_CreatePrimary \<and> create_primary_overruns stk (executing n (b_tpm b)) \<or>
            code = TPM_CC_NV_Read \<and> nv_read_overruns stk (executing n (b_tpm b))))))"
proof -
  have t: "board_typed b" by (rule board_reachable_typed [OF assms(2,1)])
  then have d: "dev_ok (b_tpm b)" and u: "uart_ok (b_uart b)" by (simp_all add: board_typed_def)
  have "board_read addr b \<noteq> None" if "resolve addr = Some (Tpm, off)" for addr off
    using mmio_read_safe [OF d, of "of_nat off"] that by (auto simp: board_read_def)
  moreover have "board_read addr b = None \<longleftrightarrow> off div 4 = 0x400" if "resolve addr = Some (Uart, off)" for addr off
    using uart_read_ok [OF u, of "of_nat off"] uart_offset [OF that] that by (auto simp: board_read_def)
  moreover have "board_write L stk rnd clk addr v b \<noteq> None" if "resolve addr = Some (Uart, off)"
    for addr off stk rnd clk v
    using uart_write_ok [OF u, of clk "of_nat off" "ucast v"] that by (auto simp: board_write_def)
  moreover have "board_write L stk rnd clk addr v b = None \<longleftrightarrow>
      off = 0x0C \<and> v = 1 \<and> dev_state (b_tpm b) = TPM_STATE_RECEIVING \<and> execution_overruns stk (b_tpm b)"
    if "resolve addr = Some (Tpm, off)" "stack_ok stk" "rnd_ok rnd" for addr off stk rnd clk v
  proof -
    have "(of_nat off :: u64) = 0x0C \<longleftrightarrow> off = 0x0C"
      using tpm_offset [OF that(1)] by (auto simp: word_unat_eq_iff unat_of_nat take_bit_nat_eq_self)
    moreover have "(ucast v :: u64) = 1 \<longleftrightarrow> v = 1" by (metis ucast_u32_u64 ucast_1)
    ultimately show ?thesis
      using mmio_write_stuck_iff [OF d that(2,3) assms(1), of "of_nat off" "ucast v"] that(1)
      by (simp add: board_write_def)
  qed
  ultimately show ?thesis
    using t unfolding execution_overruns_iff [OF d] by (intro conjI allI impI) (simp_all only:, blast+)
qed

theorem board_type_sound_witness:
  "\<exists>b. board_reachable demo_ossl b \<and> board_typed b \<and> board_read 0x40329000 b = None \<and> board_read 0x40328018 b \<noteq> None"
proof (rule board_boots [OF demo_lib_ok demo_stack_ok])
  fix b
  assume "nxps32k3x8evb_init demo_ossl demo_stack True = Some b"
  then have r: "board_reachable demo_ossl (board_reset b)" by (rule board_reachable.start [OF _ demo_stack_ok(1)])
  have "resolve 0x40329000 = Some (Uart, 0x1000)" "resolve 0x40328018 = Some (Uart, 0x18)" by simp_all
  with board_type_sound [OF demo_lib_ok r] r show ?thesis by (intro exI [of _ "board_reset b"]) simp
qed

text \<open>
  C37.  The memory map: which region a 32-bit address belongs to, and at which offset.  Of the 8 MiB
  announced as program flash only the first and the third 2 MiB hold a block: the blocks are placed at
  multiples of the base address instead of the block size, and the last two fall outside.
\<close>

theorem memory_map_exact:
  "resolve addr =
    (let a = unat addr in
     if a < 0x10000 then Some (Itcm 0, a)
     else if a \<in> {0x400000..<0x600000} then Some (Pflash 0, a - 0x400000)
     else if a \<in> {0x800000..<0xA00000} then Some (Pflash 1, a - 0x800000)
     else if a \<in> {0x10000000..<0x10040000} then Some (Dflash, a - 0x10000000)
     else if a \<in> {0x20400000..<0x204C0000}
       then Some (Sram ((a - 0x20400000) div 0x40000), (a - 0x20400000) mod 0x40000)
     else if a \<in> {0x40328000..<0x4032C000} then Some (Uart, a - 0x40328000)
     else if a \<in> {0xF0000000..<0xF0001000} then Some (Tpm, a - 0xF0000000)
     else None)"
proof -
  define a where "a = unat addr"
  have s: "(a - 0x20400000) div 0x40000 = k \<and> (a - 0x20400000) mod 0x40000 = a - (0x20400000 + k * 0x40000)"
    if "0x20400000 + k * 0x40000 \<le> a" "a < 0x20400000 + k * 0x40000 + 0x40000" for k
  proof -
    from that obtain d where "a = 0x20400000 + k * 0x40000 + d" "d < 0x40000"
      by (metis add_less_cancel_left le_Suc_ex)
    then show ?thesis by simp
  qed
  show ?thesis
    unfolding resolve_def regions_eq a_def [symmetric] Let_def using s [of 0] s [of 1] s [of 2] by auto
qed

end
