(* ===== verification/FW_System.thy ===== *)
theory FW_System
  imports Board
begin

text \<open>
  The whole system: the firmware of \<^verbatim>\<open>src/firmware\<close> running on the machine of \<open>Board\<close>, with the TPM and
  the serial port behind their registers.
\<close>

section \<open>Responses\<close>

text \<open>A response on the wire, without its padding.\<close>

definition response_bytes :: "TPM_RC \<Rightarrow> bytes \<Rightarrow> bytes" where
  "response_bytes rc body = header_bytes TPM_ST_NO_SESSIONS (of_nat (10 + length body)) rc @ body"

lemma length_response_bytes [simp]: "length (response_bytes rc body) = 10 + length body"
  by (simp add: response_bytes_def)

lemma response_received:
  assumes "response_is r rc body"
  shows "unat (resp_word r 2) = 10 + length body" "response_size_ok r"
    "take (unat (resp_word r 2)) r = response_bytes rc body"
proof -
  have r: "length r = pad4 (10 + length body)" "length body \<le> 1014"
      "take (10 + length body) r = response_bytes rc body"
    using assms by (simp_all add: response_is_def response_bytes_def)
  have "take 10 r = take 10 (take (10 + length body) r)" by simp
  also have "\<dots> = header_bytes TPM_ST_NO_SESSIONS (of_nat (10 + length body)) rc"
    unfolding r(3) by (simp add: response_bytes_def)
  finally have "resp_word r 2 = of_nat (10 + length body)"
    using header_bytes_decode(2) [of r] by (simp add: resp_word_def)
  moreover have "unat (of_nat (10 + length body) :: u32) = 10 + length body"
    using r(2) by (intro unat_of_nat_u32) simp
  ultimately show u: "unat (resp_word r 2) = 10 + length body" by simp
  from u r show "response_size_ok r" "take (unat (resp_word r 2)) r = response_bytes rc body"
    by (simp_all add: response_size_ok_def)
qed

lemma read_hex_dump: "read_hex (filter (\<lambda>c. c \<notin> {CHR '' '', CHR 0x0A}) (hex_dump bs)) = bs"
  using read_hex_text [of 0 bs] by (simp add: hex_dump_def)

section \<open>Execution on the board\<close>

lemma board_execute: "bus_write (board_bus L stk rnd clk) FW_CMD_REG 1 b =
    map_option (\<lambda>s. b\<lparr>b_tpm := s\<rparr>) (tpm2_mmio_write L stk rnd TPM2_CMD_REG 1 (b_tpm b))"
  by (simp add: board_bus_def board_write_def)

text \<open>What the device does with a command, as the driver sees it.\<close>

lemma board_answers:
  assumes "\<And>s. dev_ok s \<Longrightarrow> dev_view s = Receiving (padded_command cmd) \<Longrightarrow> dev_core s = c \<Longrightarrow>
    \<exists>s' r rc body. tpm2_mmio_write L stk rnd TPM2_CMD_REG 1 s = Some s' \<and> dev_ok s' \<and> dev_view s' = Sending r \<and>
      response_is r rc body \<and> Q (response_bytes rc body) (dev_core s')"
  shows "board.answers L stk rnd clk cmd c Q"
  unfolding board.answers_def
proof (intro allI impI)
  fix b
  assume "board_ok b \<and> dev_view (b_tpm b) = Receiving (padded_command cmd) \<and> dev_core (b_tpm b) = c"
  then have b: "dev_ok (b_tpm b)" "serial_ok (b_uart b)" "dev_view (b_tpm b) = Receiving (padded_command cmd)"
      "dev_core (b_tpm b) = c" by (simp_all add: board_ok_def)
  from assms [OF b(1,3,4)] obtain s' r rc body where
    s: "tpm2_mmio_write L stk rnd TPM2_CMD_REG 1 (b_tpm b) = Some s'" "dev_ok s'" "dev_view s' = Sending r"
      "response_is r rc body" "Q (response_bytes rc body) (dev_core s')" by blast
  with b(2) response_received [OF s(4)]
  show "\<exists>b' r. bus_write (board_bus L stk rnd clk) FW_CMD_REG 1 b = Some b' \<and> board_ok b' \<and>
      dev_view (b_tpm b') = Sending r \<and> uart_queue (b_uart b') = uart_queue (b_uart b) \<and> response_size_ok r \<and>
      Q (take (unat (resp_word r 2)) r) (dev_core (b_tpm b'))"
    unfolding board_execute by (intro exI [of _ "b\<lparr>b_tpm := s'\<rparr>"] exI [of _ r]) (simp add: board_ok_def)
qed

section \<open>The commands of the menu\<close>

lemmas wire_defs = command_bytes_def header_bytes_def be16_bytes_def be32_bytes_def tpm2b_bytes_def
  define_space_wire_def nv_write_wire_def nv_read_wire_def

lemmas menu_command_defs = CMD_GET_RANDOM_def CMD_CREATE_PRIMARY_def CMD_NV_DEFINE_SPACE_def CMD_NV_WRITE_def
  CMD_NV_READ_def CMD_BAD_HDR_def CMD_GET_RANDOM_TOO_BIG_def CMD_NV_READ_OVERSIZE_def CMD_NV_WRITE_OVERSIZE_def
  CMD_NV_WRITE_FMT_STR_def CMD_NV_READ_UNINIT_def CMD_INT_OVERFLOW_def

lemma CMD_CREATE_PRIMARY_facts:
  "length CMD_CREATE_PRIMARY = 68" "CMD_CREATE_PRIMARY ! 36 = 0" "CMD_CREATE_PRIMARY ! 37 = 0"
  "CMD_CREATE_PRIMARY ! 28 = 0" "CMD_CREATE_PRIMARY ! 29 = 0x23"
  by (simp_all add: CMD_CREATE_PRIMARY_def)

lemma menu_wires:
  "CMD_GET_RANDOM = command_bytes TPM_CC_GetRandom (be16_bytes 32)"
  "CMD_GET_RANDOM_TOO_BIG = command_bytes TPM_CC_GetRandom (be16_bytes 0xFFFF)"
  "CMD_INT_OVERFLOW = command_bytes TPM_CC_GetRandom (be16_bytes 0xFFFF)"
  "CMD_NV_DEFINE_SPACE = command_bytes TPM_CC_NV_DefineSpace
     (define_space_wire 0x40000001 [] 14 0x01000001 0x000B 0x024C0006 [] 32)"
  "CMD_NV_WRITE = command_bytes TPM_CC_NV_Write
     (nv_write_wire 0x4000000C 0x01000001 [0x54, 0x45, 0x53, 0x54] 0)"
  "CMD_NV_READ = command_bytes TPM_CC_NV_Read (nv_read_wire 0x4000000C 0x01000001 4 0)"
  "CMD_NV_READ_OVERSIZE = command_bytes TPM_CC_NV_Read (nv_read_wire 0x4000000C 0x01000001 1024 0)"
  "CMD_NV_READ_UNINIT = command_bytes TPM_CC_NV_Read (nv_read_wire 0x4000000C 0x01000002 4 0)"
  by (simp_all add: wire_defs menu_command_defs)

lemma padded_prefix: obtains pad where "padded_command cmd = cmd @ pad"
  by (simp add: padded_command_def)

lemma take_padded: "k \<le> length cmd \<Longrightarrow> take k (padded_command cmd) = take k cmd"
  by (simp add: padded_command_def)

text \<open>The header of every command of the menu, and its code.\<close>

definition header_ok :: "bytes \<Rightarrow> bool" where
  "header_ok cmd \<longleftrightarrow> take 10 cmd = header_bytes TPM_ST_NO_SESSIONS (resp_word cmd 2) (resp_word cmd 6) \<and>
     10 \<le> length cmd \<and> length cmd \<le> 1024"

lemma menu_headers_ok:
  "header_ok CMD_GET_RANDOM" "header_ok CMD_CREATE_PRIMARY" "header_ok CMD_NV_DEFINE_SPACE"
  "header_ok CMD_NV_WRITE" "header_ok CMD_NV_READ" "header_ok CMD_BAD_HDR"
  "header_ok CMD_GET_RANDOM_TOO_BIG" "header_ok CMD_NV_READ_OVERSIZE" "header_ok CMD_NV_WRITE_OVERSIZE"
  "header_ok CMD_NV_WRITE_FMT_STR" "header_ok CMD_NV_READ_UNINIT" "header_ok CMD_INT_OVERFLOW"
  by (simp_all add: header_ok_def menu_command_defs wire_defs resp_word_def be32_def)

lemma menu_header: "menu_command c = Some cmd \<Longrightarrow> header_ok cmd"
  using menu_headers_ok by (auto simp: menu_command_def split: if_splits)

lemma menu_codes [simp]:
  "resp_word CMD_GET_RANDOM 6 = TPM_CC_GetRandom" "resp_word CMD_CREATE_PRIMARY 6 = TPM_CC_CreatePrimary"
  "resp_word CMD_NV_DEFINE_SPACE 6 = TPM_CC_NV_DefineSpace" "resp_word CMD_NV_WRITE 6 = TPM_CC_NV_Write"
  "resp_word CMD_NV_READ 6 = TPM_CC_NV_Read" "resp_word CMD_BAD_HDR 6 = TPM_CC_GetRandom"
  "resp_word CMD_GET_RANDOM_TOO_BIG 6 = TPM_CC_GetRandom" "resp_word CMD_NV_READ_OVERSIZE 6 = TPM_CC_NV_Read"
  "resp_word CMD_NV_WRITE_OVERSIZE 6 = TPM_CC_NV_Write" "resp_word CMD_NV_WRITE_FMT_STR 6 = TPM_CC_NV_Write"
  "resp_word CMD_NV_READ_UNINIT 6 = TPM_CC_NV_Read" "resp_word CMD_INT_OVERFLOW 6 = TPM_CC_GetRandom"
  by (simp_all add: menu_command_defs resp_word_def be32_def)

lemma menu_create_primary:
  "menu_command c = Some cmd \<Longrightarrow> resp_word cmd 6 = TPM_CC_CreatePrimary \<Longrightarrow> cmd = CMD_CREATE_PRIMARY"
  by (auto simp: menu_command_def split: if_splits)

lemma menu_nv_read:
  "menu_command c = Some cmd \<Longrightarrow> resp_word cmd 6 = TPM_CC_NV_Read \<Longrightarrow>
   cmd \<in> {CMD_NV_READ, CMD_NV_READ_OVERSIZE, CMD_NV_READ_UNINIT}"
  by (auto simp: menu_command_def split: if_splits)

text \<open>The parameters of the CreatePrimary command of the menu and its template are inside their arrays.\<close>

lemma create_primary_body:
  "drop 10 CMD_CREATE_PRIMARY = be32_bytes 0x40000001 @ be16_bytes 10 @
     tpm2b_bytes [0x70, 0x61, 0x73, 0x73, 0x77, 0x64] @ tpm2b_bytes [] @ be16_bytes 34 @ drop 28 CMD_CREATE_PRIMARY"
  by (simp add: CMD_CREATE_PRIMARY_def wire_defs)

lemma create_primary_params:
  assumes "wf_CreatePrimary_Params p"
  shows "Unmarshal_CreatePrimary (drop 10 CMD_CREATE_PRIMARY) p 0 = Some (TPM_RC_SUCCESS,
    p\<lparr>cp_primaryHandle := 0x40000001, cp_inSensitiveSize := 10, cp_userAuthSize := 6,
       cp_userAuth := overwrite (cp_userAuth p) 0 [0x70, 0x61, 0x73, 0x73, 0x77, 0x64], cp_dataSize := 0,
       cp_data := cp_data p, cp_inPublicSize := 34\<rparr>, 52)"
  using assms unfolding Unmarshal_CreatePrimary_def create_primary_body
  by (simp add: u32d.at_enc [OF _ TrueI] u16d.at_enc [OF _ TrueI] tpm2bd.at_enc
      tpm2b_fits_def tpm2b_store_def wf_CreatePrimary_Params_def CMD_CREATE_PRIMARY_facts(1))

text \<open>What is left is the name of the key.\<close>

lemma create_primary_overruns_menu:
  assumes "stack_ok stk" "cmd_body s = drop 10 CMD_CREATE_PRIMARY" "length (command_buffer s) = 1024"
    and "take 68 (command_buffer s) = CMD_CREATE_PRIMARY"
  shows "create_primary_overruns stk s \<longleftrightarrow> \<not> name_room stk"
proof -
  have wf: "wf_CreatePrimary_Params (st_create stk)" using assms(1) by (simp add: stack_ok_def)
  have "command_buffer s ! k = CMD_CREATE_PRIMARY ! k" if "k < 68" for k
    using nth_take [of k 68 "command_buffer s"] assms(4) that by simp
  then have "command_buffer s ! 36 = 0" "command_buffer s ! 37 = 0" "command_buffer s ! 28 = 0"
      "command_buffer s ! 29 = 0x23"
    using CMD_CREATE_PRIMARY_facts by simp_all
  then have "\<exists>tmpl. cp_template (command_buffer s) 28 = Some tmpl \<and> t_type tmpl = TPM_ALG_ECC"
    using assms(3) by (simp add: cp_template_def rd16_def rd32_def be16_def Let_def)
  moreover have "hierarchy_seed s 0x40000001 \<noteq> None" by (simp add: hierarchy_seed_def)
  ultimately show ?thesis
    using create_primary_params [OF wf] wf unfolding create_primary_overruns_def assms(2)
    by (auto simp: cp_sensitive_def memcpy_def wf_CreatePrimary_Params_def)
qed

lemma create_primary_received:
  assumes "dev_ok s" "dev_view s = Receiving (padded_command CMD_CREATE_PRIMARY)" "stack_ok stk"
  shows "unat (cmd_size s) = 68" "take 68 (command_buffer s) = CMD_CREATE_PRIMARY"
    "create_primary_overruns stk (executing 68 s) \<longleftrightarrow> \<not> name_room stk"
proof -
  have p: "padded_command CMD_CREATE_PRIMARY = CMD_CREATE_PRIMARY"
    by (simp add: padded_command_def CMD_CREATE_PRIMARY_facts(1))
  have bs: "CMD_CREATE_PRIMARY = take (unat (cmd_size s)) (command_buffer s)"
      and len: "length (command_buffer s) = 1024" "unat (cmd_size s) \<le> 1024"
    using assms(1,2) p by (auto simp: dev_view_def dev_ok_def link_ok_def split: tpm_state.splits)
  from arg_cong [OF bs, of length] len show n: "unat (cmd_size s) = 68"
    by (simp add: CMD_CREATE_PRIMARY_facts(1))
  with bs show b: "take 68 (command_buffer s) = CMD_CREATE_PRIMARY" by simp
  then have "take 58 (drop 10 (command_buffer s)) = drop 10 CMD_CREATE_PRIMARY"
    using drop_take [of 10 68 "command_buffer s"] by simp
  with b len show "create_primary_overruns stk (executing 68 s) \<longleftrightarrow> \<not> name_room stk"
    by (intro create_primary_overruns_menu [OF assms(3)]) (simp_all add: executing_def cmd_body_def)
qed

lemma nv_read_in_bounds: "cmd_body s = nv_read_wire h i m off \<Longrightarrow> unat m \<le> 1024 \<Longrightarrow> \<not> nv_read_overruns stk s"
  using unmarshal_nv_read_wire [of h i m off "[]" "st_read stk" 0] by (simp add: nv_read_overruns_def)

lemma command_bytes_size:
  "take 10 (command_bytes code body) = header_bytes TPM_ST_NO_SESSIONS n c \<Longrightarrow> n = of_nat (10 + length body)"
  using header_bytes_inject [of TPM_ST_NO_SESSIONS "of_nat (10 + length body)" code TPM_ST_NO_SESSIONS n c]
  unfolding command_bytes_def by simp

text \<open>
  No command of the menu leaves an array, the name of a created key apart, and every one is answered.
  Without memory for the name the execution of CreatePrimary gets stuck.
\<close>

lemma menu_executes:
  assumes cmd: "menu_command c = Some cmd" and s: "dev_ok s" "dev_view s = Receiving (padded_command cmd)"
    and env: "stack_ok stk" "rnd_ok rnd" "lib_ok L" and room: "cmd = CMD_CREATE_PRIMARY \<Longrightarrow> name_room stk"
  shows "\<exists>s'. tpm2_mmio_write L stk rnd TPM2_CMD_REG 1 s = Some s' \<and> replies s'"
proof -
  have st: "dev_state s = TPM_STATE_RECEIVING" and bs: "padded_command cmd = take (unat (cmd_size s)) (command_buffer s)"
      and len: "length (command_buffer s) = 1024"
    using s by (auto simp: dev_view_def dev_ok_def link_ok_def split: tpm_state.splits)
  from menu_header [OF cmd] have h: "take 10 cmd = header_bytes TPM_ST_NO_SESSIONS (resp_word cmd 2) (resp_word cmd 6)"
      "10 \<le> length cmd" by (simp_all add: header_ok_def)
  have "tpm2_mmio_write L stk rnd TPM2_CMD_REG 1 s \<noteq> None"
  proof
    assume "tpm2_mmio_write L stk rnd TPM2_CMD_REG 1 s = None"
    then have "execution_overruns stk s" by (simp add: execution_stuck_iff [OF s(1) st env])
    with s show False
    proof (rule execution_stuck)
      fix n code
      assume hd: "take 10 (padded_command cmd) = header_bytes TPM_ST_NO_SESSIONS n code \<or>
          take 10 (padded_command cmd) = header_bytes TPM_ST_SESSIONS n code"
        and b: "cmd_body (executing n s) = take (unat n - 10) (drop 10 (padded_command cmd))"
        and o: "code = TPM_CC_CreatePrimary \<and> create_primary_overruns stk (executing n s) \<or>
          code = TPM_CC_NV_Read \<and> nv_read_overruns stk (executing n s)"
      from hd h have n: "n = resp_word cmd 2" and c: "code = resp_word cmd 6"
        by (auto simp: take_padded)
      from o show False
      proof
        assume o: "code = TPM_CC_CreatePrimary \<and> create_primary_overruns stk (executing n s)"
        with c menu_create_primary [OF cmd] have cp: "cmd = CMD_CREATE_PRIMARY" by simp
        have "n = 68" using n unfolding cp by (simp add: CMD_CREATE_PRIMARY_def resp_word_def be32_def)
        with create_primary_received(3) [OF s(1) s(2) [unfolded cp] env(1)] o room [OF cp] show False by simp
      next
        assume o: "code = TPM_CC_NV_Read \<and> nv_read_overruns stk (executing n s)"
        with c menu_nv_read [OF cmd] obtain i m where
          w: "cmd = command_bytes TPM_CC_NV_Read (nv_read_wire 0x4000000C i m 0)" "unat m \<le> 1024"
          using menu_wires(6-8) by force
        have l: "length (nv_read_wire 0x4000000C i m 0) = 14" by (simp add: nv_read_wire_def)
        with command_bytes_size [OF h(1) [unfolded w(1)]] n have "unat n = 24" unfolding w(1) by simp
        with l have "cmd_body (executing n s) = nv_read_wire 0x4000000C i m 0"
          using b unfolding w(1) by (simp add: padded_command_def command_bytes_def)
        from nv_read_in_bounds [OF this w(2)] o show False by blast
      qed
    qed
  qed
  with mmio_execute_safe [OF s(1) st env] show ?thesis by (cases "tpm2_mmio_write L stk rnd TPM2_CMD_REG 1 s") auto
qed

lemma create_primary_stuck:
  assumes "dev_ok s" "dev_view s = Receiving (padded_command CMD_CREATE_PRIMARY)" "tpm_mode s = TPM_MODE_NORMAL"
    and env: "stack_ok stk" "rnd_ok rnd" "lib_ok L" and "\<not> name_room stk"
  shows "tpm2_mmio_write L stk rnd TPM2_CMD_REG 1 s = None"
proof -
  note r = create_primary_received [OF assms(1,2) env(1)]
  have st: "dev_state s = TPM_STATE_RECEIVING" using assms(2) by (auto simp: dev_view_def split: tpm_state.splits)
  have "take 10 (command_buffer s) = take 10 CMD_CREATE_PRIMARY" by (simp add: r(2) [symmetric])
  also have "\<dots> = header_bytes TPM_ST_NO_SESSIONS 68 TPM_CC_CreatePrimary"
    by (simp add: CMD_CREATE_PRIMARY_def wire_defs)
  finally have "execution_overruns stk s"
    unfolding execution_overruns_iff [OF assms(1)] using r(1,3) assms(3,7)
    by (intro exI [of _ TPM_ST_NO_SESSIONS] exI [of _ 68] exI [of _ TPM_CC_CreatePrimary])
      (simp add: word_le_nat_alt)
  then show ?thesis by (simp add: execution_stuck_iff [OF assms(1) st env])
qed

section \<open>Turns of the main loop\<close>

lemma key_char: "char_of (unat ((ucast (k :: u8) :: u32) AND 0xFF)) = (char_of (unat k) :: char)"
proof -
  have m: "(ucast k :: u32) AND 0xFF = ucast k mod 256"
    using take_bit_eq_mask [of 8 "ucast k :: u32"] by (simp add: mask_eq_exp_minus_1 take_bit_eq_mod)
  have k: "unat k < 2 ^ LENGTH(8)" by (rule unsigned_less)
  then have "unat (ucast k :: u32) = unat k" by (simp add: unsigned_ucast_eq take_bit_nat_eq_self)
  with k have "unat (ucast k mod 256 :: u32) = unat k" by (simp add: unat_mod)
  then show ?thesis by (simp only: m)
qed

text \<open>The key that arrives while the firmware waits is the one it reads.\<close>

lemma key_read:
  assumes "board_ok b1" "uart_queue (b_uart b) = []" "uart_queue (b_uart b1) = uart_queue (b_uart b)"
  shows "\<exists>b2. UART_getc (board_bus L stk rnd clk) (board_key k # evs) b1 = Some (char_of (unat k), evs, b2) \<and>
    board_ok b2 \<and> uart_queue (b_uart b2) = [] \<and> dev_view (b_tpm b2) = dev_view (b_tpm b1) \<and>
    dev_core (b_tpm b2) = dev_core (b_tpm b1)"
proof -
  from key_arrives [OF assms(1), of k] assms(2,3) obtain b2 where
    b2: "board_key k b1 = Some b2" "board_ok b2" "uart_queue (b_uart b2) = [ucast k]" "b_tpm b2 = b_tpm b1" by auto
  from board.getc_arrives [of b1 "board_key k" b2 "ucast k" L stk rnd clk evs] assms b2
  show ?thesis by (simp add: key_char)
qed

text \<open>One turn for a key that arrives; \<open>Q\<close> is what the execution of its command establishes.\<close>

lemma board_turn:
  assumes b: "board_ok b" "uart_queue (b_uart b) = []" and buf: "length buf = 1024"
    and exec: "\<And>cmd. menu_command (char_of (unat k)) = Some cmd \<Longrightarrow>
      board.answers L stk rnd clk cmd (dev_core (b_tpm b)) Q"
  shows "\<exists>buf' b'. main_turn (board_bus L stk rnd clk) (board_key k # evs) buf b = Some (evs, buf', b') \<and>
    board_ok b' \<and> uart_queue (b_uart b') = [] \<and> length buf' = 1024 \<and>
    (if menu_command (char_of (unat k)) = None
     then buf' = buf \<and> dev_view (b_tpm b') = dev_view (b_tpm b) \<and> dev_core (b_tpm b') = dev_core (b_tpm b)
     else board.delivered Q buf' b')"
proof -
  have exec': "length cmd \<le> 1024 \<and> board.answers L stk rnd clk cmd (dev_core (b_tpm b)) Q"
    if c: "menu_command (char_of (unat k)) = Some cmd" for cmd
  proof
    show "length cmd \<le> 1024" using menu_header [OF c] by (simp add: header_ok_def)
    show "board.answers L stk rnd clk cmd (dev_core (b_tpm b)) Q" by (rule exec [OF c])
  qed
  show ?thesis by (rule board.main_turn_ok [OF b(1) buf key_read [OF _ b(2)] exec'])
qed

lemma board_turn_stuck:
  assumes b: "board_ok b" "uart_queue (b_uart b) = []" and c: "menu_command (char_of (unat k)) = Some cmd"
    and stuck: "\<And>s. dev_ok s \<Longrightarrow> dev_view s = Receiving (padded_command cmd) \<Longrightarrow> dev_core s = dev_core (b_tpm b) \<Longrightarrow>
      tpm2_mmio_write L stk rnd TPM2_CMD_REG 1 s = None"
  shows "main_turn (board_bus L stk rnd clk) (board_key k # evs) buf b = None"
proof (rule board.main_turn_stuck [OF b(1) _ c])
  show "length cmd \<le> 1024" using menu_header [OF c] by (simp add: header_ok_def)
  show "bus_write (board_bus L stk rnd clk) FW_CMD_REG 1 b' = None"
    if "board_ok b'" "dev_view (b_tpm b') = Receiving (padded_command cmd)" "dev_core (b_tpm b') = dev_core (b_tpm b)" for b'
    using stuck [of "b_tpm b'"] that unfolding board_execute by (simp add: board_ok_def)
qed (rule key_read [OF _ b(2)])

lemma menu_turn:
  assumes "board_ok b" "uart_queue (b_uart b) = []" "length buf = 1024" "menu_command (char_of (unat k)) = Some cmd"
    and "board.answers L stk rnd clk cmd (dev_core (b_tpm b)) Q"
  obtains buf' b' where "main_turn (board_bus L stk rnd clk) (board_key k # evs) buf b = Some (evs, buf', b')"
    "board_ok b'" "uart_queue (b_uart b') = []" "length buf' = 1024" "board.delivered Q buf' b'"
  using board_turn [where k = k and Q = Q and L = L and stk = stk and rnd = rnd and clk = clk and evs = evs,
      OF assms(1-3)] assms(4,5) by auto

text \<open>
  What the execution of any command of the menu gives: a response of some code and body, and a device
  that still executes commands.
\<close>

definition menu_answered :: "bytes \<Rightarrow> TPM2State \<Rightarrow> bool" where
  "menu_answered r c \<longleftrightarrow> (\<exists>rc body. r = response_bytes rc body) \<and> tpm_mode c = TPM_MODE_NORMAL"

lemma menu_answers:
  assumes "menu_command c = Some cmd" "stack_ok stk" "rnd_ok rnd" "lib_ok L"
    and "cmd = CMD_CREATE_PRIMARY \<Longrightarrow> name_room stk" "tpm_mode core = TPM_MODE_NORMAL"
  shows "board.answers L stk rnd clk cmd core menu_answered"
proof (rule board_answers)
  fix s
  assume s: "dev_ok s" "dev_view s = Receiving (padded_command cmd)" "dev_core s = core"
  from menu_executes [OF assms(1) s(1,2) assms(2-5)] obtain s' where
    s': "tpm2_mmio_write L stk rnd TPM2_CMD_REG 1 s = Some s'" "replies s'" by blast
  have "dev_state s = TPM_STATE_RECEIVING" using s(2) by (auto simp: dev_view_def split: tpm_state.splits)
  with mmio_execute_mode [OF s(1) _ assms(2-4) s'(1)] s(3) assms(6) have "tpm_mode (dev_core s') = TPM_MODE_NORMAL"
    by auto
  with s' show "\<exists>s' r rc body. tpm2_mmio_write L stk rnd TPM2_CMD_REG 1 s = Some s' \<and> dev_ok s' \<and>
      dev_view s' = Sending r \<and> response_is r rc body \<and> menu_answered (response_bytes rc body) (dev_core s')"
    unfolding replies_def menu_answered_def by blast
qed

text \<open>The buses of the turns: each with its own uninitialised memory and random bytes.\<close>

definition turn_buses :: "ossl \<Rightarrow> u64 \<Rightarrow> (stack0 \<times> bytes option) list \<Rightarrow> board bus list" where
  "turn_buses L clk envs = map (\<lambda>(stk, rnd). board_bus L stk rnd clk) envs"

definition env_ok :: "stack0 \<times> bytes option \<Rightarrow> bool" where
  "env_ok = (\<lambda>(stk, rnd). stack_ok stk \<and> rnd_ok rnd)"

text \<open>
  The turn of a key can end: it is not the key of CreatePrimary, or there is memory for the name.
\<close>

definition turn_room :: "u8 \<Rightarrow> stack0 \<times> bytes option \<Rightarrow> bool" where
  "turn_room k env \<longleftrightarrow> k = 0x32 \<longrightarrow> name_room (fst env)"

lemma menu_key_create_primary: "menu_command (char_of (unat (k :: u8))) = Some CMD_CREATE_PRIMARY \<longleftrightarrow> k = 0x32"
proof
  assume "menu_command (char_of (unat k)) = Some CMD_CREATE_PRIMARY"
  then have "char_of (unat k) = CHR ''2''"
    by (auto simp: menu_command_def menu_command_defs split: if_splits)
  then have "of_char (char_of (unat k) :: char) = (of_char CHR ''2'' :: nat)" by simp
  then have "unat k mod 256 = 0x32" by simp
  moreover have "unat k < 256" using unsigned_less [of k] by simp
  ultimately show "k = 0x32" by (simp add: word_unat_eq_iff)
qed (simp add: menu_command_def char_of_def bit_Suc_0_iff)

lemma serves_keys:
  "lib_ok L \<Longrightarrow> board_ok b \<Longrightarrow> uart_queue (b_uart b) = [] \<Longrightarrow> tpm_mode (b_tpm b) = TPM_MODE_NORMAL \<Longrightarrow>
   length buf = 1024 \<Longrightarrow> length envs = length ks \<Longrightarrow> list_all env_ok envs \<Longrightarrow>
   if list_all2 turn_room ks envs
   then \<exists>buf' b'. main_loop (turn_buses L clk envs) (map board_key ks) buf b = Some ([], buf', b') \<and> board_ok b' \<and>
     uart_queue (b_uart b') = [] \<and> length buf' = 1024
   else main_loop (turn_buses L clk envs) (map board_key ks) buf b = None"
proof (induction ks arbitrary: envs buf b)
  case Nil
  then show ?case by (simp add: turn_buses_def)
next
  case (Cons k ks)
  note pre = Cons.prems
  from pre(6,7) obtain stk rnd envs' where
    e: "envs = (stk, rnd) # envs'" "stack_ok stk" "rnd_ok rnd" "list_all env_ok envs'" "length envs' = length ks"
    by (cases envs) (auto simp: env_ok_def)
  let ?t = "main_turn (board_bus L stk rnd clk) (board_key k # map board_key ks) buf b"
  show ?case
  proof (cases "turn_room k (stk, rnd)")
    case False
    then have "k = 0x32" "\<not> name_room stk" by (simp_all add: turn_room_def)
    with create_primary_stuck [OF _ _ _ e(2,3) pre(1)] pre(4) menu_key_create_primary [of k] have "?t = None"
      by (intro board_turn_stuck [OF pre(2,3), where cmd = CMD_CREATE_PRIMARY]) (auto dest: core_eq)
    with False show ?thesis by (simp add: e(1) turn_buses_def)
  next
    case True
    have a: "board.answers L stk rnd clk cmd (dev_core (b_tpm b)) menu_answered"
      if "menu_command (char_of (unat k)) = Some cmd" for cmd
      by (rule menu_answers [OF that e(2,3) pre(1)])
        (use True that menu_key_create_primary [of k] pre(4) in \<open>auto simp: turn_room_def\<close>)
    obtain buf' b' where
      t: "?t = Some (map board_key ks, buf', b')" "board_ok b'" "uart_queue (b_uart b') = []" "length buf' = 1024"
      and d: "if menu_command (char_of (unat k)) = None
        then buf' = buf \<and> dev_view (b_tpm b') = dev_view (b_tpm b) \<and> dev_core (b_tpm b') = dev_core (b_tpm b)
        else board.delivered menu_answered buf' b'"
      using board_turn [where k = k and evs = "map board_key ks", OF pre(2,3,5) a] by blast
    have "tpm_mode (b_tpm b') = TPM_MODE_NORMAL"
      using d pre(4) core_eq [of "b_tpm b'" "b_tpm b"]
      by (auto simp: board.delivered_def menu_answered_def split: if_splits)
    from Cons.IH [OF pre(1) t(2,3) this t(4) e(5,4)] t(1) True show ?thesis
      by (cases "list_all2 turn_room ks envs'") (simp_all add: e(1) turn_buses_def)
  qed
qed

section \<open>The three NV commands of the menu\<close>

definition menu_index :: TPM_NV_INDEX where
  "menu_index = 0x01000001"

text \<open>The public area the NV_DefineSpace command of the menu defines.\<close>

definition menu_public :: "stack0 \<Rightarrow> TPMS_NV_PUBLIC" where
  "menu_public stk = ds_public stk ((st_define stk)\<lparr>ds_authHandle := 0x40000001, ds_authSize := 0,
     ds_publicSize := 14, ds_nvIndex := menu_index, ds_nameAlg := 0x000B, ds_attributes := 0x024C0006,
     ds_authPolicySize := 0, ds_dataSize := 32\<rparr>)"

lemma menu_public_facts:
  "p_nvIndex (menu_public stk) = menu_index" "p_dataSize (menu_public stk) = 32"
  "nv_write_accepts (nv_new_entry 48 (menu_public stk)) 4 0" "\<not> e_readLocked (nv_new_entry 48 (menu_public stk))"
  by (simp_all add: menu_public_def ds_public_def nv_write_accepts_def nv_new_entry_def ds_attribute_units_def
      TPMA_NV_of_units_def any_write_bit_def bit_simps)

lemma menu_define_checks:
  assumes "nv_ok s" "nv_lookup s menu_index = None" "nv_count s = 1"
  shows "nv_define_checks s \<lparr>rp_owner = TPM_RH_OWNER, rp_platform = TPM_RH_OWNER,
    rp_responsefailcode = TPM_RH_OWNER\<rparr> (menu_public stk) = TPM_RC_SUCCESS"
proof -
  have "nv_bank_size s = 6962" using assms(1) by (rule nv_okE)
  with assms(2,3) show ?thesis
    by (simp add: nv_define_checks_def menu_public_def ds_public_def ds_attribute_units_def
        TPMA_NV_of_units_def nv_index_type_def any_read_bit_def any_write_bit_def nv_type_rules_def menu_index_def
        bit_simps Let_def word_le_nat_alt)
qed

lemma menu_define_run:
  assumes "link_arrays s" "core_ok s" "stack_ok stk"
    and b: "cmd_body s = define_space_wire 0x40000001 [] 14 menu_index 0x000B 0x024C0006 [] 32"
    and nv: "nv_lookup s menu_index = None" "nv_count s = 1" "nv_alloc_offset s = 48"
  obtains s' where "handle_NV_DefineSpace stk s = Some s'"
    "answered TPM_RC_SUCCESS [] (nv_defined s (menu_public stk)) s'" "core_ok (nv_defined s (menu_public stk))"
proof -
  have stk: "length (ds_auth (st_define stk)) = 64" "length (ds_authPolicy (st_define stk)) = 64"
      "length (st_auth stk) = 64" "length (st_policy stk) = 64"
    using assms(3) by (simp_all add: stack_ok_def wf_NV_DefineSpace_Params_def)
  have ok: "nv_ok s" using assms(2) by (simp add: core_ok_def)
  let ?h = "\<lparr>rp_owner = TPM_RH_OWNER, rp_platform = TPM_RH_OWNER, rp_responsefailcode = TPM_RH_OWNER\<rparr>"
  have d: "tpm2_nv_define_space s ?h auth (menu_public stk) = Some (TPM_RC_SUCCESS, nv_defined s (menu_public stk))" for auth
    using define_space_run [OF ok menu_define_checks [OF ok nv(1,2)], of auth stk] nv(3) by (simp add: menu_public_facts)
  from define_space_link [OF ok d] assms(1,2) have l: "link_arrays (nv_defined s (menu_public stk))"
      "core_ok (nv_defined s (menu_public stk))" by simp_all
  have "handle_NV_DefineSpace stk s = build_success_response 0 (nv_defined s (menu_public stk))"
    using unmarshal_define_space_wire [of "[]" "[]" "st_define stk" "0x40000001" 14 menu_index "0x000B" "0x024C0006" 32 "[]" 0]
      stk d [unfolded menu_public_def ds_public_def]
    by (simp add: handle_NV_DefineSpace_def b provision_handle_def memcpy_def menu_public_def ds_public_def)
  with success_answered [OF l(1), of 0] l(2) that show thesis by (auto simp: slice_def)
qed
text \<open>What the two first commands establish for the ones after them.\<close>

definition index_ready :: "bytes \<Rightarrow> TPM2State \<Rightarrow> bool" where
  "index_ready r c \<longleftrightarrow> r = response_bytes TPM_RC_SUCCESS [] \<and> nv_key_usable c \<and> tpm_mode c = TPM_MODE_NORMAL \<and>
     (\<exists>e. nv_lookup c menu_index = Some e \<and> nv_write_accepts e 4 0 \<and> \<not> e_readLocked e)"

definition index_written :: "ossl \<Rightarrow> bytes \<Rightarrow> bytes \<Rightarrow> TPM2State \<Rightarrow> bool" where
  "index_written L d r c \<longleftrightarrow> r = response_bytes TPM_RC_SUCCESS [] \<and>
     (\<exists>t e ct. core_ok t \<and> nv_lookup t menu_index = Some e \<and> \<not> e_readLocked e \<and> nv_key_usable t \<and>
        tpm_mode t = TPM_MODE_NORMAL \<and> aes_cfb128 L True (nv_key t) (replicate 16 0) d = Some ct \<and>
        length ct = length d \<and> length ct \<le> unat (e_dataLen e) \<and>
        c = dev_core ((nv_written t menu_index e 0 ct)\<lparr>nv_dirty := True\<rparr>))"

lemma menu_define_answers:
  assumes "stack_ok stk" "nv_key_usable c" "tpm_mode c = TPM_MODE_NORMAL"
    and nv: "nv_lookup c menu_index = None" "nv_count c = 1" "nv_alloc_offset c = 48"
  shows "board.answers L stk rnd clk CMD_NV_DEFINE_SPACE c index_ready"
proof (rule board_answers)
  fix s
  assume s: "dev_ok s" "dev_view s = Receiving (padded_command CMD_NV_DEFINE_SPACE)" "dev_core s = c"
  let ?w = "define_space_wire 0x40000001 [] 14 menu_index 0x000B 0x024C0006 [] 32"
  obtain pad where v: "dev_view s = Receiving (command_bytes TPM_CC_NV_DefineSpace ?w @ pad)"
    using s(2) padded_prefix [of CMD_NV_DEFINE_SPACE] menu_wires(4) by (metis menu_index_def)
  have m: "tpm_mode s = TPM_MODE_NORMAL" using assms(3) s(3) by auto
  have cc: "is_valid_cc_command TPM_CC_NV_DefineSpace" by (simp add: is_valid_cc_command_def)
  show "\<exists>s' r rc body. tpm2_mmio_write L stk rnd TPM2_CMD_REG 1 s = Some s' \<and> dev_ok s' \<and>
      dev_view s' = Sending r \<and> response_is r rc body \<and> index_ready (response_bytes rc body) (dev_core s')"
  proof (rule execute_command [OF s(1) v cc m, of L stk rnd])
    fix e
    assume e: "link_arrays e" "core_ok e" "dev_core e = dev_core s" "cmd_body e = ?w"
      and w: "tpm2_mmio_write L stk rnd TPM2_CMD_REG 1 s =
        (if TPM_CC_NV_DefineSpace = TPM_CC_GetRandom then handle_GetRandom stk rnd e
         else if TPM_CC_NV_DefineSpace = TPM_CC_CreatePrimary then handle_CreatePrimary L stk e
         else if TPM_CC_NV_DefineSpace = TPM_CC_NV_DefineSpace then handle_NV_DefineSpace stk e
         else if TPM_CC_NV_DefineSpace = TPM_CC_NV_Write then handle_NV_Write L stk e
         else if TPM_CC_NV_DefineSpace = TPM_CC_NV_Read then handle_NV_Read L stk e
         else Some (build_error_response TPM_RC_COMMAND_CODE e))"
    have c: "dev_core e = c" using e(3) s(3) by simp
    then have f: "nv_lookup e menu_index = None" "nv_count e = 1" "nv_alloc_offset e = 48" "nv_key_usable e"
        "tpm_mode e = TPM_MODE_NORMAL"
      using nv assms(2,3) by (auto simp: dev_core_def nv_lookup_def nv_key_usable_def)
    let ?d = "nv_defined e (menu_public stk)"
    obtain s' where s': "handle_NV_DefineSpace stk e = Some s'" "answered TPM_RC_SUCCESS [] ?d s'" "core_ok ?d"
      by (rule menu_define_run [OF e(1,2) assms(1) e(4) f(1-3)])
    have ok: "nv_ok e" using e(2) by (simp add: core_ok_def)
    have "nv_lookup ?d menu_index = Some (nv_new_entry 48 (menu_public stk))"
      using nv_defined_lookup [OF ok] f(3) by (simp add: menu_public_facts)
    moreover have "nv_key_usable ?d" "tpm_mode ?d = TPM_MODE_NORMAL"
      using f(4,5) by (simp_all add: nv_defined_def nv_key_usable_def Let_def)
    ultimately have "index_ready (response_bytes TPM_RC_SUCCESS []) (dev_core ?d)"
      by (simp add: index_ready_def menu_public_facts)
    with s' w core_ok_cong [of s' ?d] show ?thesis by (auto simp: answered_def dev_ok_def)
  qed
qed

lemma menu_write_answers:
  assumes "lib_ok L" "stack_ok stk" "index_ready r c"
  shows "board.answers L stk rnd clk CMD_NV_WRITE c (index_written L [0x54, 0x45, 0x53, 0x54])"
proof (rule board_answers)
  fix s
  let ?d = "[0x54, 0x45, 0x53, 0x54] :: bytes"
  assume s: "dev_ok s" "dev_view s = Receiving (padded_command CMD_NV_WRITE)" "dev_core s = c"
  obtain pad where v: "dev_view s = Receiving (command_bytes TPM_CC_NV_Write
      (nv_write_wire 0x4000000C menu_index ?d 0) @ pad)"
    using s(2) padded_prefix [of CMD_NV_WRITE] menu_wires(5) by (metis menu_index_def)
  from assms(3) s(3) obtain e where f: "tpm_mode s = TPM_MODE_NORMAL" "nv_key_usable s"
      "nv_lookup s menu_index = Some e" "nv_write_accepts e (of_nat (length ?d)) 0" "\<not> e_readLocked e"
    by (auto simp: index_ready_def)
  have h: "provision_handle 0x4000000C = Some \<lparr>rp_owner = TPM_RH_PLATFORM, rp_platform = TPM_RH_PLATFORM,
      rp_responsefailcode = TPM_RH_PLATFORM\<rparr>" by (simp add: provision_handle_def)
  have d: "?d \<noteq> []" "length ?d \<le> 1024" by simp_all
  obtain ct t s' where ct: "aes_cfb128 L True (nv_key s) (replicate 16 0) ?d = Some ct" "length ct = length ?d"
      and t: "dev_core t = dev_core s" "core_ok t" and w: "tpm2_mmio_write L stk rnd TPM2_CMD_REG 1 s = Some s'"
        "answered TPM_RC_SUCCESS [] ((nv_written t menu_index e (unat (0 :: u16)) ct)\<lparr>nv_dirty := True\<rparr>) s'"
    by (rule execute_nv_write [OF assms(1,2) s(1) f(1) v f(3) h f(4) d f(2)])
  let ?w = "(nv_written t menu_index e 0 ct)\<lparr>nv_dirty := True\<rparr>"
  note eq = core_eq [OF t(1)]
  have e: "nv_lookup t menu_index = Some e" and room: "unat (0 :: u16) + length ct \<le> unat (e_dataLen e)"
    using f(3,4) ct(2) by (simp_all add: eq nv_write_accepts_def)
  have ok: "core_ok ?w" using written_store(1) [OF t(2) e room order_refl] by simp
  have "index_written L ?d (response_bytes TPM_RC_SUCCESS []) (dev_core ?w)"
    unfolding index_written_def using t(2) e f ct room
    by (intro conjI refl exI [of _ t] exI [of _ e] exI [of _ ct]) (simp_all add: eq)
  with w ok core_ok_cong [of s' ?w] show "\<exists>s' r rc body. tpm2_mmio_write L stk rnd TPM2_CMD_REG 1 s = Some s' \<and>
      dev_ok s' \<and> dev_view s' = Sending r \<and> response_is r rc body \<and>
      index_written L ?d (response_bytes rc body) (dev_core s')"
    by (auto simp: answered_def dev_ok_def)
qed

lemma menu_read_answers:
  assumes "lib_ok L" "index_written L d r c" "length d = 4"
  shows "board.answers L stk rnd clk CMD_NV_READ c (\<lambda>r _. r = response_bytes TPM_RC_SUCCESS (be16_bytes 4 @ d))"
proof (rule board_answers)
  fix s
  assume s: "dev_ok s" "dev_view s = Receiving (padded_command CMD_NV_READ)" "dev_core s = c"
  obtain pad where v: "dev_view s = Receiving (command_bytes TPM_CC_NV_Read
      (nv_read_wire 0x4000000C menu_index 4 0) @ pad)"
    using s(2) padded_prefix [of CMD_NV_READ] menu_wires(6) by (metis menu_index_def)
  from assms(2) obtain t e ct where t: "core_ok t" "nv_lookup t menu_index = Some e" "\<not> e_readLocked e"
      "nv_key_usable t" "tpm_mode t = TPM_MODE_NORMAL" "aes_cfb128 L True (nv_key t) (replicate 16 0) d = Some ct"
      "length ct = length d" and room: "unat (0 :: u16) + length ct \<le> unat (e_dataLen e)"
      and c: "c = dev_core ((nv_written t menu_index e (unat (0 :: u16)) ct)\<lparr>nv_dirty := True\<rparr>)"
    by (auto simp: index_written_def)
  have n: "(4 :: u16) \<noteq> 0" "unat (4 :: u16) \<le> length d" "unat (4 :: u16) \<le> 1012" using assms(3) by simp_all
  show "\<exists>s' r rc body. tpm2_mmio_write L stk rnd TPM2_CMD_REG 1 s = Some s' \<and> dev_ok s' \<and>
      dev_view s' = Sending r \<and> response_is r rc body \<and>
      response_bytes rc body = response_bytes TPM_RC_SUCCESS (be16_bytes 4 @ d)"
    by (rule execute_read_back [OF assms(1) t room s(1) s(3) [unfolded c] n v, of stk rnd])
      (use assms(3) in auto)
qed

section \<open>The test commands of the menu\<close>

text \<open>The code a command of the menu that is meant to fail is answered with.\<close>

definition read_code :: "TPM2State \<Rightarrow> TPM_NV_INDEX \<Rightarrow> nat \<Rightarrow> TPM_RC option" where
  "read_code s i n =
     (case nv_lookup s i of
        None \<Rightarrow> Some TPM_RC_HANDLE
      | Some e \<Rightarrow> if \<not> e_written e then Some TPM_RC_NV_UNINITIALIZED
                  else if n > unat (p_dataSize (e_pub e)) then Some TPM_RC_NV_RANGE else None)"

definition test_code :: "TPM2State \<Rightarrow> char \<Rightarrow> TPM_RC option" where
  "test_code s c =
     (if c \<in> {CHR ''6'', CHR ''9'', CHR ''a'', CHR ''A''} then Some TPM_RC_COMMAND_SIZE
      else if c \<in> {CHR ''7'', CHR ''c'', CHR ''C''} then Some TPM_RC_SIZE
      else if c = CHR ''8'' then read_code s 0x01000001 1024
      else if c = CHR ''b'' \<or> c = CHR ''B'' then read_code s 0x01000002 4
      else None)"

text \<open>The device refuses a command with the code and stays as it is.\<close>

definition refuses :: "ossl \<Rightarrow> stack0 \<Rightarrow> bytes option \<Rightarrow> TPM_RC \<Rightarrow> TPM2State \<Rightarrow> bool" where
  "refuses L stk rnd rc s \<longleftrightarrow>
     (\<exists>s'. tpm2_mmio_write L stk rnd TPM2_CMD_REG 1 s = Some s' \<and> answered rc [] s s')"

lemma refuses_answers:
  assumes "\<And>s. dev_ok s \<Longrightarrow> dev_view s = Receiving (padded_command cmd) \<Longrightarrow> dev_core s = c \<Longrightarrow> refuses L stk rnd rc s"
  shows "board.answers L stk rnd clk cmd c (\<lambda>r c'. r = response_bytes rc [] \<and> c' = c)"
proof (rule board_answers)
  fix s
  assume s: "dev_ok s" "dev_view s = Receiving (padded_command cmd)" "dev_core s = c"
  from assms [OF this] obtain s' r where s': "tpm2_mmio_write L stk rnd TPM2_CMD_REG 1 s = Some s'" "link_ok s'"
      "dev_core s' = dev_core s" "dev_view s' = Sending r" "response_is r rc []"
    by (auto simp: refuses_def answered_def)
  moreover have "dev_ok s'" using s' s(1) core_ok_cong [OF s'(3)] by (simp add: dev_ok_def)
  ultimately show "\<exists>s' r rc' body. tpm2_mmio_write L stk rnd TPM2_CMD_REG 1 s = Some s' \<and> dev_ok s' \<and>
      dev_view s' = Sending r \<and> response_is r rc' body \<and>
      (response_bytes rc' body = response_bytes rc [] \<and> dev_core s' = c)" using s(3) by blast
qed

lemma short_command_refused:
  assumes "dev_ok s" "dev_view s = Receiving bs" "6 \<le> length bs" "length bs < unat (resp_word bs 2)"
  shows "refuses L stk rnd TPM_RC_COMMAND_SIZE s"
proof -
  have st: "dev_state s = TPM_STATE_RECEIVING" and bs: "bs = take (unat (cmd_size s)) (command_buffer s)"
      and len: "unat (cmd_size s) \<le> 1024" "length (command_buffer s) = 1024" "link_arrays s"
    using assms(1,2) by (auto simp: dev_view_def dev_ok_def link_ok_def link_arrays_def split: tpm_state.splits)
  have n: "rd32 (command_buffer s) 2 = Some (resp_word bs 2)" "length bs = unat (cmd_size s)"
    using assms(3) len unfolding bs by (simp_all add: rd32_def resp_word_def)
  then have "cmd_size s < resp_word bs 2" using assms(4) by (simp add: word_less_nat_alt)
  with n st have "tpm2_mmio_write L stk rnd TPM2_CMD_REG 1 s =
      Some (build_error_response TPM_RC_COMMAND_SIZE (s\<lparr>dev_state := TPM_STATE_IDLE\<rparr>))"
    by (simp add: tpm2_mmio_write_def)
  moreover have "link_arrays (s\<lparr>dev_state := TPM_STATE_IDLE\<rparr>)" using len(3) by (simp add: link_arrays_def)
  then have "answered TPM_RC_COMMAND_SIZE [] (s\<lparr>dev_state := TPM_STATE_IDLE\<rparr>)
      (build_error_response TPM_RC_COMMAND_SIZE (s\<lparr>dev_state := TPM_STATE_IDLE\<rparr>))" by (rule error_answered)
  then have "answered TPM_RC_COMMAND_SIZE [] s
      (build_error_response TPM_RC_COMMAND_SIZE (s\<lparr>dev_state := TPM_STATE_IDLE\<rparr>))"
    by (rule answered_core) (simp add: dev_core_def)
  ultimately show ?thesis by (simp add: refuses_def)
qed

lemma large_random_refused:
  assumes "dev_ok s" "tpm_mode s = TPM_MODE_NORMAL" "rnd_ok rnd" "32 < unat n"
    and v: "dev_view s = Receiving (command_bytes TPM_CC_GetRandom (be16_bytes n) @ pad)"
  shows "refuses L stk rnd TPM_RC_SIZE s"
proof -
  have c: "is_valid_cc_command TPM_CC_GetRandom" by (simp add: is_valid_cc_command_def)
  obtain e where e: "link_arrays e" "core_ok e" "dev_core e = dev_core s" "cmd_body e = be16_bytes n"
    and w: "tpm2_mmio_write L stk rnd TPM2_CMD_REG 1 s = handle_GetRandom stk rnd e"
    by (rule execute_command [OF assms(1) v c assms(2), of L stk rnd]) simp
  have "length (random_data e) = 32" using e(2) by (simp add: core_ok_def)
  from handle_GetRandom_answers [OF e(1) this assms(3), of stk] assms(4) obtain s' where
    "handle_GetRandom stk rnd e = Some s'" "answered TPM_RC_SIZE [] e s'"
    unfolding e(4) by (auto simp: get_random_answer_def)
  with w answered_core [OF _ e(3)] show ?thesis by (auto simp: refuses_def)
qed

lemma nv_read_refused:
  assumes "dev_ok s" "tpm_mode s = TPM_MODE_NORMAL" "read_code s i (unat n) = Some rc"
    and v: "dev_view s = Receiving (command_bytes TPM_CC_NV_Read (nv_read_wire h i n 0) @ pad)"
  shows "refuses L stk rnd rc s"
proof -
  have c: "is_valid_cc_command TPM_CC_NV_Read" by (simp add: is_valid_cc_command_def)
  obtain e where e: "link_arrays e" "core_ok e" "dev_core e = dev_core s" "cmd_body e = nv_read_wire h i n 0"
    and w: "tpm2_mmio_write L stk rnd TPM2_CMD_REG 1 s = handle_NV_Read L stk e"
    by (rule execute_command [OF assms(1) v c assms(2), of L stk rnd]) simp
  have "handle_NV_Read L stk e = Some (build_error_response rc e)"
    using assms(3) core_eq(1) [OF e(3)] unmarshal_nv_read_wire [of h i n 0 "[]" "st_read stk" 0]
    by (auto simp: handle_NV_Read_def e(4) read_code_def split: option.splits if_splits)
  with w answered_core [OF error_answered [OF e(1)] e(3)] show ?thesis by (auto simp: refuses_def)
qed

lemma short_commands:
  assumes "cmd \<in> {CMD_BAD_HDR, CMD_NV_WRITE_OVERSIZE, CMD_NV_WRITE_FMT_STR}"
  shows "6 \<le> length (padded_command cmd)" "length (padded_command cmd) < unat (resp_word (padded_command cmd) 2)"
proof -
  have "length CMD_BAD_HDR = 12" "length CMD_NV_WRITE_OVERSIZE = 55" "length CMD_NV_WRITE_FMT_STR = 35"
    "resp_word CMD_BAD_HDR 2 = 48" "resp_word CMD_NV_WRITE_OVERSIZE 2 = 61" "resp_word CMD_NV_WRITE_FMT_STR 2 = 43"
    by (simp_all add: menu_command_defs resp_word_def be32_def)
  moreover from this assms have "resp_word (padded_command cmd) 2 = resp_word cmd 2"
    by (auto simp: resp_word_def padded_command_def nth_append)
  ultimately show "6 \<le> length (padded_command cmd)" "length (padded_command cmd) < unat (resp_word (padded_command cmd) 2)"
    using assms by (auto simp: pad4_def)
qed

lemma test_answers:
  assumes "tpm_mode t = TPM_MODE_NORMAL" "rnd_ok rnd" "test_code t c = Some rc" "menu_command c = Some cmd"
  shows "board.answers L stk rnd clk cmd (dev_core t) (\<lambda>r c'. r = response_bytes rc [] \<and> c' = dev_core t)"
proof (rule refuses_answers)
  fix s
  assume s: "dev_ok s" "dev_view s = Receiving (padded_command cmd)" "dev_core s = dev_core t"
  have m: "tpm_mode s = TPM_MODE_NORMAL" and rd: "read_code s = read_code t"
    using core_eq [OF s(3)] assms(1) by (simp_all add: read_code_def fun_eq_iff)
  obtain pad where p: "padded_command cmd = cmd @ pad" by (rule padded_prefix)
  consider "cmd \<in> {CMD_BAD_HDR, CMD_NV_WRITE_OVERSIZE, CMD_NV_WRITE_FMT_STR}" "rc = TPM_RC_COMMAND_SIZE"
    | "cmd = command_bytes TPM_CC_GetRandom (be16_bytes 0xFFFF)" "rc = TPM_RC_SIZE"
    | i n where "cmd = command_bytes TPM_CC_NV_Read (nv_read_wire 0x4000000C i n 0)" "read_code t i (unat n) = Some rc"
    using assms(3,4) menu_wires by (force simp: test_code_def menu_command_def split: if_splits)
  then show "refuses L stk rnd rc s"
  proof cases
    case 1
    with short_command_refused [OF s(1,2) short_commands [OF 1(1)]] show ?thesis by simp
  next
    case 2
    with large_random_refused [OF s(1) m assms(2), of "0xFFFF" pad] s(2) p show ?thesis by simp
  next
    case (3 i n)
    with nv_read_refused [OF s(1) m, of i n rc "0x4000000C" pad] s(2) p rd show ?thesis by simp
  qed
qed

section \<open>Properties\<close>

text \<open>
  C1.  The system runs, as far as there is memory for the name of a created key.  The source reserves
  none for it, so what the machine does when a key is created depends on \<open>name_room\<close>, on
  memory behind a local variable that the write may use without harm.  From the reset of a machine that
  has been realized (which creates a key and takes that memory too) the firmware starts.  Then, whatever keys are
  pressed, one after the other while it waits: if there is room for the name at every press of '2', the
  key of CreatePrimary, every turn of the main loop ends; the command of the key (if it is one of the
  menu) is sent, executed, answered and shown, no access on the way gets stuck or leaves an array, no
  busy-wait loops for ever, and the machine is in order again.  If there is none at one of them, the
  loop gets stuck: that write leaves the variable.  All other keys are served in any case.
\<close>

theorem firmware_serves_keys:
  assumes "lib_ok L" "stack_ok stk" "nxps32k3x8evb_init L stk True = Some b"
    and "length envs = length ks" "list_all env_ok envs" "length buf = 1024"
  shows "\<exists>b1. main_start (board_bus L stk rnd clk) (board_reset b) = Some b1 \<and>
    (if \<forall>i < length ks. ks ! i = 0x32 \<longrightarrow> name_room (fst (envs ! i))
     then \<exists>buf' b'. main_loop (turn_buses L clk envs) (map board_key ks) buf b1 = Some ([], buf', b') \<and>
       board_ok b' \<and> uart_queue (b_uart b') = [] \<and> length buf' = 1024
     else main_loop (turn_buses L clk envs) (map board_key ks) buf b1 = None)"
proof (rule board_boots [OF assms(1,2) booted_name_room [OF assms(1-3)]])
  fix b0
  assume b0: "nxps32k3x8evb_init L stk True = Some b0" "board_ok (board_reset b0)"
    "uart_queue (b_uart (board_reset b0)) = []" "tpm_mode (b_tpm (board_reset b0)) = TPM_MODE_NORMAL"
  with assms(3) have b: "board_ok (board_reset b)" "uart_queue (b_uart (board_reset b)) = []"
    "tpm_mode (b_tpm (board_reset b)) = TPM_MODE_NORMAL" by simp_all
  obtain b1 bs where b1: "main_start (board_bus L stk rnd clk) (board_reset b) = Some b1"
      "board.prints (board_reset b) bs b1" using board.main_start_ok [OF b(1)] by blast
  then have c: "board_ok b1" "uart_queue (b_uart b1) = []" "dev_core (b_tpm b1) = dev_core (b_tpm (board_reset b))"
    using b(2) by (simp_all add: board.prints_def)
  have m: "tpm_mode (b_tpm b1) = TPM_MODE_NORMAL" using core_eq [OF c(3)] b(3) by simp
  have "list_all2 turn_room ks envs \<longleftrightarrow> (\<forall>i < length ks. ks ! i = 0x32 \<longrightarrow> name_room (fst (envs ! i)))"
    using assms(4) by (simp add: list_all2_conv_all_nth turn_room_def)
  with serves_keys [OF assms(1) c(1,2) m assms(6,4,5), of clk] b1(1) show ?thesis by simp
qed

theorem firmware_serves_keys_witness:
  "\<exists>b b1. nxps32k3x8evb_init demo_ossl demo_stack True = Some b \<and>
     main_start (board_bus demo_ossl demo_stack None 0) (board_reset b) = Some b1 \<and>
     (\<exists>buf' b'. main_loop (turn_buses demo_ossl 0 (replicate 3 (demo_stack, None)))
       (map board_key [0x32, 0x7A, 0x31]) (replicate 1024 0) b1 = Some ([], buf', b')) \<and>
     main_loop (turn_buses demo_ossl 0 [(demo_stack\<lparr>st_name := []\<rparr>, None)]) (map board_key [0x32])
       (replicate 1024 0) b1 = None"
proof (rule board_boots [OF demo_lib_ok demo_stack_ok])
  fix b
  assume b: "nxps32k3x8evb_init demo_ossl demo_stack True = Some b"
  have e: "list_all env_ok (replicate 3 (demo_stack, None))" "list_all env_ok [(demo_stack\<lparr>st_name := []\<rparr>, None)]"
    using demo_stack_ok(1) by (simp_all add: list_all_iff env_ok_def rnd_ok_def stack_ok_def)
  have r: "\<forall>i < length [0x32, 0x7A, 0x31 :: u8]. [0x32, 0x7A, 0x31 :: u8] ! i = 0x32 \<longrightarrow>
      name_room (fst (replicate 3 (demo_stack, None :: bytes option) ! i))"
    using demo_stack_ok(2) by (simp add: All_less_Suc numeral_eq_Suc)
  have n: "\<not> (\<forall>i < length [0x32 :: u8]. [0x32 :: u8] ! i = 0x32 \<longrightarrow>
      name_room (fst ([(demo_stack\<lparr>st_name := []\<rparr>, None :: bytes option)] ! i)))"
    by (simp add: name_room_def)
  from firmware_serves_keys [OF demo_lib_ok demo_stack_ok(1) b _ e(1), of "[0x32, 0x7A, 0x31]" "replicate 1024 0" None 0]
    firmware_serves_keys [OF demo_lib_ok demo_stack_ok(1) b _ e(2), of "[0x32]" "replicate 1024 0" None 0] b r n
  show ?thesis by (simp only: if_True if_False) auto
qed

text \<open>
  C4.  Any command is delivered, executed and answered faithfully.  The driver puts the command,
  padded with zeros to whole words, into the device; the device executes exactly that; if the
  execution stays inside the arrays, the driver returns, the buffer of the firmware starts with
  exactly the response of the device, the console ends with its hexadecimal dump, the device is idle
  again and keeps the state the execution left, and the keys that wait are untouched.
\<close>

theorem command_delivered:
  assumes "lib_ok L" "stack_ok stk" "rnd_ok rnd" "board_ok b" "length cmd \<le> 1024" "length buf = 1024"
    and "\<forall>s. dev_ok s \<and> dev_view s = Receiving (padded_command cmd) \<and> dev_core s = dev_core (b_tpm b) \<longrightarrow>
      tpm2_mmio_write L stk rnd TPM2_CMD_REG 1 s \<noteq> None"
  shows "\<exists>buf' b' s s' r rc body pre. run_command (board_bus L stk rnd clk) cmd buf b = Some (buf', b') \<and>
    dev_view s = Receiving (padded_command cmd) \<and> dev_core s = dev_core (b_tpm b) \<and>
    tpm2_mmio_write L stk rnd TPM2_CMD_REG 1 s = Some s' \<and> dev_view s' = Sending r \<and> response_is r rc body \<and>
    take (10 + length body) buf' = response_bytes rc body \<and>
    uart_sent (b_uart b') = pre @ map of_char (hex_dump (response_bytes rc body)) \<and>
    board_ok b' \<and> dev_view (b_tpm b') = Idle \<and> dev_core (b_tpm b') = dev_core s' \<and>
    uart_queue (b_uart b') = uart_queue (b_uart b)"
proof -
  define Q where "Q q c \<longleftrightarrow> (\<exists>s s' r rc body. q = response_bytes rc body \<and>
    dev_view s = Receiving (padded_command cmd) \<and> dev_core s = dev_core (b_tpm b) \<and>
    tpm2_mmio_write L stk rnd TPM2_CMD_REG 1 s = Some s' \<and> dev_view s' = Sending r \<and> response_is r rc body \<and>
    c = dev_core s')" for q c
  have "board.answers L stk rnd clk cmd (dev_core (b_tpm b)) Q"
  proof (rule board_answers)
    fix s
    assume s: "dev_ok s" "dev_view s = Receiving (padded_command cmd)" "dev_core s = dev_core (b_tpm b)"
    then have "dev_state s = TPM_STATE_RECEIVING" by (auto simp: dev_view_def split: tpm_state.splits)
    with mmio_execute_safe [OF s(1) _ assms(2,3,1)] assms(7) s obtain s' where
      s': "tpm2_mmio_write L stk rnd TPM2_CMD_REG 1 s = Some s'" "replies s'" by blast
    then obtain r rc body where "dev_ok s'" "dev_view s' = Sending r" "response_is r rc body"
      by (auto simp: replies_def)
    with s s'(1) show "\<exists>s' r rc body. tpm2_mmio_write L stk rnd TPM2_CMD_REG 1 s = Some s' \<and> dev_ok s' \<and>
        dev_view s' = Sending r \<and> response_is r rc body \<and> Q (response_bytes rc body) (dev_core s')"
      unfolding Q_def by blast
  qed
  from board.run_command_ok [OF assms(4-6) this] obtain buf' b' q pre where
    run: "run_command (board_bus L stk rnd clk) cmd buf b = Some (buf', b')" "board_ok b'"
      "uart_queue (b_uart b') = uart_queue (b_uart b)" "dev_view (b_tpm b') = Idle" "Q q (dev_core (b_tpm b'))"
      "take (length q) buf' = q" "uart_sent (b_uart b') = pre @ map of_char (hex_dump q)"
    unfolding board.delivered_def by blast
  from run(5) obtain s s' r rc body where q: "q = response_bytes rc body"
    "dev_view s = Receiving (padded_command cmd)" "dev_core s = dev_core (b_tpm b)"
    "tpm2_mmio_write L stk rnd TPM2_CMD_REG 1 s = Some s'" "dev_view s' = Sending r" "response_is r rc body"
    "dev_core (b_tpm b') = dev_core s'" unfolding Q_def by blast
  with run(6,7) have "take (10 + length body) buf' = response_bytes rc body"
    "uart_sent (b_uart b') = pre @ map of_char (hex_dump (response_bytes rc body))" by simp_all
  with run(1-4) q show ?thesis by blast
qed

theorem command_delivered_witness:
  "\<exists>b buf' b'. run_command (board_bus demo_ossl demo_stack None 0) CMD_GET_RANDOM (replicate 1024 0) b =
     Some (buf', b') \<and> board_ok b' \<and> dev_view (b_tpm b') = Idle"
proof (rule board_boots [OF demo_lib_ok demo_stack_ok])
  fix b
  assume b: "board_ok (board_reset b)"
  have r: "rnd_ok None" by (simp add: rnd_ok_def)
  have c: "menu_command CHR ''1'' = Some CMD_GET_RANDOM" by (simp add: menu_command_def)
  have l: "length CMD_GET_RANDOM \<le> 1024" "length (replicate 1024 (0 :: u8)) = 1024"
    by (simp_all add: CMD_GET_RANDOM_def)
  have "\<forall>s. dev_ok s \<and> dev_view s = Receiving (padded_command CMD_GET_RANDOM) \<and>
      dev_core s = dev_core (b_tpm (board_reset b)) \<longrightarrow> tpm2_mmio_write demo_ossl demo_stack None TPM2_CMD_REG 1 s \<noteq> None"
    using menu_executes [OF c _ _ demo_stack_ok(1) r demo_lib_ok] demo_stack_ok(2) by blast
  from command_delivered [OF demo_lib_ok demo_stack_ok(1) r b l this, of 0] show ?thesis by blast
qed

text \<open>
  C6.  The NV commands of the menu work together, from the boot of the machine to the console: after
  the keys for NV_DefineSpace, NV_Write and NV_Read the response in the buffer of the firmware is a
  success with the four bytes "TEST" that were written (encrypted in between), and the console ends
  with the dump of that response.
\<close>

theorem menu_nv_roundtrip:
  assumes "lib_ok L" "stack_ok stk" "nxps32k3x8evb_init L stk True = Some b" "length buf = 1024"
    and "stack_ok stk1" "stack_ok stk2" "stack_ok stk3"
  shows "\<exists>b1 buf' b' pre. main_start (board_bus L stk rnd clk) (board_reset b) = Some b1 \<and>
    main_loop (turn_buses L clk [(stk1, rnd1), (stk2, rnd2), (stk3, rnd3)])
      [board_key 0x33, board_key 0x34, board_key 0x35] buf b1 = Some ([], buf', b') \<and>
    take 16 buf' = response_bytes TPM_RC_SUCCESS [0, 4, 0x54, 0x45, 0x53, 0x54] \<and>
    uart_sent (b_uart b') =
      pre @ map of_char (hex_dump (response_bytes TPM_RC_SUCCESS [0, 4, 0x54, 0x45, 0x53, 0x54]))"
proof (rule board_boots [OF assms(1,2) booted_name_room [OF assms(1-3)]])
  fix b0
  assume "nxps32k3x8evb_init L stk True = Some b0" "board_ok (board_reset b0)"
    "uart_queue (b_uart (board_reset b0)) = []" "nv_key_usable (b_tpm (board_reset b0))"
    "tpm_mode (b_tpm (board_reset b0)) = TPM_MODE_NORMAL"
    "nv_lookup (b_tpm (board_reset b0)) = [0x1500016 \<mapsto> nv_new_entry 0 test_nv_public]"
    "nv_count (b_tpm (board_reset b0)) = 1" "nv_alloc_offset (b_tpm (board_reset b0)) = 48"
  with assms(3) have b: "board_ok (board_reset b)" "uart_queue (b_uart (board_reset b)) = []"
    and c: "nv_key_usable (b_tpm (board_reset b))" "tpm_mode (b_tpm (board_reset b)) = TPM_MODE_NORMAL"
      "nv_lookup (b_tpm (board_reset b)) menu_index = None" "nv_count (b_tpm (board_reset b)) = 1"
      "nv_alloc_offset (b_tpm (board_reset b)) = 48" by (simp_all add: menu_index_def)
  let ?k = "\<lambda>k. menu_command (char_of (unat (k :: u8)))" and ?d = "[0x54, 0x45, 0x53, 0x54] :: bytes"
  have k: "?k 0x33 = Some CMD_NV_DEFINE_SPACE" "?k 0x34 = Some CMD_NV_WRITE" "?k 0x35 = Some CMD_NV_READ"
    by (simp_all add: menu_command_def char_of_def bit_Suc_0_iff)
  obtain b1 bs where b1: "main_start (board_bus L stk rnd clk) (board_reset b) = Some b1"
      "board.prints (board_reset b) bs b1" using board.main_start_ok [OF b(1)] by blast
  then have s1: "board_ok b1" "uart_queue (b_uart b1) = []" "dev_core (b_tpm b1) = dev_core (b_tpm (board_reset b))"
    using b(2) by (simp_all add: board.prints_def)
  have "board.answers L stk1 rnd1 clk CMD_NV_DEFINE_SPACE (dev_core (b_tpm b1)) index_ready"
    unfolding s1(3) by (rule menu_define_answers [OF assms(5)]) (use c in \<open>simp_all add: dev_core_def nv_lookup_def nv_key_usable_def\<close>)
  from menu_turn [OF s1(1,2) assms(4) k(1) this] obtain buf2 b2 where
    t2: "main_turn (board_bus L stk1 rnd1 clk) [board_key 0x33, board_key 0x34, board_key 0x35] buf b1 =
      Some ([board_key 0x34, board_key 0x35], buf2, b2)"
    and s2: "board_ok b2" "uart_queue (b_uart b2) = []" "length buf2 = 1024" "board.delivered index_ready buf2 b2" by metis
  then obtain r2 where "index_ready r2 (dev_core (b_tpm b2))" by (auto simp: board.delivered_def)
  from menu_turn [OF s2(1-3) k(2) menu_write_answers [OF assms(1,6) this]] obtain buf3 b3 where
    t3: "main_turn (board_bus L stk2 rnd2 clk) [board_key 0x34, board_key 0x35] buf2 b2 = Some ([board_key 0x35], buf3, b3)"
    and s3: "board_ok b3" "uart_queue (b_uart b3) = []" "length buf3 = 1024" "board.delivered (index_written L ?d) buf3 b3"
    by metis
  then obtain r3 where r3: "index_written L ?d r3 (dev_core (b_tpm b3))" by (auto simp: board.delivered_def)
  have d: "length ?d = 4" by simp
  from menu_turn [OF s3(1-3) k(3) menu_read_answers [OF assms(1) r3 d]] obtain buf4 b4 where
    t4: "main_turn (board_bus L stk3 rnd3 clk) [board_key 0x35] buf3 b3 = Some ([], buf4, b4)"
      "board.delivered (\<lambda>r _. r = response_bytes TPM_RC_SUCCESS (be16_bytes 4 @ ?d)) buf4 b4" by metis
  from t4(2) obtain pre where "take 16 buf4 = response_bytes TPM_RC_SUCCESS [0, 4, 0x54, 0x45, 0x53, 0x54]"
    "uart_sent (b_uart b4) = pre @ map of_char (hex_dump (response_bytes TPM_RC_SUCCESS [0, 4, 0x54, 0x45, 0x53, 0x54]))"
    by (auto simp: board.delivered_def be16_bytes_def)
  with b1(1) t2 t3 t4(1) show ?thesis by (simp add: turn_buses_def)
qed

theorem menu_nv_roundtrip_witness:
  "\<exists>b b1 buf' b'. main_start (board_bus demo_ossl demo_stack None 0) (board_reset b) = Some b1 \<and>
     main_loop (turn_buses demo_ossl 0 [(demo_stack, None), (demo_stack, None), (demo_stack, None)])
       [board_key 0x33, board_key 0x34, board_key 0x35] (replicate 1024 0) b1 = Some ([], buf', b') \<and>
     take 16 buf' = response_bytes TPM_RC_SUCCESS [0, 4, 0x54, 0x45, 0x53, 0x54]"
proof (rule board_boots [OF demo_lib_ok demo_stack_ok])
  fix b
  assume b: "nxps32k3x8evb_init demo_ossl demo_stack True = Some b"
  have l: "length (replicate 1024 (0 :: u8)) = 1024" by simp
  from menu_nv_roundtrip [OF demo_lib_ok demo_stack_ok(1) b l demo_stack_ok(1) demo_stack_ok(1) demo_stack_ok(1),
      of None 0 None None None] show ?thesis by blast
qed

text \<open>
  C16.  The test commands of the menu are refused, and leave the device as it was.  The mismatched
  header and the two NV_Write commands are refused for their size (their headers declare more bytes
  than the arrays hold, so that the writes they announce are never attempted), the two large
  GetRandom requests too; and the two NV_Read commands get the code of the first of these that holds:
  the index does not exist, has not been written, or is smaller than the read.
\<close>

theorem test_commands_refused:
  assumes "board_ok b" "uart_queue (b_uart b) = []" "length buf = 1024" "rnd_ok rnd"
    and "tpm_mode (b_tpm b) = TPM_MODE_NORMAL" "test_code (b_tpm b) (char_of (unat k)) = Some rc"
  shows "\<exists>buf' b'. main_turn (board_bus L stk rnd clk) (board_key k # evs) buf b = Some (evs, buf', b') \<and>
    take 10 buf' = response_bytes rc [] \<and> dev_core (b_tpm b') = dev_core (b_tpm b)"
proof -
  obtain cmd where c: "menu_command (char_of (unat k)) = Some cmd"
    using assms(6) by (auto simp: test_code_def menu_command_def split: if_splits)
  show ?thesis
    by (rule menu_turn [OF assms(1-3) c test_answers [OF assms(5,4,6) c]]) (auto simp: board.delivered_def)
qed

theorem test_commands_refused_witness:
  "\<exists>b buf' b'. main_turn (board_bus demo_ossl demo_stack None 0) [board_key 0x61] (replicate 1024 0) b =
       Some ([], buf', b') \<and> take 10 buf' = response_bytes TPM_RC_COMMAND_SIZE []"
proof (rule board_boots [OF demo_lib_ok demo_stack_ok])
  fix b
  let ?b = "board_reset b"
  assume b: "board_ok ?b" "uart_queue (b_uart ?b) = []" "tpm_mode (b_tpm ?b) = TPM_MODE_NORMAL"
  have l: "length (replicate 1024 (0 :: u8)) = 1024" and r: "rnd_ok None" by (simp_all add: rnd_ok_def)
  have "test_code (b_tpm ?b) (char_of (unat (0x61 :: u8))) = Some TPM_RC_COMMAND_SIZE"
    by (simp add: test_code_def char_of_def bit_Suc_0_iff)
  from test_commands_refused [OF b(1,2) l r b(3) this, of demo_ossl demo_stack 0 "[]"] show ?thesis by blast
qed

text \<open>
  C24.  What the firmware prints can be read back.  A number printed with %u is the value of its decimal
  digits (\<open>ds\<close>, the lowest first), and the hexadecimal dump of an array, without its spaces and line
  ends, is that array.
\<close>

theorem print_roundtrip:
  assumes "board_ok b" "n \<le> length bs"
  shows "(\<exists>b' ds. UART_printf (board_bus L stk rnd clk) ''%u'' [Word v] b = Some b' \<and>
      uart_sent (b_uart b') = uart_sent (b_uart b) @ map of_char (rev ds) \<and> digits_value 10 ds = unat v) \<and>
    (\<exists>b' t. UART_print_hex (board_bus L stk rnd clk) bs n b = Some b' \<and>
      uart_sent (b_uart b') = uart_sent (b_uart b) @ map of_char t \<and>
      read_hex (filter (\<lambda>c. c \<notin> {CHR '' '', CHR 0x0A}) t) = take n bs)"
proof -
  let ?B = "board_bus L stk rnd clk" and ?ds = "digits True 10 v"
  have r: "render ''%u'' [Word v] = Some (rev ?ds)" by (simp add: conv_simps)
  have "length (rev ?ds) < 128" using length_digits_32 [of True v] by simp
  from board.printf_prints [OF assms(1) r this] obtain b1 where
    b1: "UART_printf ?B ''%u'' [Word v] b = Some b1" "board.prints b (map of_char (takeWhile (\<lambda>c. c \<noteq> CHR 0x00) (rev ?ds))) b1"
    by blast
  have t: "takeWhile (\<lambda>c. c \<noteq> CHR 0x00) (rev ?ds) = rev ?ds"
    by (rule takeWhile_eq_all_conv [THEN iffD2]) (use digits_printable [of 10 True v] in auto)
  from board.print_hex_prints [OF assms] obtain b2 where
    b2: "UART_print_hex ?B bs n b = Some b2" "board.prints b (map of_char (hex_text 0 (take n bs) @
      (if n mod 16 \<noteq> 0 then ''\<newline>'' else []))) b2" by blast
  have "read_hex (filter (\<lambda>c. c \<notin> {CHR '' '', CHR 0x0A}) (hex_dump (take n bs))) = take n bs" by (rule read_hex_dump)
  then have h: "read_hex (filter (\<lambda>c. c \<notin> {CHR '' '', CHR 0x0A})
      (hex_text 0 (take n bs) @ (if n mod 16 \<noteq> 0 then ''\<newline>'' else []))) = take n bs"
    using assms(2) by (simp add: hex_dump_def)
  have v: "digits_value 10 ?ds = unat v" using digits_value_digits [of 10 True v] by simp
  show ?thesis
    using b1 b2 v h unfolding t board.prints_def by (intro conjI exI) (assumption | simp only: )+
qed

theorem print_roundtrip_witness:
  "\<exists>b b' ds. UART_printf (board_bus demo_ossl demo_stack None 0) ''%u'' [Word 1234567890] b = Some b' \<and>
     uart_sent (b_uart b') = uart_sent (b_uart b) @ map of_char (rev ds) \<and> digits_value 10 ds = 1234567890"
proof (rule board_boots [OF demo_lib_ok demo_stack_ok])
  fix b
  assume b: "board_ok (board_reset b)"
  have "0 \<le> length ([] :: bytes)" by simp
  from print_roundtrip [OF b this, of demo_ossl demo_stack None 0 1234567890] show ?thesis by auto
qed

end
