(* ===== verification/Spec2Isabelle.thy ===== *)
theory Spec2Isabelle
  imports CC_Handle FW_System
begin

text \<open>
  A verification development for an emulated microcontroller board with a TPM 2.0 device and for the
  firmware that drives it.

  \<^bold>\<open>The program.\<close>  Under \<^verbatim>\<open>src/qemu\<close> the repository adds a machine to QEMU: a board with a memory map
  and two devices behind memory-mapped registers, a serial port and a TPM.  The TPM receives a command
  word by word, checks its header, unmarshals its parameters, runs it on a key store and an encrypted
  NV store, marshals the response and gives it out word by word.  Under \<^verbatim>\<open>src/firmware\<close> is the program
  that runs on the board: a console on the serial port, a driver for the TPM, and a menu of commands.

  \<^bold>\<open>Theories.\<close>

  \<^item> \<open>TPM_Prelude\<close>: C integers as words, big-endian conversions, arrays and \<open>memcpy\<close>.
  \<^item> \<open>TPM_Codes\<close>: response codes, command codes, tags and handle ranges of the headers
    under \<^verbatim>\<open>include/tpm\<close>.
  \<^item> \<open>CC_Header\<close>: command and response headers and the mode check (\<^verbatim>\<open>cc_header.h\<close>, \<^verbatim>\<open>tpm_cc.c\<close>).
  \<^item> \<open>CC_Codec\<close>: the sequencing idiom of the (un)marshalling routines and the contracts of
    encoders and decoders, as locales.
  \<^item> \<open>CC_Unmarshal\<close>, \<open>CC_Marshal\<close>, \<open>CC_Handle\<close>: \<^verbatim>\<open>cc_unmarshal.h\<close>, \<^verbatim>\<open>cc_marshal.h\<close> and
    \<^verbatim>\<open>cc_handle.h\<close>; their basic routines interpret the contracts.
  \<^item> \<open>TPM_State\<close>: the data of the TPM (\<^verbatim>\<open>tpm2_device.h\<close>, \<^verbatim>\<open>tpm2_nv.h\<close>, \<^verbatim>\<open>tpm2_nv_entry.h\<close>,
    \<^verbatim>\<open>tpm2_keyobj.h\<close>) and the cryptographic library as a parameter.
  \<^item> \<open>TPM_Crypto\<close>: hashing, key derivation, encryption and primary keys (\<^verbatim>\<open>tpm_crypto.c\<close>).
  \<^item> \<open>TPM_NV\<close>: the NV store (\<^verbatim>\<open>tpm_nv.c\<close>), with the contract of a store as a locale.
  \<^item> \<open>TPM_Link\<close>: the contract between the registers of the TPM and a driver, as a locale
    over the byte sequence in transit.
  \<^item> \<open>TPM_Device\<close>: registers, dispatcher, command handlers, reset and realization (\<^verbatim>\<open>tpm_hw.c\<close>);
    the registers interpret the contract of \<open>TPM_Link\<close>.
  \<^item> \<open>TPM_Commands\<close>: what each handler answers and what it changes.
  \<^item> \<open>TPM_System\<close>: execution of whole commands and the states the TPM can reach.
  \<^item> \<open>UART_Device\<close>: the serial port (\<^verbatim>\<open>nxps32k3x8evb_uart.c\<close>), with its contract as a locale.
  \<^item> \<open>FW_Uart\<close>, \<open>FW_Driver\<close>: the firmware (\<^verbatim>\<open>uart.c\<close>, \<^verbatim>\<open>main.c\<close>) over an abstract bus; the locale
    \<open>fw_machine\<close> joins the two device contracts, and the lemmas about the firmware are proved in it.
  \<^item> \<open>Board\<close>: memory map, devices and register windows (\<^verbatim>\<open>nxps32k3x8evb.c\<close>,
    \<^verbatim>\<open>nxps32k3x8evb_mcu.c\<close>); its bus interprets \<open>fw_machine\<close>.
  \<^item> \<open>FW_System\<close>: the firmware on the board.

  \<^bold>\<open>What is shown.\<close>  The parsers stay inside their arrays and accept exactly the wire format; encoders
  and decoders are inverse.  The NV store keeps its layout, gives back what was written, and separates
  its indices.  Key derivation ends and computes the counter-mode stream; primary keys depend on the
  seed only.  The registers of the TPM implement the transfer contract; every state reachable through
  them is well formed, and every command is answered, but for the executions that leave an array,
  which are characterised exactly: a CreatePrimary or NV_Read command on whose bytes its handler does
  so, the creation of a key without memory for its name among them.  The serial port implements a
  bounded queue.  The machine is well formed in every reachable state.  The driver delivers any
  command and its response unchanged, and the firmware serves any sequence of keys, as long as there
  is memory for the name whenever a key is created: all its loops end on this machine.

  \<^bold>\<open>The name of a key.\<close>  The code stores the 34 bytes of the name of a created key behind a local
  variable whose type ends in a flexible array member and reserves no storage for them.  So, taken by
  the letter, every key creation that would succeed leaves its variable, the one during realization
  included.  The model has the memory behind the variable as a parameter (\<open>st_name\<close>) and the creation
  is \<open>None\<close> when it is too short.  \<open>name_room\<close> says that it is long enough; it is part of no invariant,
  and where a result depends on it the statement says what happens with it and without it.
  Results about a device or machine that has been realized have it for the realization only.

  \<^bold>\<open>Conventions.\<close>  A C array is a list, and an access outside an array is the result \<open>None\<close>.  A
  sum of \<open>int\<close> members that can leave the range of an \<open>int\<close> wraps in the device, which is built with
  \<^verbatim>\<open>-fwrapv\<close>; a width in a format of the firmware beyond that range is \<open>None\<close>.  Local arrays that the code does not initialise are parameters (the record \<open>stack0\<close>), so are the bytes of
  the random generator.  OpenSSL is a record of functions; the laws a property needs of it
  (\<open>hmac_ok\<close>, \<open>digest_ok\<close>, \<open>cipher_ok\<close>: fixed output lengths, and a stream cipher whose decryption
  undoes its encryption) are hypotheses of the property, and a concrete library shows that they can
  hold.  A loop that may not end (key derivation, the busy-waits of the firmware) is a partial
  function and proved to end; the wait for a key consumes a list of events from outside, and the loop
  of \<open>main\<close>, which never ends, runs for as many turns as its list of buses is long.

  \<^bold>\<open>Not modelled.\<close>  Logging and tracing; the object model, migration tables, memory dispatch, clocks,
  interrupt controller and processor of QEMU, and the contents of RAM and flash, which are not code of
  this program; the start-up code, the linker script and the host tests of the firmware; freeing of
  memory.  Register accesses have 32 bits, as the firmware makes them.
\<close>

end
